(* ===== verification/GoPrelude.thy ===== *)
theory GoPrelude
  imports Main "HOL-Library.Multiset"
begin

text \<open>
  Shared vocabulary of the development: Go error values, Go maps, and the functions of Go's
  packages \<open>strings\<close>, \<open>strconv\<close> and \<open>fmt\<close> that the operator calls.

  \<^item> A Go string is a byte string, here a \<open>char list\<close>. \<open>strings.TrimSpace\<close>, \<open>strings.Fields\<close>,
    \<open>strings.ToLower\<close> and the verb \<open>%q\<close> are modelled on ASCII text; bytes from 128 upwards are
    left alone.
  \<^item> A Go map is an association list in the order in which one \<open>range\<close> over it visits the keys, so a
    theorem about every association list covers every iteration order.
  \<^item> A Go \<open>error\<close> is a value of \<open>goerr\<close>, and a function that returns an \<open>error\<close> alone returns a
    \<open>goerr option\<close>, \<open>None\<close> being \<open>nil\<close>; a pair of a result and an error is a sum.
\<close>

section \<open>Strings\<close>

definition HasPrefix :: "string \<Rightarrow> string \<Rightarrow> bool" where
  "HasPrefix s p \<longleftrightarrow> take (length p) s = p"

definition TrimPrefix :: "string \<Rightarrow> string \<Rightarrow> string" where
  "TrimPrefix s p = (if HasPrefix s p then drop (length p) s else s)"

definition HasSuffix :: "string \<Rightarrow> string \<Rightarrow> bool" where
  "HasSuffix s p \<longleftrightarrow> length p \<le> length s \<and> drop (length s - length p) s = p"

definition TrimSuffix :: "string \<Rightarrow> string \<Rightarrow> string" where
  "TrimSuffix s p = (if HasSuffix s p then take (length s - length p) s else s)"

fun Contains :: "string \<Rightarrow> string \<Rightarrow> bool" where
  "Contains [] sub = (sub = [])"
| "Contains (c # s) sub = (HasPrefix (c # s) sub \<or> Contains s sub)"

definition to_lower :: "char \<Rightarrow> char" where
  "to_lower c = (let n = of_char c :: nat in if 65 \<le> n \<and> n \<le> 90 then char_of (n + 32) else c)"

definition ToLower :: "string \<Rightarrow> string" where
  "ToLower s = map to_lower s"

definition is_space :: "char \<Rightarrow> bool" where
  "is_space c \<longleftrightarrow> c \<in> {CHR '' '', CHR 0x09, CHR 0x0A, CHR 0x0B, CHR 0x0C, CHR 0x0D}"

definition TrimSpace :: "string \<Rightarrow> string" where
  "TrimSpace s = rev (dropWhile is_space (rev (dropWhile is_space s)))"

text \<open>\<open>strings.Split\<close> with a separator of one character: never an empty slice.\<close>

fun Split :: "string \<Rightarrow> char \<Rightarrow> string list" where
  "Split [] c = [[]]"
| "Split (x # s) c =
     (if x = c then [] # Split s c
      else (case Split s c of [] \<Rightarrow> [[x]] | w # ws \<Rightarrow> (x # w) # ws))"

fun Join :: "string list \<Rightarrow> string \<Rightarrow> string" where
  "Join [] sep = []"
| "Join [w] sep = w"
| "Join (w # v # ws) sep = w @ sep @ Join (v # ws) sep"

text \<open>\<open>strings.Fields\<close>: the maximal runs of non-space characters.\<close>

fun fields_from :: "string \<Rightarrow> string \<Rightarrow> string list" where
  "fields_from acc [] = (if acc = [] then [] else [rev acc])"
| "fields_from acc (x # s) =
     (if is_space x then (if acc = [] then fields_from [] s else rev acc # fields_from [] s)
      else fields_from (x # acc) s)"

definition Fields :: "string \<Rightarrow> string list" where
  "Fields s = fields_from [] s"

text \<open>
  \<open>path.Clean\<close> and \<open>path.Join\<close>. The elements of a path are kept in reverse while it is read;
  \<open>..\<close> takes one back, or stays where a relative path has none to take back.
\<close>

fun clean_elems :: "bool \<Rightarrow> string list \<Rightarrow> string list \<Rightarrow> string list" where
  "clean_elems rooted acc [] = rev acc"
| "clean_elems rooted acc (w # ws) =
     (if w = [] \<or> w = ''.'' then clean_elems rooted acc ws
      else if w = ''..'' then
        (case acc of
           a # as \<Rightarrow> if a = ''..'' then clean_elems rooted (w # acc) ws else clean_elems rooted as ws
         | [] \<Rightarrow> if rooted then clean_elems rooted [] ws else clean_elems rooted [w] ws)
      else clean_elems rooted (w # acc) ws)"

definition path_Clean :: "string \<Rightarrow> string" where
  "path_Clean p =
     (let rooted = HasPrefix p ''/'';
          q = Join (clean_elems rooted [] (Split p (CHR ''/''))) ''/''
      in if rooted then CHR ''/'' # q else if q = [] then ''.'' else q)"

definition path_Join :: "string list \<Rightarrow> string" where
  "path_Join ws =
     (let vs = filter (\<lambda>w. w \<noteq> []) ws in if vs = [] then [] else path_Clean (Join vs ''/''))"

text \<open>\<open>strconv.Quote\<close>, the verb \<open>%q\<close>, on ASCII.\<close>

definition hex_digit :: "nat \<Rightarrow> char" where
  "hex_digit n = ''0123456789abcdef'' ! n"

definition quote_char :: "char \<Rightarrow> string" where
  "quote_char c = (let n = of_char c :: nat in
     if n = 34 then [CHR 0x5C, CHR 0x22]
     else if n = 92 then [CHR 0x5C, CHR 0x5C]
     else if n = 7 then [CHR 0x5C, CHR ''a'']
     else if n = 8 then [CHR 0x5C, CHR ''b'']
     else if n = 12 then [CHR 0x5C, CHR ''f'']
     else if n = 10 then [CHR 0x5C, CHR ''n'']
     else if n = 13 then [CHR 0x5C, CHR ''r'']
     else if n = 9 then [CHR 0x5C, CHR ''t'']
     else if n = 11 then [CHR 0x5C, CHR ''v'']
     else if n < 32 \<or> n = 127 then [CHR 0x5C, CHR ''x'', hex_digit (n div 16), hex_digit (n mod 16)]
     else [c])"

definition Quote :: "string \<Rightarrow> string" where
  "Quote s = [CHR 0x22] @ concat (map quote_char s) @ [CHR 0x22]"

text \<open>The verb \<open>%d\<close> on a non-negative integer.\<close>

fun digits_of :: "nat \<Rightarrow> string" where
  "digits_of n = (if n < 10 then [char_of (48 + n)] else digits_of (n div 10) @ [char_of (48 + n mod 10)])"

declare digits_of.simps [simp del]

text \<open>The verb \<open>%d\<close> on any integer.\<close>

definition Itoa :: "int \<Rightarrow> string" where
  "Itoa n = (if n < 0 then CHR ''-'' # digits_of (nat (- n)) else digits_of (nat n))"

text \<open>\<open>strconv.ParseBool\<close>: the accepted spellings, \<open>None\<close> being its error.\<close>

definition ParseBool :: "string \<Rightarrow> bool option" where
  "ParseBool s =
     (if s \<in> {''1'', ''t'', ''T'', ''true'', ''TRUE'', ''True''} then Some True
      else if s \<in> {''0'', ''f'', ''F'', ''false'', ''FALSE'', ''False''} then Some False
      else None)"

subsection \<open>Facts on strings\<close>

lemma HasPrefix_append [simp]: "HasPrefix (p @ s) p"
  by (simp add: HasPrefix_def)

lemma HasPrefix_iff: "HasPrefix s p \<longleftrightarrow> (\<exists>t. s = p @ t)"
  by (metis HasPrefix_append HasPrefix_def append_take_drop_id)

lemma HasPrefix_Nil [simp]: "HasPrefix s []"
  by (simp add: HasPrefix_def)

lemma HasPrefix_refl [simp]: "HasPrefix s s"
  by (simp add: HasPrefix_def)

lemma TrimPrefix_append [simp]: "TrimPrefix (p @ s) p = s"
  by (simp add: TrimPrefix_def)

lemma HasSuffix_iff: "HasSuffix s p \<longleftrightarrow> (\<exists>t. s = t @ p)"
proof
  assume "HasSuffix s p"
  then have "s = take (length s - length p) s @ p"
    by (metis HasSuffix_def append_take_drop_id)
  then show "\<exists>t. s = t @ p" by blast
qed (auto simp: HasSuffix_def)

lemma TrimSuffix_append [simp]: "TrimSuffix (s @ p) p = s"
  by (simp add: TrimSuffix_def HasSuffix_def)

lemma Contains_HasPrefix: "HasPrefix s sub \<Longrightarrow> Contains s sub"
  by (cases s) (auto simp: HasPrefix_def)

lemma Contains_append_left: "Contains t sub \<Longrightarrow> Contains (s @ t) sub"
  by (induction s) auto

lemma HasPrefix_append_right: "HasPrefix s p \<Longrightarrow> HasPrefix (s @ t) p"
  by (auto simp: HasPrefix_iff)

lemma Contains_append_right: "Contains s sub \<Longrightarrow> Contains (s @ t) sub"
proof (induction s)
  case Nil
  then show ?case by (simp add: Contains_HasPrefix)
next
  case (Cons c s)
  then show ?case using HasPrefix_append_right [of "c # s" sub t] by auto
qed

lemma Contains_iff: "Contains s sub \<longleftrightarrow> (\<exists>a b. s = a @ sub @ b)"
proof
  show "Contains s sub \<Longrightarrow> \<exists>a b. s = a @ sub @ b"
  proof (induction s)
    case Nil
    then show ?case by simp
  next
    case (Cons c s)
    show ?case
    proof (cases "HasPrefix (c # s) sub")
      case True
      then show ?thesis by (metis HasPrefix_iff append_Nil)
    next
      case False
      with Cons have "\<exists>a b. s = a @ sub @ b" by simp
      then show ?thesis by (metis append_Cons)
    qed
  qed
next
  assume "\<exists>a b. s = a @ sub @ b"
  then obtain a b where s: "s = a @ sub @ b" by blast
  have "Contains (sub @ b) sub" by (rule Contains_HasPrefix) simp
  then show "Contains s sub" unfolding s by (rule Contains_append_left)
qed

lemma Split_not_Nil [simp]: "Split s c \<noteq> []"
  by (induction s) (auto split: list.splits)

lemma Split_no_sep: "c \<notin> set s \<Longrightarrow> Split s c = [s]"
  by (induction s) auto

lemma Split_append_sep: "c \<notin> set w \<Longrightarrow> Split (w @ c # s) c = w # Split s c"
  by (induction w) auto

lemma Split_parts_no_sep: "w \<in> set (Split s c) \<Longrightarrow> c \<notin> set w"
proof (induction s arbitrary: w)
  case (Cons x s)
  then show ?case by (auto split: if_splits list.splits)
qed simp

lemma Split_Join:
  "ws \<noteq> [] \<Longrightarrow> \<forall>w \<in> set ws. c \<notin> set w \<Longrightarrow> Split (Join ws [c]) c = ws"
proof (induction ws "[c]" rule: Join.induct)
  case (3 w v ws)
  then show ?case by (simp add: Split_append_sep)
qed (simp_all add: Split_no_sep)

lemma TrimSpace_Nil [simp]: "TrimSpace [] = []"
  by (simp add: TrimSpace_def)

lemma TrimSpace_no_space: "\<forall>x \<in> set s. \<not> is_space x \<Longrightarrow> TrimSpace s = s"
proof -
  assume a: "\<forall>x \<in> set s. \<not> is_space x"
  have d: "dropWhile is_space t = t" if "\<forall>x \<in> set t. \<not> is_space x" for t
    using that by (cases t) auto
  show ?thesis using a by (simp add: TrimSpace_def d)
qed

lemma dropWhile_id: "s = [] \<or> \<not> P (hd s) \<Longrightarrow> dropWhile P s = s"
  by (cases s) auto

text \<open>Trimming is idempotent: a trimmed string begins and ends with a non-space character.\<close>

definition trimmed :: "string \<Rightarrow> bool" where
  "trimmed s \<longleftrightarrow> s = [] \<or> (\<not> is_space (hd s) \<and> \<not> is_space (last s))"

lemma TrimSpace_id: "trimmed s \<Longrightarrow> TrimSpace s = s"
  by (auto simp: TrimSpace_def trimmed_def dropWhile_id hd_rev)

lemma trimmed_TrimSpace: "trimmed (TrimSpace s)"
proof -
  let ?d = "dropWhile is_space s"
  let ?e = "dropWhile is_space (rev ?d)"
  show ?thesis
  proof (cases "?e = []")
    case False
    then have l: "\<not> is_space (hd ?e)" by (rule hd_dropWhile)
    have d: "?d \<noteq> []" using False by (metis dropWhile.simps(1) rev.simps(1))
    then have h: "\<not> is_space (hd ?d)" by (rule hd_dropWhile)
    have "rev ?d = takeWhile is_space (rev ?d) @ ?e" by simp
    then have "last (rev ?d) = last ?e" using False by (metis last_appendR)
    then have "last ?e = hd ?d" using d by (simp add: last_rev)
    then show ?thesis
      using False l h by (simp add: TrimSpace_def trimmed_def hd_rev last_rev)
  qed (simp add: trimmed_def TrimSpace_def)
qed

lemma TrimSpace_idem [simp]: "TrimSpace (TrimSpace s) = TrimSpace s"
  by (rule TrimSpace_id [OF trimmed_TrimSpace])

lemma set_TrimSpace: "set (TrimSpace s) \<subseteq> set s"
proof
  fix x
  assume "x \<in> set (TrimSpace s)"
  then have "x \<in> set (dropWhile is_space (rev (dropWhile is_space s)))"
    by (simp add: TrimSpace_def)
  then have "x \<in> set (rev (dropWhile is_space s))" by (rule set_dropWhileD)
  then have "x \<in> set (dropWhile is_space s)" by simp
  then show "x \<in> set s" by (rule set_dropWhileD)
qed

lemma ParseBool_true_iff: "ParseBool s = Some True \<longleftrightarrow> s \<in> {''1'', ''t'', ''T'', ''true'', ''TRUE'', ''True''}"
  by (auto simp: ParseBool_def)

section \<open>Errors\<close>

text \<open>
  An error of the API server carries the reason that \<open>apierrors.IsNotFound\<close>,
  \<open>apierrors.IsConflict\<close> and \<open>apierrors.IsAlreadyExists\<close> look for. \<open>Errorf p e\<close> is
  \<open>fmt.Errorf("<p>%w", e)\<close>; \<open>ErrorString\<close> is an error that wraps none. \<open>ErrFunctionNotFound\<close> is
  the sentinel of \<open>internal/funccli/manager.go\<close>.
\<close>

datatype api_reason = ReasonNotFound | ReasonConflict | ReasonAlreadyExists | ReasonOther string

datatype goerr =
    ApiError api_reason string
  | Errorf string goerr
  | ErrorString string
  | ErrFunctionNotFound

fun err_Error :: "goerr \<Rightarrow> string" where
  "err_Error (ApiError r m) = m"
| "err_Error (Errorf p e) = p @ err_Error e"
| "err_Error (ErrorString m) = m"
| "err_Error ErrFunctionNotFound = ''function not found''"

text \<open>The classification functions look through wrapped errors, as \<open>errors.As\<close> does.\<close>

fun api_status :: "goerr \<Rightarrow> api_reason option" where
  "api_status (ApiError r m) = Some r"
| "api_status (Errorf p e) = api_status e"
| "api_status (ErrorString m) = None"
| "api_status ErrFunctionNotFound = None"

definition IsNotFound :: "goerr \<Rightarrow> bool" where
  "IsNotFound e \<longleftrightarrow> api_status e = Some ReasonNotFound"

definition IsConflict :: "goerr \<Rightarrow> bool" where
  "IsConflict e \<longleftrightarrow> api_status e = Some ReasonConflict"

definition IsAlreadyExists :: "goerr \<Rightarrow> bool" where
  "IsAlreadyExists e \<longleftrightarrow> api_status e = Some ReasonAlreadyExists"

fun Is_ErrFunctionNotFound :: "goerr \<Rightarrow> bool" where
  "Is_ErrFunctionNotFound (ApiError r m) = False"
| "Is_ErrFunctionNotFound (Errorf p e) = Is_ErrFunctionNotFound e"
| "Is_ErrFunctionNotFound (ErrorString m) = False"
| "Is_ErrFunctionNotFound ErrFunctionNotFound = True"

lemma IsNotFound_Errorf [simp]: "IsNotFound (Errorf p e) = IsNotFound e"
  by (simp add: IsNotFound_def)

lemma IsConflict_Errorf [simp]: "IsConflict (Errorf p e) = IsConflict e"
  by (simp add: IsConflict_def)

section \<open>Maps\<close>

type_synonym 'v gomap = "(string \<times> 'v) list"

abbreviation keys :: "'v gomap \<Rightarrow> string list" where
  "keys m \<equiv> map fst m"

text \<open>A Go map has each key once.\<close>

definition is_gomap :: "'v gomap \<Rightarrow> bool" where
  "is_gomap m \<longleftrightarrow> distinct (keys m)"

definition map_delete :: "string \<Rightarrow> 'v gomap \<Rightarrow> 'v gomap" where
  "map_delete k m = filter (\<lambda>kv. fst kv \<noteq> k) m"

fun map_put :: "string \<Rightarrow> 'v \<Rightarrow> 'v gomap \<Rightarrow> 'v gomap" where
  "map_put k v [] = [(k, v)]"
| "map_put k v (kv # m) = (if fst kv = k then (k, v) # m else kv # map_put k v m)"

lemma map_of_map_delete: "map_of (map_delete k m) = (map_of m)(k := None)"
  by (induction m) (auto simp: map_delete_def)

lemma is_gomap_filter [simp]: "is_gomap m \<Longrightarrow> is_gomap (filter P m)"
  by (simp add: is_gomap_def distinct_map_filter)

lemma keys_map_put: "set (keys (map_put k v m)) = insert k (set (keys m))"
  by (induction m) auto

lemma map_of_map_put: "map_of (map_put k v m) = (map_of m)(k \<mapsto> v)"
  by (induction m) auto

lemma map_put_new: "k \<notin> set (keys m) \<Longrightarrow> map_put k v m = m @ [(k, v)]"
  by (induction m) auto

lemma is_gomap_put [simp]: "is_gomap m \<Longrightarrow> is_gomap (map_put k v m)"
proof (induction m)
  case (Cons kv m)
  then show ?case using keys_map_put [of k v m] by (auto simp: is_gomap_def)
qed (simp add: is_gomap_def)

end
