(* ===== verification/GoMonad.thy ===== *)
theory GoMonad
  imports GoPrelude "HOL-Library.State_Monad"
begin

text \<open>
  The handlers of the operator are written in the state monad of the library, so that they read like
  the Go code: one line per call, an \<open>error\<close> being an ordinary result that the next line tests.
  \<open>holds m s Q\<close> says that running \<open>m\<close> from \<open>s\<close> gives a result and a state with \<open>Q\<close>; the collection
  \<open>wp_simps\<close> computes it. \<open>preserves I m\<close> says that \<open>m\<close> keeps the invariant \<open>I\<close>; the collection
  \<open>frame_intros\<close> lifts it from the calls to the handlers.
\<close>

named_theorems wp_simps \<open>weakest preconditions of the monadic building blocks\<close>
named_theorems frame_intros \<open>what a handler keeps\<close>

abbreviation ret :: "'a \<Rightarrow> ('s, 'a) state" where
  "ret \<equiv> State_Monad.return"

definition gets :: "('s \<Rightarrow> 'a) \<Rightarrow> ('s, 'a) state" where
  "gets f = State (\<lambda>s. (f s, s))"

definition modify :: "('s \<Rightarrow> 's) \<Rightarrow> ('s, unit) state" where
  "modify f = State (\<lambda>s. ((), f s))"

lemma run_gets [simp]: "run_state (gets f) s = (f s, s)"
  by (simp add: gets_def)

lemma run_modify [simp]: "run_state (modify f) s = ((), f s)"
  by (simp add: modify_def)

definition holds :: "('s, 'a) state \<Rightarrow> 's \<Rightarrow> ('a \<Rightarrow> 's \<Rightarrow> bool) \<Rightarrow> bool" where
  "holds m s Q = (case run_state m s of (a, s') \<Rightarrow> Q a s')"

lemma holds_return [wp_simps]: "holds (ret a) s Q = Q a s"
  by (simp add: holds_def)

lemma holds_bind [wp_simps]: "holds (State_Monad.bind m f) s Q = holds m s (\<lambda>a s'. holds (f a) s' Q)"
  by (simp add: holds_def split: prod.splits)

lemma holds_gets [wp_simps]: "holds (gets f) s Q = Q (f s) s"
  by (simp add: holds_def)

lemma holds_modify [wp_simps]: "holds (modify f) s Q = Q () (f s)"
  by (simp add: holds_def)

lemma holds_State [wp_simps]: "holds (State f) s Q = (case f s of (a, s') \<Rightarrow> Q a s')"
  by (simp add: holds_def)

lemma holds_if: "holds (if b then m else n) s Q = (if b then holds m s Q else holds n s Q)"
  by simp

lemma holds_mono: "holds m s P \<Longrightarrow> (\<And>a s'. P a s' \<Longrightarrow> Q a s') \<Longrightarrow> holds m s Q"
  by (auto simp: holds_def)

text \<open>Any answer: what holds for every answer and state holds after the operation.\<close>

lemma holds_any: "(\<And>a w. Q a w) \<Longrightarrow> holds m s Q"
  by (simp add: holds_def split: prod.splits)

lemma holds_True [simp]: "holds m s (\<lambda>_ _. True)"
  by (rule holds_any) simp

lemma holds_conj: "holds m s P \<Longrightarrow> holds m s Q \<Longrightarrow> holds m s (\<lambda>a s'. P a s' \<and> Q a s')"
  by (auto simp: holds_def)

lemma holdsD: "holds m s Q \<Longrightarrow> run_state m s = (a, s') \<Longrightarrow> Q a s'"
  by (simp add: holds_def)

lemma holdsI: "(\<And>a s'. run_state m s = (a, s') \<Longrightarrow> Q a s') \<Longrightarrow> holds m s Q"
  by (auto simp: holds_def split: prod.splits)

text \<open>\<open>answers m a\<close>: the operation gives this answer in every world.\<close>

definition answers :: "('s, 'a) state \<Rightarrow> 'a \<Rightarrow> bool" where
  "answers m a \<longleftrightarrow> (\<forall>s. fst (run_state m s) = a)"

lemma holds_answers: "answers m a \<Longrightarrow> (\<And>s'. Q a s') \<Longrightarrow> holds m s Q"
  by (simp add: answers_def holds_def split: prod.splits) (metis fst_conv)

lemma answers_return [simp]: "answers (ret a) b \<longleftrightarrow> a = b"
  by (simp add: answers_def)

lemma answers_State [simp]: "answers (State f) a \<longleftrightarrow> (\<forall>s. fst (f s) = a)"
  by (simp add: answers_def)

section \<open>Invariants of handlers\<close>

definition preserves :: "('s \<Rightarrow> bool) \<Rightarrow> ('s, 'a) state \<Rightarrow> bool" where
  "preserves I m \<longleftrightarrow> (\<forall>s. I s \<longrightarrow> holds m s (\<lambda>_. I))"

lemma preservesI: "(\<And>s. I s \<Longrightarrow> holds m s (\<lambda>_. I)) \<Longrightarrow> preserves I m"
  by (simp add: preserves_def)

lemma preservesD: "preserves I m \<Longrightarrow> I s \<Longrightarrow> run_state m s = (a, s') \<Longrightarrow> I s'"
  by (auto simp: preserves_def holds_def)

lemma preserves_holds: "preserves I m \<Longrightarrow> I s \<Longrightarrow> holds m s (\<lambda>_. I)"
  by (simp add: preserves_def)

lemma preserves_return [frame_intros]: "preserves I (ret a)"
  by (simp add: preserves_def wp_simps)

lemma preserves_gets [frame_intros]: "preserves I (gets f)"
  by (simp add: preserves_def wp_simps)

lemma preserves_bind [frame_intros]:
  "preserves I m \<Longrightarrow> (\<And>a. preserves I (f a)) \<Longrightarrow> preserves I (State_Monad.bind m f)"
  unfolding preserves_def holds_bind by (blast intro: holds_mono)

lemma preserves_if [frame_intros]:
  "preserves I m \<Longrightarrow> preserves I n \<Longrightarrow> preserves I (if b then m else n)"
  by simp

lemma preserves_option [frame_intros]:
  "preserves I m \<Longrightarrow> (\<And>x. preserves I (f x)) \<Longrightarrow> preserves I (case e of None \<Rightarrow> m | Some x \<Rightarrow> f x)"
  by (cases e) auto

lemma preserves_sum [frame_intros]:
  "(\<And>x. preserves I (f x)) \<Longrightarrow> (\<And>x. preserves I (g x)) \<Longrightarrow> preserves I (case e of Inl x \<Rightarrow> f x | Inr x \<Rightarrow> g x)"
  by (cases e) auto

lemma preserves_let [frame_intros]: "preserves I (f a) \<Longrightarrow> preserves I (let x = a in f x)"
  by (simp add: Let_def)

lemma preserves_case_prod [frame_intros]:
  "(\<And>x y. preserves I (f x y)) \<Longrightarrow> preserves I (case p of (x, y) \<Rightarrow> f x y)"
  by (cases p) auto

lemma preserves_modify: "(\<And>s. I s \<Longrightarrow> I (f s)) \<Longrightarrow> preserves I (modify f)"
  by (simp add: preserves_def wp_simps)

section \<open>Running an operation on a part of the state\<close>

text \<open>
  The operations of an interface act on the world outside the process; a handler keeps the world as
  one component of its state. \<open>zoom get put m\<close> runs \<open>m\<close> on that component.
\<close>

definition zoom :: "('s \<Rightarrow> 'w) \<Rightarrow> ('w \<Rightarrow> 's \<Rightarrow> 's) \<Rightarrow> ('w, 'a) state \<Rightarrow> ('s, 'a) state" where
  "zoom get put m = State (\<lambda>s. case run_state m (get s) of (a, w) \<Rightarrow> (a, put w s))"

lemma run_zoom [simp]:
  "run_state (zoom get put m) s = (case run_state m (get s) of (a, w) \<Rightarrow> (a, put w s))"
  by (simp add: zoom_def)

lemma holds_zoom [wp_simps]:
  "holds (zoom get put m) s Q = holds m (get s) (\<lambda>a w. Q a (put w s))"
  by (auto simp: holds_def split: prod.splits)

end
