(* ===== verification/KubeMeta.thy ===== *)
theory KubeMeta
  imports GoMonad
begin

text \<open>
  The parts of the Kubernetes API objects that the operator reads and writes (metadata, owner
  references, status conditions, RBAC rules, secrets and config maps), and the contracts of the
  library routines it calls on them. Those routines are not part of the repository: they are
  parameters of the model, and what their documentation promises is stated once, as a locale.

  \<^item> \<open>status_conditions\<close>: \<open>meta.SetStatusCondition\<close> of \<open>k8s.io/apimachinery\<close>.
  \<^item> \<open>slice_sort\<close>: \<open>sort.Slice\<close>, which promises a sorted permutation but no stability.
  \<^item> \<open>conflict_retry\<close>: \<open>retry.RetryOnConflict\<close> of \<open>k8s.io/client-go\<close>.
  \<^item> \<open>deep_equality\<close> and \<open>deep_derivative\<close>: \<open>equality.Semantic\<close> of \<open>k8s.io/apimachinery\<close>.

  Each locale is interpreted on a routine that does just what the documentation says; the
  theorems about the operator hold for every routine that satisfies the contract.
\<close>

section \<open>Object metadata\<close>

text \<open>Times are nanoseconds since 1970; the zero \<open>time.Time\<close> is the first of January of year 1.\<close>

type_synonym time = int

definition zero_time :: time where
  "zero_time = - 62135596800000000000"

record nsname =
  nn_Namespace :: string
  nn_Name :: string

abbreviation nsn :: "string \<Rightarrow> string \<Rightarrow> nsname" where
  "nsn ns n \<equiv> \<lparr>nn_Namespace = ns, nn_Name = n\<rparr>"

record OwnerReference =
  or_APIVersion :: string
  or_Kind :: string
  or_Name :: string
  or_UID :: string

record ObjectMeta =
  om_Name :: string
  om_Namespace :: string
  om_UID :: string
  om_Generation :: int
  om_Labels :: "string gomap"
  om_Annotations :: "string gomap"
  om_OwnerReferences :: "OwnerReference list"
  om_Finalizers :: "string list"
  om_DeletionTimestamp :: "time option"

definition new_meta :: "string \<Rightarrow> string \<Rightarrow> ObjectMeta" where
  "new_meta n ns = \<lparr>om_Name = n, om_Namespace = ns, om_UID = [], om_Generation = 0, om_Labels = [],
     om_Annotations = [], om_OwnerReferences = [], om_Finalizers = [], om_DeletionTimestamp = None\<rparr>"

text \<open>\<open>client.ObjectKeyFromObject\<close>.\<close>

definition meta_key :: "ObjectMeta \<Rightarrow> nsname" where
  "meta_key m = nsn (om_Namespace m) (om_Name m)"

section \<open>Secrets, config maps and RBAC objects\<close>

record Secret =
  sec_Meta :: ObjectMeta
  sec_Type :: string
  sec_Data :: "string gomap"

record ConfigMap =
  cm_Meta :: ObjectMeta
  cm_Data :: "string gomap"

record PolicyRule =
  rule_APIGroups :: "string list"
  rule_Resources :: "string list"
  rule_Verbs :: "string list"

record Role =
  role_Meta :: ObjectMeta
  role_Rules :: "PolicyRule list"

record Subject =
  subj_Kind :: string
  subj_Name :: string
  subj_Namespace :: string

record RoleRef =
  rr_APIGroup :: string
  rr_Kind :: string
  rr_Name :: string

record RoleBinding =
  rb_Meta :: ObjectMeta
  rb_RoleRef :: RoleRef
  rb_Subjects :: "Subject list"

section \<open>Status conditions\<close>

datatype ConditionStatus = ConditionTrue | ConditionFalse | ConditionUnknown

record Condition =
  cond_Type :: string
  cond_Status :: ConditionStatus
  cond_Reason :: string
  cond_Message :: string
  cond_ObservedGeneration :: int
  cond_LastTransitionTime :: time

abbreviation cond_types :: "Condition list \<Rightarrow> string list" where
  "cond_types cs \<equiv> map cond_Type cs"

fun find_cond :: "Condition list \<Rightarrow> string \<Rightarrow> Condition option" where
  "find_cond [] ty = None"
| "find_cond (d # ds) ty = (if cond_Type d = ty then Some d else find_cond ds ty)"

text \<open>
  \<open>meta.SetStatusCondition(conditions, newCondition)\<close>: a condition of a new type is appended, with
  the transition time set to now when it is unset; an existing one takes every field of the new one,
  and its transition time is set to now only if the status differs.
\<close>

locale status_conditions =
  fixes ssc :: "time \<Rightarrow> Condition list \<Rightarrow> Condition \<Rightarrow> Condition list"
  assumes ssc_append: "cond_Type c \<notin> set (cond_types cs) \<Longrightarrow> cond_LastTransitionTime c = zero_time \<Longrightarrow>
      ssc t cs c = cs @ [c\<lparr>cond_LastTransitionTime := t\<rparr>]"
    and ssc_change: "cond_Type c \<notin> set (cond_types pre) \<Longrightarrow> cond_Type d = cond_Type c \<Longrightarrow>
      cond_LastTransitionTime c = zero_time \<Longrightarrow>
      ssc t (pre @ d # post) c =
        pre @ c\<lparr>cond_LastTransitionTime :=
                 (if cond_Status d = cond_Status c then cond_LastTransitionTime d else t)\<rparr> # post"

text \<open>The contract as one executable function.\<close>

fun apply_condition :: "time \<Rightarrow> Condition list \<Rightarrow> Condition \<Rightarrow> Condition list" where
  "apply_condition t [] c = [c\<lparr>cond_LastTransitionTime := t\<rparr>]"
| "apply_condition t (d # ds) c =
     (if cond_Type d = cond_Type c
      then c\<lparr>cond_LastTransitionTime :=
              (if cond_Status d = cond_Status c then cond_LastTransitionTime d else t)\<rparr> # ds
      else d # apply_condition t ds c)"

lemma apply_condition_append:
  "cond_Type c \<notin> set (cond_types cs) \<Longrightarrow> apply_condition t cs c = cs @ [c\<lparr>cond_LastTransitionTime := t\<rparr>]"
  by (induction cs) auto

lemma apply_condition_change:
  "cond_Type c \<notin> set (cond_types pre) \<Longrightarrow> cond_Type d = cond_Type c \<Longrightarrow>
   apply_condition t (pre @ d # post) c =
     pre @ c\<lparr>cond_LastTransitionTime :=
              (if cond_Status d = cond_Status c then cond_LastTransitionTime d else t)\<rparr> # post"
  by (induction pre) auto

context status_conditions begin

lemma ssc_eq:
  assumes "cond_LastTransitionTime c = zero_time"
  shows "ssc t cs c = apply_condition t cs c"
proof (cases "cond_Type c \<in> set (cond_types cs)")
  case False
  then show ?thesis using assms by (simp add: ssc_append apply_condition_append)
next
  case True
  then obtain d where "d \<in> set cs" and "cond_Type d = cond_Type c" by auto
  then obtain pre d post where "cs = pre @ d # post" and "cond_Type d = cond_Type c"
    and "\<forall>x \<in> set pre. cond_Type x \<noteq> cond_Type c"
    using split_list_first_prop [of cs "\<lambda>x. cond_Type x = cond_Type c"] by blast
  moreover from this have "cond_Type c \<notin> set (cond_types pre)" by force
  ultimately show ?thesis using assms by (simp add: ssc_change apply_condition_change)
qed

end

interpretation ref_conditions: status_conditions apply_condition
  by unfold_locales (simp_all add: apply_condition_append apply_condition_change)

subsection \<open>What setting a condition does\<close>

lemma find_cond_None: "find_cond cs ty = None \<longleftrightarrow> ty \<notin> set (cond_types cs)"
  by (induction cs) auto

lemma find_cond_Some: "find_cond cs ty = Some d \<Longrightarrow> d \<in> set cs \<and> cond_Type d = ty"
  by (induction cs) (auto split: if_splits)

lemma find_cond_distinct:
  "distinct (cond_types cs) \<Longrightarrow> d \<in> set cs \<Longrightarrow> find_cond cs (cond_Type d) = Some d"
  by (induction cs) auto

lemma find_apply_other [simp]:
  "ty \<noteq> cond_Type c \<Longrightarrow> find_cond (apply_condition t cs c) ty = find_cond cs ty"
  by (induction cs) auto

lemma find_apply_same:
  "find_cond (apply_condition t cs c) (cond_Type c) =
     Some (c\<lparr>cond_LastTransitionTime :=
       (case find_cond cs (cond_Type c) of None \<Rightarrow> t
        | Some d \<Rightarrow> if cond_Status d = cond_Status c then cond_LastTransitionTime d else t)\<rparr>)"
  by (induction cs) auto

lemma types_apply:
  "cond_types (apply_condition t cs c) =
     (if cond_Type c \<in> set (cond_types cs) then cond_types cs else cond_types cs @ [cond_Type c])"
  by (induction cs) auto

lemma distinct_apply [simp]:
  "distinct (cond_types cs) \<Longrightarrow> distinct (cond_types (apply_condition t cs c))"
  by (simp add: types_apply)

lemma set_apply:
  "d \<in> set (apply_condition t cs c) \<Longrightarrow>
     d \<in> set cs \<or> (\<exists>u. d = c\<lparr>cond_LastTransitionTime := u\<rparr>)"
  by (induction cs) (auto split: if_splits)

lemma all_apply:
  assumes "distinct (cond_types cs)" and "\<forall>d \<in> set cs. cond_Type d \<noteq> cond_Type c \<longrightarrow> P d"
    and "\<And>u. P (c\<lparr>cond_LastTransitionTime := u\<rparr>)"
  shows "\<forall>d \<in> set (apply_condition t cs c). P d"
  using assms
proof (induction cs)
  case (Cons e cs)
  then show ?case by (cases "cond_Type e = cond_Type c") (force simp: image_iff)+
qed simp

section \<open>Sorting a slice\<close>

text \<open>
  \<open>sort.Slice(s, less)\<close>: "The sort is not guaranteed to be stable"; it is a permutation of the slice,
  sorted by \<open>less\<close>, which must be a strict weak ordering.
\<close>

definition strict_weak :: "('a \<Rightarrow> 'a \<Rightarrow> bool) \<Rightarrow> bool" where
  "strict_weak lt \<longleftrightarrow> (\<forall>x. \<not> lt x x) \<and> (\<forall>x y z. lt x y \<longrightarrow> lt y z \<longrightarrow> lt x z)
     \<and> (\<forall>x y z. \<not> lt x y \<longrightarrow> \<not> lt y z \<longrightarrow> \<not> lt x z)"

locale slice_sort =
  fixes srt :: "('a \<Rightarrow> 'a \<Rightarrow> bool) \<Rightarrow> 'a list \<Rightarrow> 'a list"
  assumes srt_mset: "strict_weak lt \<Longrightarrow> mset (srt lt xs) = mset xs"
    and srt_sorted: "strict_weak lt \<Longrightarrow> sorted_wrt (\<lambda>x y. \<not> lt y x) (srt lt xs)"

fun insert_by :: "('a \<Rightarrow> 'a \<Rightarrow> bool) \<Rightarrow> 'a \<Rightarrow> 'a list \<Rightarrow> 'a list" where
  "insert_by lt x [] = [x]"
| "insert_by lt x (y # ys) = (if lt y x then y # insert_by lt x ys else x # y # ys)"

fun insertion_sort :: "('a \<Rightarrow> 'a \<Rightarrow> bool) \<Rightarrow> 'a list \<Rightarrow> 'a list" where
  "insertion_sort lt [] = []"
| "insertion_sort lt (x # xs) = insert_by lt x (insertion_sort lt xs)"

lemma mset_insert_by [simp]: "mset (insert_by lt x ys) = add_mset x (mset ys)"
  by (induction ys) auto

lemma set_insert_by [simp]: "set (insert_by lt x ys) = insert x (set ys)"
  by (metis mset_insert_by set_mset_add_mset_insert set_mset_mset)

lemma sorted_insert_by:
  assumes "strict_weak lt" and "sorted_wrt (\<lambda>x y. \<not> lt y x) ys"
  shows "sorted_wrt (\<lambda>x y. \<not> lt y x) (insert_by lt x ys)"
  using assms(2)
proof (induction ys)
  case (Cons y ys)
  have tr: "\<not> lt c b \<Longrightarrow> \<not> lt b a \<Longrightarrow> \<not> lt c a" for a b c
    using assms(1) unfolding strict_weak_def by blast
  show ?case
  proof (cases "lt y x")
    case True
    then have "\<not> lt x y" using assms(1) unfolding strict_weak_def by blast
    with True Cons show ?thesis by simp
  next
    case False
    then have "\<forall>z \<in> set ys. \<not> lt z x" using Cons.prems tr [of _ y x] by auto
    with False Cons.prems show ?thesis by simp
  qed
qed simp

interpretation ref_sort: slice_sort insertion_sort
proof
  show "strict_weak lt \<Longrightarrow> mset (insertion_sort lt xs) = mset xs" for lt :: "'a \<Rightarrow> 'a \<Rightarrow> bool" and xs
    by (induction xs) auto
  show "strict_weak lt \<Longrightarrow> sorted_wrt (\<lambda>x y. \<not> lt y x) (insertion_sort lt xs)"
    for lt :: "'a \<Rightarrow> 'a \<Rightarrow> bool" and xs
    by (induction xs) (auto intro: sorted_insert_by)
qed

section \<open>Retrying on a conflict\<close>

text \<open>
  \<open>retry.RetryOnConflict(backoff, fn)\<close> runs \<open>fn\<close>; on success it returns nil, on a non-conflict error
  that error; on a conflict it tries again, until the backoff has no steps left and it gives up with
  an error. \<open>attempts n fn\<close> allows \<open>n\<close> further tries after the first.
\<close>

fun attempts :: "nat \<Rightarrow> ('s, goerr option) state \<Rightarrow> ('s, goerr option) state" where
  "attempts 0 fn = fn"
| "attempts (Suc n) fn = do {
     r \<leftarrow> fn;
     case r of
       None \<Rightarrow> ret None
     | Some e \<Rightarrow> if IsConflict e then attempts n fn else ret (Some e)
   }"

locale conflict_retry =
  fixes retry :: "('s, goerr option) state \<Rightarrow> ('s, goerr option) state"
  assumes retry_attempts: "\<exists>n. retry fn = attempts n fn"

lemma attempts_preserves [frame_intros]: "preserves I fn \<Longrightarrow> preserves I (attempts n fn)"
  by (induction n) (auto intro!: frame_intros)

context conflict_retry begin

lemma retry_preserves: "preserves I fn \<Longrightarrow> preserves I (retry fn)"
  using retry_attempts [of fn] by (auto intro: attempts_preserves)

end

interpretation ref_retry: conflict_retry "attempts n" for n
  by unfold_locales blast

section \<open>Semantic equality\<close>

text \<open>
  \<open>equality.Semantic.DeepEqual\<close> equates values with the same content, a nil slice or map being equal
  to an empty one, which the model does not tell apart. \<open>DeepDerivative\<close> also ignores what is unset
  in its first argument, so that a value is a derivative of itself.
\<close>

locale deep_equality =
  fixes deepEqual :: "'a \<Rightarrow> 'a \<Rightarrow> bool"
  assumes deepEqual_eq: "deepEqual a b \<longleftrightarrow> a = b"

locale deep_derivative =
  fixes deepDerivative :: "'a \<Rightarrow> 'a \<Rightarrow> bool"
  assumes deepDerivative_refl: "deepDerivative a a"

interpretation ref_equality: deep_equality "(=)"
  by unfold_locales simp

sublocale deep_equality \<subseteq> deep_derivative deepEqual
  by unfold_locales (simp add: deepEqual_eq)

section \<open>Owner references\<close>

text \<open>
  \<open>controllerutil.SetOwnerReference(owner, object)\<close> adds a reference to the metadata of the object,
  which \<open>controllerutil.HasOwnerReference\<close> then finds; nothing but the metadata changes.
\<close>

locale owner_references =
  fixes has_ref :: "OwnerReference list \<Rightarrow> ObjectMeta \<Rightarrow> goerr + bool"
    and set_ref :: "ObjectMeta \<Rightarrow> RoleBinding \<Rightarrow> goerr + RoleBinding"
  assumes set_has: "set_ref m rb = Inr rb' \<Longrightarrow> has_ref (om_OwnerReferences (rb_Meta rb')) m = Inr True"
    and set_frame: "set_ref m rb = Inr rb' \<Longrightarrow>
      rb_Subjects rb' = rb_Subjects rb \<and> rb_RoleRef rb' = rb_RoleRef rb"

end
