(* ===== verification/Lifecycle.thy ===== *)
theory Lifecycle
  imports KubeMeta
begin

text \<open>
  The Function resource of \<open>api/v1alpha1\<close>: its types (\<open>function_types.go\<close>), its defaulting
  (\<open>function_defaults.go\<close>), and the status helpers of \<open>function_lifecycle.go\<close>: the conditions, the
  summary condition Ready and the bounded history. A helper that mutates the receiver returns the new
  value; the boolean that \<open>meta.SetStatusCondition\<close> returns is dropped, as every caller drops it.
  \<open>ssc\<close> is \<open>meta.SetStatusCondition\<close>, \<open>srt\<close> is \<open>sort.Slice\<close>, \<open>t\<close> the clock reading
  of the library call, and \<open>clk i\<close> the one of the \<open>i\<close>-th call.
\<close>

section \<open>The Function resource\<close>

record FunctionSpecRepository =
  repo_URL :: string
  repo_Revision :: string
  repo_AuthSecretRef :: "string option"
  repo_Dir :: string

record FunctionSpecRegistry =
  registry_AuthSecretRef :: "string option"

record FunctionSpec =
  spec_Repository :: FunctionSpecRepository
  spec_Registry :: FunctionSpecRegistry
  spec_AutoUpdateMiddleware :: "bool option"

record FunctionStatusHistoryEntry =
  hist_Time :: time
  hist_Message :: string

record FunctionStatusGit =
  git_ResolvedRevision :: string
  git_ObservedCommit :: string
  git_LastChecked :: time

record FunctionStatusDeployment =
  dep_Image :: string
  dep_ImageBuilt :: time
  dep_Revision :: string
  dep_Deployer :: string
  dep_Runtime :: string

record FunctionStatusMiddlewareAutoUpdate =
  au_Enabled :: bool
  au_Source :: string

record FunctionStatusMiddleware =
  mw_Current :: string
  mw_Available :: "string option"
  mw_AutoUpdate :: FunctionStatusMiddlewareAutoUpdate
  mw_PendingRebuild :: bool
  mw_LastRebuild :: time

record FunctionServiceStatus =
  svc_URL :: string
  svc_Ready :: string

record FunctionStatus =
  st_Name :: string
  st_Git :: FunctionStatusGit
  st_Deployment :: FunctionStatusDeployment
  st_Middleware :: FunctionStatusMiddleware
  st_Service :: FunctionServiceStatus
  st_History :: "FunctionStatusHistoryEntry list"
  st_Conditions :: "Condition list"

record Function =
  fn_Meta :: ObjectMeta
  fn_Spec :: FunctionSpec
  fn_Status :: FunctionStatus

abbreviation fn_Name :: "Function \<Rightarrow> string" where
  "fn_Name f \<equiv> om_Name (fn_Meta f)"

abbreviation fn_Namespace :: "Function \<Rightarrow> string" where
  "fn_Namespace f \<equiv> om_Namespace (fn_Meta f)"

abbreviation fn_Generation :: "Function \<Rightarrow> int" where
  "fn_Generation f \<equiv> om_Generation (fn_Meta f)"

abbreviation fn_Conditions :: "Function \<Rightarrow> Condition list" where
  "fn_Conditions f \<equiv> st_Conditions (fn_Status f)"

definition map_status :: "(FunctionStatus \<Rightarrow> FunctionStatus) \<Rightarrow> Function \<Rightarrow> Function" where
  "map_status g f = f\<lparr>fn_Status := g (fn_Status f)\<rparr>"

definition map_conditions :: "(Condition list \<Rightarrow> Condition list) \<Rightarrow> Function \<Rightarrow> Function" where
  "map_conditions g f = map_status (\<lambda>s. s\<lparr>st_Conditions := g (st_Conditions s)\<rparr>) f"

text \<open>The defaulting hooks: none of them sets a field yet.\<close>

definition FunctionSpecRepository_SetDefaults :: "FunctionSpecRepository \<Rightarrow> FunctionSpecRepository" where
  "FunctionSpecRepository_SetDefaults r = r"

definition FunctionSpecRegistry_SetDefaults :: "FunctionSpecRegistry \<Rightarrow> FunctionSpecRegistry" where
  "FunctionSpecRegistry_SetDefaults r = r"

definition FunctionSpec_SetDefaults :: "FunctionSpec \<Rightarrow> FunctionSpec" where
  "FunctionSpec_SetDefaults s =
     s\<lparr>spec_Repository := FunctionSpecRepository_SetDefaults (spec_Repository s),
       spec_Registry := FunctionSpecRegistry_SetDefaults (spec_Registry s)\<rparr>"

definition Function_SetDefaults :: "Function \<Rightarrow> Function" where
  "Function_SetDefaults f = f\<lparr>fn_Spec := FunctionSpec_SetDefaults (fn_Spec f)\<rparr>"

section \<open>Condition helpers\<close>

definition TypeReady :: string where "TypeReady = ''Ready''"
definition TypeSourceReady :: string where "TypeSourceReady = ''SourceReady''"
definition TypeDeployed :: string where "TypeDeployed = ''Deployed''"
definition TypeMiddlewareUpToDate :: string where "TypeMiddlewareUpToDate = ''MiddlewareUpToDate''"
definition TypeServiceReady :: string where "TypeServiceReady = ''ServiceReady''"

definition FunctionsConditions :: "string list" where
  "FunctionsConditions = [TypeSourceReady, TypeDeployed, TypeMiddlewareUpToDate, TypeServiceReady]"

type_synonym set_cond = "time \<Rightarrow> Condition list \<Rightarrow> Condition \<Rightarrow> Condition list"

abbreviation mk_cond :: "string \<Rightarrow> ConditionStatus \<Rightarrow> string \<Rightarrow> string \<Rightarrow> int \<Rightarrow> Condition" where
  "mk_cond ty st rs ms g \<equiv> \<lparr>cond_Type = ty, cond_Status = st, cond_Reason = rs, cond_Message = ms,
     cond_ObservedGeneration = g, cond_LastTransitionTime = zero_time\<rparr>"

text \<open>A condition of the function, set with the function's own generation.\<close>

definition set_cond_of :: "set_cond \<Rightarrow> time \<Rightarrow> string \<Rightarrow> ConditionStatus \<Rightarrow> string \<Rightarrow> string \<Rightarrow> Function \<Rightarrow> Function" where
  "set_cond_of ssc t ty st rs ms f =
     map_conditions (\<lambda>cs. ssc t cs (mk_cond ty st rs ms (fn_Generation f))) f"

definition InitializeConditions :: "set_cond \<Rightarrow> (nat \<Rightarrow> time) \<Rightarrow> Function \<Rightarrow> Function" where
  "InitializeConditions ssc clk f =
     (let f0 = map_conditions (\<lambda>_. []) f;
          f1 = fold (\<lambda>(i, condition). set_cond_of ssc (clk i) condition ConditionUnknown ''unknown'' [])
                 (enumerate 0 FunctionsConditions) f0
      in map_conditions (\<lambda>cs. ssc (clk 4) cs (mk_cond TypeReady ConditionUnknown [] [] 0)) f1)"

definition MarkReady :: "set_cond \<Rightarrow> time \<Rightarrow> Function \<Rightarrow> Function" where
  "MarkReady ssc t = set_cond_of ssc t TypeReady ConditionTrue ''ReconcileSucceeded'' []"

definition MarkNotReady :: "set_cond \<Rightarrow> time \<Rightarrow> string \<Rightarrow> string \<Rightarrow> Function \<Rightarrow> Function" where
  "MarkNotReady ssc t reason message = set_cond_of ssc t TypeReady ConditionFalse reason message"

definition MarkSourceReady :: "set_cond \<Rightarrow> time \<Rightarrow> Function \<Rightarrow> Function" where
  "MarkSourceReady ssc t = set_cond_of ssc t TypeSourceReady ConditionTrue ''CloneSucceeded'' []"

definition MarkSourceNotReady :: "set_cond \<Rightarrow> time \<Rightarrow> string \<Rightarrow> string \<Rightarrow> Function \<Rightarrow> Function" where
  "MarkSourceNotReady ssc t reason message = set_cond_of ssc t TypeSourceReady ConditionFalse reason message"

definition MarkDeployReady :: "set_cond \<Rightarrow> time \<Rightarrow> Function \<Rightarrow> Function" where
  "MarkDeployReady ssc t = set_cond_of ssc t TypeDeployed ConditionTrue ''DeploySucceeded'' []"

definition MarkDeployNotReady :: "set_cond \<Rightarrow> time \<Rightarrow> string \<Rightarrow> string \<Rightarrow> Function \<Rightarrow> Function" where
  "MarkDeployNotReady ssc t reason message = set_cond_of ssc t TypeDeployed ConditionFalse reason message"

definition MarkMiddlewareUpToDate :: "set_cond \<Rightarrow> time \<Rightarrow> Function \<Rightarrow> Function" where
  "MarkMiddlewareUpToDate ssc t = set_cond_of ssc t TypeMiddlewareUpToDate ConditionTrue ''UpToDate'' []"

definition MarkMiddlewareNotUpToDate :: "set_cond \<Rightarrow> time \<Rightarrow> string \<Rightarrow> string \<Rightarrow> Function \<Rightarrow> Function" where
  "MarkMiddlewareNotUpToDate ssc t reason message =
     set_cond_of ssc t TypeMiddlewareUpToDate ConditionFalse reason message"

definition MarkMiddlewareNotUpToDateIntentionally :: "set_cond \<Rightarrow> time \<Rightarrow> string \<Rightarrow> string \<Rightarrow> Function \<Rightarrow> Function" where
  "MarkMiddlewareNotUpToDateIntentionally ssc t reason message =
     set_cond_of ssc t TypeMiddlewareUpToDate ConditionTrue reason message"

definition MarkServiceReady :: "set_cond \<Rightarrow> time \<Rightarrow> Function \<Rightarrow> Function" where
  "MarkServiceReady ssc t = set_cond_of ssc t TypeServiceReady ConditionTrue ''ServiceReady'' []"

definition MarkServiceNotReady :: "set_cond \<Rightarrow> time \<Rightarrow> string \<Rightarrow> string \<Rightarrow> Function \<Rightarrow> Function" where
  "MarkServiceNotReady ssc t reason message = set_cond_of ssc t TypeServiceReady ConditionFalse reason message"

text \<open>The loop of \<open>CalculateReadyCondition\<close> with its three local variables.\<close>

fun ready_loop :: "Condition list \<Rightarrow> bool \<Rightarrow> string \<Rightarrow> string \<Rightarrow> bool \<times> string \<times> string" where
  "ready_loop [] allReady reason message = (allReady, reason, message)"
| "ready_loop (c # cs) allReady reason message =
     (if cond_Type c \<noteq> TypeReady then
        (if cond_Status c = ConditionFalse then
           ready_loop cs False (cond_Reason c) (cond_Message c)
         else if cond_Status c = ConditionUnknown then
           ready_loop cs False
             (if reason = [] then cond_Reason c else reason)
             (if message = [] then cond_Message c else message)
         else ready_loop cs allReady reason message)
      else ready_loop cs allReady reason message)"

definition CalculateReadyCondition :: "set_cond \<Rightarrow> time \<Rightarrow> Function \<Rightarrow> Function" where
  "CalculateReadyCondition ssc t f =
     (case ready_loop (fn_Conditions f) True [] [] of (allReady, reason, message) \<Rightarrow>
        if allReady then MarkReady ssc t f else MarkNotReady ssc t reason message f)"

section \<open>History\<close>

definition MaxHistoryEntries :: nat where "MaxHistoryEntries = 20"

text \<open>The option \<open>WithHistoryEventTime\<close> replaces the entry's time.\<close>

type_synonym historyEventOption = "FunctionStatusHistoryEntry \<Rightarrow> FunctionStatusHistoryEntry"

definition WithHistoryEventTime :: "time \<Rightarrow> historyEventOption" where
  "WithHistoryEventTime t entry = entry\<lparr>hist_Time := t\<rparr>"

type_synonym slice_sort_fn =
  "(FunctionStatusHistoryEntry \<Rightarrow> FunctionStatusHistoryEntry \<Rightarrow> bool) \<Rightarrow>
   FunctionStatusHistoryEntry list \<Rightarrow> FunctionStatusHistoryEntry list"

definition entry_after :: "FunctionStatusHistoryEntry \<Rightarrow> FunctionStatusHistoryEntry \<Rightarrow> bool" where
  "entry_after a b \<longleftrightarrow> hist_Time a > hist_Time b"

definition RecordHistoryEvent :: "slice_sort_fn \<Rightarrow> time \<Rightarrow> string \<Rightarrow> historyEventOption list \<Rightarrow> Function \<Rightarrow> Function" where
  "RecordHistoryEvent srt now message options f =
     (let entry = fold (\<lambda>opt e. opt e) options \<lparr>hist_Time = now, hist_Message = message\<rparr>;
          history = srt entry_after (st_History (fn_Status f) @ [entry])
      in map_status (\<lambda>s. s\<lparr>st_History :=
           (if length history > MaxHistoryEntries then take MaxHistoryEntries history else history)\<rparr>) f)"

section \<open>Facts\<close>

lemmas condition_type_defs = TypeReady_def TypeSourceReady_def TypeDeployed_def
  TypeMiddlewareUpToDate_def TypeServiceReady_def

lemmas mark_defs = MarkReady_def MarkNotReady_def MarkSourceReady_def MarkSourceNotReady_def
  MarkDeployReady_def MarkDeployNotReady_def MarkMiddlewareUpToDate_def MarkMiddlewareNotUpToDate_def
  MarkMiddlewareNotUpToDateIntentionally_def MarkServiceReady_def MarkServiceNotReady_def

lemma map_status_simps [simp]:
  "fn_Meta (map_status g f) = fn_Meta f"
  "fn_Spec (map_status g f) = fn_Spec f"
  "fn_Status (map_status g f) = g (fn_Status f)"
  by (simp_all add: map_status_def)

lemma map_conditions_simps [simp]:
  "fn_Meta (map_conditions h f) = fn_Meta f"
  "fn_Spec (map_conditions h f) = fn_Spec f"
  "fn_Conditions (map_conditions h f) = h (fn_Conditions f)"
  by (simp_all add: map_conditions_def)

lemma map_conditions_status [simp]:
  "st_Name (fn_Status (map_conditions h f)) = st_Name (fn_Status f)"
  "st_Git (fn_Status (map_conditions h f)) = st_Git (fn_Status f)"
  "st_Deployment (fn_Status (map_conditions h f)) = st_Deployment (fn_Status f)"
  "st_Middleware (fn_Status (map_conditions h f)) = st_Middleware (fn_Status f)"
  "st_Service (fn_Status (map_conditions h f)) = st_Service (fn_Status f)"
  "st_History (fn_Status (map_conditions h f)) = st_History (fn_Status f)"
  by (simp_all add: map_conditions_def)

lemma Function_SetDefaults_id [simp]: "Function_SetDefaults f = f"
  by (simp add: Function_SetDefaults_def FunctionSpec_SetDefaults_def
      FunctionSpecRepository_SetDefaults_def FunctionSpecRegistry_SetDefaults_def)

text \<open>Setting a condition touches no other part of the object.\<close>

lemma set_cond_of_simps [simp]:
  "fn_Meta (set_cond_of ssc t ty st rs ms f) = fn_Meta f"
  "fn_Spec (set_cond_of ssc t ty st rs ms f) = fn_Spec f"
  "st_Name (fn_Status (set_cond_of ssc t ty st rs ms f)) = st_Name (fn_Status f)"
  "st_Git (fn_Status (set_cond_of ssc t ty st rs ms f)) = st_Git (fn_Status f)"
  "st_Deployment (fn_Status (set_cond_of ssc t ty st rs ms f)) = st_Deployment (fn_Status f)"
  "st_Middleware (fn_Status (set_cond_of ssc t ty st rs ms f)) = st_Middleware (fn_Status f)"
  "st_Service (fn_Status (set_cond_of ssc t ty st rs ms f)) = st_Service (fn_Status f)"
  "st_History (fn_Status (set_cond_of ssc t ty st rs ms f)) = st_History (fn_Status f)"
  "fn_Conditions (set_cond_of ssc t ty st rs ms f) =
     ssc t (fn_Conditions f) (mk_cond ty st rs ms (fn_Generation f))"
  by (simp_all add: set_cond_of_def)

text \<open>
  Every routine that meets the contract of \<open>meta.SetStatusCondition\<close> gives the same helpers, so facts
  are proved once, for \<open>apply_condition\<close>.
\<close>

context status_conditions begin

lemma set_cond_of_eq: "set_cond_of ssc = set_cond_of apply_condition"
  by (intro ext) (simp add: set_cond_of_def ssc_eq)

lemma MarkReady_eq: "MarkReady ssc = MarkReady apply_condition"
  by (intro ext) (simp add: mark_defs set_cond_of_eq)

lemma MarkNotReady_eq: "MarkNotReady ssc = MarkNotReady apply_condition"
  by (intro ext) (simp add: mark_defs set_cond_of_eq)

lemma InitializeConditions_eq: "InitializeConditions ssc = InitializeConditions apply_condition"
  by (intro ext) (simp add: InitializeConditions_def set_cond_of_eq ssc_eq)

lemma CalculateReadyCondition_eq: "CalculateReadyCondition ssc = CalculateReadyCondition apply_condition"
  by (intro ext) (simp add: CalculateReadyCondition_def MarkReady_eq MarkNotReady_eq split: prod.split)

end

subsection \<open>The shape of the conditions\<close>

text \<open>
  While a reconcile runs, the object has the five conditions in a fixed order and each but Ready has
  a reason; a status that is written also has a reason for Ready, a Ready that sums the others
  up, and no Ready left at Unknown.
\<close>

definition all_types :: "string list" where
  "all_types = FunctionsConditions @ [TypeReady]"

definition reasons_ok :: "Condition list \<Rightarrow> bool" where
  "reasons_ok cs \<longleftrightarrow> (\<forall>c \<in> set cs. cond_Type c \<noteq> TypeReady \<longrightarrow> cond_Reason c \<noteq> [])"

definition wf_working :: "Condition list \<Rightarrow> bool" where
  "wf_working cs \<longleftrightarrow> cond_types cs = all_types \<and> reasons_ok cs"

definition others_true :: "Condition list \<Rightarrow> bool" where
  "others_true cs \<longleftrightarrow> (\<forall>c \<in> set cs. cond_Type c \<noteq> TypeReady \<longrightarrow> cond_Status c = ConditionTrue)"

definition ready_status :: "Condition list \<Rightarrow> ConditionStatus option" where
  "ready_status cs = map_option cond_Status (find_cond cs TypeReady)"

definition wf_written :: "Condition list \<Rightarrow> bool" where
  "wf_written cs \<longleftrightarrow> wf_working cs \<and> (\<forall>c \<in> set cs. cond_Reason c \<noteq> [])
     \<and> ready_status cs = Some (if others_true cs then ConditionTrue else ConditionFalse)"

lemma distinct_all_types: "distinct all_types"
  by (simp add: all_types_def FunctionsConditions_def condition_type_defs)

lemma set_all_types:
  "set all_types = {TypeSourceReady, TypeDeployed, TypeMiddlewareUpToDate, TypeServiceReady, TypeReady}"
  by (auto simp: all_types_def FunctionsConditions_def)

lemma type_distinct [simp]:
  "TypeSourceReady \<noteq> TypeReady" "TypeDeployed \<noteq> TypeReady" "TypeMiddlewareUpToDate \<noteq> TypeReady"
  "TypeServiceReady \<noteq> TypeReady" "TypeSourceReady \<noteq> TypeDeployed"
  "TypeSourceReady \<noteq> TypeMiddlewareUpToDate" "TypeSourceReady \<noteq> TypeServiceReady"
  "TypeDeployed \<noteq> TypeMiddlewareUpToDate" "TypeDeployed \<noteq> TypeServiceReady"
  "TypeMiddlewareUpToDate \<noteq> TypeServiceReady"
  by (simp_all add: condition_type_defs)

lemmas type_distinct' [simp] = type_distinct [symmetric]

lemma wf_working_distinct: "wf_working cs \<Longrightarrow> distinct (cond_types cs)"
  by (simp add: wf_working_def distinct_all_types)

lemma wf_working_apply:
  assumes "wf_working cs" and "cond_Type c \<in> set all_types"
    and "cond_Type c = TypeReady \<or> cond_Reason c \<noteq> []"
  shows "wf_working (apply_condition t cs c)"
  using assms by (auto simp: wf_working_def types_apply reasons_ok_def dest!: set_apply)

lemma wf_working_set_cond_of:
  assumes "wf_working (fn_Conditions f)" and "ty \<in> set all_types" and "ty = TypeReady \<or> rs \<noteq> []"
  shows "wf_working (fn_Conditions (set_cond_of apply_condition t ty st rs ms f))"
  using assms by (simp add: wf_working_apply)

lemma wf_working_marks [simp]:
  assumes "wf_working (fn_Conditions f)"
  shows "wf_working (fn_Conditions (MarkSourceReady apply_condition t f))"
    and "r \<noteq> [] \<Longrightarrow> wf_working (fn_Conditions (MarkSourceNotReady apply_condition t r m f))"
    and "wf_working (fn_Conditions (MarkDeployReady apply_condition t f))"
    and "r \<noteq> [] \<Longrightarrow> wf_working (fn_Conditions (MarkDeployNotReady apply_condition t r m f))"
    and "wf_working (fn_Conditions (MarkMiddlewareUpToDate apply_condition t f))"
    and "r \<noteq> [] \<Longrightarrow> wf_working (fn_Conditions (MarkMiddlewareNotUpToDate apply_condition t r m f))"
    and "r \<noteq> [] \<Longrightarrow> wf_working (fn_Conditions (MarkMiddlewareNotUpToDateIntentionally apply_condition t r m f))"
    and "wf_working (fn_Conditions (MarkServiceReady apply_condition t f))"
    and "r \<noteq> [] \<Longrightarrow> wf_working (fn_Conditions (MarkServiceNotReady apply_condition t r m f))"
  using assms by (simp_all add: mark_defs wf_working_apply set_all_types)

lemma InitializeConditions_conditions:
  "fn_Conditions (InitializeConditions apply_condition clk f) =
     [mk_cond TypeSourceReady ConditionUnknown ''unknown'' [] (fn_Generation f) \<lparr>cond_LastTransitionTime := clk 0\<rparr>,
      mk_cond TypeDeployed ConditionUnknown ''unknown'' [] (fn_Generation f) \<lparr>cond_LastTransitionTime := clk 1\<rparr>,
      mk_cond TypeMiddlewareUpToDate ConditionUnknown ''unknown'' [] (fn_Generation f) \<lparr>cond_LastTransitionTime := clk 2\<rparr>,
      mk_cond TypeServiceReady ConditionUnknown ''unknown'' [] (fn_Generation f) \<lparr>cond_LastTransitionTime := clk 3\<rparr>,
      mk_cond TypeReady ConditionUnknown [] [] 0 \<lparr>cond_LastTransitionTime := clk 4\<rparr>]"
  by (simp add: InitializeConditions_def FunctionsConditions_def enumerate_eq_zip upt_rec numeral_2_eq_2
      numeral_3_eq_3)

lemma wf_working_Initialize: "wf_working (fn_Conditions (InitializeConditions apply_condition clk f))"
  unfolding InitializeConditions_conditions
  by (simp add: wf_working_def all_types_def FunctionsConditions_def reasons_ok_def)

subsection \<open>The summary condition\<close>

definition last_false :: "Condition list \<Rightarrow> Condition option" where
  "last_false cs =
     (case filter (\<lambda>c. cond_Type c \<noteq> TypeReady \<and> cond_Status c = ConditionFalse) cs of
        [] \<Rightarrow> None | fs \<Rightarrow> Some (last fs))"

definition first_unknown :: "Condition list \<Rightarrow> Condition option" where
  "first_unknown cs = find (\<lambda>c. cond_Type c \<noteq> TypeReady \<and> cond_Status c = ConditionUnknown) cs"

text \<open>The condition whose reason Ready repeats.\<close>

definition blamed :: "Condition list \<Rightarrow> Condition option" where
  "blamed cs = (case last_false cs of Some c \<Rightarrow> Some c | None \<Rightarrow> first_unknown cs)"

lemma last_false_Nil [simp]: "last_false [] = None"
  by (simp add: last_false_def)

lemma last_false_Cons:
  "last_false (c # cs) =
     (case last_false cs of Some d \<Rightarrow> Some d
      | None \<Rightarrow> if cond_Type c \<noteq> TypeReady \<and> cond_Status c = ConditionFalse then Some c else None)"
  by (auto simp: last_false_def split: list.splits)

lemma ready_loop_allReady:
  "fst (ready_loop cs a r m) \<longleftrightarrow> a \<and> others_true cs"
proof (induction cs a r m rule: ready_loop.induct)
  case (2 c cs a r m)
  then show ?case by (cases "cond_Status c") (auto simp: others_true_def)
qed (simp add: others_true_def)

lemma ready_loop_reason:
  "reasons_ok cs \<Longrightarrow>
   fst (snd (ready_loop cs a r m)) =
     (case last_false cs of Some c \<Rightarrow> cond_Reason c
      | None \<Rightarrow> if r \<noteq> [] then r else (case first_unknown cs of Some c \<Rightarrow> cond_Reason c | None \<Rightarrow> []))"
proof (induction cs a r m rule: ready_loop.induct)
  case (1 a r m)
  then show ?case by (simp add: last_false_def first_unknown_def)
next
  case (2 c cs a r m)
  have ok: "reasons_ok cs" and c: "cond_Type c \<noteq> TypeReady \<Longrightarrow> cond_Reason c \<noteq> []"
    using "2.prems" by (auto simp: reasons_ok_def)
  show ?case
  proof (cases "cond_Type c = TypeReady")
    case True
    with "2.IH" ok show ?thesis by (simp add: last_false_Cons first_unknown_def split: option.splits)
  next
    case False
    with "2.IH" ok c show ?thesis
      by (cases "cond_Status c") (auto simp: last_false_Cons first_unknown_def split: option.splits)
  qed
qed

lemma ready_loop_message:
  "(\<forall>c \<in> set cs. cond_Type c \<noteq> TypeReady \<and> cond_Status c = ConditionFalse \<longrightarrow> cond_Message c \<noteq> []) \<Longrightarrow>
   last_false cs = Some c \<Longrightarrow> snd (snd (ready_loop cs a r m)) = cond_Message c"
proof -
  have keep: "last_false cs = None \<Longrightarrow> m \<noteq> [] \<Longrightarrow> snd (snd (ready_loop cs a r m)) = m" for cs a r m
  proof (induction cs a r m rule: ready_loop.induct)
    case (2 c cs a r m)
    then show ?case by (auto simp: last_false_Cons split: option.splits if_splits)
  qed simp
  show "(\<forall>c \<in> set cs. cond_Type c \<noteq> TypeReady \<and> cond_Status c = ConditionFalse \<longrightarrow> cond_Message c \<noteq> []) \<Longrightarrow>
    last_false cs = Some c \<Longrightarrow> snd (snd (ready_loop cs a r m)) = cond_Message c"
  proof (induction cs a r m rule: ready_loop.induct)
    case (1 a r m)
    then show ?case by (simp add: last_false_def)
  next
    case (2 d cs a r m)
    show ?case
    proof (cases "last_false cs")
      case None
      with "2.prems" keep show ?thesis by (auto simp: last_false_Cons split: if_splits)
    next
      case (Some e)
      with "2.prems"(2) have "e = c" by (simp add: last_false_Cons)
      with Some "2.IH" "2.prems" show ?thesis by auto
    qed
  qed
qed

lemma others_true_apply_ready:
  "cond_Type c = TypeReady \<Longrightarrow> others_true (apply_condition t cs c) = others_true cs"
  by (induction cs) (auto simp: others_true_def)

lemma blamed_None: "blamed cs = None \<longleftrightarrow> others_true cs"
proof (induction cs)
  case Nil
  then show ?case by (simp add: blamed_def last_false_def first_unknown_def others_true_def)
next
  case (Cons c cs)
  then show ?case
    by (cases "cond_Status c")
      (auto simp: blamed_def last_false_Cons first_unknown_def others_true_def split: option.splits)
qed

lemma blamed_Some: "blamed cs = Some c \<Longrightarrow> c \<in> set cs \<and> cond_Type c \<noteq> TypeReady \<and> cond_Status c \<noteq> ConditionTrue"
  by (induction cs)
    (auto simp: blamed_def last_false_Cons first_unknown_def split: option.splits if_splits)

subsection \<open>Calculating Ready\<close>

lemma CalculateReadyCondition_simps [simp]:
  "fn_Meta (CalculateReadyCondition ssc t f) = fn_Meta f"
  "fn_Spec (CalculateReadyCondition ssc t f) = fn_Spec f"
  "st_Name (fn_Status (CalculateReadyCondition ssc t f)) = st_Name (fn_Status f)"
  "st_Git (fn_Status (CalculateReadyCondition ssc t f)) = st_Git (fn_Status f)"
  "st_Deployment (fn_Status (CalculateReadyCondition ssc t f)) = st_Deployment (fn_Status f)"
  "st_Middleware (fn_Status (CalculateReadyCondition ssc t f)) = st_Middleware (fn_Status f)"
  "st_Service (fn_Status (CalculateReadyCondition ssc t f)) = st_Service (fn_Status f)"
  "st_History (fn_Status (CalculateReadyCondition ssc t f)) = st_History (fn_Status f)"
  by (simp_all add: CalculateReadyCondition_def mark_defs split: prod.split)

text \<open>The condition that \<open>CalculateReadyCondition\<close> sets.\<close>

definition ready_cond :: "Function \<Rightarrow> Condition" where
  "ready_cond f =
     (case ready_loop (fn_Conditions f) True [] [] of (allReady, reason, message) \<Rightarrow>
        if allReady then mk_cond TypeReady ConditionTrue ''ReconcileSucceeded'' [] (fn_Generation f)
        else mk_cond TypeReady ConditionFalse reason message (fn_Generation f))"

lemma CalculateReadyCondition_conditions:
  "fn_Conditions (CalculateReadyCondition ssc t f) = ssc t (fn_Conditions f) (ready_cond f)"
  by (simp add: CalculateReadyCondition_def mark_defs ready_cond_def split: prod.split)

lemma ready_cond_type [simp]: "cond_Type (ready_cond f) = TypeReady"
  by (simp add: ready_cond_def split: prod.split)

lemma ready_cond_status:
  "cond_Status (ready_cond f) = (if others_true (fn_Conditions f) then ConditionTrue else ConditionFalse)"
  using ready_loop_allReady [of "fn_Conditions f" True "[]" "[]"]
  by (auto simp: ready_cond_def split: prod.split)

lemma ready_cond_reason:
  assumes "reasons_ok (fn_Conditions f)"
  shows "cond_Reason (ready_cond f) =
    (case blamed (fn_Conditions f) of Some c \<Rightarrow> cond_Reason c | None \<Rightarrow> ''ReconcileSucceeded'')"
proof (cases "others_true (fn_Conditions f)")
  case True
  then show ?thesis using ready_loop_allReady [of "fn_Conditions f" True "[]" "[]"]
      blamed_None [of "fn_Conditions f"]
    by (auto simp: ready_cond_def split: prod.split option.split)
next
  case False
  then have "blamed (fn_Conditions f) \<noteq> None" by (simp add: blamed_None)
  with False show ?thesis
    using ready_loop_allReady [of "fn_Conditions f" True "[]" "[]"]
      ready_loop_reason [OF assms, of True "[]" "[]"]
    by (auto simp: ready_cond_def blamed_def split: prod.split option.splits)
qed

lemma blamed_reason:
  "reasons_ok cs \<Longrightarrow> blamed cs = Some c \<Longrightarrow> cond_Reason c \<noteq> []"
  using blamed_Some [of cs c] by (auto simp: reasons_ok_def)

lemma wf_written_CalculateReady:
  assumes "wf_working (fn_Conditions f)"
  shows "wf_written (fn_Conditions (CalculateReadyCondition apply_condition t f))"
proof -
  let ?cs = "fn_Conditions f" and ?c = "ready_cond f"
  have ok: "reasons_ok ?cs" using assms by (simp add: wf_working_def)
  have "cond_Reason ?c \<noteq> []"
    using ready_cond_reason [OF ok] blamed_reason [OF ok] by (auto split: option.splits)
  then have r: "\<forall>d \<in> set (apply_condition t ?cs ?c). cond_Reason d \<noteq> []"
    using wf_working_distinct [OF assms] ok by (intro all_apply) (auto simp: reasons_ok_def)
  have w: "wf_working (apply_condition t ?cs ?c)"
    using assms by (rule wf_working_apply) (simp_all add: set_all_types)
  have "find_cond (apply_condition t ?cs ?c) TypeReady = Some (?c\<lparr>cond_LastTransitionTime :=
      (case find_cond ?cs TypeReady of None \<Rightarrow> t
       | Some d \<Rightarrow> if cond_Status d = cond_Status ?c then cond_LastTransitionTime d else t)\<rparr>)"
    using find_apply_same [of t ?cs ?c] by simp
  then have "ready_status (apply_condition t ?cs ?c) = Some (cond_Status ?c)"
    by (simp add: ready_status_def)
  then show ?thesis
    using w r by (simp add: wf_written_def CalculateReadyCondition_conditions ready_cond_status
        others_true_apply_ready)
qed

subsection \<open>The history\<close>

lemma strict_weak_entry_after: "strict_weak entry_after"
  by (auto simp: strict_weak_def entry_after_def)

lemma RecordHistoryEvent_simps [simp]:
  "fn_Meta (RecordHistoryEvent srt now msg opts f) = fn_Meta f"
  "fn_Spec (RecordHistoryEvent srt now msg opts f) = fn_Spec f"
  "fn_Conditions (RecordHistoryEvent srt now msg opts f) = fn_Conditions f"
  "st_Name (fn_Status (RecordHistoryEvent srt now msg opts f)) = st_Name (fn_Status f)"
  "st_Git (fn_Status (RecordHistoryEvent srt now msg opts f)) = st_Git (fn_Status f)"
  "st_Deployment (fn_Status (RecordHistoryEvent srt now msg opts f)) = st_Deployment (fn_Status f)"
  "st_Middleware (fn_Status (RecordHistoryEvent srt now msg opts f)) = st_Middleware (fn_Status f)"
  "st_Service (fn_Status (RecordHistoryEvent srt now msg opts f)) = st_Service (fn_Status f)"
  by (simp_all add: RecordHistoryEvent_def Let_def)

text \<open>The history a recorded event leaves, and the entries it pushed out.\<close>

lemma RecordHistoryEvent_split:
  "st_History (fn_Status (RecordHistoryEvent srt now msg opts f)) =
     take MaxHistoryEntries
       (srt entry_after (st_History (fn_Status f) @
          [fold (\<lambda>opt e. opt e) opts \<lparr>hist_Time = now, hist_Message = msg\<rparr>]))"
  by (simp add: RecordHistoryEvent_def Let_def)

end
