(* ===== verification/ReconcileEnv.thy ===== *)
theory ReconcileEnv
  imports Lifecycle
begin

text \<open>
  What a reconcile of a Function has at hand: the objects it exchanges with its collaborators
  (\<open>internal/git/repository.go\<close>, the result types of \<open>knative.dev/func\<close>), the collaborators
  themselves as the fields of \<open>FunctionReconciler\<close>, and the state of one run.

  A collaborator is a record of operations on a world \<open>'w\<close> that the model does not look into: an
  operation gives its answer and changes the world in any way, so an answer may depend on all that
  happened before and on what other actors did meanwhile. The API server, the git server, the \<open>func\<close>
  binary, the file system and the clock are such collaborators. \<open>rs_calls\<close> is a ghost history of the
  calls a run has made, each with its answer; the code does not read it.
\<close>

section \<open>Values\<close>

record Repository =
  repository_CloneDir :: string
  repository_SubPath :: string
  repository_Commit :: string
  repository_Revision :: string
  repository_knownHostFile :: string

definition Repository_Path :: "Repository \<Rightarrow> string" where
  "Repository_Path r = path_Join [repository_CloneDir r, repository_SubPath r]"

text \<open>The fields of \<open>funcfn.Function\<close> and \<open>funcfn.Instance\<close> that the operator reads.\<close>

record FuncMetadata =
  md_Name :: string
  md_Runtime :: string
  md_Invoke :: string
  md_Deployer :: string

record Instance =
  inst_Image :: string
  inst_Revision :: string
  inst_Ready :: string
  inst_Route :: string
  inst_MiddlewareVersion :: string

record DeployOptions =
  opt_RegistryAuthFile :: string
  opt_ImagePullSecret :: string

section \<open>Collaborators\<close>

record 'w KubeClient =
  k_GetFunction :: "nsname \<Rightarrow> ('w, goerr + Function) state"
  k_UpdateFunction :: "Function \<Rightarrow> ('w, goerr option) state"
  k_UpdateFunctionStatus :: "Function \<Rightarrow> ('w, goerr option) state"
  k_ListFunctions :: "('w, goerr + Function list) state"
  k_GetSecret :: "nsname \<Rightarrow> ('w, goerr + Secret) state"
  k_GetConfigMap :: "nsname \<Rightarrow> ('w, goerr + ConfigMap) state"
  k_CreateConfigMap :: "ConfigMap \<Rightarrow> ('w, goerr option) state"
  k_GetRole :: "nsname \<Rightarrow> ('w, goerr + Role) state"
  k_CreateRole :: "Role \<Rightarrow> ('w, goerr option) state"
  k_UpdateRole :: "Role \<Rightarrow> ('w, goerr option) state"
  k_GetRoleBinding :: "nsname \<Rightarrow> ('w, goerr + RoleBinding) state"
  k_CreateRoleBinding :: "RoleBinding \<Rightarrow> ('w, goerr option) state"
  k_UpdateRoleBinding :: "RoleBinding \<Rightarrow> ('w, goerr option) state"

text \<open>The interface \<open>funccli.Manager\<close>.\<close>

record 'w FuncCliManager =
  fcm_Run :: "string \<Rightarrow> string list \<Rightarrow> ('w, string \<times> goerr option) state"
  fcm_Describe :: "string \<Rightarrow> string \<Rightarrow> ('w, goerr + Instance) state"
  fcm_Deploy :: "string \<Rightarrow> string \<Rightarrow> DeployOptions \<Rightarrow> ('w, goerr option) state"
  fcm_GetCurrentVersion :: "('w, goerr + string) state"
  fcm_GetLatestMiddlewareVersion :: "string \<Rightarrow> string \<Rightarrow> ('w, goerr + string) state"
  fcm_GetMiddlewareVersion :: "string \<Rightarrow> string \<Rightarrow> ('w, goerr + string) state"

text \<open>The interface \<open>git.Manager\<close>.\<close>

record 'w GitManager =
  gm_CloneRepository :: "string \<Rightarrow> string \<Rightarrow> string \<Rightarrow> string gomap \<Rightarrow> ('w, goerr + Repository) state"

text \<open>The operating system, the clock, and the reader of \<open>func.yaml\<close> (\<open>funcfn.NewFunction\<close>).\<close>

record 'w Platform =
  p_Clock :: "('w, nat \<Rightarrow> time) state"
  p_NewFunction :: "string \<Rightarrow> ('w, goerr + FuncMetadata) state"
  p_CreateTemp :: "string \<Rightarrow> ('w, goerr + string) state"
  p_WriteFile :: "string \<Rightarrow> string \<Rightarrow> ('w, goerr option) state"
  p_Remove :: "string \<Rightarrow> ('w, goerr option) state"
  p_RemoveAll :: "string \<Rightarrow> ('w, goerr option) state"

section \<open>The state of a run\<close>

datatype Call =
    CGetFunction nsname "goerr + Function"
  | CUpdateFunction Function "goerr option"
  | CUpdateStatus Function "goerr option"
  | CListFunctions "goerr + Function list"
  | CGetSecret nsname "goerr + Secret"
  | CGetConfigMap nsname "goerr + ConfigMap"
  | CGetRole nsname "goerr + Role"
  | CCreateRole Role "goerr option"
  | CUpdateRole Role "goerr option"
  | CGetRoleBinding nsname "goerr + RoleBinding"
  | CCreateRoleBinding RoleBinding "goerr option"
  | CUpdateRoleBinding RoleBinding "goerr option"
  | CCloneRepository string string string "string gomap" "goerr + Repository"
  | CNewFunction string "goerr + FuncMetadata"
  | CDescribe string string "goerr + Instance"
  | CDeploy string string DeployOptions "goerr option"
  | CGetLatest string string "goerr + string"
  | CCreateTemp string "goerr + string"
  | CWriteFile string string "goerr option"
  | CRemove string "goerr option"
  | CRemoveAll string "goerr option"

record StatusTracker =
  tr_original :: Function

record 'w run_state_rec =
  rs_world :: 'w
  rs_calls :: "Call list"
  rs_fn :: Function
  rs_tracker :: "StatusTracker option"

type_synonym ('w, 'a) run = "('w run_state_rec, 'a) state"

text \<open>
  The library routines, with the contracts of \<open>KubeMeta\<close>. The owner of an owner reference is always a
  Function, so that its metadata is all that \<open>controllerutil\<close> gets to know of it.
\<close>

record 'w Library =
  l_SetStatusCondition :: set_cond
  l_SortSlice :: slice_sort_fn
  l_RetryOnConflict :: "('w, goerr option) run \<Rightarrow> ('w, goerr option) run"
  l_StatusDeepEqual :: "FunctionStatus \<Rightarrow> FunctionStatus \<Rightarrow> bool"
  l_RulesDeepEqual :: "PolicyRule list \<Rightarrow> PolicyRule list \<Rightarrow> bool"
  l_SubjectsDeepDerivative :: "Subject list \<Rightarrow> Subject list \<Rightarrow> bool"
  l_RoleRefDeepDerivative :: "RoleRef \<Rightarrow> RoleRef \<Rightarrow> bool"
  l_SetOwnerReference :: "ObjectMeta \<Rightarrow> RoleBinding \<Rightarrow> goerr + RoleBinding"
  l_HasOwnerReference :: "OwnerReference list \<Rightarrow> ObjectMeta \<Rightarrow> goerr + bool"
  l_ParseRFC3339 :: "string \<Rightarrow> goerr + time"

record 'w FunctionReconciler =
  fr_Client :: "'w KubeClient"
  fr_FuncCliManager :: "'w FuncCliManager"
  fr_GitManager :: "'w GitManager"
  fr_OperatorNamespace :: string
  fr_Platform :: "'w Platform"
  fr_Library :: "'w Library"

abbreviation ssc_of :: "'w FunctionReconciler \<Rightarrow> set_cond" where
  "ssc_of r \<equiv> l_SetStatusCondition (fr_Library r)"

text \<open>A call of a collaborator: it runs on the world and is recorded with its answer.\<close>

definition call :: "('a \<Rightarrow> Call) \<Rightarrow> ('w, 'a) state \<Rightarrow> ('w, 'a) run" where
  "call c m = do {
     a \<leftarrow> zoom rs_world (\<lambda>w s. s\<lparr>rs_world := w\<rparr>) m;
     modify (\<lambda>s. s\<lparr>rs_calls := rs_calls s @ [c a]\<rparr>);
     ret a
   }"

text \<open>The clock is read without a record in the history.\<close>

definition read_clock :: "'w FunctionReconciler \<Rightarrow> ('w, nat \<Rightarrow> time) run" where
  "read_clock r = zoom rs_world (\<lambda>w s. s\<lparr>rs_world := w\<rparr>) (p_Clock (fr_Platform r))"

text \<open>The mutations of the object under reconciliation, \<open>function\<close> in the code.\<close>

definition modify_fn :: "(Function \<Rightarrow> Function) \<Rightarrow> ('w, unit) run" where
  "modify_fn g = modify (\<lambda>s. s\<lparr>rs_fn := g (rs_fn s)\<rparr>)"

definition modify_status :: "(FunctionStatus \<Rightarrow> FunctionStatus) \<Rightarrow> ('w, unit) run" where
  "modify_status g = modify_fn (map_status g)"

text \<open>A helper of \<open>function_lifecycle.go\<close> applied with the library's routine and clock.\<close>

definition mark :: "'w FunctionReconciler \<Rightarrow> (set_cond \<Rightarrow> time \<Rightarrow> Function \<Rightarrow> Function) \<Rightarrow> ('w, unit) run" where
  "mark r g = do { clk \<leftarrow> read_clock r; modify_fn (g (ssc_of r) (clk 0)) }"

section \<open>Contracts of the library\<close>

locale reconcile_library =
  status_conditions "ssc_of r" + slice_sort "l_SortSlice (fr_Library r)"
  + conflict_retry "l_RetryOnConflict (fr_Library r)"
  + rules: deep_equality "l_RulesDeepEqual (fr_Library r)"
  + status: deep_equality "l_StatusDeepEqual (fr_Library r)"
  + subjects: deep_derivative "l_SubjectsDeepDerivative (fr_Library r)"
  + role_ref: deep_derivative "l_RoleRefDeepDerivative (fr_Library r)"
  + owner_references "l_HasOwnerReference (fr_Library r)" "l_SetOwnerReference (fr_Library r)"
  for r :: "'w FunctionReconciler"

text \<open>
  Routines that do just what the contracts say, with \<open>n\<close> retries, \<open>controllerutil.SetOwnerReference\<close>
  adding a reference to the function, and \<open>parse\<close> for \<open>time.Parse\<close>.
\<close>

definition owner_ref :: "ObjectMeta \<Rightarrow> OwnerReference" where
  "owner_ref m = \<lparr>or_APIVersion = ''functions.dev/v1alpha1'', or_Kind = ''Function'',
     or_Name = om_Name m, or_UID = om_UID m\<rparr>"

definition ref_library :: "nat \<Rightarrow> (string \<Rightarrow> goerr + time) \<Rightarrow> 'w Library" where
  "ref_library n parse = \<lparr>
     l_SetStatusCondition = apply_condition,
     l_SortSlice = insertion_sort,
     l_RetryOnConflict = attempts n,
     l_StatusDeepEqual = (=),
     l_RulesDeepEqual = (=),
     l_SubjectsDeepDerivative = (=),
     l_RoleRefDeepDerivative = (=),
     l_SetOwnerReference = (\<lambda>m rb. Inr (rb\<lparr>rb_Meta := (rb_Meta rb)\<lparr>om_OwnerReferences :=
        om_OwnerReferences (rb_Meta rb) @ [owner_ref m]\<rparr>\<rparr>)),
     l_HasOwnerReference = (\<lambda>refs m. Inr (owner_ref m \<in> set refs)),
     l_ParseRFC3339 = parse\<rparr>"

interpretation ref_library: reconcile_library "r\<lparr>fr_Library := ref_library n parse\<rparr>"
  for r :: "'w FunctionReconciler" and n parse
  by unfold_locales
    (auto simp: ref_library_def apply_condition_append apply_condition_change
       ref_sort.srt_mset ref_sort.srt_sorted)

section \<open>Facts\<close>

lemma holds_call [wp_simps]:
  "holds (call c m) s Q =
     holds m (rs_world s) (\<lambda>a w. Q a (s\<lparr>rs_world := w, rs_calls := rs_calls s @ [c a]\<rparr>))"
  by (simp add: call_def wp_simps)

lemma holds_read_clock [wp_simps]:
  "holds (read_clock r) s Q = holds (p_Clock (fr_Platform r)) (rs_world s) (\<lambda>a w. Q a (s\<lparr>rs_world := w\<rparr>))"
  by (simp add: read_clock_def wp_simps)

lemma holds_modify_fn [wp_simps]: "holds (modify_fn g) s Q = Q () (s\<lparr>rs_fn := g (rs_fn s)\<rparr>)"
  by (simp add: modify_fn_def wp_simps)

lemma holds_modify_status [wp_simps]:
  "holds (modify_status g) s Q = Q () (s\<lparr>rs_fn := map_status g (rs_fn s)\<rparr>)"
  by (simp add: modify_status_def wp_simps)

lemma holds_mark [wp_simps]:
  "holds (mark r g) s Q =
     holds (p_Clock (fr_Platform r)) (rs_world s)
       (\<lambda>clk w. Q () (s\<lparr>rs_world := w, rs_fn := g (ssc_of r) (clk 0) (rs_fn s)\<rparr>))"
  by (simp add: mark_def wp_simps)

lemma holds_call_any:
  "(\<And>a w. Q a (s\<lparr>rs_world := w, rs_calls := rs_calls s @ [c a]\<rparr>)) \<Longrightarrow> holds (call c m) s Q"
  unfolding holds_call by (rule holds_any)

lemma holds_clock_any: "(\<And>clk w. Q clk (s\<lparr>rs_world := w\<rparr>)) \<Longrightarrow> holds (read_clock r) s Q"
  unfolding holds_read_clock by (rule holds_any)

lemma holds_mark_any:
  "(\<And>t w. Q () (s\<lparr>rs_world := w, rs_fn := g (ssc_of r) t (rs_fn s)\<rparr>)) \<Longrightarrow> holds (mark r g) s Q"
  unfolding holds_mark by (rule holds_any)

lemma holds_call_answers:
  "answers m a \<Longrightarrow> (\<And>w. Q a (s\<lparr>rs_world := w, rs_calls := rs_calls s @ [c a]\<rparr>)) \<Longrightarrow> holds (call c m) s Q"
  unfolding holds_call by (rule holds_answers)

text \<open>
  Invariants of a run that speak of the history, the object and the tracker only. Each building
  block keeps them if the recorded call, or the mutation, does.
\<close>

definition ignores_world :: "('w run_state_rec \<Rightarrow> bool) \<Rightarrow> bool" where
  "ignores_world I \<longleftrightarrow> (\<forall>s w. I s \<longrightarrow> I (s\<lparr>rs_world := w\<rparr>))"

lemma preserves_call [frame_intros]:
  assumes "ignores_world I" and "\<And>s a. I s \<Longrightarrow> I (s\<lparr>rs_calls := rs_calls s @ [c a]\<rparr>)"
  shows "preserves I (call c m)"
proof (rule preservesI)
  fix s assume "I s"
  then have "I (s\<lparr>rs_world := w, rs_calls := rs_calls s @ [c a]\<rparr>)" for w a
    using assms(2) [of "s\<lparr>rs_world := w\<rparr>"] assms(1) by (auto simp: ignores_world_def)
  then show "holds (call c m) s (\<lambda>_. I)" unfolding holds_call by (rule holds_any)
qed

lemma preserves_read_clock [frame_intros]: "ignores_world I \<Longrightarrow> preserves I (read_clock r)"
  by (rule preservesI, unfold holds_read_clock, rule holds_any) (simp add: ignores_world_def)

lemma preserves_modify_fn [frame_intros]:
  "(\<And>s. I s \<Longrightarrow> I (s\<lparr>rs_fn := g (rs_fn s)\<rparr>)) \<Longrightarrow> preserves I (modify_fn g)"
  by (auto intro!: preservesI simp: wp_simps)

lemma preserves_modify_status [frame_intros]:
  "(\<And>s. I s \<Longrightarrow> I (s\<lparr>rs_fn := map_status g (rs_fn s)\<rparr>)) \<Longrightarrow> preserves I (modify_status g)"
  by (auto intro!: preservesI simp: wp_simps)

lemma preserves_mark [frame_intros]:
  assumes "ignores_world I" and "\<And>s t. I s \<Longrightarrow> I (s\<lparr>rs_fn := g (ssc_of r) t (rs_fn s)\<rparr>)"
  shows "preserves I (mark r g)"
proof (rule preservesI)
  fix s assume "I s"
  then have "I (s\<lparr>rs_world := w, rs_fn := g (ssc_of r) t (rs_fn s)\<rparr>)" for w t
    using assms(2) [of "s\<lparr>rs_world := w\<rparr>"] assms(1) by (auto simp: ignores_world_def)
  then show "holds (mark r g) s (\<lambda>_. I)" unfolding holds_mark by (rule holds_any)
qed

end
