(* ===== verification/StatusTracker.thy ===== *)
theory StatusTracker
  imports ReconcileEnv
begin

text \<open>
  The status tracker of \<open>internal/controller/status_tracker.go\<close>. The context carries a pointer to the
  tracker, so the tracker is a component of the state of the run: \<open>None\<close> where the context has none.
\<close>

definition NewStatusTracker :: "Function \<Rightarrow> StatusTracker" where
  "NewStatusTracker f = \<lparr>tr_original = f\<rparr>"

definition WithStatusTracker :: "StatusTracker \<Rightarrow> ('w, unit) run" where
  "WithStatusTracker tracker = modify (\<lambda>s. s\<lparr>rs_tracker := Some tracker\<rparr>)"

definition GetStatusTracker :: "('w, StatusTracker option) run" where
  "GetStatusTracker = gets rs_tracker"

text \<open>The closure that \<open>Flush\<close> retries: fetch the latest version, put the status on it, write it.\<close>

definition flush_attempt :: "'w FunctionReconciler \<Rightarrow> ('w, goerr option) run" where
  "flush_attempt r = do {
     current \<leftarrow> gets rs_fn;
     let key = nsn (fn_Namespace current) (fn_Name current);
     res \<leftarrow> call (CGetFunction key) (k_GetFunction (fr_Client r) key);
     case res of
       Inl err \<Rightarrow> ret (Some err)
     | Inr latest \<Rightarrow> do {
         let latest = latest\<lparr>fn_Status := fn_Status current\<rparr>;
         call (CUpdateStatus latest) (k_UpdateFunctionStatus (fr_Client r) latest)
       }
   }"

definition Flush :: "'w FunctionReconciler \<Rightarrow> StatusTracker \<Rightarrow> ('w, goerr option) run" where
  "Flush r t = do {
     clk \<leftarrow> read_clock r;
     modify_fn (CalculateReadyCondition (ssc_of r) (clk 0));
     current \<leftarrow> gets rs_fn;
     if \<not> l_StatusDeepEqual (fr_Library r) (fn_Status (tr_original t)) (fn_Status current) then do {
       err \<leftarrow> l_RetryOnConflict (fr_Library r) (flush_attempt r);
       case err of
         Some e \<Rightarrow> ret (Some (Errorf ''failed to update status: '' e))
       | None \<Rightarrow> do {
           current \<leftarrow> gets rs_fn;
           modify (\<lambda>s. s\<lparr>rs_tracker := Some (t\<lparr>tr_original := current\<rparr>)\<rparr>);
           ret None
         }
     }
     else ret None
   }"

definition FlushStatus :: "'w FunctionReconciler \<Rightarrow> ('w, goerr option) run" where
  "FlushStatus r = do {
     tracker \<leftarrow> GetStatusTracker;
     case tracker of
       None \<Rightarrow> ret None
     | Some t \<Rightarrow> Flush r t
   }"

end
