(* ===== verification/PipelineRbac.thy ===== *)
theory PipelineRbac
  imports StatusTracker
begin

text \<open>
  The RBAC objects a deploy pipeline needs, \<open>internal/controller/function_rbac.go\<close>: the role
  \<open>func-operator-deploy-function\<close> and the role binding \<open>deploy-function-default\<close> of the function's
  namespace, created when missing and brought up to date when they differ.
\<close>

definition deployFunctionRoleName :: string where
  "deployFunctionRoleName = ''func-operator-deploy-function''"

definition deployFunctionRoleBindingName :: string where
  "deployFunctionRoleBindingName = ''deploy-function-default''"

definition all_verbs :: "string list" where
  "all_verbs = [''create'', ''delete'', ''get'', ''list'', ''patch'', ''update'', ''watch'']"

abbreviation mk_rule :: "string \<Rightarrow> string list \<Rightarrow> string list \<Rightarrow> PolicyRule" where
  "mk_rule g res vs \<equiv> \<lparr>rule_APIGroups = [g], rule_Resources = res, rule_Verbs = vs\<rparr>"

definition expectedRules :: "PolicyRule list" where
  "expectedRules =
     [mk_rule ''serving.knative.dev'' [''services'', ''routes''] all_verbs,
      mk_rule ''eventing.knative.dev'' [''triggers''] all_verbs,
      mk_rule ''apps'' [''deployments'', ''replicasets''] all_verbs,
      mk_rule '''' [''services'', ''pods''] all_verbs,
      mk_rule '''' [''secrets''] [''get'', ''list''],
      mk_rule ''http.keda.sh'' [''httpscaledobjects''] all_verbs,
      mk_rule ''keda.sh'' [''scaledobjects'', ''triggerauthentications'']
        [''create'', ''delete'', ''get'', ''list'', ''update'']]"

definition expectedRole :: "string \<Rightarrow> Role" where
  "expectedRole namespace =
     \<lparr>role_Meta = new_meta deployFunctionRoleName namespace, role_Rules = expectedRules\<rparr>"

definition ensureDeployFunctionRole :: "'w FunctionReconciler \<Rightarrow> string \<Rightarrow> ('w, goerr option) run" where
  "ensureDeployFunctionRole r namespace = do {
     let key = nsn namespace deployFunctionRoleName;
     res \<leftarrow> call (CGetRole key) (k_GetRole (fr_Client r) key);
     case res of
       Inl err \<Rightarrow>
         if IsNotFound err then do {
           err \<leftarrow> call (CCreateRole (expectedRole namespace)) (k_CreateRole (fr_Client r) (expectedRole namespace));
           case err of
             Some e \<Rightarrow> ret (Some (Errorf ''failed to create role: '' e))
           | None \<Rightarrow> ret None
         }
         else ret (Some (Errorf ''failed to get role: '' err))
     | Inr foundRole \<Rightarrow>
         if \<not> l_RulesDeepEqual (fr_Library r) expectedRules (role_Rules foundRole) then do {
           let foundRole = foundRole\<lparr>role_Rules := expectedRules\<rparr>;
           err \<leftarrow> call (CUpdateRole foundRole) (k_UpdateRole (fr_Client r) foundRole);
           case err of
             Some e \<Rightarrow> ret (Some (Errorf ''failed to update role: '' e))
           | None \<Rightarrow> ret None
         }
         else ret None
   }"

definition expectedSubjects :: "Function \<Rightarrow> Subject list" where
  "expectedSubjects f =
     [\<lparr>subj_Kind = ''ServiceAccount'', subj_Name = ''default'', subj_Namespace = fn_Namespace f\<rparr>]"

definition expectedRoleRef :: RoleRef where
  "expectedRoleRef =
     \<lparr>rr_APIGroup = ''rbac.authorization.k8s.io'', rr_Kind = ''Role'', rr_Name = deployFunctionRoleName\<rparr>"

text \<open>
  The update of an existing binding: each of the three tests replaces its part and sets
  \<open>needsUpdate\<close>, the second component of the result.
\<close>

definition refresh_binding ::
  "'w FunctionReconciler \<Rightarrow> Function \<Rightarrow> RoleBinding \<Rightarrow> goerr + (RoleBinding \<times> bool)" where
  "refresh_binding r f found =
     (case l_HasOwnerReference (fr_Library r) (om_OwnerReferences (rb_Meta found)) (fn_Meta f) of
        Inl err \<Rightarrow> Inl (Errorf ''failed to check owner reference: '' err)
      | Inr hasRef \<Rightarrow>
          (case (if hasRef then Inr found else l_SetOwnerReference (fr_Library r) (fn_Meta f) found) of
             Inl err \<Rightarrow> Inl (Errorf ''failed to set owner reference: '' err)
           | Inr rb1 \<Rightarrow>
               let needsUpdate1 = (\<not> hasRef);
                   (rb2, needsUpdate2) =
                     (if \<not> l_SubjectsDeepDerivative (fr_Library r) (expectedSubjects f) (rb_Subjects rb1)
                      then (rb1\<lparr>rb_Subjects := expectedSubjects f\<rparr>, True) else (rb1, needsUpdate1));
                   (rb3, needsUpdate3) =
                     (if \<not> l_RoleRefDeepDerivative (fr_Library r) expectedRoleRef (rb_RoleRef rb2)
                      then (rb2\<lparr>rb_RoleRef := expectedRoleRef\<rparr>, True) else (rb2, needsUpdate2))
               in Inr (rb3, needsUpdate3)))"

definition ensureDeployFunctionRoleBinding :: "'w FunctionReconciler \<Rightarrow> Function \<Rightarrow> ('w, goerr option) run" where
  "ensureDeployFunctionRoleBinding r f = do {
     let key = nsn (fn_Namespace f) deployFunctionRoleBindingName;
     res \<leftarrow> call (CGetRoleBinding key) (k_GetRoleBinding (fr_Client r) key);
     case res of
       Inl err \<Rightarrow>
         if IsNotFound err then
           (case l_SetOwnerReference (fr_Library r) (fn_Meta f)
                   \<lparr>rb_Meta = new_meta deployFunctionRoleBindingName (fn_Namespace f),
                    rb_RoleRef = expectedRoleRef, rb_Subjects = expectedSubjects f\<rparr> of
              Inl e \<Rightarrow> ret (Some (Errorf ''failed to set owner reference: '' e))
            | Inr rb \<Rightarrow> do {
                err \<leftarrow> call (CCreateRoleBinding rb) (k_CreateRoleBinding (fr_Client r) rb);
                case err of
                  Some e \<Rightarrow> ret (Some (Errorf ''failed to create role binding: '' e))
                | None \<Rightarrow> ret None
              })
         else ret (Some (Errorf ''failed to get role binding: '' err))
     | Inr foundRoleBinding \<Rightarrow>
         (case refresh_binding r f foundRoleBinding of
            Inl e \<Rightarrow> ret (Some e)
          | Inr (rb, needsUpdate) \<Rightarrow>
              if needsUpdate then do {
                err \<leftarrow> call (CUpdateRoleBinding rb) (k_UpdateRoleBinding (fr_Client r) rb);
                case err of
                  Some e \<Rightarrow> ret (Some (Errorf ''failed to update role binding: '' e))
                | None \<Rightarrow> ret None
              }
              else ret None)
   }"

definition setupPipelineRBAC :: "'w FunctionReconciler \<Rightarrow> Function \<Rightarrow> ('w, goerr option) run" where
  "setupPipelineRBAC r f = do {
     err \<leftarrow> ensureDeployFunctionRole r (fn_Namespace f);
     case err of
       Some e \<Rightarrow> ret (Some (Errorf ''failed to ensure deploy-function role: '' e))
     | None \<Rightarrow> do {
         err \<leftarrow> ensureDeployFunctionRoleBinding r f;
         case err of
           Some e \<Rightarrow> ret (Some (Errorf ''failed to ensure deploy-function role binding: '' e))
         | None \<Rightarrow> ret None
       }
   }"

end
