(* ===== verification/FunctionDeploy.thy ===== *)
theory FunctionDeploy
  imports PipelineRbac
begin

text \<open>
  Deploying a function, \<open>internal/controller/function_deploy.go\<close>: the pipeline's RBAC first, then the
  registry credentials in a temporary file, then \<open>func deploy\<close>. The deferred removal of the file runs
  when \<open>deploy\<close> returns. Closing the file descriptor has no effect the model can see.
\<close>

definition SecretTypeDockerConfigJson :: string where
  "SecretTypeDockerConfigJson = ''kubernetes.io/dockerconfigjson''"

definition DockerConfigJsonKey :: string where
  "DockerConfigJsonKey = ''.dockerconfigjson''"

definition persistRegistryAuthSecret :: "'w FunctionReconciler \<Rightarrow> string \<Rightarrow> ('w, goerr + string) run" where
  "persistRegistryAuthSecret r secretName = do {
     function \<leftarrow> gets rs_fn;
     let key = nsn (fn_Namespace function) secretName;
     res \<leftarrow> call (CGetSecret key) (k_GetSecret (fr_Client r) key);
     case res of
       Inl err \<Rightarrow> ret (Inl (Errorf ''failed to get registry auth secret: '' err))
     | Inr authSecret \<Rightarrow>
         if sec_Type authSecret \<noteq> SecretTypeDockerConfigJson then
           ret (Inl (ErrorString (''invalid registry auth secret type, must be of type '' @ SecretTypeDockerConfigJson)))
         else
           (case map_of (sec_Data authSecret) DockerConfigJsonKey of
              None \<Rightarrow> ret (Inl (ErrorString (''invalid registry auth secret data, must contain key '' @ DockerConfigJsonKey)))
            | Some content \<Rightarrow> do {
                res \<leftarrow> call (CCreateTemp ''auth-file-*.json'') (p_CreateTemp (fr_Platform r) ''auth-file-*.json'');
                case res of
                  Inl err \<Rightarrow> ret (Inl (Errorf ''failed to create temp auth file: '' err))
                | Inr authFile \<Rightarrow> do {
                    err \<leftarrow> call (CWriteFile authFile content) (p_WriteFile (fr_Platform r) authFile content);
                    case err of
                      Some e \<Rightarrow> ret (Inl (Errorf ''failed to write temp auth file: '' e))
                    | None \<Rightarrow> ret (Inr authFile)
                  }
              })
   }"

text \<open>The call of the CLI manager, the last part of \<open>deploy\<close>.\<close>

definition run_deploy :: "'w FunctionReconciler \<Rightarrow> Repository \<Rightarrow> DeployOptions \<Rightarrow> ('w, goerr option) run" where
  "run_deploy r repo deployOptions = do {
     function \<leftarrow> gets rs_fn;
     let path = Repository_Path repo;
     err \<leftarrow> call (CDeploy path (fn_Namespace function) deployOptions)
              (fcm_Deploy (fr_FuncCliManager r) path (fn_Namespace function) deployOptions);
     case err of
       Some e \<Rightarrow> ret (Some (Errorf ''failed to deploy function: '' e))
     | None \<Rightarrow> ret None
   }"

definition deploy :: "'w FunctionReconciler \<Rightarrow> Repository \<Rightarrow> ('w, goerr option) run" where
  "deploy r repo = do {
     function \<leftarrow> gets rs_fn;
     err \<leftarrow> setupPipelineRBAC r function;
     case err of
       Some e \<Rightarrow> ret (Some (Errorf ''failed to setup pipeline RBAC: '' e))
     | None \<Rightarrow>
         (case registry_AuthSecretRef (spec_Registry (fn_Spec function)) of
            None \<Rightarrow> run_deploy r repo \<lparr>opt_RegistryAuthFile = [], opt_ImagePullSecret = []\<rparr>
          | Some secretName \<Rightarrow>
              if secretName = [] then run_deploy r repo \<lparr>opt_RegistryAuthFile = [], opt_ImagePullSecret = []\<rparr>
              else do {
                res \<leftarrow> persistRegistryAuthSecret r secretName;
                case res of
                  Inl e \<Rightarrow> ret (Some (Errorf ''failed to persist registry auth secret temporarily: '' e))
                | Inr authFile \<Rightarrow> do {
                    err \<leftarrow> run_deploy r repo
                             \<lparr>opt_RegistryAuthFile = authFile, opt_ImagePullSecret = secretName\<rparr>;
                    _ \<leftarrow> call (CRemove authFile) (p_Remove (fr_Platform r) authFile);
                    ret err
                  }
              })
   }"

end
