(* ===== verification/FunctionController.thy ===== *)
theory FunctionController
  imports FunctionDeploy
begin

text \<open>
  The Function controller: \<open>internal/controller/function_controller.go\<close>, the event predicate of
  \<open>function_predicate.go\<close> and the default configuration of \<open>controller_config.go\<close>. The result
  \<open>ctrl.Result{}\<close> of \<open>Reconcile\<close> is always empty, so its model returns the error alone.
\<close>

section \<open>Annotations\<close>

definition funcAnnotationPrefix :: string where
  "funcAnnotationPrefix = ''functions.knative.dev/''"

definition funcAnnotationLastDeployed :: string where
  "funcAnnotationLastDeployed = funcAnnotationPrefix @ ''last-deployed''"

definition controllerConfigName :: string where
  "controllerConfigName = ''func-operator-controller-config''"

definition hasFuncAnnotations :: "ObjectMeta \<Rightarrow> bool" where
  "hasFuncAnnotations m = list_ex (\<lambda>key. HasPrefix key funcAnnotationPrefix) (keys (om_Annotations m))"

text \<open>\<open>FuncAnnotationChangedPredicate.Update\<close>: the old and the new object of the event.\<close>

definition FuncAnnotationChanged_Update :: "ObjectMeta option \<Rightarrow> ObjectMeta option \<Rightarrow> bool" where
  "FuncAnnotationChanged_Update objectOld objectNew =
     (case objectNew of None \<Rightarrow> False | Some m \<Rightarrow> hasFuncAnnotations m)"

definition strip_func_annotations :: "string gomap \<Rightarrow> string gomap" where
  "strip_func_annotations annotations =
     fold (\<lambda>key m. if HasPrefix key funcAnnotationPrefix then map_delete key m else m)
       (keys annotations) annotations"

definition applyLastDeployedAnnotation :: "'w FunctionReconciler \<Rightarrow> ('w, unit) run" where
  "applyLastDeployedAnnotation r = do {
     function \<leftarrow> gets rs_fn;
     case map_of (om_Annotations (fn_Meta function)) funcAnnotationLastDeployed of
       None \<Rightarrow> ret ()
     | Some val \<Rightarrow>
         (case l_ParseRFC3339 (fr_Library r) val of
            Inl err \<Rightarrow> ret ()
          | Inr t \<Rightarrow> do {
              modify_status (\<lambda>s. s\<lparr>st_Deployment := (st_Deployment s)\<lparr>dep_ImageBuilt := t\<rparr>\<rparr>);
              clk \<leftarrow> read_clock r;
              modify_fn (RecordHistoryEvent (l_SortSlice (fr_Library r)) (clk 0)
                ''Function was deployed/redeployed'' [WithHistoryEventTime t])
            })
   }"

definition remove_attempt :: "'w FunctionReconciler \<Rightarrow> ('w, goerr option) run" where
  "remove_attempt r = do {
     function \<leftarrow> gets rs_fn;
     let key = nsn (fn_Namespace function) (fn_Name function);
     res \<leftarrow> call (CGetFunction key) (k_GetFunction (fr_Client r) key);
     case res of
       Inl err \<Rightarrow> ret (Some err)
     | Inr latest \<Rightarrow>
         if \<not> hasFuncAnnotations (fn_Meta latest) then ret None
         else do {
           let annotations = strip_func_annotations (om_Annotations (fn_Meta latest));
           let latest = latest\<lparr>fn_Meta := (fn_Meta latest)\<lparr>om_Annotations := annotations\<rparr>\<rparr>;
           call (CUpdateFunction latest) (k_UpdateFunction (fr_Client r) latest)
         }
   }"

definition removeFuncAnnotations :: "'w FunctionReconciler \<Rightarrow> ('w, goerr option) run" where
  "removeFuncAnnotations r = l_RetryOnConflict (fr_Library r) (remove_attempt r)"

section \<open>The source\<close>

definition prepareSource :: "'w FunctionReconciler \<Rightarrow> ('w, goerr + (Repository \<times> FuncMetadata)) run" where
  "prepareSource r = do {
     function \<leftarrow> gets rs_fn;
     let repository = spec_Repository (fn_Spec function);
     auth \<leftarrow> (case repo_AuthSecretRef repository of
                None \<Rightarrow> ret (Inr [])
              | Some name \<Rightarrow> do {
                  let key = nsn (fn_Namespace function) name;
                  res \<leftarrow> call (CGetSecret key) (k_GetSecret (fr_Client r) key);
                  case res of
                    Inl err \<Rightarrow> do {
                      mark r (\<lambda>ssc t. MarkSourceNotReady ssc t ''AuthSecretNotFound''
                                         (''Auth secret not found: '' @ err_Error err));
                      ret (Inl err)
                    }
                  | Inr secret \<Rightarrow> ret (Inr (sec_Data secret))
                });
     case auth of
       Inl err \<Rightarrow> ret (Inl err)
     | Inr gitAuthSecret \<Rightarrow> do {
         res \<leftarrow> call (CCloneRepository (repo_URL repository) (repo_Dir repository) (repo_Revision repository) gitAuthSecret)
                  (gm_CloneRepository (fr_GitManager r) (repo_URL repository) (repo_Dir repository)
                     (repo_Revision repository) gitAuthSecret);
         case res of
           Inl err \<Rightarrow> do {
             mark r (\<lambda>ssc t. MarkSourceNotReady ssc t ''GitCloneFailed''
                                (''Failed to clone repository: '' @ err_Error err));
             ret (Inl (Errorf ''failed to setup git repository: '' err))
           }
         | Inr repo \<Rightarrow> do {
             let path = Repository_Path repo;
             res \<leftarrow> call (CNewFunction path) (p_NewFunction (fr_Platform r) path);
             case res of
               Inl err \<Rightarrow> do {
                 mark r (\<lambda>ssc t. MarkSourceNotReady ssc t ''MetadataReadFailed''
                                    (''Failed to read function metadata: '' @ err_Error err));
                 ret (Inl (Errorf ''failed to get function metadata: '' err))
               }
             | Inr metadata \<Rightarrow> do {
                 mark r MarkSourceReady;
                 clk \<leftarrow> read_clock r;
                 modify_status (\<lambda>s. s\<lparr>st_Git :=
                   \<lparr>git_ResolvedRevision = repository_Revision repo,
                    git_ObservedCommit = repository_Commit repo,
                    git_LastChecked = clk 0\<rparr>\<rparr>);
                 ret (Inr (repo, metadata))
               }
           }
       }
   }"

text \<open>\<open>Repository.Cleanup\<close>, whose error the deferred call drops.\<close>

definition Repository_Cleanup :: "'w FunctionReconciler \<Rightarrow> Repository \<Rightarrow> ('w, goerr option) run" where
  "Repository_Cleanup r repo = do {
     _ \<leftarrow> (if repository_knownHostFile repo \<noteq> [] then
             call (CRemove (repository_knownHostFile repo)) (p_Remove (fr_Platform r) (repository_knownHostFile repo))
           else ret None);
     call (CRemoveAll (repository_CloneDir repo)) (p_RemoveAll (fr_Platform r) (repository_CloneDir repo))
   }"

section \<open>The middleware\<close>

record autoUpdateStatus =
  aus_enabled :: bool
  aus_source :: string

record middlewareInfo =
  mi_currentImage :: string
  mi_currentRevision :: string
  mi_serviceReady :: string
  mi_currentVersion :: string
  mi_serviceUrl :: string
  mi_autoUpdate :: autoUpdateStatus

text \<open>The sealed interface \<open>middlewareCheck\<close>: an outdated middleware also has the available version.\<close>

datatype middlewareCheck =
    middlewareUpToDate middlewareInfo
  | middlewareOutdated middlewareInfo string

definition isMiddlewareUpdateEnabled :: "'w FunctionReconciler \<Rightarrow> Function \<Rightarrow> ('w, goerr + (bool \<times> string)) run" where
  "isMiddlewareUpdateEnabled r function =
     (case spec_AutoUpdateMiddleware (fn_Spec function) of
        Some b \<Rightarrow> ret (Inr (b, ''function''))
      | None \<Rightarrow> do {
          let key = nsn (fr_OperatorNamespace r) controllerConfigName;
          res \<leftarrow> call (CGetConfigMap key) (k_GetConfigMap (fr_Client r) key);
          case res of
            Inl err \<Rightarrow> ret (Inl (Errorf ''failed to get operator config configmap: '' err))
          | Inr cm \<Rightarrow>
              (case map_of (cm_Data cm) ''autoUpdateMiddleware'' of
                 None \<Rightarrow> ret (Inr (True, ''operator''))
               | Some val \<Rightarrow>
                   (case ParseBool val of
                      None \<Rightarrow> ret (Inl (Errorf ''failed to parse autoUpdateMiddleware value from configmap: ''
                                (ErrorString (''strconv.ParseBool: parsing '' @ Quote val @ '': invalid syntax''))))
                    | Some boolVal \<Rightarrow> ret (Inr (boolVal, ''operator''))))
        })"

definition getAutoUpdateStatus :: "'w FunctionReconciler \<Rightarrow> Function \<Rightarrow> ('w, goerr + autoUpdateStatus) run" where
  "getAutoUpdateStatus r function = do {
     res \<leftarrow> isMiddlewareUpdateEnabled r function;
     case res of
       Inl err \<Rightarrow> ret (Inl err)
     | Inr (enabled, source) \<Rightarrow> ret (Inr \<lparr>aus_enabled = enabled, aus_source = source\<rparr>)
   }"

definition mk_info :: "Instance \<Rightarrow> autoUpdateStatus \<Rightarrow> middlewareInfo" where
  "mk_info desc autoUpdate =
     \<lparr>mi_currentImage = inst_Image desc, mi_currentRevision = inst_Revision desc,
      mi_serviceReady = inst_Ready desc, mi_currentVersion = inst_MiddlewareVersion desc,
      mi_serviceUrl = inst_Route desc, mi_autoUpdate = autoUpdate\<rparr>"

definition checkMiddlewareState ::
  "'w FunctionReconciler \<Rightarrow> FuncMetadata \<Rightarrow> Instance \<Rightarrow> ('w, goerr + middlewareCheck) run" where
  "checkMiddlewareState r metadata desc = do {
     function \<leftarrow> gets rs_fn;
     res \<leftarrow> getAutoUpdateStatus r function;
     case res of
       Inl err \<Rightarrow> ret (Inl (Errorf ''failed to check middleware update setting: '' err))
     | Inr autoUpdate \<Rightarrow> do {
         res \<leftarrow> call (CGetLatest (md_Runtime metadata) (md_Invoke metadata))
                  (fcm_GetLatestMiddlewareVersion (fr_FuncCliManager r) (md_Runtime metadata) (md_Invoke metadata));
         case res of
           Inl err \<Rightarrow> ret (Inl (Errorf ''failed to get latest middleware version: '' err))
         | Inr latestVersion \<Rightarrow>
             if latestVersion = inst_MiddlewareVersion desc
             then ret (Inr (middlewareUpToDate (mk_info desc autoUpdate)))
             else ret (Inr (middlewareOutdated (mk_info desc autoUpdate) latestVersion))
       }
   }"

definition markServiceStatus :: "'w FunctionReconciler \<Rightarrow> string \<Rightarrow> ('w, unit) run" where
  "markServiceStatus r ready =
     (if ToLower ready = ''true'' then mark r MarkServiceReady
      else if ToLower ready = ''false'' then
        mark r (\<lambda>ssc t. MarkServiceNotReady ssc t ''ServiceNotReady'' ''Underlying service is not ready'')
      else
        mark r (\<lambda>ssc t. MarkServiceNotReady ssc t ''ServiceReadyUnknown'' ''Underlying service readiness is unknown''))"

text \<open>The status assignments that both cases of the type switch begin with.\<close>

definition record_check :: "middlewareInfo \<Rightarrow> FunctionStatus \<Rightarrow> FunctionStatus" where
  "record_check check s = s\<lparr>
     st_Deployment := (st_Deployment s)\<lparr>dep_Image := mi_currentImage check, dep_Revision := mi_currentRevision check\<rparr>,
     st_Middleware := (st_Middleware s)\<lparr>
        mw_Current := mi_currentVersion check,
        mw_AutoUpdate := \<lparr>au_Enabled = aus_enabled (mi_autoUpdate check), au_Source = aus_source (mi_autoUpdate check)\<rparr>,
        mw_PendingRebuild := False\<rparr>,
     st_Service := \<lparr>svc_URL = mi_serviceUrl check, svc_Ready = mi_serviceReady check\<rparr>\<rparr>"

definition set_available :: "string option \<Rightarrow> FunctionStatus \<Rightarrow> FunctionStatus" where
  "set_available v s = s\<lparr>st_Middleware := (st_Middleware s)\<lparr>mw_Available := v\<rparr>\<rparr>"

definition set_pending :: "bool \<Rightarrow> FunctionStatus \<Rightarrow> FunctionStatus" where
  "set_pending b s = s\<lparr>st_Middleware := (st_Middleware s)\<lparr>mw_PendingRebuild := b\<rparr>\<rparr>"

text \<open>The status assignments after a redeployment; \<open>t0\<close> and \<open>t1\<close> are the two readings of the clock.\<close>

definition record_rebuild :: "Instance \<Rightarrow> time \<Rightarrow> time \<Rightarrow> FunctionStatus \<Rightarrow> FunctionStatus" where
  "record_rebuild desc t0 t1 s = s\<lparr>
     st_Deployment := (st_Deployment s)\<lparr>dep_Image := inst_Image desc, dep_ImageBuilt := t1\<rparr>,
     st_Middleware := (st_Middleware s)\<lparr>
        mw_Current := inst_MiddlewareVersion desc, mw_PendingRebuild := False,
        mw_LastRebuild := t0, mw_Available := None\<rparr>,
     st_Service := \<lparr>svc_URL = inst_Route desc, svc_Ready = inst_Ready desc\<rparr>\<rparr>"

text \<open>The \<open>else\<close> branch of the outdated case: announce the rebuild, deploy, describe again.\<close>

definition rebuild :: "'w FunctionReconciler \<Rightarrow> Repository \<Rightarrow> FuncMetadata \<Rightarrow> middlewareInfo \<Rightarrow> string \<Rightarrow> ('w, goerr option) run" where
  "rebuild r repo metadata check availableVersion = do {
     mark r (\<lambda>ssc t. MarkMiddlewareNotUpToDate ssc t ''MiddlewareOutdated''
                       (''Middleware is outdated ('' @ availableVersion @ '' available), redeploying...''));
     modify_status (set_pending True);
     _ \<leftarrow> FlushStatus r;
     err \<leftarrow> deploy r repo;
     case err of
       Some e \<Rightarrow> do {
         mark r (\<lambda>ssc t. MarkDeployNotReady ssc t ''DeployFailed'' (''Redeployment failed: '' @ err_Error e));
         ret (Some (Errorf ''failed to redeploy function: '' e))
       }
     | None \<Rightarrow> do {
         function \<leftarrow> gets rs_fn;
         res \<leftarrow> call (CDescribe (md_Name metadata) (fn_Namespace function))
                  (fcm_Describe (fr_FuncCliManager r) (md_Name metadata) (fn_Namespace function));
         case res of
           Inl e \<Rightarrow> ret (Some (Errorf ''failed to describe function after deploy: '' e))
         | Inr desc \<Rightarrow> do {
             clk \<leftarrow> read_clock r;
             modify_status (record_rebuild desc (clk 0) (clk 1));
             markServiceStatus r (inst_Ready desc);
             clk \<leftarrow> read_clock r;
             modify_fn (RecordHistoryEvent (l_SortSlice (fr_Library r)) (clk 0)
               (''Middleware updated from '' @ Quote (mi_currentVersion check) @ '' to '' @ Quote availableVersion) []);
             mark r MarkMiddlewareUpToDate;
             ret None
           }
       }
   }"

definition handleMiddlewareUpdate ::
  "'w FunctionReconciler \<Rightarrow> Repository \<Rightarrow> FuncMetadata \<Rightarrow> Instance \<Rightarrow> ('w, goerr option) run" where
  "handleMiddlewareUpdate r repo metadata desc = do {
     res \<leftarrow> checkMiddlewareState r metadata desc;
     case res of
       Inl err \<Rightarrow> do {
         mark r (\<lambda>ssc t. MarkMiddlewareNotUpToDate ssc t ''MiddlewareCheckFailed''
                           (''Failed to check middleware: '' @ err_Error err));
         ret (Some err)
       }
     | Inr check \<Rightarrow> do {
         err \<leftarrow> (case check of
                   middlewareUpToDate info \<Rightarrow> do {
                     modify_status (record_check info);
                     markServiceStatus r (mi_serviceReady info);
                     mark r MarkMiddlewareUpToDate;
                     ret None
                   }
                 | middlewareOutdated info availableVersion \<Rightarrow> do {
                     modify_status (set_available (Some availableVersion) \<circ> record_check info);
                     markServiceStatus r (mi_serviceReady info);
                     if \<not> aus_enabled (mi_autoUpdate info) then do {
                       mark r (\<lambda>ssc t. MarkMiddlewareNotUpToDateIntentionally ssc t ''SkipMiddlewareUpdate''
                                 (''Skipping middleware update as update is disabled (source: ''
                                    @ aus_source (mi_autoUpdate info) @ '')''));
                       ret None
                     }
                     else rebuild r repo metadata info availableVersion
                   });
         case err of
           Some e \<Rightarrow> ret (Some e)
         | None \<Rightarrow> do { mark r MarkDeployReady; ret None }
       }
   }"

section \<open>The reconcile loop\<close>

definition reconcileDeployment :: "'w FunctionReconciler \<Rightarrow> Repository \<Rightarrow> FuncMetadata \<Rightarrow> ('w, goerr option) run" where
  "reconcileDeployment r repo metadata = do {
     function \<leftarrow> gets rs_fn;
     res \<leftarrow> call (CDescribe (md_Name metadata) (fn_Namespace function))
              (fcm_Describe (fr_FuncCliManager r) (md_Name metadata) (fn_Namespace function));
     case res of
       Inl err \<Rightarrow>
         if Is_ErrFunctionNotFound err then do {
           mark r (\<lambda>ssc t. MarkDeployNotReady ssc t ''NotDeployed'' ''Function not deployed yet'');
           ret None
         }
         else do {
           mark r (\<lambda>ssc t. MarkDeployNotReady ssc t ''DeployFailed''
                     (''Failed to check deployment status: '' @ err_Error err));
           ret (Some (Errorf ''failed to check if function is already deployed: '' err))
         }
     | Inr initialDesc \<Rightarrow> do {
         let deployer = (if md_Deployer metadata = [] then ''knative'' else md_Deployer metadata);
         modify_status (\<lambda>s. s\<lparr>st_Deployment :=
           (st_Deployment s)\<lparr>dep_Deployer := deployer, dep_Runtime := md_Runtime metadata\<rparr>\<rparr>);
         applyLastDeployedAnnotation r;
         handleMiddlewareUpdate r repo metadata initialDesc
       }
   }"

definition reconcile :: "'w FunctionReconciler \<Rightarrow> ('w, goerr option) run" where
  "reconcile r = do {
     clk \<leftarrow> read_clock r;
     modify_fn (InitializeConditions (ssc_of r) clk);
     res \<leftarrow> prepareSource r;
     case res of
       Inl err \<Rightarrow> ret (Some (Errorf ''prepare source failed: '' err))
     | Inr (repo, metadata) \<Rightarrow> do {
         modify_status (\<lambda>s. s\<lparr>st_Name := md_Name metadata\<rparr>);
         err \<leftarrow> reconcileDeployment r repo metadata;
         result \<leftarrow> (case err of
                      Some e \<Rightarrow> ret (Some (Errorf ''deploying function failed: '' e))
                    | None \<Rightarrow> do {
                        err \<leftarrow> removeFuncAnnotations r;
                        case err of
                          Some e \<Rightarrow> ret (Some (Errorf ''failed to remove func annotations: '' e))
                        | None \<Rightarrow> ret None
                      });
         _ \<leftarrow> Repository_Cleanup r repo;
         ret result
       }
   }"

definition Reconcile :: "'w FunctionReconciler \<Rightarrow> nsname \<Rightarrow> ('w, goerr option) run" where
  "Reconcile r req = do {
     res \<leftarrow> call (CGetFunction req) (k_GetFunction (fr_Client r) req);
     case res of
       Inl err \<Rightarrow> if IsNotFound err then ret None else ret (Some err)
     | Inr original \<Rightarrow> do {
         modify (\<lambda>s. s\<lparr>rs_fn := Function_SetDefaults original\<rparr>);
         function \<leftarrow> gets rs_fn;
         WithStatusTracker (NewStatusTracker function);
         reconcileErr \<leftarrow> reconcile r;
         flushErr \<leftarrow> FlushStatus r;
         case flushErr of
           Some e \<Rightarrow> ret (Some e)
         | None \<Rightarrow> ret reconcileErr
       }
   }"

section \<open>The watch on the operator configuration\<close>

text \<open>The predicates of \<open>SetupWithManager\<close> on ConfigMap events.\<close>

definition watches_configmap :: "'w FunctionReconciler \<Rightarrow> ObjectMeta \<Rightarrow> bool" where
  "watches_configmap r obj \<longleftrightarrow> om_Name obj = controllerConfigName \<and> om_Namespace obj = fr_OperatorNamespace r"

definition findFunctionsForConfigMap :: "'w FunctionReconciler \<Rightarrow> ('w, nsname list) run" where
  "findFunctionsForConfigMap r = do {
     res \<leftarrow> call CListFunctions (k_ListFunctions (fr_Client r));
     case res of
       Inl err \<Rightarrow> ret []
     | Inr items \<Rightarrow>
         ret (map (\<lambda>function. nsn (fn_Namespace function) (fn_Name function))
                (filter (\<lambda>function. spec_AutoUpdateMiddleware (fn_Spec function) = None) items))
   }"

section \<open>The default configuration\<close>

definition defaultAutoUpdateMiddleware :: string where
  "defaultAutoUpdateMiddleware = ''true''"

definition consolePluginConfigKey :: string where
  "consolePluginConfigKey = ''consolePluginEnabled''"

definition defaultConfigMap :: "string \<Rightarrow> ConfigMap" where
  "defaultConfigMap namespace =
     \<lparr>cm_Meta = new_meta controllerConfigName namespace,
      cm_Data = [(''autoUpdateMiddleware'', defaultAutoUpdateMiddleware), (consolePluginConfigKey, ''true'')]\<rparr>"

definition EnsureDefaultConfigMap :: "'w KubeClient \<Rightarrow> string \<Rightarrow> ('w, goerr option) state" where
  "EnsureDefaultConfigMap clientset namespace = do {
     res \<leftarrow> k_GetConfigMap clientset (nsn namespace controllerConfigName);
     case res of
       Inr cm \<Rightarrow> ret None
     | Inl err \<Rightarrow>
         if \<not> IsNotFound err then
           ret (Some (Errorf (''checking for ConfigMap '' @ namespace @ ''/'' @ controllerConfigName @ '': '') err))
         else do {
           err \<leftarrow> k_CreateConfigMap clientset (defaultConfigMap namespace);
           case err of
             Some e \<Rightarrow>
               if IsAlreadyExists e then ret None
               else ret (Some (Errorf (''creating default ConfigMap '' @ namespace @ ''/'' @ controllerConfigName @ '': '') e))
           | None \<Rightarrow> ret None
         }
   }"

end
