(* ===== verification/ReconcileProtocol.thy ===== *)
theory ReconcileProtocol
  imports FunctionController
begin

text \<open>
  What a reconcile of a Function may do, and in which order: an abstract machine over the calls of
  \<open>ReconcileEnv\<close> with their answers. A phase says how far the reconcile has come and carries what it
  has learnt so far; \<open>advance\<close> gives the next phase, \<open>PBad\<close> for a call that is out of order, has
  the wrong arguments, or is not justified by the answers before it. The refinement lemmas show that
  every run of the handlers of \<open>FunctionController\<close>, \<open>FunctionDeploy\<close> and \<open>PipelineRbac\<close> is a
  run of the machine; what the machine excludes, the controller therefore never does.

  \<^item> \<open>PFetched\<close> to \<open>PRead\<close>: the credentials, the clone, \<open>func.yaml\<close>.
  \<^item> \<open>PDescribed\<close> to \<open>PChecked\<close>: the deployed instance, the setting of the middleware update, the
    latest middleware version.
  \<^item> \<open>POutdated\<close> to \<open>PDeployed\<close>: the rebuild, reached only when the versions differ and the update is
    enabled: status, role, role binding, registry credentials, deployment.
  \<^item> \<open>PStrip\<close>, \<open>PCleanup\<close> and \<open>PFinal\<close>: the annotations, the removal of the clone, the status.
\<close>

section \<open>The machine\<close>

text \<open>What is known when a rebuild begins.\<close>

record Job =
  job_fn :: Function
  job_repo :: Repository
  job_md :: FuncMetadata
  job_desc :: Instance
  job_version :: string

datatype Phase =
    PStart nsname
  | PGone
  | PFetched Function
  | PAuthorised Function "string gomap"
  | PCloned Function Repository
  | PRead Function Repository FuncMetadata
  | PDescribed Function Repository FuncMetadata Instance
  | PConfigured Function Repository FuncMetadata Instance bool
  | POutdated Job
  | PNoRole Job
  | PStaleRole Job Role
  | PRoleReady Job
  | PNoBinding Job RoleBinding
  | PStaleBinding Job RoleBinding
  | PRbacReady Job
  | PCredentials Job string string
  | PTemp Job string string string
  | PAuthFile Job string string
  | PUsedAuth Job string bool
  | PDeployed Job
  | PStrip Function Repository "Function option"
  | PCleanup Function Repository
  | PUnlinked Function Repository
  | PFinal Function
  | PBad

abbreviation fn_key :: "Function \<Rightarrow> nsname" where
  "fn_key f \<equiv> nsn (fn_Namespace f) (fn_Name f)"

abbreviation job_ns :: "Job \<Rightarrow> string" where
  "job_ns j \<equiv> fn_Namespace (job_fn j)"

text \<open>The phase after a step that gives the rebuild up, or goes on.\<close>

definition give_up :: "Job \<Rightarrow> Phase" where
  "give_up j = PCleanup (job_fn j) (job_repo j)"

definition go_on :: "Job \<Rightarrow> Phase \<Rightarrow> goerr option \<Rightarrow> Phase" where
  "go_on j p a = (if a = None then p else give_up j)"

definition cloning :: "Function \<Rightarrow> string gomap \<Rightarrow> Call \<Rightarrow> Phase" where
  "cloning f auth c = (case c of
     CCloneRepository url dir revision data a \<Rightarrow>
       (let R = spec_Repository (fn_Spec f) in
        if url = repo_URL R \<and> dir = repo_Dir R \<and> revision = repo_Revision R \<and> data = auth
        then (case a of Inl e \<Rightarrow> PFinal f | Inr repo \<Rightarrow> PCloned f repo) else PBad)
   | _ \<Rightarrow> PBad)"

text \<open>The setting that decides: the function's own, or else the operator's.\<close>

definition operator_setting :: "ConfigMap \<Rightarrow> bool option" where
  "operator_setting cm =
     (case map_of (cm_Data cm) ''autoUpdateMiddleware'' of None \<Rightarrow> Some True | Some v \<Rightarrow> ParseBool v)"

definition checking_mw :: "Function \<Rightarrow> Repository \<Rightarrow> FuncMetadata \<Rightarrow> Instance \<Rightarrow> bool \<Rightarrow> Call \<Rightarrow> Phase" where
  "checking_mw f repo md desc enabled c = (case c of
     CGetLatest runtime invoke a \<Rightarrow>
       if runtime = md_Runtime md \<and> invoke = md_Invoke md
       then (case a of Inl e \<Rightarrow> PCleanup f repo
             | Inr v \<Rightarrow> if v \<noteq> inst_MiddlewareVersion desc \<and> enabled
                        then POutdated \<lparr>job_fn = f, job_repo = repo, job_md = md, job_desc = desc, job_version = v\<rparr>
                        else PStrip f repo None)
       else PBad
   | _ \<Rightarrow> PBad)"

definition cleaning :: "Function \<Rightarrow> Repository \<Rightarrow> Call \<Rightarrow> Phase" where
  "cleaning f repo c = (case c of
     CRemove path a \<Rightarrow>
       if repository_knownHostFile repo \<noteq> [] \<and> path = repository_knownHostFile repo then PUnlinked f repo else PBad
   | CRemoveAll path a \<Rightarrow>
       if repository_knownHostFile repo = [] \<and> path = repository_CloneDir repo then PFinal f else PBad
   | _ \<Rightarrow> PBad)"

text \<open>A status written during a rebuild announces the rebuild and the version it is for.\<close>

definition announces :: "Job \<Rightarrow> FunctionStatus \<Rightarrow> bool" where
  "announces j st \<longleftrightarrow> mw_PendingRebuild (st_Middleware st) \<and> mw_Available (st_Middleware st) = Some (job_version j)"

definition deploying :: "Job \<Rightarrow> DeployOptions \<Rightarrow> (goerr option \<Rightarrow> Phase) \<Rightarrow> Call \<Rightarrow> Phase" where
  "deploying j opts after c = (case c of
     CDeploy path ns o' a \<Rightarrow>
       if path = Repository_Path (job_repo j) \<and> ns = job_ns j \<and> o' = opts then after a else PBad
   | _ \<Rightarrow> PBad)"

fun advance :: "'w FunctionReconciler \<Rightarrow> Phase \<Rightarrow> Call \<Rightarrow> Phase" where
  "advance r (PStart req) c = (case c of
     CGetFunction key a \<Rightarrow>
       if key = req then (case a of Inl e \<Rightarrow> PGone | Inr f \<Rightarrow> PFetched f) else PBad
   | _ \<Rightarrow> PBad)"
| "advance r PGone c = PBad"
| "advance r (PFetched f) c = (case repo_AuthSecretRef (spec_Repository (fn_Spec f)) of
     None \<Rightarrow> cloning f [] c
   | Some n \<Rightarrow> (case c of
       CGetSecret key a \<Rightarrow>
         if key = nsn (fn_Namespace f) n
         then (case a of Inl e \<Rightarrow> PFinal f | Inr sec \<Rightarrow> PAuthorised f (sec_Data sec)) else PBad
     | _ \<Rightarrow> PBad))"
| "advance r (PAuthorised f auth) c = cloning f auth c"
| "advance r (PCloned f repo) c = (case c of
     CNewFunction path a \<Rightarrow>
       if path = Repository_Path repo then (case a of Inl e \<Rightarrow> PFinal f | Inr md \<Rightarrow> PRead f repo md) else PBad
   | _ \<Rightarrow> PBad)"
| "advance r (PRead f repo md) c = (case c of
     CDescribe name ns a \<Rightarrow>
       if name = md_Name md \<and> ns = fn_Namespace f
       then (case a of
               Inl e \<Rightarrow> if Is_ErrFunctionNotFound e then PStrip f repo None else PCleanup f repo
             | Inr desc \<Rightarrow> PDescribed f repo md desc)
       else PBad
   | _ \<Rightarrow> PBad)"
| "advance r (PDescribed f repo md desc) c = (case spec_AutoUpdateMiddleware (fn_Spec f) of
     Some enabled \<Rightarrow> checking_mw f repo md desc enabled c
   | None \<Rightarrow> (case c of
       CGetConfigMap key a \<Rightarrow>
         if key = nsn (fr_OperatorNamespace r) controllerConfigName
         then (case a of
                 Inl e \<Rightarrow> PCleanup f repo
               | Inr cm \<Rightarrow> (case operator_setting cm of
                             None \<Rightarrow> PCleanup f repo
                           | Some enabled \<Rightarrow> PConfigured f repo md desc enabled))
         else PBad
     | _ \<Rightarrow> PBad))"
| "advance r (PConfigured f repo md desc enabled) c = checking_mw f repo md desc enabled c"
| "advance r (POutdated j) c = (case c of
     CGetFunction key a \<Rightarrow> if key = fn_key (job_fn j) then POutdated j else PBad
   | CUpdateStatus g a \<Rightarrow> if announces j (fn_Status g) then POutdated j else PBad
   | CGetRole key a \<Rightarrow>
       if key = nsn (job_ns j) deployFunctionRoleName
       then (case a of
               Inl e \<Rightarrow> if IsNotFound e then PNoRole j else give_up j
             | Inr ro \<Rightarrow> if role_Rules ro = expectedRules then PRoleReady j else PStaleRole j ro)
       else PBad
   | _ \<Rightarrow> PBad)"
| "advance r (PNoRole j) c = (case c of
     CCreateRole ro a \<Rightarrow> if ro = expectedRole (job_ns j) then go_on j (PRoleReady j) a else PBad
   | _ \<Rightarrow> PBad)"
| "advance r (PStaleRole j ro) c = (case c of
     CUpdateRole ro' a \<Rightarrow> if ro' = ro\<lparr>role_Rules := expectedRules\<rparr> then go_on j (PRoleReady j) a else PBad
   | _ \<Rightarrow> PBad)"
| "advance r (PRoleReady j) c = (case c of
     CGetRoleBinding key a \<Rightarrow>
       if key = nsn (job_ns j) deployFunctionRoleBindingName
       then (case a of
               Inl e \<Rightarrow>
                 if IsNotFound e
                 then (case l_SetOwnerReference (fr_Library r) (fn_Meta (job_fn j))
                              \<lparr>rb_Meta = new_meta deployFunctionRoleBindingName (job_ns j),
                               rb_RoleRef = expectedRoleRef, rb_Subjects = expectedSubjects (job_fn j)\<rparr> of
                         Inl e \<Rightarrow> give_up j | Inr rb \<Rightarrow> PNoBinding j rb)
                 else give_up j
             | Inr rb \<Rightarrow> (case refresh_binding r (job_fn j) rb of
                 Inl e \<Rightarrow> give_up j
               | Inr (rb', stale) \<Rightarrow> if stale then PStaleBinding j rb' else PRbacReady j))
       else PBad
   | _ \<Rightarrow> PBad)"
| "advance r (PNoBinding j rb) c = (case c of
     CCreateRoleBinding rb' a \<Rightarrow> if rb' = rb then go_on j (PRbacReady j) a else PBad
   | _ \<Rightarrow> PBad)"
| "advance r (PStaleBinding j rb) c = (case c of
     CUpdateRoleBinding rb' a \<Rightarrow> if rb' = rb then go_on j (PRbacReady j) a else PBad
   | _ \<Rightarrow> PBad)"
| "advance r (PRbacReady j) c =
     (let public = deploying j \<lparr>opt_RegistryAuthFile = [], opt_ImagePullSecret = []\<rparr> (go_on j (PDeployed j)) c in
      case registry_AuthSecretRef (spec_Registry (fn_Spec (job_fn j))) of
        None \<Rightarrow> public
      | Some n \<Rightarrow> if n = [] then public
          else (case c of
            CGetSecret key a \<Rightarrow>
              if key = nsn (job_ns j) n
              then (case a of
                      Inl e \<Rightarrow> give_up j
                    | Inr sec \<Rightarrow> (case map_of (sec_Data sec) DockerConfigJsonKey of
                        Some content \<Rightarrow>
                          if sec_Type sec = SecretTypeDockerConfigJson then PCredentials j n content else give_up j
                      | None \<Rightarrow> give_up j))
              else PBad
          | _ \<Rightarrow> PBad))"
| "advance r (PCredentials j n content) c = (case c of
     CCreateTemp pat a \<Rightarrow> (case a of Inl e \<Rightarrow> give_up j | Inr file \<Rightarrow> PTemp j n content file)
   | _ \<Rightarrow> PBad)"
| "advance r (PTemp j n content file) c = (case c of
     CWriteFile file' content' a \<Rightarrow>
       if file' = file \<and> content' = content then go_on j (PAuthFile j n file) a else PBad
   | _ \<Rightarrow> PBad)"
| "advance r (PAuthFile j n file) c =
     deploying j \<lparr>opt_RegistryAuthFile = file, opt_ImagePullSecret = n\<rparr> (\<lambda>a. PUsedAuth j file (a = None)) c"
| "advance r (PUsedAuth j file ok) c = (case c of
     CRemove path a \<Rightarrow> if path = file then (if ok then PDeployed j else give_up j) else PBad
   | _ \<Rightarrow> PBad)"
| "advance r (PDeployed j) c = (case c of
     CDescribe name ns a \<Rightarrow>
       if name = md_Name (job_md j) \<and> ns = job_ns j
       then (case a of Inl e \<Rightarrow> give_up j | Inr desc \<Rightarrow> PStrip (job_fn j) (job_repo j) None)
       else PBad
   | _ \<Rightarrow> PBad)"
| "advance r (PStrip f repo latest) c = (case c of
     CGetFunction key a \<Rightarrow>
       if key = fn_key f then PStrip f repo (case a of Inl e \<Rightarrow> None | Inr g \<Rightarrow> Some g) else PBad
   | CUpdateFunction g a \<Rightarrow>
       (case latest of
          None \<Rightarrow> PBad
        | Some h \<Rightarrow>
            if hasFuncAnnotations (fn_Meta h)
              \<and> g = h\<lparr>fn_Meta := (fn_Meta h)\<lparr>om_Annotations := strip_func_annotations (om_Annotations (fn_Meta h))\<rparr>\<rparr>
            then PStrip f repo None else PBad)
   | _ \<Rightarrow> cleaning f repo c)"
| "advance r (PCleanup f repo) c = cleaning f repo c"
| "advance r (PUnlinked f repo) c = (case c of
     CRemoveAll path a \<Rightarrow> if path = repository_CloneDir repo then PFinal f else PBad
   | _ \<Rightarrow> PBad)"
| "advance r (PFinal f) c = (case c of
     CGetFunction key a \<Rightarrow> if key = fn_key f then PFinal f else PBad
   | CUpdateStatus g a \<Rightarrow> PFinal f
   | _ \<Rightarrow> PBad)"
| "advance r PBad c = PBad"

definition phase_of :: "'w FunctionReconciler \<Rightarrow> nsname \<Rightarrow> Call list \<Rightarrow> Phase" where
  "phase_of r req cs = foldl (advance r) (PStart req) cs"

lemma phase_of_snoc [simp]: "phase_of r req (cs @ [c]) = advance r (phase_of r req cs) c"
  by (simp add: phase_of_def)

section \<open>Runs that follow the machine\<close>

text \<open>\<open>at r req f p s\<close>: the calls so far lead to phase \<open>p\<close>, and the object is still \<open>f\<close> but for its status.\<close>

definition at :: "'w FunctionReconciler \<Rightarrow> nsname \<Rightarrow> Function \<Rightarrow> Phase \<Rightarrow> 'w run_state_rec \<Rightarrow> bool" where
  "at r req f p s \<longleftrightarrow> phase_of r req (rs_calls s) = p \<and> fn_Meta (rs_fn s) = fn_Meta f \<and> fn_Spec (rs_fn s) = fn_Spec f"

lemma at_world [simp]: "at r req f p (s\<lparr>rs_world := w\<rparr>) = at r req f p s"
  by (simp add: at_def)

lemma at_meta: "at r req f p s \<Longrightarrow> fn_Meta (rs_fn s) = fn_Meta f" "at r req f p s \<Longrightarrow> fn_Spec (rs_fn s) = fn_Spec f"
  by (simp_all add: at_def)

lemma at_call:
  assumes "at r req f p s"
    and "\<And>a s'. at r req f (advance r p (c a)) s' \<Longrightarrow> rs_fn s' = rs_fn s \<Longrightarrow> Q a s'"
  shows "holds (call c m) s Q"
  unfolding holds_call by (rule holds_any, rule assms(2)) (use assms(1) in \<open>auto simp: at_def\<close>)

lemma at_clock:
  "at r req f p s \<Longrightarrow> (\<And>clk s'. at r req f p s' \<Longrightarrow> rs_fn s' = rs_fn s \<Longrightarrow> Q clk s') \<Longrightarrow> holds (read_clock r) s Q"
  unfolding holds_read_clock by (rule holds_any) simp

text \<open>A change of the object that leaves its metadata and its spec alone.\<close>

definition only_status :: "(Function \<Rightarrow> Function) \<Rightarrow> bool" where
  "only_status g \<longleftrightarrow> (\<forall>h. fn_Meta (g h) = fn_Meta h \<and> fn_Spec (g h) = fn_Spec h)"

lemma only_status_intros [simp]:
  "only_status (map_status h)"
  "only_status (set_cond_of ssc t ty st rs ms)"
  "only_status (RecordHistoryEvent srt now msg opts)"
  "only_status (CalculateReadyCondition ssc t)"
  by (simp_all add: only_status_def)

lemma at_modify_fn:
  "at r req f p s \<Longrightarrow> only_status g \<Longrightarrow>
   (\<And>s'. at r req f p s' \<Longrightarrow> rs_fn s' = g (rs_fn s) \<Longrightarrow> Q () s') \<Longrightarrow> holds (modify_fn g) s Q"
  by (simp add: holds_modify_fn at_def only_status_def)

lemma at_modify_status:
  "at r req f p s \<Longrightarrow> (\<And>s'. at r req f p s' \<Longrightarrow> rs_fn s' = map_status g (rs_fn s) \<Longrightarrow> Q () s') \<Longrightarrow>
   holds (modify_status g) s Q"
  by (simp add: holds_modify_status at_def)

lemma at_mark:
  assumes "at r req f p s" and "\<And>t. only_status (g (ssc_of r) t)"
    and "\<And>t s'. at r req f p s' \<Longrightarrow> rs_fn s' = g (ssc_of r) t (rs_fn s) \<Longrightarrow> Q () s'"
  shows "holds (mark r g) s Q"
  unfolding holds_mark
  by (rule holds_any, rule assms(3)) (use assms(1,2) in \<open>auto simp: at_def only_status_def\<close>)

section \<open>The handlers follow the machine\<close>

lemma refresh_binding_cong:
  assumes "fn_Meta f = fn_Meta g"
  shows "refresh_binding r f = refresh_binding r g"
  by (intro ext) (unfold refresh_binding_def expectedSubjects_def assms, rule refl)

lemma expectedSubjects_cong: "fn_Meta f = fn_Meta g \<Longrightarrow> expectedSubjects f = expectedSubjects g"
  by (simp add: expectedSubjects_def)

lemma only_status_marks [simp]:
  "only_status (MarkSourceReady ssc t)"
  "only_status (MarkSourceNotReady ssc t rs ms)"
  "only_status (MarkDeployReady ssc t)"
  "only_status (MarkDeployNotReady ssc t rs ms)"
  "only_status (MarkMiddlewareUpToDate ssc t)"
  "only_status (MarkMiddlewareNotUpToDate ssc t rs ms)"
  "only_status (MarkMiddlewareNotUpToDateIntentionally ssc t rs ms)"
  "only_status (MarkServiceReady ssc t)"
  "only_status (MarkServiceNotReady ssc t rs ms)"
  by (simp_all add: mark_defs)

lemmas at_elims = at_call at_clock at_modify_fn at_modify_status at_mark

context reconcile_library begin

lemma ensureDeployFunctionRole_at:
 "at r req (job_fn j) (POutdated j) s \<Longrightarrow> holds (ensureDeployFunctionRole r (job_ns j)) s
   (\<lambda>res. at r req (job_fn j) (if res = None then PRoleReady j else give_up j))"
  unfolding ensureDeployFunctionRole_def holds_bind Let_def
  by (auto simp: holds_bind holds_return go_on_def rules.deepEqual_eq elim!: at_call split: sum.split option.split)

lemma ensureDeployFunctionRoleBinding_at:
 "at r req (job_fn j) (PRoleReady j) s \<Longrightarrow> fn_Meta g = fn_Meta (job_fn j) \<Longrightarrow>
   holds (ensureDeployFunctionRoleBinding r g) s
   (\<lambda>res. at r req (job_fn j) (if res = None then PRbacReady j else give_up j))"
  unfolding ensureDeployFunctionRoleBinding_def holds_bind Let_def
  by (auto simp: holds_bind holds_return go_on_def refresh_binding_cong [of g "job_fn j"] expectedSubjects_cong [of g "job_fn j"]
      elim!: at_call split: sum.split option.split sum.split_asm if_split_asm)

lemma setupPipelineRBAC_at:
 "at r req (job_fn j) (POutdated j) s \<Longrightarrow> fn_Meta g = fn_Meta (job_fn j) \<Longrightarrow>
   holds (setupPipelineRBAC r g) s
   (\<lambda>res. at r req (job_fn j) (if res = None then PRbacReady j else give_up j))"
  unfolding setupPipelineRBAC_def holds_bind
  apply (rule holds_mono, simp, erule ensureDeployFunctionRole_at)
  apply (auto simp: holds_bind holds_return split: option.split intro!: holds_mono [OF ensureDeployFunctionRoleBinding_at])
  done

lemma run_deploy_at:
  assumes "at r req (job_fn j) p s" and "\<And>c. advance r p c = deploying j opts after c"
    and "\<And>e. after (Some e) = failed"
  shows "holds (run_deploy r (job_repo j) opts) s (\<lambda>res. at r req (job_fn j) (if res = None then after None else failed))"
  unfolding run_deploy_def holds_bind holds_gets Let_def
  using assms by (auto simp: holds_bind holds_return deploying_def at_meta elim!: at_call split: option.split)

lemma deploy_at:
  assumes "at r req (job_fn j) (POutdated j) s"
  shows "holds (deploy r (job_repo j)) s (\<lambda>res. at r req (job_fn j) (if res = None then PDeployed j else give_up j))"
proof -
  have plain: "holds (run_deploy r (job_repo j) \<lparr>opt_RegistryAuthFile = [], opt_ImagePullSecret = []\<rparr>) s'
      (\<lambda>res. at r req (job_fn j) (if res = None then PDeployed j else give_up j))"
    if "at r req (job_fn j) (PRbacReady j) s'" "registry_AuthSecretRef (spec_Registry (fn_Spec (job_fn j))) = None \<or>
        registry_AuthSecretRef (spec_Registry (fn_Spec (job_fn j))) = Some []" for s'
    using run_deploy_at [of req j "PRbacReady j" s' "\<lparr>opt_RegistryAuthFile = [], opt_ImagePullSecret = []\<rparr>"
        "go_on j (PDeployed j)" "give_up j"] that 
    by (auto simp: go_on_def Let_def cong: if_cong)
  have persist: "holds (persistRegistryAuthSecret r n) s'
      (\<lambda>res s''. case res of Inl e \<Rightarrow> at r req (job_fn j) (give_up j) s'' | Inr file \<Rightarrow> at r req (job_fn j) (PAuthFile j n file) s'')"
    if "at r req (job_fn j) (PRbacReady j) s'" "registry_AuthSecretRef (spec_Registry (fn_Spec (job_fn j))) = Some n" "n \<noteq> []" for s' n
    unfolding persistRegistryAuthSecret_def holds_bind holds_gets Let_def
    using that
    by (auto simp: holds_bind holds_return at_meta go_on_def elim!: at_call split: option.split sum.split)
  have gone: "holds (persistRegistryAuthSecret r n \<bind> (\<lambda>res. case res of
        Inl e \<Rightarrow> ret (Some (Errorf ''failed to persist registry auth secret temporarily: '' e))
      | Inr authFile \<Rightarrow> do {
          err \<leftarrow> run_deploy r (job_repo j) \<lparr>opt_RegistryAuthFile = authFile, opt_ImagePullSecret = n\<rparr>;
          _ \<leftarrow> call (CRemove authFile) (p_Remove (fr_Platform r) authFile);
          ret err })) s'
      (\<lambda>res. at r req (job_fn j) (if res = None then PDeployed j else give_up j))"
    if "at r req (job_fn j) (PRbacReady j) s'" "registry_AuthSecretRef (spec_Registry (fn_Spec (job_fn j))) = Some n" "n \<noteq> []" for s' n
    unfolding holds_bind
    apply (rule holds_mono [OF persist [OF that]])
    apply (auto simp: holds_return holds_bind split: sum.split_asm)
    apply (rule holds_mono, rule run_deploy_at [where after = "\<lambda>a. PUsedAuth j path (a = None)" for path], assumption, simp, simp)
    apply (auto simp: holds_return elim!: at_call split: if_split_asm)
    done
  show ?thesis
    unfolding deploy_def holds_bind holds_gets
    apply (rule holds_mono [OF setupPipelineRBAC_at [OF assms]])
    using assms by (auto simp: at_meta holds_return plain gone split: option.split)
qed

lemma flush_preserves:
  assumes "\<And>a. advance r p (CGetFunction (fn_key f) a) = p"
    and "\<And>g a. J (fn_Status g) \<Longrightarrow> advance r p (CUpdateStatus g a) = p"
    and "\<And>st cs. J (st\<lparr>st_Conditions := cs\<rparr>) = J st"
  shows "preserves (\<lambda>s. at r req f p s \<and> J (fn_Status (rs_fn s))) (FlushStatus r)"
proof -
  let ?I = "\<lambda>s. at r req f p s \<and> J (fn_Status (rs_fn s))"
  have "preserves ?I (flush_attempt r)"
  proof (rule preservesI)
    fix s assume I: "?I s"
    then have m: "fn_Meta (rs_fn s) = fn_Meta f" by (simp add: at_def)
    show "holds (flush_attempt r) s (\<lambda>_. ?I)"
      unfolding flush_attempt_def holds_bind holds_gets Let_def
      using I assms m by (auto simp: holds_bind holds_return elim!: at_call split: option.split sum.split)
  qed
  then have retry: "preserves ?I (l_RetryOnConflict (fr_Library r) (flush_attempt r))"
    by (rule retry_preserves)
  have "preserves ?I (Flush r t)" for t
    unfolding Flush_def
    by (intro frame_intros retry preserves_modify)
      (auto simp: at_def ignores_world_def assms(3) CalculateReadyCondition_def mark_defs set_cond_of_def
          map_conditions_def split: prod.split)
  then show ?thesis
    unfolding FlushStatus_def GetStatusTracker_def by (intro frame_intros)
qed

lemma markServiceStatus_at:
  assumes "at r req f p s"
    and "\<And>s'. at r req f p s' \<Longrightarrow> st_Middleware (fn_Status (rs_fn s')) = st_Middleware (fn_Status (rs_fn s)) \<Longrightarrow> Q () s'"
  shows "holds (markServiceStatus r x) s Q"
  using assms(1) unfolding markServiceStatus_def
  by (auto intro!: assms(2) simp: mark_defs elim!: at_mark)

lemma rebuild_at:
  assumes "at r req (job_fn j) (POutdated j) s"
    and "mw_Available (st_Middleware (fn_Status (rs_fn s))) = Some (job_version j)"
  shows "holds (rebuild r (job_repo j) (job_md j) info (job_version j)) s
    (\<lambda>res. at r req (job_fn j) (if res = None then PStrip (job_fn j) (job_repo j) None else give_up j))"
proof -
  let ?I = "\<lambda>s. at r req (job_fn j) (POutdated j) s \<and> announces j (fn_Status (rs_fn s))"
  have flush: "holds (FlushStatus r) s' (\<lambda>_. at r req (job_fn j) (POutdated j))" if "?I s'" for s'
    by (rule holds_mono [OF preserves_holds [OF flush_preserves [where J = "announces j"] that]])
      (auto simp: announces_def)
  have after: "holds (do {
         function \<leftarrow> gets rs_fn;
         res \<leftarrow> call (CDescribe (md_Name (job_md j)) (fn_Namespace function)) (m function);
         case res of
           Inl e \<Rightarrow> ret (Some (Errorf ''failed to describe function after deploy: '' e))
         | Inr desc \<Rightarrow> do {
             clk \<leftarrow> read_clock r;
             modify_status (record_rebuild desc (clk 0) (clk 1));
             markServiceStatus r (inst_Ready desc);
             clk \<leftarrow> read_clock r;
             modify_fn (RecordHistoryEvent (l_SortSlice (fr_Library r)) (clk 0) msg []);
             mark r MarkMiddlewareUpToDate;
             ret None
           } }) s'
     (\<lambda>res. at r req (job_fn j) (if res = None then PStrip (job_fn j) (job_repo j) None else give_up j))"
    if "at r req (job_fn j) (PDeployed j) s'" for s' m msg
    unfolding holds_bind holds_gets Let_def using that
    by (auto simp: holds_bind holds_return at_meta elim!: at_elims markServiceStatus_at split: sum.split)
  have deployed: "holds (do {
       err \<leftarrow> deploy r (job_repo j);
       case err of
         Some e \<Rightarrow> do {
           mark r (\<lambda>ssc t. MarkDeployNotReady ssc t ''DeployFailed'' (''Redeployment failed: '' @ err_Error e));
           ret (Some (Errorf ''failed to redeploy function: '' e))
         }
       | None \<Rightarrow> m }) s'
     (\<lambda>res. at r req (job_fn j) (if res = None then PStrip (job_fn j) (job_repo j) None else give_up j))"
    if "at r req (job_fn j) (POutdated j) s'"
      "\<And>s''. at r req (job_fn j) (PDeployed j) s'' \<Longrightarrow> holds m s''
        (\<lambda>res. at r req (job_fn j) (if res = None then PStrip (job_fn j) (job_repo j) None else give_up j))"
    for s' m
    unfolding holds_bind
    by (rule holds_mono [OF deploy_at [OF that(1)]])
      (auto simp: holds_bind holds_return that(2) elim!: at_mark split: option.split)
  show ?thesis
    unfolding rebuild_def
    apply (subst holds_bind, rule at_mark [OF assms(1)], simp)
    apply (subst holds_bind, erule at_modify_status)
    apply (subst holds_bind, rule holds_mono, rule flush)
    using assms(2) apply (simp add: announces_def set_pending_def mark_defs)
    apply (rule deployed)
     apply assumption
    apply (erule after)
    done
qed

lemma isMiddlewareUpdateEnabled_at:
  assumes "at r req f (PDescribed f repo md desc) s" and "fn_Spec g = fn_Spec f"
  shows "holds (isMiddlewareUpdateEnabled r g) s (\<lambda>res s'.
     rs_fn s' = rs_fn s \<and>
     (case res of Inl e \<Rightarrow> at r req f (PCleanup f repo) s'
      | Inr (enabled, source) \<Rightarrow>
          \<exists>p. at r req f p s' \<and> (\<forall>c. advance r p c = checking_mw f repo md desc enabled c)))"
  using assms unfolding isMiddlewareUpdateEnabled_def holds_bind Let_def
  by (auto simp: holds_bind holds_return operator_setting_def
      elim!: at_call split: sum.split option.split) (rule exI, erule conjI, simp)+

lemma checkMiddlewareState_at:
  assumes "at r req f (PDescribed f repo md desc) s"
  shows "holds (checkMiddlewareState r md desc) s (\<lambda>res s'.
     case res of Inl e \<Rightarrow> at r req f (PCleanup f repo) s'
      | Inr (middlewareUpToDate info) \<Rightarrow> at r req f (PStrip f repo None) s'
      | Inr (middlewareOutdated info v) \<Rightarrow>
          at r req f (if aus_enabled (mi_autoUpdate info)
            then POutdated \<lparr>job_fn = f, job_repo = repo, job_md = md, job_desc = desc, job_version = v\<rparr>
            else PStrip f repo None) s')"
proof -
  have g: "fn_Spec (rs_fn s) = fn_Spec f" using assms by (simp add: at_def)
  show ?thesis
    unfolding checkMiddlewareState_def getAutoUpdateStatus_def holds_bind holds_gets
    apply (rule holds_mono [OF isMiddlewareUpdateEnabled_at [OF assms g]])
    apply (auto simp: holds_bind holds_return checking_mw_def mk_info_def elim!: at_call
        split: sum.splits middlewareCheck.splits prod.splits if_splits)
    done
qed

lemma handleMiddlewareUpdate_at:
  assumes "at r req f (PDescribed f repo md desc) s"
  shows "holds (handleMiddlewareUpdate r repo md desc) s
    (\<lambda>res. at r req f (if res = None then PStrip f repo None else PCleanup f repo))"
proof -
  have finish: "holds (case err of Some e \<Rightarrow> ret (Some e) | None \<Rightarrow> do { mark r MarkDeployReady; ret None }) s'
      (\<lambda>res. at r req f (if res = None then PStrip f repo None else PCleanup f repo))"
    if "at r req f (if err = None then PStrip f repo None else PCleanup f repo) s'" for err s'
    using that by (auto simp: holds_bind holds_return elim!: at_mark split: option.split)
  have rebuild: "holds (rebuild r repo md info v) s'
      (\<lambda>res. at r req f (if res = None then PStrip f repo None else PCleanup f repo))"
    if "at r req f (POutdated \<lparr>job_fn = f, job_repo = repo, job_md = md, job_desc = desc, job_version = v\<rparr>) s'"
      and "mw_Available (st_Middleware (fn_Status (rs_fn s'))) = Some v" for info v s'
    using rebuild_at [of req "\<lparr>job_fn = f, job_repo = repo, job_md = md, job_desc = desc, job_version = v\<rparr>" s' info] that
    by (simp add: give_up_def cong: if_cong)
  show ?thesis
    unfolding handleMiddlewareUpdate_def
    apply (subst holds_bind, rule holds_mono [OF checkMiddlewareState_at [OF assms]])
    apply (auto simp: holds_bind holds_return set_available_def intro!: holds_mono [OF _ finish] rebuild
        elim!: at_mark at_modify_status markServiceStatus_at
        split: sum.splits middlewareCheck.splits if_splits)
    done
qed

lemma applyLastDeployedAnnotation_at:
  "at r req f p s \<Longrightarrow> holds (applyLastDeployedAnnotation r) s (\<lambda>_. at r req f p)"
  unfolding applyLastDeployedAnnotation_def holds_bind holds_gets
  by (auto simp: holds_bind holds_return elim!: at_elims split: sum.split option.split)

lemma reconcileDeployment_at:
  assumes "at r req f (PRead f repo md) s"
  shows "holds (reconcileDeployment r repo md) s
    (\<lambda>res. at r req f (if res = None then PStrip f repo None else PCleanup f repo))"
proof -
  have m: "fn_Meta (rs_fn s) = fn_Meta f" using assms by (simp add: at_def)
  have deployed: "holds (do { applyLastDeployedAnnotation r; handleMiddlewareUpdate r repo md desc }) s'
      (\<lambda>res. at r req f (if res = None then PStrip f repo None else PCleanup f repo))"
    if "at r req f (PDescribed f repo md desc) s'" for desc s'
    unfolding holds_bind
    by (rule holds_mono [OF applyLastDeployedAnnotation_at [OF that] handleMiddlewareUpdate_at])
  show ?thesis
    unfolding reconcileDeployment_def holds_bind holds_gets Let_def
    using assms m
    by (auto simp: holds_bind holds_return elim!: at_call at_mark at_modify_status deployed [unfolded holds_bind] split: sum.split)
qed

lemma prepareSource_at:
  assumes "at r req f (PFetched f) s"
  shows "holds (prepareSource r) s (\<lambda>res s'. case res of
      Inl e \<Rightarrow> at r req f (PFinal f) s'
    | Inr (repo, md) \<Rightarrow> at r req f (PRead f repo md) s')"
proof -
  have m: "fn_Meta (rs_fn s) = fn_Meta f" "fn_Spec (rs_fn s) = fn_Spec f" using assms by (simp_all add: at_def)
  show ?thesis
    unfolding prepareSource_def holds_bind holds_gets Let_def
    using assms m
    by (auto simp: holds_bind holds_return cloning_def Let_def elim!: at_elims split: sum.split option.split)
qed

lemma removeFuncAnnotations_at:
  "preserves (\<lambda>s. \<exists>latest. at r req f (PStrip f repo latest) s) (removeFuncAnnotations r)"
  unfolding removeFuncAnnotations_def
proof (rule retry_preserves, rule preservesI)
  fix s assume "\<exists>latest. at r req f (PStrip f repo latest) s"
  then obtain latest where s: "at r req f (PStrip f repo latest) s" by blast
  then have m: "fn_Meta (rs_fn s) = fn_Meta f" by (simp add: at_def)
  show "holds (remove_attempt r) s (\<lambda>_ s. \<exists>latest. at r req f (PStrip f repo latest) s)"
    unfolding remove_attempt_def holds_bind holds_gets Let_def
    using s m by (auto simp: holds_bind holds_return elim!: at_call split: sum.split) blast+
qed

lemma Repository_Cleanup_at:
  assumes "at r req f (PStrip f repo latest) s \<or> at r req f (PCleanup f repo) s"
  shows "holds (Repository_Cleanup r repo) s (\<lambda>_. at r req f (PFinal f))"
  using assms unfolding Repository_Cleanup_def holds_bind
  by (auto simp: holds_bind holds_return cleaning_def elim!: at_call)

lemma reconcile_at:
  assumes "at r req f (PFetched f) s"
  shows "holds (reconcile r) s (\<lambda>_. at r req f (PFinal f))"
proof -
  have rest: "holds (do {
         err \<leftarrow> reconcileDeployment r repo md;
         result \<leftarrow> (case err of
                      Some e \<Rightarrow> ret (Some (Errorf ''deploying function failed: '' e))
                    | None \<Rightarrow> do {
                        err \<leftarrow> removeFuncAnnotations r;
                        case err of
                          Some e \<Rightarrow> ret (Some (Errorf ''failed to remove func annotations: '' e))
                        | None \<Rightarrow> ret None
                      });
         _ \<leftarrow> Repository_Cleanup r repo;
         ret result }) s' (\<lambda>_. at r req f (PFinal f))"
    if "at r req f (PRead f repo md) s'" for repo md s'
    apply (subst holds_bind, rule holds_mono [OF reconcileDeployment_at [OF that]])
    apply (auto simp: holds_bind holds_return split: option.splits)
     apply (rule holds_mono [OF preserves_holds [OF removeFuncAnnotations_at]], blast)
     apply (auto simp: holds_return split: option.split intro!: holds_mono [OF Repository_Cleanup_at])
    done
  show ?thesis
    unfolding reconcile_def
    apply (subst holds_bind, rule at_clock [OF assms])
    apply (subst holds_bind, erule at_modify_fn)
     apply (simp add: InitializeConditions_eq only_status_def InitializeConditions_def FunctionsConditions_def)
    apply (subst holds_bind, rule holds_mono, erule prepareSource_at)
    apply (auto simp: holds_return split: sum.splits)
    apply (subst holds_bind, erule at_modify_status, erule rest)
    done
qed

text \<open>A whole reconcile, from an empty history: it ends with the object gone or with its status written.\<close>

lemma Reconcile_phase:
  assumes "rs_calls s = []"
  shows "holds (Reconcile r req) s (\<lambda>_ s'. phase_of r req (rs_calls s') = PGone
     \<or> (\<exists>f. phase_of r req (rs_calls s') = PFinal f))"
proof -
  have start: "phase_of r req (rs_calls s) = PStart req" using assms by (simp add: phase_of_def)
  have flush: "holds (FlushStatus r) s' (\<lambda>_ s'. \<exists>f. phase_of r req (rs_calls s') = PFinal f)"
    if "at r req f (PFinal f) s'" for f s'
    by (rule holds_mono [OF preserves_holds [OF flush_preserves [where J = "\<lambda>_. True" and p = "PFinal f" and f = f and req = req]]])
      (use that in \<open>auto simp: at_def\<close>)
  have final: "holds (do {
       reconcileErr \<leftarrow> reconcile r; flushErr \<leftarrow> FlushStatus r;
       case flushErr of Some e \<Rightarrow> ret (Some e) | None \<Rightarrow> ret reconcileErr }) s'
      (\<lambda>_ s'. phase_of r req (rs_calls s') = PGone \<or> (\<exists>f. phase_of r req (rs_calls s') = PFinal f))" if "at r req f (PFetched f) s'" for f s'
    unfolding holds_bind
    by (rule holds_mono [OF reconcile_at [OF that]], rule holds_mono [OF flush])
      (auto simp: holds_return split: option.split)
  show ?thesis
    unfolding Reconcile_def
    apply (subst holds_bind, subst holds_call, rule holds_any)
    apply (auto simp: holds_bind holds_return holds_modify holds_gets WithStatusTracker_def start split: sum.split)
    apply (rule final [unfolded holds_bind])
    apply (simp add: at_def start)
    done
qed


end

end
