(* ===== verification/ReconcileSafety.thy ===== *)
theory ReconcileSafety
  imports ReconcileProtocol
begin

text \<open>
  What a phase of the machine of \<open>ReconcileProtocol\<close> says about the calls that led to it: which answers
  have been received, that nothing has been deployed yet, which clone is on the disk. \<open>knows\<close> states
  it phase by phase, and each step of the machine keeps it.
\<close>

section \<open>What a history tells\<close>

definition is_deploy :: "Call \<Rightarrow> bool" where
  "is_deploy c = (case c of CDeploy path ns opts a \<Rightarrow> True | _ \<Rightarrow> False)"

definition deploys :: "Call list \<Rightarrow> nat" where
  "deploys cs = length (filter is_deploy cs)"

definition cloned :: "Call list \<Rightarrow> Repository set" where
  "cloned cs = {repo. \<exists>url dir revision auth. CCloneRepository url dir revision auth (Inr repo) \<in> set cs}"

definition source_read :: "Call list \<Rightarrow> bool" where
  "source_read cs \<longleftrightarrow> (\<exists>path md. CNewFunction path (Inr md) \<in> set cs)"

definition removed :: "Call list \<Rightarrow> string set" where
  "removed cs = {path. \<exists>a. CRemoveAll path a \<in> set cs}"

text \<open>The update of the middleware was allowed by the function, or by the operator's config map.\<close>

definition update_allowed :: "'w FunctionReconciler \<Rightarrow> Function \<Rightarrow> Call list \<Rightarrow> bool" where
  "update_allowed r f cs \<longleftrightarrow>
     (case spec_AutoUpdateMiddleware (fn_Spec f) of
        Some b \<Rightarrow> b
      | None \<Rightarrow> \<exists>cm. CGetConfigMap (nsn (fr_OperatorNamespace r) controllerConfigName) (Inr cm) \<in> set cs
                  \<and> operator_setting cm = Some True)"

definition role_ensured :: "string \<Rightarrow> Call list \<Rightarrow> bool" where
  "role_ensured ns cs \<longleftrightarrow>
     (\<exists>ro. role_Rules ro = expectedRules \<and>
        (CGetRole (nsn ns deployFunctionRoleName) (Inr ro) \<in> set cs
         \<or> CUpdateRole ro None \<in> set cs \<or> CCreateRole ro None \<in> set cs))"

definition binding_ensured :: "'w FunctionReconciler \<Rightarrow> Function \<Rightarrow> Call list \<Rightarrow> bool" where
  "binding_ensured r f cs \<longleftrightarrow>
     (\<exists>rb. (CGetRoleBinding (nsn (fn_Namespace f) deployFunctionRoleBindingName) (Inr rb) \<in> set cs
             \<and> refresh_binding r f rb = Inr (rb, False))
          \<or> CUpdateRoleBinding rb None \<in> set cs \<or> CCreateRoleBinding rb None \<in> set cs)"

definition fetched :: "nsname \<Rightarrow> Function \<Rightarrow> Call list \<Rightarrow> bool" where
  "fetched req f cs \<longleftrightarrow> (\<exists>rest. cs = CGetFunction req (Inr f) # rest)"

definition read_from :: "nsname \<Rightarrow> Function \<Rightarrow> Repository \<Rightarrow> FuncMetadata \<Rightarrow> Call list \<Rightarrow> bool" where
  "read_from req f repo md cs \<longleftrightarrow> fetched req f cs \<and> repo \<in> cloned cs
     \<and> CNewFunction (Repository_Path repo) (Inr md) \<in> set cs"

definition described :: "nsname \<Rightarrow> Function \<Rightarrow> Repository \<Rightarrow> FuncMetadata \<Rightarrow> Instance \<Rightarrow> Call list \<Rightarrow> bool" where
  "described req f repo md desc cs \<longleftrightarrow> read_from req f repo md cs
     \<and> CDescribe (md_Name md) (fn_Namespace f) (Inr desc) \<in> set cs"

text \<open>The reason for a rebuild: another version is the latest, and the update is allowed.\<close>

definition outdated :: "'w FunctionReconciler \<Rightarrow> nsname \<Rightarrow> Job \<Rightarrow> Call list \<Rightarrow> bool" where
  "outdated r req j cs \<longleftrightarrow>
     described req (job_fn j) (job_repo j) (job_md j) (job_desc j) cs
     \<and> CGetLatest (md_Runtime (job_md j)) (md_Invoke (job_md j)) (Inr (job_version j)) \<in> set cs
     \<and> job_version j \<noteq> inst_MiddlewareVersion (job_desc j)
     \<and> update_allowed r (job_fn j) cs"

definition ready_to_deploy :: "'w FunctionReconciler \<Rightarrow> nsname \<Rightarrow> Job \<Rightarrow> Call list \<Rightarrow> bool" where
  "ready_to_deploy r req j cs \<longleftrightarrow> outdated r req j cs \<and> role_ensured (job_ns j) cs \<and> binding_ensured r (job_fn j) cs"

lemmas history_defs = cloned_def source_read_def removed_def update_allowed_def role_ensured_def
  binding_ensured_def fetched_def read_from_def described_def outdated_def ready_to_deploy_def

text \<open>\<open>fetched\<close>: the object under reconciliation is the answer to the first call.\<close>

text \<open>What is known is not forgotten.\<close>

lemma history_mono:
  "repo \<in> cloned cs \<Longrightarrow> repo \<in> cloned (cs @ ds)"
  "source_read cs \<Longrightarrow> source_read (cs @ ds)"
  "path \<in> removed cs \<Longrightarrow> path \<in> removed (cs @ ds)"
  "fetched req f cs \<Longrightarrow> fetched req f (cs @ ds)"
  "read_from req f repo md cs \<Longrightarrow> read_from req f repo md (cs @ ds)"
  "described req f repo md desc cs \<Longrightarrow> described req f repo md desc (cs @ ds)"
  "update_allowed r f cs \<Longrightarrow> update_allowed r f (cs @ ds)"
  "role_ensured ns cs \<Longrightarrow> role_ensured ns (cs @ ds)"
  "binding_ensured r f cs \<Longrightarrow> binding_ensured r f (cs @ ds)"
  by (auto simp: history_defs split: option.splits)

lemma outdated_mono: "outdated r req j cs \<Longrightarrow> outdated r req j (cs @ ds)"
  unfolding outdated_def by (auto intro: history_mono)

lemma ready_to_deploy_mono: "ready_to_deploy r req j cs \<Longrightarrow> ready_to_deploy r req j (cs @ ds)"
  unfolding ready_to_deploy_def by (auto intro: history_mono outdated_mono)

lemma deploys_snoc [simp]: "deploys (cs @ [c]) = deploys cs + (if is_deploy c then 1 else 0)"
  by (simp add: deploys_def)

lemma is_deploy_simps [simp]:
  "is_deploy (CDeploy path ns opts a)"
  "is_deploy c \<longleftrightarrow> (\<exists>path ns opts a. c = CDeploy path ns opts a)"
  by (auto simp: is_deploy_def split: Call.splits)

lemma cloned_snoc: "cloned (cs @ [c]) = cloned cs \<union>
    (case c of CCloneRepository url dir revision auth (Inr repo) \<Rightarrow> {repo} | _ \<Rightarrow> {})"
  by (auto simp: cloned_def split: Call.splits sum.splits)

lemma source_read_snoc: "source_read (cs @ [c]) \<longleftrightarrow> source_read cs \<or>
    (case c of CNewFunction path (Inr md) \<Rightarrow> True | _ \<Rightarrow> False)"
  by (auto simp: source_read_def split: Call.splits sum.splits)

lemma removed_snoc: "removed (cs @ [c]) = removed cs \<union> (case c of CRemoveAll path a \<Rightarrow> {path} | _ \<Rightarrow> {})"
  by (auto simp: removed_def split: Call.splits)

section \<open>What a phase knows\<close>

text \<open>The clone is on the disk: it is the only one, its source was read, nothing was removed.\<close>

definition on_disk :: "Repository \<Rightarrow> Call list \<Rightarrow> bool" where
  "on_disk repo cs \<longleftrightarrow> cloned cs = {repo} \<and> source_read cs \<and> removed cs = {}"

definition in_job :: "'w FunctionReconciler \<Rightarrow> nsname \<Rightarrow> Job \<Rightarrow> Call list \<Rightarrow> bool" where
  "in_job r req j cs \<longleftrightarrow> outdated r req j cs \<and> deploys cs = 0 \<and> on_disk (job_repo j) cs"

definition with_role :: "'w FunctionReconciler \<Rightarrow> nsname \<Rightarrow> Job \<Rightarrow> Call list \<Rightarrow> bool" where
  "with_role r req j cs \<longleftrightarrow> in_job r req j cs \<and> role_ensured (job_ns j) cs"

definition with_rbac :: "'w FunctionReconciler \<Rightarrow> nsname \<Rightarrow> Job \<Rightarrow> Call list \<Rightarrow> bool" where
  "with_rbac r req j cs \<longleftrightarrow> with_role r req j cs \<and> binding_ensured r (job_fn j) cs"

text \<open>A clone that was read is removed; one that was not is left.\<close>

definition settled :: "Call list \<Rightarrow> bool" where
  "settled cs \<longleftrightarrow> removed cs = (if source_read cs then repository_CloneDir ` cloned cs else {})"

fun knows :: "'w FunctionReconciler \<Rightarrow> nsname \<Rightarrow> Phase \<Rightarrow> Call list \<Rightarrow> bool" where
  "knows r req (PStart k) cs \<longleftrightarrow> k = req \<and> cs = []"
| "knows r req PGone cs \<longleftrightarrow> deploys cs = 0 \<and> cloned cs = {} \<and> settled cs"
| "knows r req (PFetched f) cs \<longleftrightarrow> fetched req f cs \<and> deploys cs = 0
     \<and> cloned cs = {} \<and> \<not> source_read cs \<and> removed cs = {}"
| "knows r req (PAuthorised f auth) cs \<longleftrightarrow> fetched req f cs \<and> deploys cs = 0
     \<and> cloned cs = {} \<and> \<not> source_read cs \<and> removed cs = {}"
| "knows r req (PCloned f repo) cs \<longleftrightarrow> fetched req f cs \<and> deploys cs = 0
     \<and> cloned cs = {repo} \<and> \<not> source_read cs \<and> removed cs = {}"
| "knows r req (PRead f repo md) cs \<longleftrightarrow> read_from req f repo md cs \<and> deploys cs = 0 \<and> on_disk repo cs"
| "knows r req (PDescribed f repo md desc) cs \<longleftrightarrow> described req f repo md desc cs \<and> deploys cs = 0 \<and> on_disk repo cs"
| "knows r req (PConfigured f repo md desc enabled) cs \<longleftrightarrow> described req f repo md desc cs \<and> deploys cs = 0
     \<and> on_disk repo cs \<and> (enabled \<longrightarrow> update_allowed r f cs)"
| "knows r req (POutdated j) cs \<longleftrightarrow> in_job r req j cs"
| "knows r req (PNoRole j) cs \<longleftrightarrow> in_job r req j cs"
| "knows r req (PStaleRole j ro) cs \<longleftrightarrow> in_job r req j cs"
| "knows r req (PRoleReady j) cs \<longleftrightarrow> with_role r req j cs"
| "knows r req (PNoBinding j rb) cs \<longleftrightarrow> with_role r req j cs"
| "knows r req (PStaleBinding j rb) cs \<longleftrightarrow> with_role r req j cs"
| "knows r req (PRbacReady j) cs \<longleftrightarrow> with_rbac r req j cs"
| "knows r req (PCredentials j n content) cs \<longleftrightarrow> with_rbac r req j cs"
| "knows r req (PTemp j n content file) cs \<longleftrightarrow> with_rbac r req j cs"
| "knows r req (PAuthFile j n file) cs \<longleftrightarrow> with_rbac r req j cs"
| "knows r req (PUsedAuth j file ok) cs \<longleftrightarrow> ready_to_deploy r req j cs \<and> deploys cs = 1 \<and> on_disk (job_repo j) cs"
| "knows r req (PDeployed j) cs \<longleftrightarrow> ready_to_deploy r req j cs \<and> deploys cs = 1 \<and> on_disk (job_repo j) cs"
| "knows r req (PStrip f repo latest) cs \<longleftrightarrow> deploys cs \<le> 1 \<and> on_disk repo cs"
| "knows r req (PCleanup f repo) cs \<longleftrightarrow> deploys cs \<le> 1 \<and> on_disk repo cs"
| "knows r req (PUnlinked f repo) cs \<longleftrightarrow> deploys cs \<le> 1 \<and> on_disk repo cs"
| "knows r req (PFinal f) cs \<longleftrightarrow> deploys cs \<le> 1 \<and> settled cs"
| "knows r req PBad cs \<longleftrightarrow> True"

lemmas knows_defs = on_disk_def in_job_def with_role_def with_rbac_def settled_def

lemmas step_simps = cloned_snoc source_read_snoc removed_snoc history_mono outdated_mono ready_to_deploy_mono

lemma checking_knows:
  assumes "described req f repo md desc cs" "deploys cs = 0" "on_disk repo cs" "enabled \<Longrightarrow> update_allowed r f cs"
  shows "knows r req (checking_mw f repo md desc enabled c) (cs @ [c])"
  using assms
  by (cases c) (auto simp: checking_mw_def knows_defs step_simps outdated_def split: sum.splits)

lemma cloning_knows:
  assumes "fetched req f cs" "deploys cs = 0" "cloned cs = {}" "\<not> source_read cs" "removed cs = {}"
  shows "knows r req (cloning f auth c) (cs @ [c])"
  using assms
  by (cases c) (auto simp: cloning_def knows_defs step_simps Let_def split: sum.splits)

lemma cleaning_knows:
  assumes "deploys cs \<le> 1" "on_disk repo cs"
  shows "knows r req (cleaning f repo c) (cs @ [c])"
  using assms
  by (cases c) (auto simp: cleaning_def knows_defs step_simps split: sum.splits)

lemma refresh_unchanged: "refresh_binding r f rb = Inr (rb', False) \<Longrightarrow> rb' = rb"
  by (auto simp: refresh_binding_def Let_def split: sum.splits if_splits)

text \<open>The phases of a rebuild: a call that neither deploys nor touches the clone keeps what is known.\<close>

definition quiet :: "Call \<Rightarrow> bool" where
  "quiet c = (case c of CDeploy path ns opts a \<Rightarrow> False | CCloneRepository url dir revision auth a \<Rightarrow> False
     | CRemoveAll path a \<Rightarrow> False | _ \<Rightarrow> True)"

lemma quiet_simps [simp]:
  "quiet (CGetFunction key a1)" "quiet (CUpdateStatus g a2)" "quiet (CGetRole key a3)" "quiet (CCreateRole ro a2)"
  "quiet (CUpdateRole ro a2)" "quiet (CGetRoleBinding key a4)" "quiet (CCreateRoleBinding rb a2)"
  "quiet (CUpdateRoleBinding rb a2)" "quiet (CGetSecret key a5)" "quiet (CCreateTemp pat a6)"
  "quiet (CWriteFile file content a2)" "quiet (CRemove file a2)" "quiet (CDescribe name ns a7)"
  by (simp_all add: quiet_def)

lemma quiet_snoc:
  assumes "quiet c"
  shows "deploys (cs @ [c]) = deploys cs" and "on_disk repo cs \<Longrightarrow> on_disk repo (cs @ [c])"
  using assms by (cases c; simp add: quiet_def on_disk_def step_simps)+

lemma job_snoc:
  assumes "quiet c"
  shows "in_job r req j cs \<Longrightarrow> in_job r req j (cs @ [c])"
    and "with_role r req j cs \<Longrightarrow> with_role r req j (cs @ [c])"
    and "with_rbac r req j cs \<Longrightarrow> with_rbac r req j (cs @ [c])"
  using assms quiet_snoc(1) [of c cs]
  by (simp_all add: in_job_def with_role_def with_rbac_def quiet_snoc(2) history_mono outdated_mono del: deploys_snoc)

lemma give_up_knows: "deploys cs \<le> 1 \<Longrightarrow> on_disk (job_repo j) cs \<Longrightarrow> knows r req (give_up j) cs"
  by (simp add: give_up_def)

lemma job_give_up:
  "in_job r req j cs \<Longrightarrow> knows r req (give_up j) cs"
  "with_role r req j cs \<Longrightarrow> knows r req (give_up j) cs"
  "with_rbac r req j cs \<Longrightarrow> knows r req (give_up j) cs"
  by (simp_all add: in_job_def with_role_def with_rbac_def give_up_knows)

lemma role_ensured_snoc:
  "role_Rules ro = expectedRules \<Longrightarrow> role_ensured ns (cs @ [CGetRole (nsn ns deployFunctionRoleName) (Inr ro)])"
  "role_ensured ns (cs @ [CCreateRole (expectedRole ns') None])"
  "role_ensured ns (cs @ [CUpdateRole (ro\<lparr>role_Rules := expectedRules\<rparr>) None])"
  by (force simp: role_ensured_def expectedRole_def)+

lemma binding_ensured_snoc:
  "refresh_binding r f rb = Inr (rb', False) \<Longrightarrow>
     binding_ensured r f (cs @ [CGetRoleBinding (nsn (fn_Namespace f) deployFunctionRoleBindingName) (Inr rb)])"
  "binding_ensured r f (cs @ [CUpdateRoleBinding rb None])"
  "binding_ensured r f (cs @ [CCreateRoleBinding rb None])"
  using refresh_unchanged [of r f rb rb'] by (auto simp: binding_ensured_def)

lemmas job_simps = job_snoc job_give_up role_ensured_snoc binding_ensured_snoc go_on_def

lemma knows_role_step:
  "knows r req (POutdated j) cs \<Longrightarrow> knows r req (advance r (POutdated j) c) (cs @ [c])"
  "knows r req (PNoRole j) cs \<Longrightarrow> knows r req (advance r (PNoRole j) c) (cs @ [c])"
  "knows r req (PStaleRole j ro) cs \<Longrightarrow> knows r req (advance r (PStaleRole j ro) c) (cs @ [c])"
  by (cases c; auto simp: job_simps with_role_def [of r req j "cs @ [c]" for c] split: sum.splits)+

lemma knows_binding_step:
  "knows r req (PRoleReady j) cs \<Longrightarrow> knows r req (advance r (PRoleReady j) c) (cs @ [c])"
  "knows r req (PNoBinding j rb) cs \<Longrightarrow> knows r req (advance r (PNoBinding j rb) c) (cs @ [c])"
  "knows r req (PStaleBinding j rb) cs \<Longrightarrow> knows r req (advance r (PStaleBinding j rb) c) (cs @ [c])"
  by (cases c; auto simp: job_simps with_rbac_def [of r req j "cs @ [c]" for c] split: sum.splits)+

lemma knows_credentials_step:
  "knows r req (PCredentials j n content) cs \<Longrightarrow> knows r req (advance r (PCredentials j n content) c) (cs @ [c])"
  "knows r req (PTemp j n content file) cs \<Longrightarrow> knows r req (advance r (PTemp j n content file) c) (cs @ [c])"
  by (cases c; auto simp: job_simps split: sum.splits)+

lemma deploying_knows:
  assumes "with_rbac r req j cs"
    and "\<And>a cs. ready_to_deploy r req j cs \<Longrightarrow> deploys cs = 1 \<Longrightarrow> on_disk (job_repo j) cs \<Longrightarrow> knows r req (after a) cs"
  shows "knows r req (deploying j opts after c) (cs @ [c])"
proof (cases c)
  case (CDeploy path ns o' a)
  have "ready_to_deploy r req j (cs @ [c])"
    by (rule ready_to_deploy_mono)
      (use assms(1) in \<open>simp add: ready_to_deploy_def with_rbac_def with_role_def in_job_def\<close>)
  moreover have "deploys (cs @ [c]) = 1" "on_disk (job_repo j) (cs @ [c])"
    using assms(1) CDeploy by (simp_all add: with_rbac_def with_role_def in_job_def on_disk_def step_simps)
  ultimately have "knows r req (after a) (cs @ [c])" by (rule assms(2))
  then show ?thesis using CDeploy by (auto simp: deploying_def)
qed (simp_all add: deploying_def)

lemma knows_deploy_step:
  "knows r req (PRbacReady j) cs \<Longrightarrow> knows r req (advance r (PRbacReady j) c) (cs @ [c])"
  "knows r req (PAuthFile j n file) cs \<Longrightarrow> knows r req (advance r (PAuthFile j n file) c) (cs @ [c])"
  "knows r req (PUsedAuth j file ok) cs \<Longrightarrow> knows r req (advance r (PUsedAuth j file ok) c) (cs @ [c])"
  "knows r req (PDeployed j) cs \<Longrightarrow> knows r req (advance r (PDeployed j) c) (cs @ [c])"
proof -
  have on: "knows r req (go_on j (PDeployed j) a) cs" if "ready_to_deploy r req j cs" "deploys cs = 1" "on_disk (job_repo j) cs" for a cs
    using that by (simp add: go_on_def give_up_knows)
  have public: "with_rbac r req j cs \<Longrightarrow> knows r req (deploying j opts (go_on j (PDeployed j)) c) (cs @ [c])" for opts
    by (rule deploying_knows [OF _ on])
  show "knows r req (PRbacReady j) cs \<Longrightarrow> knows r req (advance r (PRbacReady j) c) (cs @ [c])"
    using public
    by (cases c) (auto simp: Let_def job_simps split: sum.split option.split)
  show "knows r req (PAuthFile j n file) cs \<Longrightarrow> knows r req (advance r (PAuthFile j n file) c) (cs @ [c])"
    by (auto intro!: deploying_knows)
qed (cases c; auto simp: quiet_snoc ready_to_deploy_mono give_up_knows split: sum.splits)+

lemma knows_step: "knows r req p cs \<Longrightarrow> knows r req (advance r p c) (cs @ [c])"
proof (cases p)
  case (PFetched f)
  then show "knows r req p cs \<Longrightarrow> ?thesis"
    using cloning_knows [of req f cs r "[]" c]
    by (cases c) (auto simp: knows_defs step_simps split: sum.splits option.splits)
next
  case (PAuthorised f auth)
  then show "knows r req p cs \<Longrightarrow> ?thesis" by (auto intro: cloning_knows)
next
  case (PDescribed f repo md desc)
  then show "knows r req p cs \<Longrightarrow> ?thesis"
    using checking_knows [of req f repo md desc cs _ r c]
    by (cases c) (auto simp: knows_defs step_simps update_allowed_def split: sum.splits option.splits)
next
  case (PConfigured f repo md desc enabled)
  then show "knows r req p cs \<Longrightarrow> ?thesis" by (auto intro: checking_knows)
next
  case (PStrip f repo latest)
  then show "knows r req p cs \<Longrightarrow> ?thesis"
    using cleaning_knows [of cs repo r req f c]
    by (cases c) (auto simp: knows_defs step_simps split: option.splits)
next
  case (PCleanup f repo)
  then show "knows r req p cs \<Longrightarrow> ?thesis" by (auto intro: cleaning_knows)
next
  case (PStart k)
  then show "knows r req p cs \<Longrightarrow> ?thesis"
    by (cases c) (auto simp: knows_defs deploys_def history_defs split: sum.splits)
next
  case PGone
  then show "knows r req p cs \<Longrightarrow> ?thesis"
    by (cases c) (auto simp: knows_defs step_simps split: sum.splits)
next
  case (PCloned f repo)
  then show "knows r req p cs \<Longrightarrow> ?thesis"
    by (cases c) (auto simp: knows_defs step_simps read_from_def described_def fetched_def split: sum.splits)
next
  case (PRead f repo md)
  then show "knows r req p cs \<Longrightarrow> ?thesis"
    by (cases c) (auto simp: knows_defs step_simps read_from_def described_def fetched_def split: sum.splits)
next
  case (PUnlinked f repo)
  then show "knows r req p cs \<Longrightarrow> ?thesis"
    by (cases c) (auto simp: knows_defs step_simps read_from_def described_def fetched_def split: sum.splits)
next
  case (PFinal f)
  then show "knows r req p cs \<Longrightarrow> ?thesis"
    by (cases c) (auto simp: knows_defs step_simps read_from_def described_def fetched_def split: sum.splits)
next
  case PBad
  then show "knows r req p cs \<Longrightarrow> ?thesis"
    by (cases c) (auto simp: knows_defs step_simps split: sum.splits)
qed (simp_all only: knows_role_step knows_binding_step knows_credentials_step knows_deploy_step)

lemma knows_phase_of: "knows r req (phase_of r req cs) cs"
proof (induction cs rule: rev_induct)
  case Nil
  then show ?case by (simp add: phase_of_def)
next
  case (snoc c cs)
  then show ?case using knows_step by simp
qed

section \<open>Consequences for a complete run\<close>

text \<open>A run that did not go wrong at its end did not go wrong before.\<close>

lemma advance_bad: "foldl (advance r) PBad cs = PBad"
  by (induction cs) auto

lemma phase_of_prefix: "phase_of r req (pre @ c # post) \<noteq> PBad \<Longrightarrow> advance r (phase_of r req pre) c \<noteq> PBad"
  by (auto simp: phase_of_def advance_bad)

lemma advance_deploy:
  assumes "advance r p (CDeploy path ns opts a) \<noteq> PBad"
  shows "\<exists>j. path = Repository_Path (job_repo j) \<and> ns = job_ns j
     \<and> (p = PRbacReady j \<and> opt_ImagePullSecret opts = [] \<and> opt_RegistryAuthFile opts = []
        \<or> (\<exists>n file. p = PAuthFile j n file \<and> opts = \<lparr>opt_RegistryAuthFile = file, opt_ImagePullSecret = n\<rparr>))"
  using assms
  by (cases p) (auto simp: cloning_def checking_mw_def cleaning_def deploying_def Let_def
      split: option.splits if_splits)

lemma deploy_history:
  assumes "phase_of r req (pre @ CDeploy path ns opts a # post) \<noteq> PBad"
  shows "\<exists>j. ready_to_deploy r req j pre \<and> path = Repository_Path (job_repo j) \<and> ns = job_ns j"
  using advance_deploy [OF phase_of_prefix [OF assms]] knows_phase_of [of r req pre]
  by (auto simp: ready_to_deploy_def with_rbac_def with_role_def in_job_def)

end
