(* ===== verification/StatusInvariant.thy ===== *)
theory StatusInvariant
  imports FunctionController
begin

text \<open>
  The invariant of the status through a reconcile: the object under reconciliation has the five
  conditions in order, each with a reason, and every status written to the API server also has a Ready
  condition that sums the others up. Each handler keeps it (\<open>status_inv\<close>); \<open>Flush\<close>
  establishes the second part just before it writes.
\<close>

definition written_ok :: "Call list \<Rightarrow> bool" where
  "written_ok cs \<longleftrightarrow> (\<forall>g a. CUpdateStatus g a \<in> set cs \<longrightarrow> wf_written (fn_Conditions g))"

definition status_inv :: "'w run_state_rec \<Rightarrow> bool" where
  "status_inv s \<longleftrightarrow> wf_working (fn_Conditions (rs_fn s)) \<and> written_ok (rs_calls s)"

lemma written_ok_simps [simp]:
  "written_ok []"
  "written_ok (c # cs) \<longleftrightarrow> (\<forall>g a. c = CUpdateStatus g a \<longrightarrow> wf_written (fn_Conditions g)) \<and> written_ok cs"
  "written_ok (cs @ ds) \<longleftrightarrow> written_ok cs \<and> written_ok ds"
  by (auto simp: written_ok_def)

lemma ignores_world_status_inv [simp]: "ignores_world status_inv"
  by (simp add: ignores_world_def status_inv_def)

lemma status_inv_call: "(\<And>g a. c \<noteq> CUpdateStatus g a) \<Longrightarrow> status_inv s \<Longrightarrow> status_inv (s\<lparr>rs_calls := rs_calls s @ [c]\<rparr>)"
  by (simp add: status_inv_def)

lemma status_inv_modify: "fn_Conditions (g (rs_fn s)) = fn_Conditions (rs_fn s) \<Longrightarrow> status_inv s \<Longrightarrow> status_inv (s\<lparr>rs_fn := g (rs_fn s)\<rparr>)"
  by (simp add: status_inv_def)

lemma wf_written_working: "wf_written cs \<Longrightarrow> wf_working cs"
  by (simp add: wf_written_def)

context reconcile_library begin

lemma status_inv_set:
  "ty \<in> set all_types \<Longrightarrow> rs \<noteq> [] \<Longrightarrow> status_inv s \<Longrightarrow> status_inv (s\<lparr>rs_fn := set_cond_of (ssc_of r) t ty st rs ms (rs_fn s)\<rparr>)"
  unfolding set_cond_of_eq by (simp add: status_inv_def wf_working_apply)


lemma Flush_status: "preserves status_inv (Flush r t)"
proof -
  let ?I = "\<lambda>s. status_inv s \<and> wf_written (fn_Conditions (rs_fn s))"
  have "preserves ?I (flush_attempt r)"
    by (rule preservesI)
      (auto simp: flush_attempt_def holds_bind holds_gets holds_return Let_def status_inv_def
         intro!: holds_call_any split: sum.split)
  then have retry: "preserves ?I (l_RetryOnConflict (fr_Library r) (flush_attempt r))"
    by (rule retry_preserves)
  show ?thesis
  proof (rule preservesI)
    fix s :: "'w run_state_rec" assume s: "status_inv s"
    have written: "holds (do {
       current \<leftarrow> gets rs_fn;
       if \<not> l_StatusDeepEqual (fr_Library r) (fn_Status (tr_original t)) (fn_Status current) then do {
         err \<leftarrow> l_RetryOnConflict (fr_Library r) (flush_attempt r);
         case err of
           Some e \<Rightarrow> ret (Some (Errorf ''failed to update status: '' e))
         | None \<Rightarrow> do {
             current \<leftarrow> gets rs_fn;
             modify (\<lambda>s. s\<lparr>rs_tracker := Some (t\<lparr>tr_original := current\<rparr>)\<rparr>);
             ret None
           }
       }
       else ret None }) s' (\<lambda>_. ?I)" if "?I s'" for s'
      by (rule preserves_holds [where I = ?I and s = s', OF _ that])
        (intro frame_intros retry preserves_modify, auto simp: status_inv_def)
    show "holds (Flush r t) s (\<lambda>_. status_inv)"
      unfolding Flush_def
      apply (subst holds_bind, rule holds_clock_any)
      apply (subst holds_bind, subst holds_modify_fn)
      apply (rule holds_mono [OF written])
      using s apply (auto simp: CalculateReadyCondition_eq status_inv_def wf_written_CalculateReady wf_written_working)
      done
  qed
qed

lemma FlushStatus_status: "preserves status_inv (FlushStatus r)"
  unfolding FlushStatus_def GetStatusTracker_def by (intro frame_intros Flush_status)

lemma markServiceStatus_status: "preserves status_inv (markServiceStatus r x)"
  unfolding markServiceStatus_def mark_defs
  by (intro frame_intros status_inv_set) (auto simp: set_all_types)

lemma rbac_status: "preserves status_inv (setupPipelineRBAC r f)"
  unfolding setupPipelineRBAC_def ensureDeployFunctionRole_def ensureDeployFunctionRoleBinding_def
  by (intro frame_intros status_inv_call) simp_all


lemma deploy_status: "preserves status_inv (deploy r repo)"
  unfolding deploy_def run_deploy_def persistRegistryAuthSecret_def
  by (intro frame_intros status_inv_call rbac_status) simp_all

lemma rebuild_status: "preserves status_inv (rebuild r repo md info v)"
  unfolding rebuild_def mark_defs
  by (intro frame_intros status_inv_call status_inv_set status_inv_modify FlushStatus_status deploy_status markServiceStatus_status)
    (auto simp: set_all_types set_pending_def record_rebuild_def)

lemma handleMiddlewareUpdate_status: "preserves status_inv (handleMiddlewareUpdate r repo md desc)"
proof -
  have check: "preserves status_inv (checkMiddlewareState r md desc)"
    unfolding checkMiddlewareState_def getAutoUpdateStatus_def isMiddlewareUpdateEnabled_def
    by (intro frame_intros status_inv_call) simp_all
  have "preserves status_inv (case c of
       middlewareUpToDate info \<Rightarrow> f info | middlewareOutdated info v \<Rightarrow> g info v)"
    if "\<And>info. preserves status_inv (f info)" "\<And>info v. preserves status_inv (g info v)" for c f g
    using that by (cases c) auto
  note split = this
  show ?thesis
    unfolding handleMiddlewareUpdate_def mark_defs
    by (intro frame_intros split check status_inv_set status_inv_modify rebuild_status markServiceStatus_status)
      (auto simp: set_all_types set_available_def record_check_def)
qed

lemma reconcileDeployment_status: "preserves status_inv (reconcileDeployment r repo md)"
  unfolding reconcileDeployment_def applyLastDeployedAnnotation_def mark_defs
  by (intro frame_intros status_inv_call status_inv_set status_inv_modify handleMiddlewareUpdate_status)
    (auto simp: set_all_types)

lemma prepareSource_status: "preserves status_inv (prepareSource r)"
  unfolding prepareSource_def mark_defs
  by (intro frame_intros status_inv_call status_inv_set status_inv_modify)
    (auto simp: set_all_types)

lemma removeFuncAnnotations_status: "preserves status_inv (removeFuncAnnotations r)"
  unfolding removeFuncAnnotations_def
  by (rule retry_preserves) (unfold remove_attempt_def, intro frame_intros status_inv_call, simp_all)

lemma Cleanup_status: "preserves status_inv (Repository_Cleanup r repo)"
  unfolding Repository_Cleanup_def by (intro frame_intros status_inv_call) simp_all

lemma reconcile_status:
  assumes "written_ok (rs_calls s)"
  shows "holds (reconcile r) s (\<lambda>_. status_inv)"
proof -
  have rest: "preserves status_inv (do {
     res \<leftarrow> prepareSource r;
     case res of
       Inl err \<Rightarrow> ret (Some (Errorf ''prepare source failed: '' err))
     | Inr (repo, metadata) \<Rightarrow> do {
         modify_status (\<lambda>s. s\<lparr>st_Name := md_Name metadata\<rparr>);
         err \<leftarrow> reconcileDeployment r repo metadata;
         result \<leftarrow> (case err of
                      Some e \<Rightarrow> ret (Some (Errorf ''deploying function failed: '' e))
                    | None \<Rightarrow> do {
                        err \<leftarrow> removeFuncAnnotations r;
                        case err of
                          Some e \<Rightarrow> ret (Some (Errorf ''failed to remove func annotations: '' e))
                        | None \<Rightarrow> ret None
                      });
         _ \<leftarrow> Repository_Cleanup r repo;
         ret result
       } })"
    by (intro frame_intros status_inv_modify prepareSource_status reconcileDeployment_status
        removeFuncAnnotations_status Cleanup_status) simp_all
  show ?thesis
    unfolding reconcile_def
    apply (subst holds_bind, rule holds_clock_any)
    apply (subst holds_bind, subst holds_modify_fn)
    apply (rule preserves_holds [OF rest])
    apply (simp add: status_inv_def assms InitializeConditions_eq wf_working_Initialize)
    done
qed

lemma Reconcile_status:
  assumes "rs_calls s = []"
  shows "holds (Reconcile r req) s (\<lambda>_ s'. written_ok (rs_calls s'))"
proof -
  have step: "holds (do {
       reconcileErr \<leftarrow> reconcile r; flushErr \<leftarrow> FlushStatus r;
       case flushErr of Some e \<Rightarrow> ret (Some e) | None \<Rightarrow> ret reconcileErr }) s'
      (\<lambda>_ s'. written_ok (rs_calls s'))" if "written_ok (rs_calls s')" for s'
    unfolding holds_bind
    by (rule holds_mono [OF reconcile_status [OF that]],
        rule holds_mono [OF preserves_holds [OF FlushStatus_status]])
      (auto simp: holds_return status_inv_def split: option.split)
  show ?thesis
    unfolding Reconcile_def
    apply (subst holds_bind, rule holds_call_any)
    apply (auto simp: holds_bind holds_return holds_modify holds_gets WithStatusTracker_def
        assms split: sum.split)
    apply (rule step [unfolded holds_bind])
    apply simp
    done
qed

end
end
