(* ===== verification/ReconcileOutcome.thy ===== *)
theory ReconcileOutcome
  imports StatusInvariant
begin

text \<open>
  The outcome of a reconcile whose collaborators give known answers: what the object says at the end.
  \<open>cond_is\<close> reads the status of one condition; the handlers at the end of a reconcile keep the object.
\<close>

text \<open>The status of one condition.\<close>

definition cond_is :: "Function \<Rightarrow> string \<Rightarrow> ConditionStatus \<Rightarrow> bool" where
  "cond_is f ty st \<longleftrightarrow> map_option cond_Status (find_cond (fn_Conditions f) ty) = Some st"

text \<open>What the object says when the middleware is the latest, but for Ready.\<close>

definition latest_deployed :: "Instance \<Rightarrow> Function \<Rightarrow> bool" where
  "latest_deployed desc f \<longleftrightarrow>
     cond_is f TypeSourceReady ConditionTrue \<and> cond_is f TypeDeployed ConditionTrue
     \<and> cond_is f TypeMiddlewareUpToDate ConditionTrue
     \<and> cond_is f TypeServiceReady (if ToLower (inst_Ready desc) = ''true'' then ConditionTrue else ConditionFalse)
     \<and> mw_Current (st_Middleware (fn_Status f)) = inst_MiddlewareVersion desc
     \<and> \<not> mw_PendingRebuild (st_Middleware (fn_Status f))
     \<and> dep_Image (st_Deployment (fn_Status f)) = inst_Image desc
     \<and> st_Service (fn_Status f) = \<lparr>svc_URL = inst_Route desc, svc_Ready = inst_Ready desc\<rparr>"

lemma cond_is_keep [simp]:
  "cond_is (map_status (\<lambda>s. s\<lparr>st_Deployment := g1 s\<rparr>) f) ty st = cond_is f ty st"
  "cond_is (map_status (\<lambda>s. s\<lparr>st_Git := g2 s\<rparr>) f) ty st = cond_is f ty st"
  "cond_is (map_status (\<lambda>s. s\<lparr>st_Name := g3 s\<rparr>) f) ty st = cond_is f ty st"
  "cond_is (map_status (record_check info) f) ty st = cond_is f ty st"
  "cond_is (RecordHistoryEvent srt now msg opts f) ty st = cond_is f ty st"
  by (simp_all add: cond_is_def record_check_def)

context reconcile_library begin

text \<open>A reconcile touches the history, the object and the tracker, and only sets the latter.\<close>

lemma reconcile_keeps:
  assumes w: "ignores_world I" and c: "\<And>s c. I s \<Longrightarrow> I (s\<lparr>rs_calls := rs_calls s @ [c]\<rparr>)"
    and f: "\<And>s g. I s \<Longrightarrow> I (s\<lparr>rs_fn := g\<rparr>)" and t: "\<And>s t. I s \<Longrightarrow> I (s\<lparr>rs_tracker := Some t\<rparr>)"
  shows "preserves I (reconcile r)"
proof -
  note intros = frame_intros retry_preserves preserves_modify w c f t
  have flush: "preserves I (FlushStatus r)"
    unfolding FlushStatus_def GetStatusTracker_def Flush_def flush_attempt_def by (intro intros)
  have service: "preserves I (markServiceStatus r x)" for x
    unfolding markServiceStatus_def by (intro intros)
  have deploy: "preserves I (deploy r repo)" for repo
    unfolding deploy_def run_deploy_def persistRegistryAuthSecret_def setupPipelineRBAC_def
      ensureDeployFunctionRole_def ensureDeployFunctionRoleBinding_def by (intro intros)
  have rebuild: "preserves I (rebuild r repo md info v)" for repo md info v
    unfolding rebuild_def by (intro intros flush deploy service)
  have split: "preserves I (case c of
       middlewareUpToDate info \<Rightarrow> g info | middlewareOutdated info v \<Rightarrow> h info v)"
    if "\<And>info. preserves I (g info)" "\<And>info v. preserves I (h info v)" for c g h
    using that by (cases c) auto
  have handle: "preserves I (handleMiddlewareUpdate r repo md desc)" for repo md desc
    unfolding handleMiddlewareUpdate_def checkMiddlewareState_def getAutoUpdateStatus_def isMiddlewareUpdateEnabled_def
    by (intro intros split service rebuild)
  show ?thesis
    unfolding reconcile_def prepareSource_def reconcileDeployment_def applyLastDeployedAnnotation_def
      removeFuncAnnotations_def remove_attempt_def Repository_Cleanup_def
    by (intro intros handle)
qed

lemma removeFuncAnnotations_keeps_fn: "preserves (\<lambda>s. P (rs_fn s)) (removeFuncAnnotations r)"
  unfolding removeFuncAnnotations_def
  by (rule retry_preserves) (unfold remove_attempt_def, intro frame_intros, simp_all add: ignores_world_def)

lemma Cleanup_keeps_fn: "preserves (\<lambda>s. P (rs_fn s)) (Repository_Cleanup r repo)"
  unfolding Repository_Cleanup_def by (intro frame_intros) (simp_all add: ignores_world_def)

lemma flush_attempt_keeps_fn: "preserves (\<lambda>s. P (rs_fn s)) (flush_attempt r)"
  unfolding flush_attempt_def by (intro frame_intros) (simp_all add: ignores_world_def)

lemma cond_is_set:
  "cond_is (set_cond_of (ssc_of r) t ty st rs ms f) ty' st' \<longleftrightarrow> (if ty = ty' then st = st' else cond_is f ty' st')"
  using find_apply_same [of t "fn_Conditions f" "mk_cond ty st rs ms (fn_Generation f)"]
  by (auto simp: cond_is_def set_cond_of_eq)

lemma cond_is_calculated:
  assumes "wf_working (fn_Conditions f)"
  shows "cond_is (CalculateReadyCondition (ssc_of r) t f) TypeReady
     (if \<forall>ty \<in> set FunctionsConditions. cond_is f ty ConditionTrue then ConditionTrue else ConditionFalse)"
proof -
  have d: "distinct (cond_types (fn_Conditions f))" using assms by (rule wf_working_distinct)
  have t: "set (cond_types (fn_Conditions f)) = set FunctionsConditions \<union> {TypeReady}"
    using assms by (simp add: wf_working_def all_types_def)
  have f: "find_cond (fn_Conditions f) (cond_Type c) = Some c" if "c \<in> set (fn_Conditions f)" for c
    using find_cond_distinct [OF d that] .
  have "others_true (fn_Conditions f) \<longleftrightarrow> (\<forall>ty \<in> set FunctionsConditions. cond_is f ty ConditionTrue)"
  proof
    assume o: "others_true (fn_Conditions f)"
    show "\<forall>ty \<in> set FunctionsConditions. cond_is f ty ConditionTrue"
    proof
      fix ty assume ty: "ty \<in> set FunctionsConditions"
      then have "ty \<in> set (cond_types (fn_Conditions f))" using t by simp
      then obtain c where "c \<in> set (fn_Conditions f)" "cond_Type c = ty" by auto
      moreover have "ty \<noteq> TypeReady" using ty by (auto simp: FunctionsConditions_def)
      ultimately show "cond_is f ty ConditionTrue" using o f by (auto simp: cond_is_def others_true_def)
    qed
  next
    assume a: "\<forall>ty \<in> set FunctionsConditions. cond_is f ty ConditionTrue"
    show "others_true (fn_Conditions f)"
      unfolding others_true_def
    proof (intro ballI impI)
      fix c assume c: "c \<in> set (fn_Conditions f)" "cond_Type c \<noteq> TypeReady"
      then have "cond_Type c \<in> set FunctionsConditions" using t by (metis UnE image_eqI list.set_map singletonD)
      then show "cond_Status c = ConditionTrue" using a f [OF c(1)] by (auto simp: cond_is_def)
    qed
  qed
  then show ?thesis
    using find_apply_same [of t "fn_Conditions f" "ready_cond f"]
    by (auto simp: cond_is_def CalculateReadyCondition_eq CalculateReadyCondition_conditions ready_cond_status)
qed

text \<open>The object after a reconcile of a deployed function whose middleware is the latest.\<close>

lemma prepareSource_ok:
  assumes "repo_AuthSecretRef (spec_Repository (fn_Spec (rs_fn s))) = None"
    and "\<And>url dir revision. answers (gm_CloneRepository (fr_GitManager r) url dir revision []) (Inr repo)"
    and "answers (p_NewFunction (fr_Platform r) (Repository_Path repo)) (Inr md)"
    and "\<And>t g. I (map_status (\<lambda>st. st\<lparr>st_Git := g\<rparr>) (MarkSourceReady (ssc_of r) t (rs_fn s)))"
  shows "holds (prepareSource r) s (\<lambda>res s'. res = Inr (repo, md) \<and> I (rs_fn s'))"
  unfolding prepareSource_def holds_bind holds_gets Let_def
  using assms(1)
  by (auto simp: holds_bind holds_return holds_modify_status
      intro!: holds_call_answers [OF assms(2)] holds_call_answers [OF assms(3)] holds_clock_any holds_mark_any assms(4))

lemma markServiceStatus_cases:
  assumes "\<And>s' t rs ms. rs_fn s' = set_cond_of (ssc_of r) t TypeServiceReady
      (if ToLower x = ''true'' then ConditionTrue else ConditionFalse) rs ms (rs_fn s) \<Longrightarrow> Q () s'"
  shows "holds (markServiceStatus r x) s Q"
  unfolding markServiceStatus_def mark_defs
  by (auto intro!: holds_mark_any assms)

lemma applyLastDeployedAnnotation_keeps:
  assumes "I (rs_fn s)" and "\<And>f g. I f \<Longrightarrow> I (map_status (\<lambda>st. st\<lparr>st_Deployment := g st\<rparr>) f)"
    and "\<And>f t msg opts. I f \<Longrightarrow> I (RecordHistoryEvent (l_SortSlice (fr_Library r)) t msg opts f)"
  shows "holds (applyLastDeployedAnnotation r) s (\<lambda>_ s'. I (rs_fn s'))"
  unfolding applyLastDeployedAnnotation_def
  using assms(1) by (auto simp: holds_bind holds_gets holds_return holds_modify_status holds_modify_fn
      intro!: holds_clock_any assms(2-) split: option.split sum.split)

lemma handleMiddlewareUpdate_latest:
  assumes "cond_is (rs_fn s) TypeSourceReady ConditionTrue"
    and "spec_AutoUpdateMiddleware (fn_Spec (rs_fn s)) = Some b"
    and "answers (fcm_GetLatestMiddlewareVersion (fr_FuncCliManager r) (md_Runtime md) (md_Invoke md))
          (Inr (inst_MiddlewareVersion desc))"
  shows "holds (handleMiddlewareUpdate r repo md desc) s (\<lambda>res s'. res = None \<and> latest_deployed desc (rs_fn s'))"
  unfolding handleMiddlewareUpdate_def checkMiddlewareState_def getAutoUpdateStatus_def isMiddlewareUpdateEnabled_def
  using assms
  by (auto simp: holds_bind holds_gets holds_return holds_modify_status latest_deployed_def cond_is_set mark_defs
      record_check_def [of _ "fn_Status f" for f] mk_info_def
      intro!: holds_call_answers holds_mark_any markServiceStatus_cases)

text \<open>From the clone to the end, with the handlers that do not change the object at the end.\<close>

lemma reconcile_latest:
  assumes "repo_AuthSecretRef (spec_Repository (fn_Spec (rs_fn s))) = None"
    and "spec_AutoUpdateMiddleware (fn_Spec (rs_fn s)) = Some b"
    and "\<And>url dir revision. answers (gm_CloneRepository (fr_GitManager r) url dir revision []) (Inr repo)"
    and "answers (p_NewFunction (fr_Platform r) (Repository_Path repo)) (Inr md)"
    and "answers (fcm_Describe (fr_FuncCliManager r) (md_Name md) (fn_Namespace (rs_fn s))) (Inr desc)"
    and "answers (fcm_GetLatestMiddlewareVersion (fr_FuncCliManager r) (md_Runtime md) (md_Invoke md))
          (Inr (inst_MiddlewareVersion desc))"
  shows "holds (reconcile r) s (\<lambda>_ s'. latest_deployed desc (rs_fn s'))"
proof -
  let ?I = "\<lambda>g. cond_is g TypeSourceReady ConditionTrue \<and> fn_Spec g = fn_Spec (rs_fn s) \<and> fn_Meta g = fn_Meta (rs_fn s)"
  have deployment: "holds (reconcileDeployment r repo md) s' (\<lambda>res s''. res = None \<and> latest_deployed desc (rs_fn s''))"
    if "?I (rs_fn s')" for s'
    unfolding reconcileDeployment_def holds_bind holds_gets Let_def
    using that assms(2,5)
    by (auto simp: holds_bind holds_modify_status
        intro!: holds_call_answers [where a = "Inr desc"] handleMiddlewareUpdate_latest [where b = b, OF _ _ assms(6)]
          holds_mono [OF applyLastDeployedAnnotation_keeps [where I = ?I]])
  have fin: "holds (removeFuncAnnotations r \<bind> (\<lambda>err.
       (case err of
         None \<Rightarrow> ret None
       | Some e \<Rightarrow> ret (Some (Errorf ''failed to remove func annotations: '' e))) \<bind>
       (\<lambda>result. Repository_Cleanup r repo \<bind> (\<lambda>_. ret result)))) s'
     (\<lambda>_ s''. latest_deployed desc (rs_fn s''))" if "latest_deployed desc (rs_fn s')" for s'
    by (rule preserves_holds [where I = "\<lambda>s. latest_deployed desc (rs_fn s)", OF _ that])
      (intro frame_intros removeFuncAnnotations_keeps_fn Cleanup_keeps_fn)
  show ?thesis
    unfolding reconcile_def
    apply (subst holds_bind, rule holds_clock_any)
    apply (subst holds_bind, subst holds_modify_fn)
    apply (subst holds_bind, rule holds_mono [OF prepareSource_ok [where I = ?I, OF _ assms(3,4)]])
      apply (simp_all add: InitializeConditions_eq InitializeConditions_def FunctionsConditions_def assms(1) mark_defs cond_is_set)
    apply (subst holds_bind, subst holds_modify_status)
    apply (subst holds_bind, rule holds_mono [OF deployment])
     apply simp
    apply (elim conjE, simp)
    apply (rule fin)
    apply simp
    done
qed

text \<open>The flush at the end calculates Ready and keeps the rest.\<close>

lemma Flush_latest:
  assumes "status_inv s" and "latest_deployed desc (rs_fn s)"
  shows "holds (Flush r t) s (\<lambda>_ s'. latest_deployed desc (rs_fn s')
    \<and> cond_is (rs_fn s') TypeReady (if ToLower (inst_Ready desc) = ''true'' then ConditionTrue else ConditionFalse))"
proof -
  let ?J = "\<lambda>g. latest_deployed desc g
    \<and> cond_is g TypeReady (if ToLower (inst_Ready desc) = ''true'' then ConditionTrue else ConditionFalse)"
  have w: "wf_working (fn_Conditions (rs_fn s))" using assms(1) by (simp add: status_inv_def)
  have o: "cond_is (CalculateReadyCondition (ssc_of r) u (rs_fn s)) ty st = cond_is (rs_fn s) ty st" if "ty \<noteq> TypeReady" for u ty st
    using that by (simp add: cond_is_def CalculateReadyCondition_eq CalculateReadyCondition_conditions)
  have all: "(\<forall>ty \<in> set FunctionsConditions. cond_is (rs_fn s) ty ConditionTrue) \<longleftrightarrow> ToLower (inst_Ready desc) = ''true''"
    using assms(2) by (auto simp: latest_deployed_def FunctionsConditions_def cond_is_def split: if_split_asm)
  have J: "?J (CalculateReadyCondition (ssc_of r) u (rs_fn s))" for u
    using assms(2) cond_is_calculated [OF w, of u] unfolding all by (simp add: latest_deployed_def o)
  have rest: "preserves (\<lambda>s. ?J (rs_fn s)) (do {
       current \<leftarrow> gets rs_fn;
       if \<not> l_StatusDeepEqual (fr_Library r) (fn_Status (tr_original t)) (fn_Status current) then do {
         err \<leftarrow> l_RetryOnConflict (fr_Library r) (flush_attempt r);
         case err of
           Some e \<Rightarrow> ret (Some (Errorf ''failed to update status: '' e))
         | None \<Rightarrow> do {
             current \<leftarrow> gets rs_fn;
             modify (\<lambda>s. s\<lparr>rs_tracker := Some (t\<lparr>tr_original := current\<rparr>)\<rparr>);
             ret None
           }
       }
       else ret None })"
    by (intro frame_intros retry_preserves flush_attempt_keeps_fn preserves_modify) simp
  show ?thesis
    unfolding Flush_def
    apply (subst holds_bind, rule holds_clock_any)
    apply (subst holds_bind, subst holds_modify_fn)
    apply (rule preserves_holds [OF rest])
    using J apply simp
    done
qed

lemma Reconcile_latest:
  assumes "rs_calls s = []"
    and "answers (k_GetFunction (fr_Client r) req) (Inr f)"
    and "repo_AuthSecretRef (spec_Repository (fn_Spec f)) = None"
    and "spec_AutoUpdateMiddleware (fn_Spec f) = Some b"
    and "\<And>url dir revision. answers (gm_CloneRepository (fr_GitManager r) url dir revision []) (Inr repo)"
    and "answers (p_NewFunction (fr_Platform r) (Repository_Path repo)) (Inr md)"
    and "answers (fcm_Describe (fr_FuncCliManager r) (md_Name md) (fn_Namespace f)) (Inr desc)"
    and "answers (fcm_GetLatestMiddlewareVersion (fr_FuncCliManager r) (md_Runtime md) (md_Invoke md))
          (Inr (inst_MiddlewareVersion desc))"
  shows "holds (Reconcile r req) s (\<lambda>_ s'. latest_deployed desc (rs_fn s')
    \<and> cond_is (rs_fn s') TypeReady (if ToLower (inst_Ready desc) = ''true'' then ConditionTrue else ConditionFalse))"
proof -
  let ?R = "\<lambda>s'. latest_deployed desc (rs_fn s') \<and> (\<exists>t. rs_tracker s' = Some t) \<and> status_inv s'"
  have run: "holds (reconcile r) s' (\<lambda>_. ?R)"
    if "rs_fn s' = f" "rs_tracker s' = Some t" "written_ok (rs_calls s')" for s' t
  proof -
    have "preserves (\<lambda>s. \<exists>t. rs_tracker s = Some t) (reconcile r)" by (rule reconcile_keeps) (auto simp: ignores_world_def)
    then have "holds (reconcile r) s' (\<lambda>_ s. \<exists>t. rs_tracker s = Some t)" by (rule preserves_holds) (use that in simp)
    then show ?thesis
      using reconcile_latest [of s' b repo md desc] reconcile_status [OF that(3)] assms that
      by (auto intro: holds_conj)
  qed
  have flush: "holds (FlushStatus r) s' (\<lambda>_ s'. latest_deployed desc (rs_fn s')
      \<and> cond_is (rs_fn s') TypeReady (if ToLower (inst_Ready desc) = ''true'' then ConditionTrue else ConditionFalse))"
    if "?R s'" for s'
    using that Flush_latest [of s' desc] unfolding FlushStatus_def GetStatusTracker_def
    by (auto simp: holds_bind holds_gets)
  show ?thesis
    unfolding Reconcile_def
    apply (subst holds_bind, rule holds_call_answers [OF assms(2)])
    apply (simp add: holds_bind holds_gets holds_modify WithStatusTracker_def split del: if_split)
    apply (rule holds_mono [OF run])
       apply (simp_all add: assms(1) split del: if_split)
    apply (rule holds_mono [OF flush], simp)
    apply (simp add: holds_return split: option.split split del: if_split)
    done
qed
end
end
