(* ===== verification/SampleCluster.thy ===== *)
theory SampleCluster
  imports FunctionController
begin

text \<open>
  A small cluster, to evaluate the model on: it stores one function and knows the one instance that
  runs of it. \<open>func deploy\<close> replaces the instance by one with the latest middleware. The theorems of the
  development are instantiated here, which shows that their hypotheses can hold.
\<close>

record Cluster =
  cl_Function :: Function
  cl_Instance :: "Instance option"
  cl_Now :: time

definition sample_meta :: ObjectMeta where
  "sample_meta = (new_meta ''fn'' ''ns'')\<lparr>om_UID := ''uid-1'', om_Generation := 2,
     om_Annotations := [(''functions.knative.dev/last-deployed'', ''2026-01-01T00:00:00Z''), (''team'', ''a'')]\<rparr>"

definition sample_function :: "bool option \<Rightarrow> Function" where
  "sample_function autoUpdate =
     \<lparr>fn_Meta = sample_meta,
      fn_Spec = \<lparr>spec_Repository = \<lparr>repo_URL = ''https://git/fn'', repo_Revision = ''main'',
                   repo_AuthSecretRef = None, repo_Dir = []\<rparr>,
                 spec_Registry = \<lparr>registry_AuthSecretRef = Some ''regcred''\<rparr>,
                 spec_AutoUpdateMiddleware = autoUpdate\<rparr>,
      fn_Status = \<lparr>st_Name = [],
        st_Git = \<lparr>git_ResolvedRevision = [], git_ObservedCommit = [], git_LastChecked = zero_time\<rparr>,
        st_Deployment = \<lparr>dep_Image = [], dep_ImageBuilt = zero_time, dep_Revision = [], dep_Deployer = [], dep_Runtime = []\<rparr>,
        st_Middleware = \<lparr>mw_Current = [], mw_Available = None,
          mw_AutoUpdate = \<lparr>au_Enabled = False, au_Source = []\<rparr>, mw_PendingRebuild = False, mw_LastRebuild = zero_time\<rparr>,
        st_Service = \<lparr>svc_URL = [], svc_Ready = []\<rparr>,
        st_History = [], st_Conditions = []\<rparr>\<rparr>"

definition sample_instance :: "string \<Rightarrow> Instance" where
  "sample_instance version =
     \<lparr>inst_Image = ''img'', inst_Revision = ''rev-1'', inst_Ready = ''True'', inst_Route = ''http://fn'',
      inst_MiddlewareVersion = version\<rparr>"

definition sample_repo :: Repository where
  "sample_repo = \<lparr>repository_CloneDir = ''/git-repos/repo-1'', repository_SubPath = [],
     repository_Commit = ''c0ffee'', repository_Revision = ''main'', repository_knownHostFile = []\<rparr>"

definition sample_metadata :: FuncMetadata where
  "sample_metadata = \<lparr>md_Name = ''fn'', md_Runtime = ''go'', md_Invoke = [], md_Deployer = []\<rparr>"

abbreviation not_found :: "string \<Rightarrow> goerr" where
  "not_found what \<equiv> ApiError ReasonNotFound (what @ '' not found'')"

definition sample_client :: "Cluster KubeClient" where
  "sample_client = \<lparr>
     k_GetFunction = (\<lambda>key. State (\<lambda>w.
        (if key = meta_key (fn_Meta (cl_Function w)) then Inr (cl_Function w) else Inl (not_found ''function''), w))),
     k_UpdateFunction = (\<lambda>f. State (\<lambda>w. (None, w\<lparr>cl_Function := f\<rparr>))),
     k_UpdateFunctionStatus = (\<lambda>f. State (\<lambda>w. (None, w\<lparr>cl_Function := f\<rparr>))),
     k_ListFunctions = State (\<lambda>w. (Inr [cl_Function w], w)),
     k_GetSecret = (\<lambda>key. ret (Inr \<lparr>sec_Meta = new_meta (nn_Name key) (nn_Namespace key),
        sec_Type = ''kubernetes.io/dockerconfigjson'', sec_Data = [(''.dockerconfigjson'', ''{}'')]\<rparr>)),
     k_GetConfigMap = (\<lambda>key. ret (Inr (defaultConfigMap (nn_Namespace key)))),
     k_CreateConfigMap = (\<lambda>cm. ret None),
     k_GetRole = (\<lambda>key. ret (Inl (not_found ''role''))),
     k_CreateRole = (\<lambda>ro. ret None),
     k_UpdateRole = (\<lambda>ro. ret None),
     k_GetRoleBinding = (\<lambda>key. ret (Inl (not_found ''role binding''))),
     k_CreateRoleBinding = (\<lambda>rb. ret None),
     k_UpdateRoleBinding = (\<lambda>rb. ret None)\<rparr>"

definition sample_cli :: "Cluster FuncCliManager" where
  "sample_cli = \<lparr>
     fcm_Run = (\<lambda>dir args. ret ([], None)),
     fcm_Describe = (\<lambda>name ns. State (\<lambda>w.
        (case cl_Instance w of None \<Rightarrow> Inl ErrFunctionNotFound | Some i \<Rightarrow> Inr i, w))),
     fcm_Deploy = (\<lambda>path ns opts. State (\<lambda>w. (None, w\<lparr>cl_Instance := Some (sample_instance ''1.1.0'')\<rparr>))),
     fcm_GetCurrentVersion = ret (Inr ''v1.20.0''),
     fcm_GetLatestMiddlewareVersion = (\<lambda>runtime invoke. ret (Inr ''1.1.0'')),
     fcm_GetMiddlewareVersion = (\<lambda>name ns. ret (Inr ''1.1.0''))\<rparr>"

definition sample_platform :: "Cluster Platform" where
  "sample_platform = \<lparr>
     p_Clock = State (\<lambda>w. (\<lambda>_. cl_Now w, w\<lparr>cl_Now := cl_Now w + 1\<rparr>)),
     p_NewFunction = (\<lambda>path. ret (Inr sample_metadata)),
     p_CreateTemp = (\<lambda>pat. ret (Inr ''/tmp/auth-file-1.json'')),
     p_WriteFile = (\<lambda>path content. ret None),
     p_Remove = (\<lambda>path. ret None),
     p_RemoveAll = (\<lambda>path. ret None)\<rparr>"

definition sample :: "Cluster FunctionReconciler" where
  "sample = \<lparr>fr_Client = sample_client, fr_FuncCliManager = sample_cli,
     fr_GitManager = \<lparr>gm_CloneRepository = (\<lambda>url dir revision auth. ret (Inr sample_repo))\<rparr>,
     fr_OperatorNamespace = ''func-operator-system'', fr_Platform = sample_platform,
     fr_Library = ref_library 5 (\<lambda>v. Inr 1000)\<rparr>"

text \<open>The cluster with the function deployed at a middleware version, and a run about to begin.\<close>

definition sample_start :: "bool option \<Rightarrow> string option \<Rightarrow> Cluster run_state_rec" where
  "sample_start autoUpdate version =
     \<lparr>rs_world = \<lparr>cl_Function = sample_function autoUpdate, cl_Instance = map_option sample_instance version, cl_Now = 1\<rparr>,
      rs_calls = [], rs_fn = sample_function autoUpdate, rs_tracker = None\<rparr>"

definition sample_request :: nsname where
  "sample_request = nsn ''ns'' ''fn''"

lemma sample_library: "reconcile_library sample"
  using ref_library.reconcile_library_axioms [where r = sample and n = 5 and parse = "\<lambda>v. Inr 1000"]
  by (simp add: sample_def)

lemma sample_start_calls [simp]: "rs_calls (sample_start autoUpdate version) = []"
  by (simp add: sample_start_def)

end
