(* ===== verification/ControllerProperties.thy ===== *)
theory ControllerProperties
  imports ReconcileSafety ReconcileOutcome SampleCluster
begin

text \<open>
  The properties of the Function controller. They hold for every behaviour of the API server, the git
  server, the \<open>func\<close> binary, the file system and the clock; the library routines meet the contracts of
  \<open>reconcile_library\<close>. A run begins with an empty history of calls.
\<close>

section \<open>Order and justification of the calls\<close>

text \<open>
  C1: every run of \<open>Reconcile\<close> is a run of the abstract machine of \<open>ReconcileProtocol\<close>, from its start to
  one of its two ends: the function is gone, or its status was flushed after everything else.
\<close>

theorem reconcile_follows_protocol:
  assumes "reconcile_library r" and "rs_calls s = []"
  shows "holds (Reconcile r req) s (\<lambda>_ s'. phase_of r req (rs_calls s') = PGone
    \<or> (\<exists>f. phase_of r req (rs_calls s') = PFinal f))"
  using assms by (rule reconcile_library.Reconcile_phase)

theorem reconcile_follows_protocol_witness:
  "holds (Reconcile sample sample_request) (sample_start None (Some ''1.0.0''))
     (\<lambda>_ s'. phase_of sample sample_request (rs_calls s') = PGone
       \<or> (\<exists>f. phase_of sample sample_request (rs_calls s') = PFinal f))"
  by (rule reconcile_follows_protocol) (simp_all add: sample_library)

text \<open>The end of a run, with what is known then; shared by the properties below.\<close>

context reconcile_library begin

lemma Reconcile_end:
  assumes "rs_calls s = []"
  shows "holds (Reconcile r req) s (\<lambda>_ s'. phase_of r req (rs_calls s') \<noteq> PBad
    \<and> deploys (rs_calls s') \<le> 1 \<and> settled (rs_calls s'))"
proof (rule holds_mono [OF Reconcile_phase [OF assms]])
  fix a s'
  assume "phase_of r req (rs_calls s') = PGone \<or> (\<exists>f. phase_of r req (rs_calls s') = PFinal f)"
  then show "phase_of r req (rs_calls s') \<noteq> PBad \<and> deploys (rs_calls s') \<le> 1 \<and> settled (rs_calls s')"
    using knows_phase_of [of r req "rs_calls s'"] by auto
qed

lemma Reconcile_deploys:
  assumes "rs_calls s = []"
  shows "holds (Reconcile r req) s (\<lambda>_ s'. \<forall>pre path ns opts a post.
    rs_calls s' = pre @ CDeploy path ns opts a # post \<longrightarrow>
      deploys pre = 0 \<and> deploys post = 0
      \<and> (\<exists>j. ready_to_deploy r req j pre \<and> path = Repository_Path (job_repo j) \<and> ns = job_ns j))"
proof (rule holds_mono [OF Reconcile_end [OF assms]], intro allI impI)
  fix a s' pre path ns opts a' post
  assume e: "phase_of r req (rs_calls s') \<noteq> PBad \<and> deploys (rs_calls s') \<le> 1 \<and> settled (rs_calls s')"
    and c: "rs_calls s' = pre @ CDeploy path ns opts a' # post"
  have "deploys pre + 1 + deploys post \<le> 1" using e c by (simp add: deploys_def is_deploy_def)
  moreover have "\<exists>j. ready_to_deploy r req j pre \<and> path = Repository_Path (job_repo j) \<and> ns = job_ns j"
    using e unfolding c by (blast intro: deploy_history)
  ultimately show "deploys pre = 0 \<and> deploys post = 0
      \<and> (\<exists>j. ready_to_deploy r req j pre \<and> path = Repository_Path (job_repo j) \<and> ns = job_ns j)"
    by simp
qed

end

text \<open>
  C2: \<open>func deploy\<close> runs at most once in a reconcile, and only when the calls before it justify it: the
  object was fetched and its source cloned and read, the function is deployed, the latest middleware
  version differs from the deployed one, the update is allowed by the function or by the operator, and
  the role and the role binding of the pipeline are in place. It deploys the clone, to the namespace of
  the function.
\<close>

theorem deploy_justified:
  assumes "reconcile_library r" and "rs_calls s = []"
  shows "holds (Reconcile r req) s (\<lambda>_ s'. \<forall>pre path ns opts a post.
    rs_calls s' = pre @ CDeploy path ns opts a # post \<longrightarrow>
      deploys pre = 0 \<and> deploys post = 0
      \<and> (\<exists>j. ready_to_deploy r req j pre \<and> path = Repository_Path (job_repo j) \<and> ns = job_ns j))"
  using assms by (rule reconcile_library.Reconcile_deploys)

theorem deploy_justified_witness:
  "holds (Reconcile sample sample_request) (sample_start None (Some ''1.0.0''))
     (\<lambda>_ s'. \<forall>pre path ns opts a post. rs_calls s' = pre @ CDeploy path ns opts a # post \<longrightarrow>
        deploys pre = 0 \<and> deploys post = 0
        \<and> (\<exists>j. ready_to_deploy sample sample_request j pre \<and> path = Repository_Path (job_repo j) \<and> ns = job_ns j))"
  by (rule deploy_justified) (simp_all add: sample_library)

text \<open>
  C3: a function that turns the middleware update off is never deployed, whatever the operator's
  configuration says.
\<close>

theorem no_deploy_when_disabled:
  assumes "reconcile_library r" and "rs_calls s = []"
  shows "holds (Reconcile r req) s (\<lambda>_ s'. \<forall>f rest.
    rs_calls s' = CGetFunction req (Inr f) # rest \<longrightarrow> spec_AutoUpdateMiddleware (fn_Spec f) = Some False \<longrightarrow>
      deploys rest = 0)"
proof (rule holds_mono [OF reconcile_library.Reconcile_deploys [OF assms]], intro allI impI)
  fix a s' f rest
  assume d: "\<forall>pre path ns opts a post. rs_calls s' = pre @ CDeploy path ns opts a # post \<longrightarrow>
      deploys pre = 0 \<and> deploys post = 0
      \<and> (\<exists>j. ready_to_deploy r req j pre \<and> path = Repository_Path (job_repo j) \<and> ns = job_ns j)"
    and c: "rs_calls s' = CGetFunction req (Inr f) # rest"
    and off: "spec_AutoUpdateMiddleware (fn_Spec f) = Some False"
  show "deploys rest = 0"
  proof (rule ccontr)
    assume "deploys rest \<noteq> 0"
    then have "\<exists>c \<in> set rest. is_deploy c" by (force simp: deploys_def filter_empty_conv)
    then obtain path ns opts b where "CDeploy path ns opts b \<in> set rest" by auto
    then obtain pre post where "rest = pre @ CDeploy path ns opts b # post" by (meson split_list)
    then have "rs_calls s' = (CGetFunction req (Inr f) # pre) @ CDeploy path ns opts b # post" using c by simp
    then obtain j where "ready_to_deploy r req j (CGetFunction req (Inr f) # pre)" using d by blast
    then show False using off
      by (auto simp: ready_to_deploy_def outdated_def described_def read_from_def fetched_def update_allowed_def)
  qed
qed

theorem no_deploy_when_disabled_witness:
  "holds (Reconcile sample sample_request) (sample_start (Some False) (Some ''1.0.0''))
     (\<lambda>_ s'. \<forall>f rest. rs_calls s' = CGetFunction sample_request (Inr f) # rest \<longrightarrow>
        spec_AutoUpdateMiddleware (fn_Spec f) = Some False \<longrightarrow> deploys rest = 0)"
  by (rule no_deploy_when_disabled) (simp_all add: sample_library)

text \<open>
  C4: a reconcile removes the clone it has read, and nothing else; when the source could not be read
  after the clone, it removes nothing.
\<close>

theorem clone_removed_once_read:
  assumes "reconcile_library r" and "rs_calls s = []"
  shows "holds (Reconcile r req) s (\<lambda>_ s'. removed (rs_calls s') =
    (if source_read (rs_calls s') then repository_CloneDir ` cloned (rs_calls s') else {}))"
  by (rule holds_mono [OF reconcile_library.Reconcile_end [OF assms]]) (simp add: settled_def)

theorem clone_removed_once_read_witness:
  "holds (Reconcile sample sample_request) (sample_start None None)
     (\<lambda>_ s'. removed (rs_calls s') =
        (if source_read (rs_calls s') then repository_CloneDir ` cloned (rs_calls s') else {}))"
  by (rule clone_removed_once_read) (simp_all add: sample_library)

text \<open>
  C5: a deployment with registry credentials names the secret of the function's spec, and the next
  call removes the file with the credentials, whether it succeeded or not.
\<close>

theorem credentials_removed:
  assumes "reconcile_library r" and "rs_calls s = []"
  shows "holds (Reconcile r req) s (\<lambda>_ s'. \<forall>pre path ns opts a post.
    rs_calls s' = pre @ CDeploy path ns opts a # post \<longrightarrow> opt_RegistryAuthFile opts \<noteq> [] \<longrightarrow>
      (\<exists>b rest. post = CRemove (opt_RegistryAuthFile opts) b # rest))"
proof (rule holds_mono [OF reconcile_library.Reconcile_phase [OF assms]], intro allI impI)
  fix a s' pre path ns opts a' post
  assume e: "phase_of r req (rs_calls s') = PGone \<or> (\<exists>f. phase_of r req (rs_calls s') = PFinal f)"
    and c: "rs_calls s' = pre @ CDeploy path ns opts a' # post"
    and o: "opt_RegistryAuthFile opts \<noteq> []"
  have ok: "phase_of r req (pre @ CDeploy path ns opts a' # post) \<noteq> PBad" using e c by auto
  obtain j n af where p: "phase_of r req pre = PAuthFile j n af"
    and opts: "opts = \<lparr>opt_RegistryAuthFile = af, opt_ImagePullSecret = n\<rparr>"
    using advance_deploy [OF phase_of_prefix [OF ok]] o by auto
  have q: "phase_of r req (pre @ [CDeploy path ns opts a']) = PUsedAuth j af (a' = None)"
    using phase_of_prefix [OF ok] by (auto simp: p opts deploying_def split: if_splits)
  show "\<exists>b rest. post = CRemove (opt_RegistryAuthFile opts) b # rest"
  proof (cases post)
    case Nil
    then show ?thesis using e q by (simp add: c)
  next
    case (Cons x rest)
    then have "advance r (PUsedAuth j af (a' = None)) x \<noteq> PBad"
      using phase_of_prefix [of r req "pre @ [CDeploy path ns opts a']" x rest] ok q by simp
    then show ?thesis using Cons opts by (cases x) (auto split: if_splits)
  qed
qed

theorem credentials_removed_witness:
  "holds (Reconcile sample sample_request) (sample_start (Some True) (Some ''1.0.0''))
     (\<lambda>_ s'. \<forall>pre path ns opts a post. rs_calls s' = pre @ CDeploy path ns opts a # post \<longrightarrow>
        opt_RegistryAuthFile opts \<noteq> [] \<longrightarrow> (\<exists>b rest. post = CRemove (opt_RegistryAuthFile opts) b # rest))"
  by (rule credentials_removed) (simp_all add: sample_library)

section \<open>The status\<close>

text \<open>
  C6: every status written has the five conditions of a function in order, each with a reason, and
  its Ready condition is True exactly when all others are, and False otherwise.
\<close>

theorem status_written_wellformed:
  assumes "reconcile_library r" and "rs_calls s = []"
  shows "holds (Reconcile r req) s (\<lambda>_ s'. \<forall>g a. CUpdateStatus g a \<in> set (rs_calls s') \<longrightarrow>
    wf_written (fn_Conditions g))"
  using reconcile_library.Reconcile_status [OF assms] by (simp add: written_ok_def)

theorem status_written_wellformed_witness:
  "holds (Reconcile sample sample_request) (sample_start None (Some ''1.0.0''))
     (\<lambda>_ s'. \<forall>g a. CUpdateStatus g a \<in> set (rs_calls s') \<longrightarrow> wf_written (fn_Conditions g))"
  by (rule status_written_wellformed) (simp_all add: sample_library)

section \<open>RBAC\<close>

lemma refresh_binding_expected:
  assumes "refresh_binding r f rb = Inr (rb', u)"
  shows "l_SubjectsDeepDerivative (fr_Library r) (expectedSubjects f) (rb_Subjects rb')
    \<or> rb_Subjects rb' = expectedSubjects f"
    and "l_RoleRefDeepDerivative (fr_Library r) expectedRoleRef (rb_RoleRef rb') \<or> rb_RoleRef rb' = expectedRoleRef"
  using assms by (auto simp: refresh_binding_def Let_def split: sum.splits if_splits)

context reconcile_library begin

lemma refresh_binding_stable:
  assumes "refresh_binding r f rb = Inr (rb', u)"
  shows "refresh_binding r f rb' = Inr (rb', False)"
proof -
  have "l_HasOwnerReference (fr_Library r) (om_OwnerReferences (rb_Meta rb')) (fn_Meta f) = Inr True"
    using assms set_has by (fastforce simp: refresh_binding_def Let_def split: sum.splits if_splits)
  moreover have "l_SubjectsDeepDerivative (fr_Library r) (expectedSubjects f) (rb_Subjects rb')"
    and "l_RoleRefDeepDerivative (fr_Library r) expectedRoleRef (rb_RoleRef rb')"
    using refresh_binding_expected [OF assms] subjects.deepDerivative_refl role_ref.deepDerivative_refl by auto
  ultimately show ?thesis by (simp add: refresh_binding_def)
qed

end


definition foreign_binding :: RoleBinding where
  "foreign_binding = \<lparr>rb_Meta = new_meta ''deploy-function-default'' ''ns'',
     rb_RoleRef = \<lparr>rr_APIGroup = [], rr_Kind = ''ClusterRole'', rr_Name = ''edit''\<rparr>, rb_Subjects = []\<rparr>"

definition owned_binding :: RoleBinding where
  "owned_binding = \<lparr>rb_Meta = (new_meta ''deploy-function-default'' ''ns'')\<lparr>om_OwnerReferences := [owner_ref sample_meta]\<rparr>,
     rb_RoleRef = expectedRoleRef, rb_Subjects = expectedSubjects (sample_function None)\<rparr>"


section \<open>Annotations\<close>

lemma fold_delete:
  "fold (\<lambda>key m. if P key then map_delete key m else m) ks m = filter (\<lambda>kv. \<not> (fst kv \<in> set ks \<and> P (fst kv))) m"
  by (induction ks arbitrary: m) (auto simp: map_delete_def intro!: filter_cong)

text \<open>
  The removal of the annotations of \<open>func\<close> removes these and no other, in whatever order the map is
  visited, and leaves none of them.
\<close>

theorem strip_removes_only_func_annotations:
  "strip_func_annotations m = filter (\<lambda>kv. \<not> HasPrefix (fst kv) ''functions.knative.dev/'') m
   \<and> \<not> hasFuncAnnotations (meta\<lparr>om_Annotations := strip_func_annotations m\<rparr>)"
proof -
  have e: "strip_func_annotations m = filter (\<lambda>kv. \<not> HasPrefix (fst kv) funcAnnotationPrefix) m"
    unfolding strip_func_annotations_def fold_delete by (rule filter_cong) force+
  show ?thesis
    using e by (auto simp: hasFuncAnnotations_def list_ex_iff funcAnnotationPrefix_def)
qed

section \<open>The operator's configuration\<close>

text \<open>
  A function without a setting of its own follows the operator's config map, one with a setting
  does not look at it, and the functions that a change of the config map enqueues are those of the first
  kind, each once and in the order of the list.
\<close>

theorem config_change_enqueues_followers:
  "holds (findFunctionsForConfigMap r) s (\<lambda>reqs s'. \<forall>items. rs_calls s' = rs_calls s @ [CListFunctions (Inr items)] \<longrightarrow>
     reqs = map (meta_key \<circ> fn_Meta) (filter (\<lambda>f. spec_AutoUpdateMiddleware (fn_Spec f) = None) items)
     \<and> (\<forall>f \<in> set items. meta_key (fn_Meta f) \<notin> set reqs \<longrightarrow>
          (\<exists>b. \<forall>s. holds (isMiddlewareUpdateEnabled r f) s (\<lambda>res s''. res = Inr (b, ''function'') \<and> s'' = s))))"
  unfolding findFunctionsForConfigMap_def
  by (auto simp: holds_bind holds_return meta_key_def isMiddlewareUpdateEnabled_def
      intro!: holds_call_any split: sum.split option.split)

theorem config_change_enqueues_followers_witness:
  "holds (findFunctionsForConfigMap sample) (sample_start None None) (\<lambda>reqs s'. \<forall>items.
     rs_calls s' = [CListFunctions (Inr items)] \<longrightarrow>
     reqs = map (meta_key \<circ> fn_Meta) (filter (\<lambda>f. spec_AutoUpdateMiddleware (fn_Spec f) = None) items))"
  by (rule holds_mono [OF config_change_enqueues_followers]) simp

text \<open>
  An API server that stores config maps: \<open>cms w\<close> are those of the world \<open>w\<close>.
\<close>

locale config_map_store =
  fixes client :: "'w KubeClient" and cms :: "'w \<Rightarrow> nsname \<Rightarrow> ConfigMap option"
  assumes get_missing: "cms w key = None \<Longrightarrow> \<exists>m. run_state (k_GetConfigMap client key) w = (Inl (ApiError ReasonNotFound m), w)"
    and get_found: "cms w key = Some cm \<Longrightarrow> run_state (k_GetConfigMap client key) w = (Inr cm, w)"
    and create_new: "cms w (meta_key (cm_Meta cm)) = None \<Longrightarrow> \<exists>w'. run_state (k_CreateConfigMap client cm) w = (None, w')
      \<and> cms w' = (cms w)(meta_key (cm_Meta cm) \<mapsto> cm)"

text \<open>The contract holds for a world that is the map itself.\<close>

definition map_client :: "(nsname \<Rightarrow> ConfigMap option) KubeClient" where
  "map_client = \<lparr>
     k_GetFunction = (\<lambda>key. ret (Inl (not_found ''function''))), k_UpdateFunction = (\<lambda>f. ret None),
     k_UpdateFunctionStatus = (\<lambda>f. ret None), k_ListFunctions = ret (Inr []),
     k_GetSecret = (\<lambda>key. ret (Inl (not_found ''secret''))),
     k_GetConfigMap = (\<lambda>key. State (\<lambda>w. (case w key of None \<Rightarrow> Inl (not_found ''configmap'') | Some cm \<Rightarrow> Inr cm, w))),
     k_CreateConfigMap = (\<lambda>cm. State (\<lambda>w. if w (meta_key (cm_Meta cm)) = None then (None, w(meta_key (cm_Meta cm) \<mapsto> cm))
        else (Some (ApiError ReasonAlreadyExists ''exists''), w))),
     k_GetRole = (\<lambda>key. ret (Inl (not_found ''role''))), k_CreateRole = (\<lambda>ro. ret None), k_UpdateRole = (\<lambda>ro. ret None),
     k_GetRoleBinding = (\<lambda>key. ret (Inl (not_found ''role binding''))),
     k_CreateRoleBinding = (\<lambda>rb. ret None), k_UpdateRoleBinding = (\<lambda>rb. ret None)\<rparr>"

interpretation map_client: config_map_store map_client "\<lambda>w. w"
  by unfold_locales (auto simp: map_client_def)

context config_map_store begin

lemma ensure_default:
  "\<exists>w'. run_state (EnsureDefaultConfigMap client ns) w = (None, w')
     \<and> cms w' = (cms w)(nsn ns controllerConfigName \<mapsto>
         (case cms w (nsn ns controllerConfigName) of None \<Rightarrow> defaultConfigMap ns | Some cm \<Rightarrow> cm))"
proof (cases "cms w (nsn ns controllerConfigName)")
  case None
  then obtain m where g: "run_state (k_GetConfigMap client (nsn ns controllerConfigName)) w = (Inl (ApiError ReasonNotFound m), w)"
    using get_missing by blast
  have k: "meta_key (cm_Meta (defaultConfigMap ns)) = nsn ns controllerConfigName"
    by (simp add: meta_key_def defaultConfigMap_def new_meta_def)
  then obtain w' where "run_state (k_CreateConfigMap client (defaultConfigMap ns)) w = (None, w')"
    and "cms w' = (cms w)(nsn ns controllerConfigName \<mapsto> defaultConfigMap ns)"
    using create_new [of w "defaultConfigMap ns"] None by auto
  with g None show ?thesis by (simp add: EnsureDefaultConfigMap_def IsNotFound_def)
next
  case (Some cm)
  then show ?thesis using get_found [OF Some] by (simp add: EnsureDefaultConfigMap_def fun_upd_idem)
qed

end

text \<open>
  The default configuration turns the middleware update on, and after \<open>EnsureDefaultConfigMap\<close> the
  config map of the operator exists: the default where there was none, and otherwise the one that was
  there, unchanged. Every other config map stays as it was.
\<close>

theorem default_configuration:
  assumes "config_map_store client cms"
  shows "operator_setting (defaultConfigMap ns) = Some True
   \<and> (\<exists>w'. run_state (EnsureDefaultConfigMap client ns) w = (None, w')
        \<and> cms w' = (cms w)(nsn ns controllerConfigName \<mapsto>
             (case cms w (nsn ns controllerConfigName) of None \<Rightarrow> defaultConfigMap ns | Some cm \<Rightarrow> cm)))"
  using config_map_store.ensure_default [OF assms]
  by (simp add: operator_setting_def defaultConfigMap_def defaultAutoUpdateMiddleware_def ParseBool_def)

theorem default_configuration_witness:
  "\<exists>w'. run_state (EnsureDefaultConfigMap map_client ''operator'') (\<lambda>key. None) = (None, w')
     \<and> w' (nsn ''operator'' ''func-operator-controller-config'') = Some (defaultConfigMap ''operator'')"
  using default_configuration [OF map_client.config_map_store_axioms, of "''operator''" "\<lambda>key. None"]
  by (auto simp: controllerConfigName_def)

section \<open>Outcomes\<close>

text \<open>
  When the source can be read, the function is deployed, and its middleware is the latest version,
  the reconcile ends with the source, the deployment and the middleware marked as fine, the service
  marked by what it reports of itself, and the function Ready exactly when the service reports
  \<open>true\<close>, in upper or lower case. The status names the version, the image and the address of the deployed instance.
\<close>

theorem latest_middleware_outcome:
  assumes "reconcile_library r" and "rs_calls s = []"
    and "answers (k_GetFunction (fr_Client r) req) (Inr f)"
    and "repo_AuthSecretRef (spec_Repository (fn_Spec f)) = None"
    and "spec_AutoUpdateMiddleware (fn_Spec f) = Some b"
    and "\<And>url dir revision. answers (gm_CloneRepository (fr_GitManager r) url dir revision []) (Inr repo)"
    and "answers (p_NewFunction (fr_Platform r) (Repository_Path repo)) (Inr md)"
    and "answers (fcm_Describe (fr_FuncCliManager r) (md_Name md) (fn_Namespace f)) (Inr desc)"
    and "answers (fcm_GetLatestMiddlewareVersion (fr_FuncCliManager r) (md_Runtime md) (md_Invoke md))
          (Inr (inst_MiddlewareVersion desc))"
  shows "holds (Reconcile r req) s (\<lambda>_ s'. latest_deployed desc (rs_fn s')
    \<and> cond_is (rs_fn s') TypeReady (if ToLower (inst_Ready desc) = ''true'' then ConditionTrue else ConditionFalse))"
  using assms by (rule reconcile_library.Reconcile_latest)

definition sample_latest :: "Cluster FunctionReconciler" where
  "sample_latest = sample
     \<lparr>fr_Client := sample_client\<lparr>k_GetFunction := (\<lambda>key. ret (Inr (sample_function (Some True))))\<rparr>,
      fr_FuncCliManager := sample_cli\<lparr>fcm_Describe := (\<lambda>name ns. ret (Inr (sample_instance ''1.1.0'')))\<rparr>\<rparr>"

theorem latest_middleware_outcome_witness:
  "holds (Reconcile sample_latest sample_request) (sample_start (Some True) (Some ''1.1.0''))
     (\<lambda>_ s'. latest_deployed (sample_instance ''1.1.0'') (rs_fn s') \<and> cond_is (rs_fn s') TypeReady ConditionTrue)"
proof -
  have lib: "reconcile_library sample_latest"
    using ref_library.reconcile_library_axioms [where r = sample_latest and n = 5 and parse = "\<lambda>v. Inr 1000"]
    by (simp add: sample_latest_def sample_def)
  have "ToLower (inst_Ready (sample_instance ''1.1.0'')) = ''true''"
    by code_simp
  with latest_middleware_outcome [OF lib, of "sample_start (Some True) (Some ''1.1.0'')" sample_request
      "sample_function (Some True)" True sample_repo sample_metadata "sample_instance ''1.1.0''"]
  show ?thesis
    by (simp add: sample_latest_def sample_def sample_client_def sample_cli_def sample_platform_def
        sample_function_def sample_instance_def)
qed

text \<open>A history in which every status write follows the fetch of what it writes to.\<close>

definition fresh_writes :: "Function \<Rightarrow> Call list \<Rightarrow> bool" where
  "fresh_writes f cs \<longleftrightarrow> (\<forall>pre g a post. cs = pre @ CUpdateStatus g a # post \<longrightarrow>
     fn_Status g = fn_Status f
     \<and> (\<exists>pre' h. pre = pre' @ [CGetFunction (meta_key (fn_Meta f)) (Inr h)] \<and> g = h\<lparr>fn_Status := fn_Status f\<rparr>))"

lemma fresh_writes_Nil: "fresh_writes f []"
  by (simp add: fresh_writes_def)

lemma fresh_writes_snoc:
  assumes "fresh_writes f cs"
    and "\<And>g a. c = CUpdateStatus g a \<Longrightarrow>
      \<exists>pre' h. cs = pre' @ [CGetFunction (meta_key (fn_Meta f)) (Inr h)] \<and> g = h\<lparr>fn_Status := fn_Status f\<rparr>"
  shows "fresh_writes f (cs @ [c])"
  unfolding fresh_writes_def
proof (intro allI impI)
  fix pre g a post
  assume e: "cs @ [c] = pre @ CUpdateStatus g a # post"
  show "fn_Status g = fn_Status f \<and> (\<exists>pre' h. pre = pre' @ [CGetFunction (meta_key (fn_Meta f)) (Inr h)]
      \<and> g = h\<lparr>fn_Status := fn_Status f\<rparr>)"
  proof (cases post rule: rev_cases)
    case Nil
    with e have "c = CUpdateStatus g a" "cs = pre" by auto
    then show ?thesis using assms(2) by force
  next
    case (snoc ps p)
    with e have "cs = pre @ CUpdateStatus g a # ps" by simp
    then show ?thesis using assms(1) unfolding fresh_writes_def by blast
  qed
qed

context reconcile_library begin

lemma Flush_fresh:
  assumes "rs_calls s = []"
  shows "holds (Flush r t) s (\<lambda>_ s'. fresh_writes (rs_fn s') (rs_calls s'))"
proof -
  have attempt: "preserves (\<lambda>s. rs_fn s = f \<and> fresh_writes f (rs_calls s)) (flush_attempt r)" for f
  proof (rule preservesI)
    fix s :: "'w run_state_rec"
    assume s: "rs_fn s = f \<and> fresh_writes f (rs_calls s)"
    then have g: "fresh_writes f (rs_calls s @ [CGetFunction (meta_key (fn_Meta f)) a])" for a
      by (auto intro: fresh_writes_snoc)
    have u: "fresh_writes f ((rs_calls s @ [CGetFunction (meta_key (fn_Meta f)) (Inr h)]) @
        [CUpdateStatus (h\<lparr>fn_Status := fn_Status f\<rparr>) a])" for h a
      by (rule fresh_writes_snoc [OF g]) auto
    show "holds (flush_attempt r) s (\<lambda>_ s. rs_fn s = f \<and> fresh_writes f (rs_calls s))"
      unfolding flush_attempt_def holds_bind holds_gets Let_def
      using s g u by (auto simp: holds_bind holds_return meta_key_def intro!: holds_call_any split: sum.split)
  qed
  have rest: "preserves (\<lambda>s. rs_fn s = f \<and> fresh_writes f (rs_calls s)) (do {
       current \<leftarrow> gets rs_fn;
       if \<not> l_StatusDeepEqual (fr_Library r) (fn_Status (tr_original t)) (fn_Status current) then do {
         err \<leftarrow> l_RetryOnConflict (fr_Library r) (flush_attempt r);
         case err of
           Some e \<Rightarrow> ret (Some (Errorf ''failed to update status: '' e))
         | None \<Rightarrow> do {
             current \<leftarrow> gets rs_fn;
             modify (\<lambda>s. s\<lparr>rs_tracker := Some (t\<lparr>tr_original := current\<rparr>)\<rparr>);
             ret None
           }
       }
       else ret None })" for f
    by (intro frame_intros retry_preserves attempt preserves_modify) simp
  show ?thesis
    unfolding Flush_def
    apply (subst holds_bind, rule holds_clock_any)
    apply (subst holds_bind, subst holds_modify_fn)
    apply (rule holds_mono [OF preserves_holds [OF rest]])
    using assms by (auto simp: fresh_writes_Nil)
qed

end

text \<open>
  A flush writes nothing but the status: each write follows directly a fetch of the object and
  changes only the status of what was fetched, so that no concurrent change of the metadata or the spec is lost,
  on any number of conflicts.
\<close>

theorem flush_writes_only_status:
  assumes "reconcile_library r" and "rs_calls s = []"
  shows "holds (Flush r t) s (\<lambda>_ s'. \<forall>pre g a post. rs_calls s' = pre @ CUpdateStatus g a # post \<longrightarrow>
    fn_Status g = fn_Status (rs_fn s')
    \<and> (\<exists>pre' h. pre = pre' @ [CGetFunction (meta_key (fn_Meta (rs_fn s'))) (Inr h)]
         \<and> g = h\<lparr>fn_Status := fn_Status (rs_fn s')\<rparr>))"
  using reconcile_library.Flush_fresh [OF assms] by (simp add: fresh_writes_def)

theorem flush_writes_only_status_witness:
  "holds (Flush sample (NewStatusTracker (sample_function None))) (sample_start None None)
     (\<lambda>_ s'. \<forall>pre g a post. rs_calls s' = pre @ CUpdateStatus g a # post \<longrightarrow> fn_Status g = fn_Status (rs_fn s'))"
  by (rule holds_mono [OF flush_writes_only_status [OF sample_library]]) auto

end
