(* ===== verification/LifecycleProperties.thy ===== *)
theory LifecycleProperties
  imports Lifecycle
begin

text \<open>
  The properties of the status helpers of \<open>Lifecycle\<close>: what the summary condition says, how a
  reconcile starts afresh, which entries of the history survive.
\<close>

section \<open>Conditions\<close>

definition sample_conditions :: "Condition list" where
  "sample_conditions =
     [mk_cond TypeSourceReady ConditionTrue ''CloneSucceeded'' [] 3,
      mk_cond TypeDeployed ConditionFalse ''DeployFailed'' ''boom'' 3,
      mk_cond TypeMiddlewareUpToDate ConditionFalse ''MiddlewareOutdated'' ''redeploying'' 3,
      mk_cond TypeServiceReady ConditionUnknown ''unknown'' [] 3,
      mk_cond TypeReady ConditionUnknown [] [] 0]"

definition empty_function :: "Condition list \<Rightarrow> FunctionStatusHistoryEntry list \<Rightarrow> Function" where
  "empty_function cs history =
     \<lparr>fn_Meta = new_meta ''fn'' ''ns'',
      fn_Spec = \<lparr>spec_Repository = \<lparr>repo_URL = ''https://git/fn'', repo_Revision = [],
                   repo_AuthSecretRef = None, repo_Dir = []\<rparr>,
                 spec_Registry = \<lparr>registry_AuthSecretRef = None\<rparr>, spec_AutoUpdateMiddleware = None\<rparr>,
      fn_Status = \<lparr>st_Name = [],
        st_Git = \<lparr>git_ResolvedRevision = [], git_ObservedCommit = [], git_LastChecked = zero_time\<rparr>,
        st_Deployment = \<lparr>dep_Image = [], dep_ImageBuilt = zero_time, dep_Revision = [], dep_Deployer = [], dep_Runtime = []\<rparr>,
        st_Middleware = \<lparr>mw_Current = [], mw_Available = None,
          mw_AutoUpdate = \<lparr>au_Enabled = False, au_Source = []\<rparr>, mw_PendingRebuild = False, mw_LastRebuild = zero_time\<rparr>,
        st_Service = \<lparr>svc_URL = [], svc_Ready = []\<rparr>,
        st_History = history, st_Conditions = cs\<rparr>\<rparr>"

text \<open>
  C27: \<open>CalculateReadyCondition\<close> leaves every other condition alone and sets Ready to True exactly when
  all others are True. Its reason is that of the last condition that is False, or else of the first that
  is Unknown, or else \<open>ReconcileSucceeded\<close>.
\<close>

theorem ready_sums_up:
  assumes "status_conditions ssc" and "reasons_ok (fn_Conditions f)"
  shows "\<exists>c. find_cond (fn_Conditions (CalculateReadyCondition ssc t f)) TypeReady = Some c
    \<and> cond_Status c = (if others_true (fn_Conditions f) then ConditionTrue else ConditionFalse)
    \<and> cond_Reason c = (case blamed (fn_Conditions f) of Some d \<Rightarrow> cond_Reason d | None \<Rightarrow> ''ReconcileSucceeded'')
    \<and> (\<forall>ty. ty \<noteq> TypeReady \<longrightarrow>
         find_cond (fn_Conditions (CalculateReadyCondition ssc t f)) ty = find_cond (fn_Conditions f) ty)"
  unfolding status_conditions.CalculateReadyCondition_eq [OF assms(1)] CalculateReadyCondition_conditions
  using find_apply_same [of t "fn_Conditions f" "ready_cond f"] assms(2)
  by (simp add: ready_cond_status ready_cond_reason)

theorem ready_sums_up_witness:
  "\<exists>c. find_cond (fn_Conditions (CalculateReadyCondition apply_condition 7 (empty_function sample_conditions []))) TypeReady = Some c
     \<and> cond_Status c = ConditionFalse \<and> cond_Reason c = ''MiddlewareOutdated''"
proof -
  have "others_true (fn_Conditions (empty_function sample_conditions [])) = False"
    and "blamed (fn_Conditions (empty_function sample_conditions [])) = Some (sample_conditions ! 2)"
    and "reasons_ok (fn_Conditions (empty_function sample_conditions []))"
    by (simp_all add: empty_function_def sample_conditions_def others_true_def blamed_def last_false_def
        reasons_ok_def)
  moreover have "cond_Reason (sample_conditions ! 2) = ''MiddlewareOutdated''"
    by (simp add: sample_conditions_def)
  ultimately show ?thesis
    using ready_sums_up [OF ref_conditions.status_conditions_axioms, of "empty_function sample_conditions []" 7]
    by auto
qed

text \<open>
  A reconcile starts afresh: whatever conditions the object had, \<open>InitializeConditions\<close> leaves the
  five in order, all Unknown, and Ready calculated from them is False with the reason \<open>unknown\<close>.
\<close>

theorem initialize_starts_afresh:
  assumes "status_conditions ssc"
  shows "cond_types (fn_Conditions (InitializeConditions ssc clk f)) = FunctionsConditions @ [TypeReady]
    \<and> (\<forall>c \<in> set (fn_Conditions (InitializeConditions ssc clk f)). cond_Status c = ConditionUnknown)
    \<and> (\<exists>c. find_cond (fn_Conditions (CalculateReadyCondition ssc t (InitializeConditions ssc clk f))) TypeReady = Some c
         \<and> cond_Status c = ConditionFalse \<and> cond_Reason c = ''unknown'')"
proof -
  let ?f = "InitializeConditions apply_condition clk f"
  have c: "cond_types (fn_Conditions ?f) = FunctionsConditions @ [TypeReady]"
      "\<forall>c \<in> set (fn_Conditions ?f). cond_Status c = ConditionUnknown"
    unfolding InitializeConditions_conditions by (simp_all add: FunctionsConditions_def)
  have "\<exists>d. blamed (fn_Conditions ?f) = Some d \<and> cond_Reason d = ''unknown''"
    unfolding InitializeConditions_conditions
    by (simp add: blamed_def last_false_def first_unknown_def)
  moreover have "\<not> others_true (fn_Conditions ?f)"
    unfolding InitializeConditions_conditions by (simp add: others_true_def)
  moreover have "reasons_ok (fn_Conditions ?f)" using wf_working_Initialize by (simp add: wf_working_def)
  ultimately have "\<exists>c. find_cond (fn_Conditions (CalculateReadyCondition apply_condition t ?f)) TypeReady = Some c
      \<and> cond_Status c = ConditionFalse \<and> cond_Reason c = ''unknown''"
    unfolding CalculateReadyCondition_conditions
    using find_apply_same [of t "fn_Conditions ?f" "ready_cond ?f"]
    by (auto simp: ready_cond_status ready_cond_reason)
  with c show ?thesis
    by (simp add: status_conditions.InitializeConditions_eq [OF assms]
        status_conditions.CalculateReadyCondition_eq [OF assms])
qed

theorem initialize_starts_afresh_witness:
  "\<exists>c. find_cond (fn_Conditions (CalculateReadyCondition apply_condition 9
      (InitializeConditions apply_condition int (empty_function sample_conditions [])))) TypeReady = Some c
    \<and> cond_Status c = ConditionFalse \<and> cond_Reason c = ''unknown''"
  using initialize_starts_afresh [OF ref_conditions.status_conditions_axioms] by blast

text \<open>
  A mark sets the condition it names, with the generation of the object, and no other; the
  transition time is kept while the status stays the same.
\<close>

theorem mark_sets_one_condition:
  assumes "status_conditions ssc"
  shows "find_cond (fn_Conditions (MarkDeployNotReady ssc t reason message f)) TypeDeployed =
      Some \<lparr>cond_Type = TypeDeployed, cond_Status = ConditionFalse, cond_Reason = reason, cond_Message = message,
            cond_ObservedGeneration = fn_Generation f,
            cond_LastTransitionTime =
              (case find_cond (fn_Conditions f) TypeDeployed of None \<Rightarrow> t
               | Some d \<Rightarrow> if cond_Status d = ConditionFalse then cond_LastTransitionTime d else t)\<rparr>
    \<and> (\<forall>ty. ty \<noteq> TypeDeployed \<longrightarrow>
         find_cond (fn_Conditions (MarkDeployNotReady ssc t reason message f)) ty = find_cond (fn_Conditions f) ty)"
  using find_apply_same [of t "fn_Conditions f" "mk_cond TypeDeployed ConditionFalse reason message (fn_Generation f)"]
  by (simp add: mark_defs status_conditions.set_cond_of_eq [OF assms] split: option.split)

theorem mark_sets_one_condition_witness:
  "find_cond (fn_Conditions (MarkDeployNotReady apply_condition 5 ''DeployFailed'' ''again'' (empty_function sample_conditions [])))
     TypeDeployed =
   Some (mk_cond TypeDeployed ConditionFalse ''DeployFailed'' ''again'' 0)"
  using mark_sets_one_condition [OF ref_conditions.status_conditions_axioms,
      of 5 "''DeployFailed''" "''again''" "empty_function sample_conditions []"]
  by (simp add: empty_function_def sample_conditions_def new_meta_def)

section \<open>History\<close>

text \<open>
  C39: recording an event keeps at most twenty entries, newest first. They are entries of the old
  history or the new one, with the same multiplicities, and no entry that was dropped is newer than one
  that was kept; below the limit nothing is lost.
\<close>

theorem history_keeps_newest:
  assumes "slice_sort srt"
  shows "let old = st_History (fn_Status f); new = st_History (fn_Status (RecordHistoryEvent srt now message options f)) in
    length new = min 20 (length old + 1)
    \<and> sorted_wrt (\<lambda>a b. hist_Time a \<ge> hist_Time b) new
    \<and> (\<exists>dropped. mset new + mset dropped = mset old + {#fold (\<lambda>opt e. opt e) options \<lparr>hist_Time = now, hist_Message = message\<rparr>#}
         \<and> (\<forall>a \<in> set new. \<forall>b \<in> set dropped. hist_Time b \<le> hist_Time a))"
proof -
  let ?e = "fold (\<lambda>opt e. opt e) options \<lparr>hist_Time = now, hist_Message = message\<rparr>"
  let ?all = "st_History (fn_Status f) @ [?e]"
  let ?s = "srt entry_after ?all"
  have m: "mset ?s = mset ?all" and s: "sorted_wrt (\<lambda>x y. \<not> entry_after y x) ?s"
    using slice_sort.srt_mset [OF assms strict_weak_entry_after]
      slice_sort.srt_sorted [OF assms strict_weak_entry_after] by blast+
  have l: "length ?s = length ?all" using m by (metis size_mset)
  have s': "sorted_wrt (\<lambda>a b. hist_Time a \<ge> hist_Time b) ?s"
    by (rule sorted_wrt_mono_rel [OF _ s]) (simp add: entry_after_def)
  have split: "?s = take 20 ?s @ drop 20 ?s" by simp
  have "sorted_wrt (\<lambda>a b. hist_Time a \<ge> hist_Time b) (take 20 ?s)"
    and d: "\<forall>a \<in> set (take 20 ?s). \<forall>b \<in> set (drop 20 ?s). hist_Time b \<le> hist_Time a"
    using s' split sorted_wrt_append [of "\<lambda>a b. hist_Time a \<ge> hist_Time b" "take 20 ?s" "drop 20 ?s"] by auto
  moreover have "mset (take 20 ?s) + mset (drop 20 ?s) = mset (st_History (fn_Status f)) + {#?e#}"
    using m split by (metis mset_append mset.simps(1) mset.simps(2) add_mset_add_single)
  ultimately show ?thesis
    using l by (auto simp: RecordHistoryEvent_split MaxHistoryEntries_def Let_def intro!: exI [of _ "drop 20 ?s"])
qed

theorem history_keeps_newest_witness:
  "length (st_History (fn_Status (RecordHistoryEvent insertion_sort 9 ''m'' [WithHistoryEventTime 4]
     (empty_function [] (replicate 20 \<lparr>hist_Time = 5, hist_Message = ''x''\<rparr>))))) = 20"
  using history_keeps_newest [OF ref_sort.slice_sort_axioms, of
      "empty_function [] (replicate 20 \<lparr>hist_Time = 5, hist_Message = ''x''\<rparr>)" 9 "''m''" "[WithHistoryEventTime 4]"]
  by (simp add: Let_def empty_function_def)

end
