(* ===== verification/GoNumbers.thy ===== *)
theory GoNumbers
  imports GoPrelude
begin

text \<open>
  Bytes as numbers and decimal texts, shared by the readers of flags (\<open>FlagParse\<close>) and of JSON (\<open>GoJson\<close>).
\<close>

definition char_code :: "char \<Rightarrow> nat" where
  "char_code c = of_char c"

definition is_digit :: "char \<Rightarrow> bool" where
  "is_digit c \<longleftrightarrow> 48 \<le> char_code c \<and> char_code c \<le> 57"

fun decimal :: "string \<Rightarrow> nat \<Rightarrow> nat" where
  "decimal [] acc = acc"
| "decimal (c # s) acc = decimal s (acc * 10 + (char_code c - 48))"

text \<open>The value of a digit, letters in either case counting from ten.\<close>

definition digit_value :: "char \<Rightarrow> nat option" where
  "digit_value c =
     (let n = char_code (to_lower c) in
      if 48 \<le> n \<and> n \<le> 57 then Some (n - 48) else if 97 \<le> n \<and> n \<le> 122 then Some (n - 87) else None)"

section \<open>Facts\<close>

lemma char_code_of [simp]: "n < 256 \<Longrightarrow> char_code (char_of n) = n"
  by (simp add: char_code_def)

lemma digit_char: "(d :: nat) < 10 \<Longrightarrow> to_lower (char_of (48 + d)) = char_of (48 + d)"
  by (simp add: to_lower_def Let_def)

lemma digit_value_of: "d < 10 \<Longrightarrow> digit_value (char_of (48 + d)) = Some d"
  by (simp add: digit_value_def digit_char Let_def)

lemma is_digit_of: "(d :: nat) < 10 \<Longrightarrow> is_digit (char_of (48 + d))"
  by (simp add: is_digit_def)

lemma digits_induct [case_names digit more]:
  assumes "\<And>n. n < 10 \<Longrightarrow> P n" "\<And>n. 10 \<le> n \<Longrightarrow> P (n div 10) \<Longrightarrow> P n"
  shows "P (n :: nat)"
  by (induction n rule: less_induct) (use assms in \<open>metis (no_types) div_less_dividend le_less_trans not_less one_less_numeral_iff semiring_norm(76) zero_less_numeral\<close>)

lemma digits_small: "n < 10 \<Longrightarrow> digits_of n = [char_of (48 + n)]"
  by (simp add: digits_of.simps)

lemma digits_more: "10 \<le> n \<Longrightarrow> digits_of n = digits_of (n div 10) @ [char_of (48 + n mod 10)]"
  by (subst digits_of.simps) simp

lemma digits_are_digits: "\<forall>c \<in> set (digits_of n). is_digit c"
proof (induction n rule: digits_induct)
  case (more n)
  then show ?case by (auto simp: digits_more is_digit_of)
qed (simp add: digits_small is_digit_of)

lemma digits_not_Nil [simp]: "digits_of n \<noteq> []"
  by (subst digits_of.simps) simp

lemma decimal_append: "decimal (s @ t) acc = decimal t (decimal s acc)"
  by (induction s arbitrary: acc) auto

lemma decimal_digits: "decimal (digits_of n) 0 = n"
proof (induction n rule: digits_induct)
  case (more n)
  then show ?case by (simp add: digits_more decimal_append)
qed (simp add: digits_small)

lemma digits_no_zero: "0 < n \<Longrightarrow> hd (digits_of n) \<noteq> CHR ''0''"
proof (induction n rule: digits_induct)
  case (digit n)
  then show ?case by (simp add: digits_small char_of_eq_iff take_bit_eq_mod)
next
  case (more n)
  then show ?case by (simp add: digits_more hd_append)
qed

lemma hd_digits: "is_digit (hd (digits_of n))"
  using digits_are_digits [of n] by (cases "digits_of n") auto

lemma digit_no_sign: "is_digit c \<Longrightarrow> c \<noteq> CHR ''-'' \<and> c \<noteq> CHR ''+'' \<and> c \<noteq> CHR ''_'' \<and> c \<noteq> CHR ''.''"
  by (auto simp: is_digit_def char_code_def)

end
