(* ===== verification/Sha256.thy ===== *)
theory Sha256
  imports GoNumbers "HOL-Library.Word"
begin

unbundle bit_operations_syntax

text \<open>
  Go's package \<open>crypto/sha256\<close>: the digest of a byte string in hexadecimal, as \<open>hex.EncodeToString\<close> writes it, on
  words of 32 bits. A known answer at the end ties the constants and the rounds to the standard.
\<close>

type_synonym word8 = "8 word"
type_synonym word32 = "32 word"

section \<open>The compression function\<close>

text \<open>The first 32 bits behind the point of the cube roots of the first 64 primes.\<close>

definition sha_K :: "word32 list" where
  "sha_K =
    [1116352408, 1899447441, 3049323471, 3921009573, 961987163, 1508970993, 2453635748, 2870763221,
     3624381080, 310598401, 607225278, 1426881987, 1925078388, 2162078206, 2614888103, 3248222580,
     3835390401, 4022224774, 264347078, 604807628, 770255983, 1249150122, 1555081692, 1996064986,
     2554220882, 2821834349, 2952996808, 3210313671, 3336571891, 3584528711, 113926993, 338241895,
     666307205, 773529912, 1294757372, 1396182291, 1695183700, 1986661051, 2177026350, 2456956037,
     2730485921, 2820302411, 3259730800, 3345764771, 3516065817, 3600352804, 4094571909, 275423344,
     430227734, 506948616, 659060556, 883997877, 958139571, 1322822218, 1537002063, 1747873779,
     1955562222, 2024104815, 2227730452, 2361852424, 2428436474, 2756734187, 3204031479, 3329325298]"

record sha_state =
  sha_a :: word32
  sha_b :: word32
  sha_c :: word32
  sha_d :: word32
  sha_e :: word32
  sha_f :: word32
  sha_g :: word32
  sha_h :: word32

text \<open>The first 32 bits behind the point of the square roots of the first eight primes.\<close>

definition sha_init :: sha_state where
  "sha_init = \<lparr>sha_a = 1779033703, sha_b = 3144134277, sha_c = 1013904242, sha_d = 2773480762,
     sha_e = 1359893119, sha_f = 2600822924, sha_g = 528734635, sha_h = 1541459225\<rparr>"

definition small_sigma0 :: "word32 \<Rightarrow> word32" where
  "small_sigma0 x = word_rotr 7 x XOR word_rotr 18 x XOR drop_bit 3 x"

definition small_sigma1 :: "word32 \<Rightarrow> word32" where
  "small_sigma1 x = word_rotr 17 x XOR word_rotr 19 x XOR drop_bit 10 x"

definition big_sigma0 :: "word32 \<Rightarrow> word32" where
  "big_sigma0 x = word_rotr 2 x XOR word_rotr 13 x XOR word_rotr 22 x"

definition big_sigma1 :: "word32 \<Rightarrow> word32" where
  "big_sigma1 x = word_rotr 6 x XOR word_rotr 11 x XOR word_rotr 25 x"

definition sha_ch :: "word32 \<Rightarrow> word32 \<Rightarrow> word32 \<Rightarrow> word32" where
  "sha_ch x y z = (x AND y) XOR (NOT x AND z)"

definition sha_maj :: "word32 \<Rightarrow> word32 \<Rightarrow> word32 \<Rightarrow> word32" where
  "sha_maj x y z = (x AND y) XOR (x AND z) XOR (y AND z)"

text \<open>The message schedule: the 16 words of a block, and as many more as asked for.\<close>

fun sha_schedule :: "nat \<Rightarrow> word32 list \<Rightarrow> word32 list" where
  "sha_schedule 0 w = w"
| "sha_schedule (Suc n) w =
     (let t = length w in
      sha_schedule n (w @ [small_sigma1 (w ! (t - 2)) + w ! (t - 7) + small_sigma0 (w ! (t - 15)) + w ! (t - 16)]))"

definition sha_round :: "word32 \<times> word32 \<Rightarrow> sha_state \<Rightarrow> sha_state" where
  "sha_round kw s =
     (let t1 = sha_h s + big_sigma1 (sha_e s) + sha_ch (sha_e s) (sha_f s) (sha_g s) + fst kw + snd kw;
          t2 = big_sigma0 (sha_a s) + sha_maj (sha_a s) (sha_b s) (sha_c s)
      in \<lparr>sha_a = t1 + t2, sha_b = sha_a s, sha_c = sha_b s, sha_d = sha_c s,
          sha_e = sha_d s + t1, sha_f = sha_e s, sha_g = sha_f s, sha_h = sha_g s\<rparr>)"

definition sha_compress :: "word32 list \<Rightarrow> sha_state \<Rightarrow> sha_state" where
  "sha_compress block s =
     (let r = fold sha_round (zip sha_K (sha_schedule 48 block)) s in
      \<lparr>sha_a = sha_a s + sha_a r, sha_b = sha_b s + sha_b r, sha_c = sha_c s + sha_c r, sha_d = sha_d s + sha_d r,
       sha_e = sha_e s + sha_e r, sha_f = sha_f s + sha_f r, sha_g = sha_g s + sha_g r, sha_h = sha_h s + sha_h r\<rparr>)"

section \<open>Messages\<close>

text \<open>The padding of a message of \<open>n\<close> bytes: a set bit, zeros, and the number of its bits in 8 bytes.\<close>

definition length_bytes :: "nat \<Rightarrow> word8 list" where
  "length_bytes n = map (\<lambda>i. ucast (drop_bit (8 * i) (push_bit 3 (of_nat n :: 64 word)))) [7, 6, 5, 4, 3, 2, 1, 0]"

definition sha_padding :: "nat \<Rightarrow> word8 list" where
  "sha_padding n = 0x80 # replicate ((119 - n mod 64) mod 64) 0 @ length_bytes n"

text \<open>The words of a byte string, the highest byte first, and their blocks.\<close>

fun words_of :: "word8 list \<Rightarrow> word32 list" where
  "words_of (a # b # c # d # bs) =
     (push_bit 24 (ucast a) OR push_bit 16 (ucast b) OR push_bit 8 (ucast c) OR ucast d) # words_of bs"
| "words_of bs = []"

function blocks_of :: "word32 list \<Rightarrow> word32 list list" where
  "blocks_of ws = (if ws = [] then [] else take 16 ws # blocks_of (drop 16 ws))"
  by pat_completeness auto

termination
  by (relation "measure length") auto

declare blocks_of.simps [simp del]

definition word_hex :: "word32 \<Rightarrow> string" where
  "word_hex x = map (\<lambda>i. hex_digit (unat (drop_bit (4 * i) x AND 15))) [7, 6, 5, 4, 3, 2, 1, 0]"

definition sha_hex :: "sha_state \<Rightarrow> string" where
  "sha_hex s = concat (map word_hex [sha_a s, sha_b s, sha_c s, sha_d s, sha_e s, sha_f s, sha_g s, sha_h s])"

definition sha256_hex :: "string \<Rightarrow> string" where
  "sha256_hex s = sha_hex (fold sha_compress (blocks_of (words_of (map of_char s @ sha_padding (length s)))) sha_init)"

section \<open>Facts\<close>

lemma length_sha256_hex: "length (sha256_hex s) = 64"
  by (simp add: sha256_hex_def sha_hex_def word_hex_def)

text \<open>A digest is written in lower-case hexadecimal digits.\<close>

lemma hex_digit_in: "n < 16 \<Longrightarrow> hex_digit n \<in> set ''0123456789abcdef''"
  unfolding hex_digit_def by (rule nth_mem) simp

lemma nibble_lt: "unat (x AND 15 :: word32) < 16"
proof -
  have "x AND 15 \<le> (15 :: word32)" by (rule word_and_le1)
  then have "unat (x AND 15) \<le> unat (15 :: word32)" by (simp only: word_le_nat_alt)
  then show ?thesis by simp
qed

lemma word_hex_digits: "set (word_hex x) \<subseteq> set ''0123456789abcdef''"
  unfolding word_hex_def set_map using hex_digit_in [OF nibble_lt] by blast

lemma sha256_hex_digits: "set (sha256_hex s) \<subseteq> set ''0123456789abcdef''"
  unfolding sha256_hex_def sha_hex_def set_concat set_map using word_hex_digits by blast

lemma sha_padding_fills: "64 dvd n + length (sha_padding n)"
proof -
  obtain q r where n: "n = 64 * q + r" "r < 64" by (metis div_mult_mod_eq mod_less_divisor mult.commute zero_less_numeral)
  then have len: "length (sha_padding n) = 9 + (119 - r) mod 64" by (simp add: sha_padding_def length_bytes_def)
  show ?thesis
  proof (cases "r < 56")
    case True
    then have "(119 - r) mod 64 = 55 - r" by (simp add: mod_if)
    then have "n + length (sha_padding n) = 64 * (q + 1)" using True n(1) len by simp
    then show ?thesis by (simp only: dvd_triv_left)
  next
    case False
    then have "(119 - r) mod 64 = 119 - r" by simp
    then have "n + length (sha_padding n) = 64 * (q + 2)" using False n len by simp
    then show ?thesis by (simp only: dvd_triv_left)
  qed
qed


section \<open>A known answer\<close>

text \<open>The digest of \<open>abc\<close>, in the steps of its only block.\<close>

definition abc_block :: "word32 list" where
  "abc_block =
    [0x61626380, 0x00000000, 0x00000000, 0x00000000, 0x00000000, 0x00000000, 0x00000000, 0x00000000,
     0x00000000, 0x00000000, 0x00000000, 0x00000000, 0x00000000, 0x00000000, 0x00000000, 0x00000018]"

definition abc_schedule :: "word32 list" where
  "abc_schedule =
    [0x61626380, 0x00000000, 0x00000000, 0x00000000, 0x00000000, 0x00000000, 0x00000000, 0x00000000,
     0x00000000, 0x00000000, 0x00000000, 0x00000000, 0x00000000, 0x00000000, 0x00000000, 0x00000018,
     0x61626380, 0x000f0000, 0x7da86405, 0x600003c6, 0x3e9d7b78, 0x0183fc00, 0x12dcbfdb, 0xe2e2c38e,
     0xc8215c1a, 0xb73679a2, 0xe5bc3909, 0x32663c5b, 0x9d209d67, 0xec8726cb, 0x702138a4, 0xd3b7973b,
     0x93f5997f, 0x3b68ba73, 0xaff4ffc1, 0xf10a5c62, 0x0a8b3996, 0x72af830a, 0x9409e33e, 0x24641522,
     0x9f47bf94, 0xf0a64f5a, 0x3e246a79, 0x27333ba3, 0x0c4763f2, 0x840abf27, 0x7a290d5d, 0x065c43da,
     0xfb3e89cb, 0xcc7617db, 0xb9e66c34, 0xa9993667, 0x84badedd, 0xc21462bc, 0x1487472c, 0xb20f7a99,
     0xef57b9cd, 0xebe6b238, 0x9fe3095e, 0x78bc8d4b, 0xa43fcf15, 0x668b2ff8, 0xeeaba2cc, 0x12b1edeb]"

lemma abc_blocks: "blocks_of (words_of (map of_char ''abc'' @ sha_padding 3)) = [abc_block]"
  by code_simp

lemma abc_scheduled: "sha_schedule 48 abc_block = abc_schedule"
  by code_simp

lemma abc_rounds: "fold sha_round (zip sha_K abc_schedule) sha_init =
  \<lparr>sha_a = 0x506e3058, sha_b = 0xd39a2165, sha_c = 0x04d24d6c, sha_d = 0xb85e2ce9,
   sha_e = 0x5ef50f24, sha_f = 0xfb121210, sha_g = 0x948d25b6, sha_h = 0x961f4894\<rparr>"
  by code_simp

lemma sha256_abc: "sha256_hex ''abc'' = ''ba7816bf8f01cfea414140de5dae2223b00361a396177a9cb410ff61f20015ad''"
proof -
  have len: "length ''abc'' = 3" by simp
  have "sha256_hex ''abc'' = sha_hex (sha_compress abc_block sha_init)"
    unfolding sha256_hex_def len abc_blocks by simp
  also have "sha_compress abc_block sha_init = \<lparr>sha_a = 0xba7816bf, sha_b = 0x8f01cfea, sha_c = 0x414140de, sha_d = 0x5dae2223,
   sha_e = 0xb00361a3, sha_f = 0x96177a9c, sha_g = 0xb410ff61, sha_h = 0xf20015ad\<rparr>"
    unfolding sha_compress_def abc_scheduled abc_rounds Let_def by (simp add: sha_init_def)
  also have "sha_hex \<dots> = ''ba7816bf8f01cfea414140de5dae2223b00361a396177a9cb410ff61f20015ad''"
    by code_simp
  finally show ?thesis .
qed

end
