(* ===== verification/Download.thy ===== *)
theory Download
  imports GoMonad Sha256
begin

text \<open>
  The verified download of the \<open>func\<close> binary, \<open>internal/funccli/download.go\<close>, on a model of the file
  system. Files are a map from paths to contents. Every operation of package \<open>os\<close> can fail: \<open>env_fault\<close>
  gives, for the number of the operation in the run, the error and how much of a copy was written before
  it. The answers of the HTTP servers are parameters too; the theorems hold for all of them.
  A body that breaks off is a body with a read error.
\<close>

section \<open>The operating system\<close>

record HttpResponse =
  resp_StatusCode :: nat
  resp_Body :: string
  resp_ReadErr :: "goerr option"

text \<open>\<open>os_Extern\<close> is the world outside: the cluster that the \<open>func\<close> binary acts on.\<close>

record 'x OsWorld =
  os_Files :: "string \<rightharpoonup> string"
  os_Executable :: "string set"
  os_Ops :: nat
  os_Extern :: 'x

record 'x OsEnv =
  env_Fault :: "nat \<Rightarrow> (goerr \<times> nat) option"
  env_Get :: "nat \<Rightarrow> string \<Rightarrow> goerr + HttpResponse"
  env_Exec :: "string \<Rightarrow> string \<Rightarrow> string list \<Rightarrow> ('x, string \<times> goerr option) state"

type_synonym ('x, 'a) os = "('x OsWorld, 'a) state"

text \<open>The next operation: its number, and whether it fails.\<close>

definition next_op :: "('x, nat) os" where
  "next_op = State (\<lambda>w. (os_Ops w, w\<lparr>os_Ops := os_Ops w + 1\<rparr>))"

definition os_fault :: "'x OsEnv \<Rightarrow> ('x, (goerr \<times> nat) option) os" where
  "os_fault env = do { n \<leftarrow> next_op; ret (env_Fault env n) }"

definition http_Get :: "'x OsEnv \<Rightarrow> string \<Rightarrow> ('x, goerr + HttpResponse) os" where
  "http_Get env url = do { n \<leftarrow> next_op; ret (env_Get env n url) }"

definition write_file :: "string \<Rightarrow> string \<Rightarrow> ('x, unit) os" where
  "write_file path content = modify (\<lambda>w. w\<lparr>os_Files := (os_Files w)(path \<mapsto> content)\<rparr>)"

definition os_Create :: "'x OsEnv \<Rightarrow> string \<Rightarrow> ('x, goerr option) os" where
  "os_Create env path = do {
     f \<leftarrow> os_fault env;
     case f of
       Some (e, _) \<Rightarrow> ret (Some e)
     | None \<Rightarrow> do { write_file path []; ret None }
   }"

text \<open>\<open>io.Copy\<close> of a body to a file: what was read is written, or a part of it when the disk fails.\<close>

definition io_Copy_body :: "'x OsEnv \<Rightarrow> string \<Rightarrow> HttpResponse \<Rightarrow> ('x, goerr option) os" where
  "io_Copy_body env path resp = do {
     f \<leftarrow> os_fault env;
     case f of
       Some (e, n) \<Rightarrow> do { write_file path (take n (resp_Body resp)); ret (Some e) }
     | None \<Rightarrow> do { write_file path (resp_Body resp); ret (resp_ReadErr resp) }
   }"

definition os_Remove :: "'x OsEnv \<Rightarrow> string \<Rightarrow> ('x, goerr option) os" where
  "os_Remove env path = do {
     f \<leftarrow> os_fault env;
     case f of
       Some (e, _) \<Rightarrow> ret (Some e)
     | None \<Rightarrow> do { modify (\<lambda>w. w\<lparr>os_Files := (os_Files w)(path := None)\<rparr>); ret None }
   }"

definition os_Chmod :: "'x OsEnv \<Rightarrow> string \<Rightarrow> ('x, goerr option) os" where
  "os_Chmod env path = do {
     f \<leftarrow> os_fault env;
     case f of
       Some (e, _) \<Rightarrow> ret (Some e)
     | None \<Rightarrow> do { modify (\<lambda>w. w\<lparr>os_Executable := insert path (os_Executable w)\<rparr>); ret None }
   }"

text \<open>\<open>os.Rename\<close> replaces the target in one step.\<close>

definition os_Rename :: "'x OsEnv \<Rightarrow> string \<Rightarrow> string \<Rightarrow> ('x, goerr option) os" where
  "os_Rename env old new = do {
     f \<leftarrow> os_fault env;
     files \<leftarrow> gets os_Files;
     case f of
       Some (e, _) \<Rightarrow> ret (Some e)
     | None \<Rightarrow>
         (case files old of
            None \<Rightarrow> ret (Some (ErrorString (''rename '' @ old @ '' '' @ new @ '': no such file or directory'')))
          | Some content \<Rightarrow> do {
              modify (\<lambda>w. w\<lparr>os_Files := (os_Files w)(old := None, new \<mapsto> content)\<rparr>);
              modify (\<lambda>w. w\<lparr>os_Executable :=
                (if old \<in> os_Executable w then insert new (os_Executable w - {old})
                 else os_Executable w - {old, new})\<rparr>);
              ret None
            })
   }"

definition os_ReadFile :: "'x OsEnv \<Rightarrow> string \<Rightarrow> ('x, goerr + string) os" where
  "os_ReadFile env path = do {
     f \<leftarrow> os_fault env;
     files \<leftarrow> gets os_Files;
     case f of
       Some (e, _) \<Rightarrow> ret (Inl e)
     | None \<Rightarrow> (case files path of
         None \<Rightarrow> ret (Inl (ErrorString (''open '' @ path @ '': no such file or directory'')))
       | Some content \<Rightarrow> ret (Inr content))
   }"

section \<open>Checksums\<close>

definition newline :: char where
  "newline = CHR 0x0A"

text \<open>The loop of \<open>fetchExpectedChecksum\<close> over the lines of \<open>checksums.txt\<close>.\<close>

fun find_checksum :: "string \<Rightarrow> string list \<Rightarrow> string option" where
  "find_checksum assetName [] = None"
| "find_checksum assetName (line # lines) =
     (case Fields line of
        [hash, name] \<Rightarrow> if name = assetName then Some hash else find_checksum assetName lines
      | _ \<Rightarrow> find_checksum assetName lines)"

definition parse_checksums :: "string \<Rightarrow> string \<Rightarrow> string option" where
  "parse_checksums assetName body = find_checksum assetName (Split (TrimSpace body) newline)"

definition fetchExpectedChecksum :: "'x OsEnv \<Rightarrow> string \<Rightarrow> string \<Rightarrow> ('x, goerr + string) os" where
  "fetchExpectedChecksum env assetName checksumURL = do {
     res \<leftarrow> http_Get env checksumURL;
     case res of
       Inl e \<Rightarrow> ret (Inl (Errorf ''failed to download checksums: '' e))
     | Inr resp \<Rightarrow>
         if resp_StatusCode resp \<noteq> 200 then
           ret (Inl (ErrorString (''checksums download failed with status '' @ digits_of (resp_StatusCode resp))))
         else (case resp_ReadErr resp of
             Some e \<Rightarrow> ret (Inl (Errorf ''failed to read checksums: '' e))
           | None \<Rightarrow> (case parse_checksums assetName (resp_Body resp) of
               Some hash \<Rightarrow> ret (Inr hash)
             | None \<Rightarrow> ret (Inl (ErrorString (''no checksum found for asset '' @ assetName)))))
   }"

definition verifyFileChecksum :: "'x OsEnv \<Rightarrow> string \<Rightarrow> string \<Rightarrow> string \<Rightarrow> ('x, goerr option) os" where
  "verifyFileChecksum env filePath assetName checksumURL = do {
     res \<leftarrow> fetchExpectedChecksum env assetName checksumURL;
     case res of
       Inl e \<Rightarrow> ret (Some e)
     | Inr expectedHash \<Rightarrow> do {
         res \<leftarrow> os_ReadFile env filePath;
         case res of
           Inl e \<Rightarrow> ret (Some (Errorf ''failed to open file for checksum: '' e))
         | Inr content \<Rightarrow>
             (let actualHash = sha256_hex content in
              if actualHash \<noteq> expectedHash then
                ret (Some (ErrorString (''sha256 mismatch: expected '' @ expectedHash @ '', got '' @ actualHash)))
              else ret None)
       }
   }"

section \<open>Download and installation\<close>

definition downloadToFile :: "'x OsEnv \<Rightarrow> string \<Rightarrow> string \<Rightarrow> ('x, goerr option) os" where
  "downloadToFile env url path = do {
     res \<leftarrow> http_Get env url;
     case res of
       Inl e \<Rightarrow> ret (Some e)
     | Inr resp \<Rightarrow>
         if resp_StatusCode resp \<noteq> 200 then
           ret (Some (ErrorString (''download failed with status '' @ digits_of (resp_StatusCode resp))))
         else do {
           err \<leftarrow> os_Create env path;
           case err of
             Some e \<Rightarrow> ret (Some e)
           | None \<Rightarrow> io_Copy_body env path resp
         }
   }"

text \<open>\<open>filepath.Base\<close>: the last element of a path.\<close>

definition filepath_Base :: "string \<Rightarrow> string" where
  "filepath_Base p =
     (if p = [] then ''.''
      else let q = rev (dropWhile (\<lambda>c. c = CHR ''/'') (rev p))
           in if q = [] then ''/'' else last (Split q (CHR ''/'')))"

definition tmp_of :: "string \<Rightarrow> string" where
  "tmp_of installPath = installPath @ ''.tmp''"

definition DownloadAndInstall :: "'x OsEnv \<Rightarrow> string \<Rightarrow> string \<Rightarrow> string \<Rightarrow> ('x, goerr option) os" where
  "DownloadAndInstall env binaryURL checksumURL installPath = do {
     let assetName = filepath_Base binaryURL;
     let tmpFile = tmp_of installPath;
     err \<leftarrow> downloadToFile env binaryURL tmpFile;
     case err of
       Some e \<Rightarrow> ret (Some (Errorf ''failed to download binary: '' e))
     | None \<Rightarrow> do {
         err \<leftarrow> verifyFileChecksum env tmpFile assetName checksumURL;
         case err of
           Some e \<Rightarrow> do { _ \<leftarrow> os_Remove env tmpFile; ret (Some (Errorf ''checksum verification failed: '' e)) }
         | None \<Rightarrow> do {
             err \<leftarrow> os_Chmod env tmpFile;
             case err of
               Some e \<Rightarrow> do { _ \<leftarrow> os_Remove env tmpFile; ret (Some (Errorf ''failed to make binary executable: '' e)) }
             | None \<Rightarrow> do {
                 err \<leftarrow> os_Rename env tmpFile installPath;
                 case err of
                   Some e \<Rightarrow> do { _ \<leftarrow> os_Remove env tmpFile; ret (Some (Errorf ''failed to install binary: '' e)) }
                 | None \<Rightarrow> ret None
               }
           }
       }
   }"

section \<open>Facts\<close>

lemma tmp_of_neq [simp]: "tmp_of p \<noteq> p" "p \<noteq> tmp_of p"
  by (simp_all add: tmp_of_def)

lemmas os_defs = os_fault_def next_op_def http_Get_def write_file_def os_Create_def io_Copy_body_def os_Remove_def
  os_Chmod_def os_Rename_def os_ReadFile_def

lemma find_checksum_Some:
  "find_checksum assetName lines = Some hash \<longleftrightarrow>
     (\<exists>pre line post. lines = pre @ line # post \<and> Fields line = [hash, assetName]
        \<and> (\<forall>l \<in> set pre. \<forall>h. Fields l \<noteq> [h, assetName]))"
proof (induction lines)
  case (Cons l lines)
  show ?case
  proof (cases "\<exists>h. Fields l = [h, assetName]")
    case True
    then obtain h where h: "Fields l = [h, assetName]" by blast
    then have "find_checksum assetName (l # lines) = Some h" by simp
    moreover have "pre = [] \<and> line = l" if "l # lines = pre @ line # post"
        "\<forall>l \<in> set pre. \<forall>h. Fields l \<noteq> [h, assetName]" for pre line post
      using that h by (cases pre) auto
    ultimately show ?thesis using h by (metis append_Nil empty_iff empty_set list.inject option.inject)
  next
    case False
    then have "find_checksum assetName (l # lines) = find_checksum assetName lines"
      by (auto split: list.split)
    moreover have "(\<exists>pre line post. l # lines = pre @ line # post \<and> Fields line = [hash, assetName]
          \<and> (\<forall>l \<in> set pre. \<forall>h. Fields l \<noteq> [h, assetName]))
        \<longleftrightarrow> (\<exists>pre line post. lines = pre @ line # post \<and> Fields line = [hash, assetName]
          \<and> (\<forall>l \<in> set pre. \<forall>h. Fields l \<noteq> [h, assetName]))" (is "?A \<longleftrightarrow> ?B")
    proof
      assume ?A
      then obtain pre line post where e: "l # lines = pre @ line # post" "Fields line = [hash, assetName]"
        "\<forall>l \<in> set pre. \<forall>h. Fields l \<noteq> [h, assetName]" by blast
      then show ?B using False by (cases pre) auto
    next
      assume ?B
      then obtain pre line post where "lines = pre @ line # post" "Fields line = [hash, assetName]"
        "\<forall>l \<in> set pre. \<forall>h. Fields l \<noteq> [h, assetName]" by blast
      then show ?A using False by (intro exI [of _ "l # pre"] exI [of _ line] exI [of _ post]) auto
    qed
    ultimately show ?thesis using Cons.IH by simp
  qed
qed simp

section \<open>What an installation does\<close>

text \<open>The content that a world has at the install path, and what the download may have done to it.\<close>

definition verified :: "'x OsEnv \<Rightarrow> string \<Rightarrow> string \<Rightarrow> string \<Rightarrow> bool" where
  "verified env binaryURL checksumURL content \<longleftrightarrow>
     (\<exists>n m resp sums. env_Get env n binaryURL = Inr resp \<and> resp_StatusCode resp = 200 \<and> resp_ReadErr resp = None
        \<and> content = resp_Body resp
        \<and> env_Get env m checksumURL = Inr sums \<and> resp_StatusCode sums = 200 \<and> resp_ReadErr sums = None
        \<and> parse_checksums (filepath_Base binaryURL) (resp_Body sums) = Some (sha256_hex content))"

lemma download_holds:
  "holds (downloadToFile env url path) w (\<lambda>err w'. os_Executable w' = os_Executable w \<and> os_Extern w' = os_Extern w
     \<and> (\<forall>p. p \<noteq> path \<longrightarrow> os_Files w' p = os_Files w p)
     \<and> (err = None \<longrightarrow> (\<exists>n resp. env_Get env n url = Inr resp \<and> resp_StatusCode resp = 200 \<and> resp_ReadErr resp = None
          \<and> os_Files w' path = Some (resp_Body resp))))"
  unfolding downloadToFile_def os_defs
  by (auto simp: wp_simps holds_def split: sum.split option.split)

lemma verify_holds:
  "holds (verifyFileChecksum env path assetName checksumURL) w (\<lambda>err w'. os_Executable w' = os_Executable w
     \<and> os_Extern w' = os_Extern w \<and> os_Files w' = os_Files w
     \<and> (err = None \<longrightarrow> (\<exists>m sums content. os_Files w path = Some content
          \<and> env_Get env m checksumURL = Inr sums \<and> resp_StatusCode sums = 200 \<and> resp_ReadErr sums = None
          \<and> parse_checksums assetName (resp_Body sums) = Some (sha256_hex content))))"
  unfolding verifyFileChecksum_def fetchExpectedChecksum_def os_defs
  by (auto simp: wp_simps holds_def Let_def split: sum.split option.split)

lemma install_holds:
  "holds (DownloadAndInstall env binaryURL checksumURL installPath) w (\<lambda>err w'.
     (\<forall>p. p \<noteq> installPath \<longrightarrow> p \<noteq> tmp_of installPath \<longrightarrow> os_Files w' p = os_Files w p)
     \<and> os_Extern w' = os_Extern w
     \<and> (err \<noteq> None \<longrightarrow> os_Files w' installPath = os_Files w installPath
          \<and> (installPath \<in> os_Executable w' \<longleftrightarrow> installPath \<in> os_Executable w))
     \<and> (err = None \<longrightarrow> installPath \<in> os_Executable w' \<and> os_Files w' (tmp_of installPath) = None
          \<and> (\<exists>content. os_Files w' installPath = Some content \<and> verified env binaryURL checksumURL content)))"
  unfolding DownloadAndInstall_def Let_def
  apply (subst holds_bind, rule holds_mono [OF download_holds])
  apply (auto simp: holds_return split: option.split)
  apply (subst holds_bind, rule holds_mono [OF verify_holds])
  apply (auto simp: wp_simps os_defs verified_def split: option.split)
  done

section \<open>Properties\<close>

definition sample_os_env :: "unit OsEnv" where
  "sample_os_env = \<lparr>
     env_Fault = (\<lambda>n. None),
     env_Get = (\<lambda>n url. Inr \<lparr>resp_StatusCode = 200,
        resp_Body = (if url = ''http://x/func_linux_amd64'' then ''BIN'' else sha256_hex ''BIN'' @ ''  func_linux_amd64''),
        resp_ReadErr = None\<rparr>),
     env_Exec = (\<lambda>bin dir args. ret ([], None))\<rparr>"

definition sample_os :: "unit OsWorld" where
  "sample_os = \<lparr>os_Files = [''/bin/func'' \<mapsto> ''OLD''], os_Executable = {}, os_Ops = 0, os_Extern = ()\<rparr>"

text \<open>
  C25: whatever the servers answer and whichever operation fails, the installed binary is replaced only
  by a completely downloaded one whose SHA-256 is the sum listed for the asset, made executable before; on any
  error it is what it was. No file but the binary and its temporary copy is touched.
\<close>

theorem install_only_verified:
  "holds (DownloadAndInstall env binaryURL checksumURL installPath) w (\<lambda>err w'.
     (\<forall>p. p \<noteq> installPath \<longrightarrow> p \<noteq> tmp_of installPath \<longrightarrow> os_Files w' p = os_Files w p)
     \<and> (err \<noteq> None \<longrightarrow> os_Files w' installPath = os_Files w installPath
          \<and> (installPath \<in> os_Executable w' \<longleftrightarrow> installPath \<in> os_Executable w))
     \<and> (err = None \<longrightarrow> installPath \<in> os_Executable w' \<and> os_Files w' (tmp_of installPath) = None
          \<and> (\<exists>content. os_Files w' installPath = Some content \<and> verified env binaryURL checksumURL content)))"
  by (rule holds_mono [OF install_holds]) blast

theorem install_only_verified_witness:
  "holds (DownloadAndInstall sample_os_env ''http://x/func_linux_amd64'' ''http://x/checksums.txt'' ''/bin/func'') sample_os
     (\<lambda>err w'. err = None \<longrightarrow> (\<exists>content. os_Files w' ''/bin/func'' = Some content
        \<and> verified sample_os_env ''http://x/func_linux_amd64'' ''http://x/checksums.txt'' content))"
  by (rule holds_mono [OF install_only_verified]) blast

text \<open>The format of \<open>sha256sum\<close>.\<close>

definition word :: "string \<Rightarrow> bool" where
  "word w \<longleftrightarrow> w \<noteq> [] \<and> (\<forall>c \<in> set w. \<not> is_space c)"

definition checksum_line :: "string \<times> string \<Rightarrow> string" where
  "checksum_line e = fst e @ ''  '' @ snd e"

lemma fields_from_word:
  "(\<forall>c \<in> set w. \<not> is_space c) \<Longrightarrow> fields_from acc (w @ s) = fields_from (rev w @ acc) s"
  by (induction w arbitrary: acc) auto

lemma Fields_checksum_line: "word h \<Longrightarrow> word n \<Longrightarrow> Fields (h @ '' '' @ '' '' @ n) = [h, n]"
  using fields_from_word [of n "[]" "[]"]
  by (auto simp: Fields_def word_def fields_from_word is_space_def)

lemma trimmed_Join:
  assumes "\<forall>w \<in> set ws. w \<noteq> [] \<and> \<not> is_space (hd w) \<and> \<not> is_space (last w)"
  shows "trimmed (Join ws sep) \<and> (ws \<noteq> [] \<longrightarrow> Join ws sep \<noteq> [])"
  using assms
proof (induction ws sep rule: Join.induct)
  case (3 w v ws sep)
  then show ?case by (auto simp: trimmed_def)
qed (auto simp: trimmed_def)

text \<open>
  Reading a file in the format of \<open>sha256sum\<close> gives for each name the sum listed first for it, and
  nothing for a name that is not listed.
\<close>

theorem checksums_roundtrip:
  assumes "\<forall>e \<in> set entries. word (fst e) \<and> word (snd e)"
  shows "parse_checksums assetName (Join (map checksum_line entries) [newline]) =
    map_of (map prod.swap entries) assetName"
proof -
  have nl: "is_space newline" by (simp add: newline_def is_space_def)
  have sep: "\<forall>l \<in> set (map checksum_line entries). newline \<notin> set l"
    using assms nl by (fastforce simp: checksum_line_def word_def newline_def)
  have "trimmed (Join (map checksum_line entries) [newline])"
    using assms by (intro trimmed_Join [THEN conjunct1]) (auto simp: checksum_line_def word_def)
  then have t: "TrimSpace (Join (map checksum_line entries) [newline]) = Join (map checksum_line entries) [newline]"
    by (rule TrimSpace_id)
  have lines: "find_checksum assetName (map checksum_line entries) = map_of (map prod.swap entries) assetName"
    using assms
  proof (induction entries)
    case (Cons e es)
    have "Fields (checksum_line e) = [fst e, snd e]"
      using Cons.prems Fields_checksum_line [of "fst e" "snd e"] by (simp add: checksum_line_def)
    then show ?case using Cons by auto
  qed simp
  show ?thesis
  proof (cases "entries = []")
    case True
    then show ?thesis by (simp add: parse_checksums_def Fields_def)
  next
    case False
    then have "Split (Join (map checksum_line entries) [newline]) newline = map checksum_line entries"
      using sep by (intro Split_Join) auto
    then show ?thesis using t lines by (simp add: parse_checksums_def)
  qed
qed

theorem checksums_roundtrip_witness:
  "parse_checksums ''b'' (Join (map checksum_line [(''11'', ''a''), (''22'', ''b'')]) [newline]) = Some ''22''"
  using checksums_roundtrip [of "[(''11'', ''a''), (''22'', ''b'')]" "''b''"]
  by (simp add: word_def is_space_def)

text \<open>The checksums file of a release that has the given assets: the digest of each with its name.\<close>

definition release_sums :: "(string \<times> string) list \<Rightarrow> string" where
  "release_sums assets = Join (map (\<lambda>a. checksum_line (sha256_hex (snd a), fst a)) assets) [newline]"

lemma sha256_hex_word: "word (sha256_hex s)"
proof -
  have "\<not> is_space c" if "c \<in> set (sha256_hex s)" for c
    using subsetD [OF sha256_hex_digits that] by (auto simp: is_space_def)
  moreover have "sha256_hex s \<noteq> []" using length_sha256_hex [of s] by auto
  ultimately show ?thesis by (simp add: word_def)
qed

lemma release_sums_read:
  assumes "\<forall>a \<in> set assets. word (fst a)"
  shows "parse_checksums assetName (release_sums assets) = map_option sha256_hex (map_of assets assetName)"
proof -
  have "parse_checksums assetName (release_sums assets)
      = map_of (map prod.swap (map (\<lambda>a. (sha256_hex (snd a), fst a)) assets)) assetName"
    using checksums_roundtrip [of "map (\<lambda>a. (sha256_hex (snd a), fst a)) assets" assetName] assms sha256_hex_word
    by (simp add: release_sums_def comp_def)
  also have "\<dots> = map_option sha256_hex (map_of assets assetName)"
    by (induction assets) auto
  finally show ?thesis .
qed

text \<open>
  C35: when no operation fails and the servers have the asset and the checksums file of its release, the asset is
  installed as the executable binary, and nothing else is left behind.
\<close>

theorem release_installed:
  assumes "\<And>n. env_Fault env n = None"
    and "\<And>n. env_Get env n binaryURL = Inr \<lparr>resp_StatusCode = 200, resp_Body = content, resp_ReadErr = None\<rparr>"
    and "\<And>n. env_Get env n checksumURL = Inr \<lparr>resp_StatusCode = 200, resp_Body = release_sums assets, resp_ReadErr = None\<rparr>"
    and "\<forall>a \<in> set assets. word (fst a)" and "map_of assets (filepath_Base binaryURL) = Some content"
  shows "\<exists>w'. run_state (DownloadAndInstall env binaryURL checksumURL installPath) w = (None, w')
    \<and> os_Files w' = (os_Files w)(tmp_of installPath := None, installPath \<mapsto> content)
    \<and> os_Executable w' = insert installPath (os_Executable w) - {tmp_of installPath}"
  using assms(1-3) release_sums_read [OF assms(4), of "filepath_Base binaryURL"] assms(5)
  by (auto simp: DownloadAndInstall_def downloadToFile_def verifyFileChecksum_def fetchExpectedChecksum_def os_defs Let_def
      fun_upd_twist)

definition sample_assets :: "(string \<times> string) list" where
  "sample_assets = [(''func_darwin_arm64'', ''MAC''), (''func_linux_amd64'', ''BIN'')]"

definition sample_release_env :: "unit OsEnv" where
  "sample_release_env = \<lparr>
     env_Fault = (\<lambda>n. None),
     env_Get = (\<lambda>n url. Inr \<lparr>resp_StatusCode = 200,
        resp_Body = (if url = ''http://x/func_linux_amd64'' then ''BIN'' else release_sums sample_assets), resp_ReadErr = None\<rparr>),
     env_Exec = (\<lambda>bin dir args. ret ([], None))\<rparr>"

theorem release_installed_witness:
  "\<exists>w'. run_state (DownloadAndInstall sample_release_env ''http://x/func_linux_amd64'' ''http://x/checksums.txt'' ''/bin/func'') sample_os
      = (None, w') \<and> os_Files w' ''/bin/func'' = Some ''BIN'' \<and> ''/bin/func'' \<in> os_Executable w'"
proof -
  have base: "filepath_Base ''http://x/func_linux_amd64'' = ''func_linux_amd64''" by code_simp
  have "\<exists>w'. run_state (DownloadAndInstall sample_release_env ''http://x/func_linux_amd64'' ''http://x/checksums.txt'' ''/bin/func'') sample_os
      = (None, w')
    \<and> os_Files w' = (os_Files sample_os)(tmp_of ''/bin/func'' := None, ''/bin/func'' \<mapsto> ''BIN'')
    \<and> os_Executable w' = insert ''/bin/func'' (os_Executable sample_os) - {tmp_of ''/bin/func''}"
  proof (rule release_installed [where assets = sample_assets])
    show "\<forall>a \<in> set sample_assets. word (fst a)" by (simp add: sample_assets_def word_def is_space_def)
    show "map_of sample_assets (filepath_Base ''http://x/func_linux_amd64'') = Some ''BIN''"
      unfolding base by (simp add: sample_assets_def)
  qed (simp_all add: sample_release_env_def)
  then show ?thesis by auto
qed

end
