(* ===== verification/GoJson.thy ===== *)
theory GoJson
  imports GoNumbers
begin

text \<open>
  Go's package \<open>encoding/json\<close> as far as the programs use it: the syntax of JSON texts with the limit on their
  depth, strings with their escapes and their coercion to UTF-8, and the decoding of values into strings,
  structs, slices and maps. A value keeps the members of an object in their order, duplicates included.
\<close>

datatype json =
    JNull
  | JBool bool
  | JInt int
  | JDecimal string
  | JString string
  | JArray "json list"
  | JObject "(string \<times> json) list"

section \<open>Strings\<close>

text \<open>The bytes of a code point.\<close>

definition utf8_encode :: "nat \<Rightarrow> string" where
  "utf8_encode n =
     (if n < 0x80 then [char_of n]
      else if n < 0x800 then [char_of (0xC0 + n div 64), char_of (0x80 + n mod 64)]
      else if n < 0x10000 then [char_of (0xE0 + n div 4096), char_of (0x80 + n div 64 mod 64), char_of (0x80 + n mod 64)]
      else [char_of (0xF0 + n div 262144), char_of (0x80 + n div 4096 mod 64), char_of (0x80 + n div 64 mod 64),
            char_of (0x80 + n mod 64)])"

definition in_range :: "nat \<Rightarrow> nat \<Rightarrow> char \<Rightarrow> bool" where
  "in_range a b c \<longleftrightarrow> a \<le> char_code c \<and> char_code c \<le> b"

text \<open>
  The number of bytes of the encoding of more than one byte that a text begins with, as \<open>utf8.DecodeRune\<close>
  accepts it: neither overlong nor of a surrogate, and at most U+10FFFF.
\<close>

definition utf8_len :: "string \<Rightarrow> nat option" where
  "utf8_len s =
     (case s of
        c # c1 # s1 \<Rightarrow>
          if in_range 0xC2 0xDF c then (if in_range 0x80 0xBF c1 then Some 2 else None)
          else (case s1 of
                  c2 # s2 \<Rightarrow>
                    if in_range 0xE0 0xEF c then
                      (if in_range (if char_code c = 0xE0 then 0xA0 else 0x80) (if char_code c = 0xED then 0x9F else 0xBF) c1
                        \<and> in_range 0x80 0xBF c2 then Some 3 else None)
                    else (case s2 of
                            c3 # s3 \<Rightarrow>
                              if in_range 0xF0 0xF4 c
                                \<and> in_range (if char_code c = 0xF0 then 0x90 else 0x80) (if char_code c = 0xF4 then 0x8F else 0xBF) c1
                                \<and> in_range 0x80 0xBF c2 \<and> in_range 0x80 0xBF c3 then Some 4 else None
                          | [] \<Rightarrow> None)
                | [] \<Rightarrow> None)
      | _ \<Rightarrow> None)"

lemma utf8_len_pos: "utf8_len s = Some n \<Longrightarrow> 2 \<le> n \<and> n \<le> length s"
  by (auto simp: utf8_len_def split: list.splits if_splits)

definition RuneError :: string where
  "RuneError = utf8_encode 0xFFFD"

definition hex_value :: "char \<Rightarrow> nat option" where
  "hex_value c = (case digit_value c of None \<Rightarrow> None | Some d \<Rightarrow> if d < 16 then Some d else None)"

text \<open>\<open>getu4\<close>: the number of an escape \<open>\uXXXX\<close>.\<close>

definition getu4 :: "string \<Rightarrow> nat option" where
  "getu4 s =
     (case s of
        b # u # c1 # c2 # c3 # c4 # s' \<Rightarrow>
          if b = CHR 0x5C \<and> u = CHR ''u'' then
            (case (hex_value c1, hex_value c2, hex_value c3, hex_value c4) of
               (Some a, Some b, Some c, Some d) \<Rightarrow> Some (((a * 16 + b) * 16 + c) * 16 + d)
             | _ \<Rightarrow> None)
          else None
      | _ \<Rightarrow> None)"

definition simple_escapes :: "char set" where
  "simple_escapes = {CHR ''b'', CHR ''f'', CHR ''n'', CHR ''r'', CHR ''t'', CHR 0x5C, CHR ''/'', CHR 0x22}"

definition unescape :: "char \<Rightarrow> char" where
  "unescape c =
     (if c = CHR ''b'' then CHR 0x08 else if c = CHR ''f'' then CHR 0x0C else if c = CHR ''n'' then CHR 0x0A
      else if c = CHR ''r'' then CHR 0x0D else if c = CHR ''t'' then CHR 0x09 else c)"

text \<open>
  \<open>unquote\<close> on what stands between the quotes: escapes are replaced, two escapes that form a surrogate pair
  by one code point, and what is not UTF-8 by the replacement character.
\<close>

function unquote :: "string \<Rightarrow> string" where
  "unquote s =
     (case s of
        [] \<Rightarrow> []
      | c # r \<Rightarrow>
          if c = CHR 0x5C then
            (case r of
               [] \<Rightarrow> []
             | e # r' \<Rightarrow>
                 if e = CHR ''u'' then
                   (case getu4 s of
                      None \<Rightarrow> []
                    | Some n \<Rightarrow>
                        if 0xD800 \<le> n \<and> n < 0xE000 then
                          (case getu4 (drop 6 s) of
                             Some n1 \<Rightarrow>
                               if n < 0xDC00 \<and> 0xDC00 \<le> n1 \<and> n1 < 0xE000
                               then utf8_encode ((n - 0xD800) * 1024 + (n1 - 0xDC00) + 0x10000) @ unquote (drop 12 s)
                               else RuneError @ unquote (drop 6 s)
                           | None \<Rightarrow> RuneError @ unquote (drop 6 s))
                        else utf8_encode n @ unquote (drop 6 s))
                 else if e \<in> simple_escapes then unescape e # unquote r'
                 else [])
          else if char_code c < 0x80 then c # unquote r
          else (case utf8_len s of
                  Some n \<Rightarrow> take n s @ unquote (drop n s)
                | None \<Rightarrow> RuneError @ unquote r))"
  by pat_completeness auto

termination
  by (relation "measure length") (auto dest: utf8_len_pos)

declare unquote.simps [simp del]

section \<open>Tokens\<close>

datatype json_token = TOpenArray | TCloseArray | TOpenObject | TCloseObject | TColon | TComma | TScalar json

definition json_space :: "char \<Rightarrow> bool" where
  "json_space c \<longleftrightarrow> c \<in> {CHR '' '', CHR 0x09, CHR 0x0D, CHR 0x0A}"

text \<open>The rest of a literal.\<close>

fun scan_word :: "string \<Rightarrow> string \<Rightarrow> string option" where
  "scan_word [] s = Some s"
| "scan_word (p # ps) (c # s) = (if c = p then scan_word ps s else None)"
| "scan_word (p # ps) [] = None"

text \<open>The states of the scanner in a string, and those in a number, named after its step functions.\<close>

datatype string_state = InString | InStringEsc | InStringEscU nat

fun scan_string :: "string_state \<Rightarrow> string \<Rightarrow> (string \<times> string) option" where
  "scan_string st [] = None"
| "scan_string InString (c # s) =
     (if c = CHR 0x22 then Some ([], s)
      else if char_code c < 0x20 then None
      else map_option (apfst ((#) c)) (scan_string (if c = CHR 0x5C then InStringEsc else InString) s))"
| "scan_string InStringEsc (c # s) =
     (if c = CHR ''u'' then map_option (apfst ((#) c)) (scan_string (InStringEscU 3) s)
      else if c \<in> simple_escapes
      then map_option (apfst ((#) c)) (scan_string InString s)
      else None)"
| "scan_string (InStringEscU k) (c # s) =
     (if hex_value c = None then None
      else map_option (apfst ((#) c)) (scan_string (case k of 0 \<Rightarrow> InString | Suc k' \<Rightarrow> InStringEscU k') s))"

datatype number_state = NNeg | N0 | N1 | NDot | NDot0 | NE | NESign | NE0

definition number_step :: "number_state \<Rightarrow> char \<Rightarrow> number_state option" where
  "number_step st c =
     (case st of
        NNeg \<Rightarrow> if c = CHR ''0'' then Some N0 else if is_digit c then Some N1 else None
      | N1 \<Rightarrow> if is_digit c then Some N1 else if c = CHR ''.'' then Some NDot
              else if c = CHR ''e'' \<or> c = CHR ''E'' then Some NE else None
      | N0 \<Rightarrow> if c = CHR ''.'' then Some NDot else if c = CHR ''e'' \<or> c = CHR ''E'' then Some NE else None
      | NDot \<Rightarrow> if is_digit c then Some NDot0 else None
      | NDot0 \<Rightarrow> if is_digit c then Some NDot0 else if c = CHR ''e'' \<or> c = CHR ''E'' then Some NE else None
      | NE \<Rightarrow> if c = CHR ''+'' \<or> c = CHR ''-'' then Some NESign else if is_digit c then Some NE0 else None
      | NESign \<Rightarrow> if is_digit c then Some NE0 else None
      | NE0 \<Rightarrow> if is_digit c then Some NE0 else None)"

definition number_done :: "number_state \<Rightarrow> bool" where
  "number_done st \<longleftrightarrow> st \<in> {N0, N1, NDot0, NE0}"

text \<open>A number ends where no step is possible.\<close>

fun scan_number :: "number_state \<Rightarrow> string \<Rightarrow> (string \<times> string) option" where
  "scan_number st [] = (if number_done st then Some ([], []) else None)"
| "scan_number st (c # s) =
     (case number_step st c of
        Some st' \<Rightarrow> map_option (apfst ((#) c)) (scan_number st' s)
      | None \<Rightarrow> if number_done st then Some ([], c # s) else None)"

definition first_number_state :: "char \<Rightarrow> number_state" where
  "first_number_state c = (if c = CHR ''-'' then NNeg else if c = CHR ''0'' then N0 else N1)"

text \<open>An integer is kept as its value, any other number as its text; \<open>-0\<close> is kept as it is.\<close>

definition is_decimal :: "string \<Rightarrow> bool" where
  "is_decimal s \<longleftrightarrow> s = ''-0'' \<or> (\<exists>c \<in> set s. c = CHR ''.'' \<or> c = CHR ''e'' \<or> c = CHR ''E'')"

definition number_value :: "string \<Rightarrow> json" where
  "number_value s =
     (if is_decimal s then JDecimal s
      else if hd s = CHR ''-'' then JInt (- int (decimal (tl s) 0))
      else JInt (int (decimal s 0)))"

definition next_token :: "string \<Rightarrow> (json_token \<times> string) option" where
  "next_token s =
     (case dropWhile json_space s of
        [] \<Rightarrow> None
      | c # r \<Rightarrow>
          if c = CHR ''['' then Some (TOpenArray, r)
          else if c = CHR '']'' then Some (TCloseArray, r)
          else if c = CHR ''{'' then Some (TOpenObject, r)
          else if c = CHR ''}'' then Some (TCloseObject, r)
          else if c = CHR '':'' then Some (TColon, r)
          else if c = CHR '','' then Some (TComma, r)
          else if c = CHR 0x22 then map_option (apfst (\<lambda>t. TScalar (JString (unquote t)))) (scan_string InString r)
          else if c = CHR ''t'' then map_option (Pair (TScalar (JBool True))) (scan_word ''rue'' r)
          else if c = CHR ''f'' then map_option (Pair (TScalar (JBool False))) (scan_word ''alse'' r)
          else if c = CHR ''n'' then map_option (Pair (TScalar JNull)) (scan_word ''ull'' r)
          else if c = CHR ''-'' \<or> is_digit c
          then map_option (apfst (\<lambda>t. TScalar (number_value (c # t)))) (scan_number (first_number_state c) r)
          else None)"

section \<open>Values\<close>

text \<open>
  The containers that are open, the innermost first, each with what it holds so far, and what may come next.
\<close>

datatype json_frame = InArray "json list" | InObject "(string \<times> json) list" | AtMember "(string \<times> json) list" string

datatype expectation = EValue | EValueOrEnd | EKey | EKeyOrEnd | EColon | ECommaOrEnd

datatype json_outcome = JBad | JComplete json | JGo "json_frame list" expectation

definition maxNestingDepth :: nat where
  "maxNestingDepth = 10000"

text \<open>A value is complete, at the top or in the innermost container.\<close>

definition end_value :: "json_frame list \<Rightarrow> json \<Rightarrow> json_outcome" where
  "end_value stack v =
     (case stack of
        [] \<Rightarrow> JComplete v
      | InArray vs # fs \<Rightarrow> JGo (InArray (vs @ [v]) # fs) ECommaOrEnd
      | AtMember ms k # fs \<Rightarrow> JGo (InObject (ms @ [(k, v)]) # fs) ECommaOrEnd
      | InObject ms # fs \<Rightarrow> JBad)"

definition open_container :: "json_frame list \<Rightarrow> json_frame \<Rightarrow> expectation \<Rightarrow> json_outcome" where
  "open_container stack f ex = (if length stack \<ge> maxNestingDepth then JBad else JGo (f # stack) ex)"

definition begin_value :: "json_frame list \<Rightarrow> json_token \<Rightarrow> json_outcome" where
  "begin_value stack t =
     (case t of
        TOpenArray \<Rightarrow> open_container stack (InArray []) EValueOrEnd
      | TOpenObject \<Rightarrow> open_container stack (InObject []) EKeyOrEnd
      | TScalar v \<Rightarrow> end_value stack v
      | _ \<Rightarrow> JBad)"

definition end_container :: "json_frame list \<Rightarrow> json_token \<Rightarrow> json_outcome" where
  "end_container stack t =
     (case (stack, t) of
        (InArray vs # fs, TCloseArray) \<Rightarrow> end_value fs (JArray vs)
      | (InObject ms # fs, TCloseObject) \<Rightarrow> end_value fs (JObject ms)
      | _ \<Rightarrow> JBad)"

definition read_key :: "json_frame list \<Rightarrow> json_token \<Rightarrow> json_outcome" where
  "read_key stack t =
     (case (stack, t) of
        (InObject ms # fs, TScalar (JString k)) \<Rightarrow> JGo (AtMember ms k # fs) EColon
      | _ \<Rightarrow> JBad)"

definition json_step :: "json_frame list \<Rightarrow> expectation \<Rightarrow> json_token \<Rightarrow> json_outcome" where
  "json_step stack ex t =
     (case ex of
        EValue \<Rightarrow> begin_value stack t
      | EValueOrEnd \<Rightarrow> if t = TCloseArray then end_container stack t else begin_value stack t
      | EKey \<Rightarrow> read_key stack t
      | EKeyOrEnd \<Rightarrow> if t = TCloseObject then end_container stack t else read_key stack t
      | EColon \<Rightarrow> if t = TColon then JGo stack EValue else JBad
      | ECommaOrEnd \<Rightarrow>
          if t = TComma then
            (case stack of InArray vs # fs \<Rightarrow> JGo stack EValue | InObject ms # fs \<Rightarrow> JGo stack EKey | _ \<Rightarrow> JBad)
          else end_container stack t)"

lemma scan_word_shorter: "scan_word w s = Some r \<Longrightarrow> length r \<le> length s"
  by (induction w s rule: scan_word.induct) (auto split: if_splits)

lemma scan_string_shorter: "scan_string st s = Some (t, r) \<Longrightarrow> length r < length s"
  by (induction st s arbitrary: t rule: scan_string.induct) (fastforce split: if_splits)+

lemma scan_number_shorter: "scan_number st s = Some (t, r) \<Longrightarrow> length r \<le> length s"
  by (induction st s arbitrary: t rule: scan_number.induct) (fastforce split: if_splits option.splits)+

lemma next_token_shorter:
  assumes "next_token s = Some (t, r)"
  shows "length r < length s"
proof -
  obtain c r0 where s: "dropWhile json_space s = c # r0"
    using assms by (cases "dropWhile json_space s") (auto simp: next_token_def)
  have "length (c # r0) \<le> length s" unfolding s [symmetric] by (rule length_dropWhile_le)
  moreover have "length r \<le> length r0"
    using assms by (auto simp: next_token_def s split: if_splits
        dest!: scan_word_shorter scan_string_shorter scan_number_shorter)
  ultimately show ?thesis by simp
qed

text \<open>The first value of a text, with what is left of the text.\<close>

function read_value :: "json_frame list \<Rightarrow> expectation \<Rightarrow> string \<Rightarrow> (json \<times> string) option" where
  "read_value stack ex s =
     (case next_token s of
        None \<Rightarrow> None
      | Some (t, r) \<Rightarrow>
          (case json_step stack ex t of
             JBad \<Rightarrow> None
           | JComplete v \<Rightarrow> Some (v, r)
           | JGo stack' ex' \<Rightarrow> read_value stack' ex' r))"
  by pat_completeness auto

termination
  by (relation "measure (\<lambda>(stack, ex, s). length s)") (auto intro: next_token_shorter)

declare read_value.simps [simp del]

text \<open>\<open>json.Unmarshal\<close>, before the value is decoded: the whole text is one value.\<close>

definition SyntaxError :: goerr where
  "SyntaxError = ErrorString ''json: syntax error''"

definition TypeError :: goerr where
  "TypeError = ErrorString ''json: cannot unmarshal''"

definition parse_json :: "string \<Rightarrow> goerr + json" where
  "parse_json s =
     (case read_value [] EValue s of
        Some (v, r) \<Rightarrow> if list_all json_space r then Inr v else Inl SyntaxError
      | None \<Rightarrow> Inl SyntaxError)"

text \<open>
  \<open>json.Decoder.Decode\<close>, before the value is decoded: the first value of what is read, which ended with the
  error \<open>readErr\<close>. Only an array or an object is known to be complete without looking further.
\<close>

definition decode_first :: "string \<Rightarrow> goerr option \<Rightarrow> goerr + json" where
  "decode_first s readErr =
     (case read_value [] EValue s of
        Some (v, r) \<Rightarrow>
          (case (v, r, readErr) of
             (JArray vs, _, _) \<Rightarrow> Inr v
           | (JObject ms, _, _) \<Rightarrow> Inr v
           | (_, [], Some e) \<Rightarrow> Inl e
           | _ \<Rightarrow> Inr v)
      | None \<Rightarrow> Inl (case readErr of Some e \<Rightarrow> e | None \<Rightarrow> SyntaxError))"

section \<open>Decoding\<close>

text \<open>
  \<open>json.Unmarshal\<close> goes through the members of an object in order, finds the field whose name is that of the
  member up to case, and ignores the others; \<open>null\<close> changes nothing, and a later member overrides an
  earlier one. \<open>None\<close> is the error for a value of another type.

  Two letters outside ASCII fold to letters of it, the long s (U+017F) and the Kelvin sign (U+212A).
\<close>

fun foldName :: "string \<Rightarrow> string" where
  "foldName [] = []"
| "foldName (c # s) =
     (case s of
        c1 # s1 \<Rightarrow>
          if c = CHR 0xC5 \<and> c1 = CHR 0xBF then CHR ''s'' # foldName s1
          else (case s1 of
                  c2 # s2 \<Rightarrow>
                    if c = CHR 0xE2 \<and> c1 = CHR 0x84 \<and> c2 = CHR 0xAA then CHR ''k'' # foldName s2
                    else to_lower c # foldName s
                | [] \<Rightarrow> to_lower c # foldName s)
      | [] \<Rightarrow> [to_lower c])"

declare foldName.simps [simp del]

fun decode_members :: "(string \<Rightarrow> json \<Rightarrow> 'a \<Rightarrow> 'a option) \<Rightarrow> (string \<times> json) list \<Rightarrow> 'a \<Rightarrow> 'a option" where
  "decode_members f [] x = Some x"
| "decode_members f ((name, v) # members) x =
     (case f (foldName name) v x of None \<Rightarrow> None | Some y \<Rightarrow> decode_members f members y)"

definition decode_struct :: "(string \<Rightarrow> json \<Rightarrow> 'a \<Rightarrow> 'a option) \<Rightarrow> json \<Rightarrow> 'a \<Rightarrow> 'a option" where
  "decode_struct f v x = (case v of JObject members \<Rightarrow> decode_members f members x | JNull \<Rightarrow> Some x | _ \<Rightarrow> None)"

definition decode_string :: "json \<Rightarrow> string \<Rightarrow> string option" where
  "decode_string v s = (case v of JString t \<Rightarrow> Some t | JNull \<Rightarrow> Some s | _ \<Rightarrow> None)"

text \<open>A map keeps its entries, and each member is decoded into a fresh element.\<close>

fun decode_entries :: "(json \<Rightarrow> 'a option) \<Rightarrow> (string \<times> json) list \<Rightarrow> 'a gomap \<Rightarrow> 'a gomap option" where
  "decode_entries f [] m = Some m"
| "decode_entries f ((k, v) # members) m =
     (case f v of None \<Rightarrow> None | Some x \<Rightarrow> decode_entries f members (map_put k x m))"

definition decode_map :: "(json \<Rightarrow> 'a option) \<Rightarrow> json \<Rightarrow> 'a gomap \<Rightarrow> 'a gomap option" where
  "decode_map f v m = (case v of JObject members \<Rightarrow> decode_entries f members m | JNull \<Rightarrow> Some [] | _ \<Rightarrow> None)"

text \<open>
  A slice, with the elements that its array still holds behind its end: an element is decoded into the one
  that was in its place.
\<close>

fun decode_elements :: "(json \<Rightarrow> 'a \<Rightarrow> 'a option) \<Rightarrow> 'a \<Rightarrow> json list \<Rightarrow> 'a list \<Rightarrow> 'a list \<Rightarrow> ('a list \<times> 'a list) option" where
  "decode_elements f zero [] old xs = Some (xs, old)"
| "decode_elements f zero (v # vs) old xs =
     (case f v (case old of [] \<Rightarrow> zero | x # old' \<Rightarrow> x) of
        None \<Rightarrow> None
      | Some x \<Rightarrow> decode_elements f zero vs (tl old) (xs @ [x]))"

definition decode_slice :: "(json \<Rightarrow> 'a \<Rightarrow> 'a option) \<Rightarrow> 'a \<Rightarrow> json \<Rightarrow> 'a list \<times> 'a list \<Rightarrow> ('a list \<times> 'a list) option" where
  "decode_slice f zero v s =
     (case v of
        JArray [] \<Rightarrow> Some ([], [])
      | JArray vs \<Rightarrow> decode_elements f zero vs (fst s @ snd s) []
      | JNull \<Rightarrow> Some ([], [])
      | _ \<Rightarrow> None)"

text \<open>\<open>json.Unmarshal\<close> and \<open>json.Decoder.Decode\<close> into what \<open>f\<close> makes of a value.\<close>

definition Unmarshal :: "(json \<Rightarrow> 'a option) \<Rightarrow> string \<Rightarrow> goerr + 'a" where
  "Unmarshal f s =
     (case parse_json s of
        Inl e \<Rightarrow> Inl e
      | Inr v \<Rightarrow> (case f v of None \<Rightarrow> Inl TypeError | Some x \<Rightarrow> Inr x))"

definition Decode :: "(json \<Rightarrow> 'a option) \<Rightarrow> string \<Rightarrow> goerr option \<Rightarrow> goerr + 'a" where
  "Decode f s readErr =
     (case decode_first s readErr of
        Inl e \<Rightarrow> Inl e
      | Inr v \<Rightarrow> (case f v of None \<Rightarrow> Inl TypeError | Some x \<Rightarrow> Inr x))"

lemma Unmarshal_error: "Unmarshal f s = Inl e \<Longrightarrow> e = SyntaxError \<or> e = TypeError"
  by (auto simp: Unmarshal_def parse_json_def split: option.splits if_splits)

section \<open>Texts of values\<close>

text \<open>A text for each value, to read back; \<open>json_ok\<close> are the values that stand for a text.\<close>

definition json_quote_char :: "char \<Rightarrow> string" where
  "json_quote_char c =
     (if c = CHR 0x22 \<or> c = CHR 0x5C then [CHR 0x5C, c]
      else if char_code c < 0x20
      then [CHR 0x5C, CHR ''u'', CHR ''0'', CHR ''0'', hex_digit (char_code c div 16), hex_digit (char_code c mod 16)]
      else [c])"

definition json_chars :: "string \<Rightarrow> string" where
  "json_chars s = concat (map json_quote_char s)"

definition json_quote :: "string \<Rightarrow> string" where
  "json_quote s = CHR 0x22 # json_chars s @ [CHR 0x22]"

definition json_member :: "string \<times> string \<Rightarrow> string" where
  "json_member kt = json_quote (fst kt) @ CHR '':'' # snd kt"

primrec json_text :: "json \<Rightarrow> string" where
  "json_text JNull = ''null''"
| "json_text (JBool b) = (if b then ''true'' else ''false'')"
| "json_text (JInt n) = Itoa n"
| "json_text (JDecimal t) = t"
| "json_text (JString s) = json_quote s"
| "json_text (JArray vs) = CHR ''['' # Join (map json_text vs) '','' @ '']''"
| "json_text (JObject ms) = CHR ''{'' # Join (map json_member (map (map_prod id json_text) ms)) '','' @ ''}''"

primrec json_depth :: "json \<Rightarrow> nat" where
  "json_depth JNull = 0"
| "json_depth (JBool b) = 0"
| "json_depth (JInt n) = 0"
| "json_depth (JDecimal t) = 0"
| "json_depth (JString s) = 0"
| "json_depth (JArray vs) = Suc (foldr max (map json_depth vs) 0)"
| "json_depth (JObject ms) = Suc (foldr max (map snd (map (map_prod id json_depth) ms)) 0)"

function utf8_ok :: "string \<Rightarrow> bool" where
  "utf8_ok s =
     (case s of
        [] \<Rightarrow> True
      | c # r \<Rightarrow>
          if char_code c < 0x80 then utf8_ok r
          else (case utf8_len s of Some n \<Rightarrow> utf8_ok (drop n s) | None \<Rightarrow> False))"
  by pat_completeness auto

termination
  by (relation "measure length") (auto dest: utf8_len_pos)

declare utf8_ok.simps [simp del]

definition number_text :: "string \<Rightarrow> bool" where
  "number_text t \<longleftrightarrow> t \<noteq> [] \<and> (hd t = CHR ''-'' \<or> is_digit (hd t))
     \<and> scan_number (first_number_state (hd t)) (tl t) = Some (tl t, [])"

primrec json_ok :: "json \<Rightarrow> bool" where
  "json_ok JNull = True"
| "json_ok (JBool b) = True"
| "json_ok (JInt n) = True"
| "json_ok (JDecimal t) = (number_text t \<and> is_decimal t)"
| "json_ok (JString s) = utf8_ok s"
| "json_ok (JArray vs) = list_all (\<lambda>b. b) (map json_ok vs)"
| "json_ok (JObject ms) = (list_all utf8_ok (map fst ms) \<and> list_all (\<lambda>b. b) (map snd (map (map_prod id json_ok) ms)))"

section \<open>Strings read back\<close>

lemma char_code_lt [simp]: "char_code c < 256"
  by (simp add: char_code_def)

lemma char_of_code [simp]: "char_of (char_code c) = c"
  by (simp add: char_code_def)

lemma hex_value_digit: "d < 16 \<Longrightarrow> hex_value (hex_digit d) = Some d"
proof -
  assume "d < 16"
  then have "d \<in> {0, 1, 2, 3, 4, 5, 6, 7, 8, 9, 10, 11, 12, 13, 14, 15}"
    unfolding insert_iff empty_iff by presburger
  then show ?thesis
    by (auto simp: hex_value_def hex_digit_def digit_value_def char_code_def to_lower_def)
qed

lemma json_chars_simps [simp]:
  "json_chars [] = []" "json_chars (c # s) = json_quote_char c @ json_chars s"
  "json_chars (s @ t) = json_chars s @ json_chars t"
  by (simp_all add: json_chars_def)

lemma scan_json_chars: "scan_string InString (json_chars s @ CHR 0x22 # r) = Some (json_chars s, r)"
proof (induction s)
  case (Cons c s)
  have h: "hex_value CHR ''0'' = Some 0" by code_simp
  have "char_code c < 0x20 \<Longrightarrow> hex_value (hex_digit (char_code c div 16)) = Some (char_code c div 16)"
    by (intro hex_value_digit) simp
  moreover have "hex_value (hex_digit (char_code c mod 16)) = Some (char_code c mod 16)"
    by (intro hex_value_digit) simp
  moreover have "char_code CHR 0x5C = 92" by (simp add: char_code_def)
  ultimately show ?case using Cons h by (simp add: json_quote_char_def numeral_3_eq_3 simple_escapes_def)
qed simp

lemma utf8_len_cases:
  assumes "utf8_len s = Some n"
  obtains (two) c c1 r where "n = 2" "s = c # c1 # r" "in_range 0xC2 0xDF c" "in_range 0x80 0xBF c1"
  | (three) c c1 c2 r where "n = 3" "s = c # c1 # c2 # r" "in_range 0xE0 0xEF c"
      "in_range (if char_code c = 0xE0 then 0xA0 else 0x80) (if char_code c = 0xED then 0x9F else 0xBF) c1"
      "in_range 0x80 0xBF c2"
  | (four) c c1 c2 c3 r where "n = 4" "s = c # c1 # c2 # c3 # r" "in_range 0xF0 0xF4 c"
      "in_range (if char_code c = 0xF0 then 0x90 else 0x80) (if char_code c = 0xF4 then 0x8F else 0xBF) c1"
      "in_range 0x80 0xBF c2" "in_range 0x80 0xBF c3"
proof -
  obtain c c1 s1 where s: "s = c # c1 # s1" using assms by (auto simp: utf8_len_def split: list.splits)
  consider "in_range 0xC2 0xDF c" | "\<not> in_range 0xC2 0xDF c" "in_range 0xE0 0xEF c"
    | "\<not> in_range 0xC2 0xDF c" "\<not> in_range 0xE0 0xEF c" by blast
  then show thesis
  proof cases
    case 1
    then show thesis using assms that(1) by (auto simp: utf8_len_def s split: if_splits)
  next
    case 2
    then obtain c2 s2 where "s1 = c2 # s2" using assms by (cases s1) (auto simp: utf8_len_def s)
    then show thesis using assms 2 that(2) by (simp add: utf8_len_def s split: if_split_asm)
  next
    case 3
    then obtain c2 s2 where "s1 = c2 # s2" using assms by (cases s1) (auto simp: utf8_len_def s)
    moreover from this obtain c3 s3 where "s2 = c3 # s3" using assms 3 by (cases s2) (auto simp: utf8_len_def s)
    ultimately show thesis using assms 3 that(3) by (simp add: utf8_len_def s split: if_split_asm)
  qed
qed

lemma utf8_len_high:
  assumes "utf8_len s = Some n"
  shows "list_all (\<lambda>c. 0x80 \<le> char_code c) (take n s)"
  using assms by (cases rule: utf8_len_cases) (auto simp: in_range_def split: if_splits)

lemma utf8_len_append:
  assumes "utf8_len s = Some n"
  shows "utf8_len (take n s @ t) = Some n"
  using assms by (cases rule: utf8_len_cases) (simp_all add: utf8_len_def, simp_all add: in_range_def)

lemma json_chars_high: "list_all (\<lambda>c. 0x80 \<le> char_code c) s \<Longrightarrow> json_chars s = s"
  by (induction s) (auto simp: json_quote_char_def char_code_def)


lemma unquote_plain:
  assumes "c \<noteq> CHR 0x5C" "char_code c < 0x80"
  shows "unquote (c # r) = c # unquote r"
  using assms by (subst unquote.simps) simp

lemma unquote_escaped: "c \<in> {CHR 0x22, CHR 0x5C} \<Longrightarrow> unquote (CHR 0x5C # c # r) = c # unquote r"
  by (subst unquote.simps) (auto simp: unescape_def simple_escapes_def)

lemma unquote_control:
  assumes "char_code c < 0x20"
  shows "unquote ([CHR 0x5C, CHR ''u'', CHR ''0'', CHR ''0'', hex_digit (char_code c div 16), hex_digit (char_code c mod 16)] @ r)
    = c # unquote r"
proof -
  have "hex_value CHR ''0'' = Some 0" using hex_value_digit [of 0] by (simp add: hex_digit_def)
  moreover have "hex_value (hex_digit (char_code c div 16)) = Some (char_code c div 16)"
    using assms by (intro hex_value_digit) simp
  moreover have "hex_value (hex_digit (char_code c mod 16)) = Some (char_code c mod 16)"
    by (intro hex_value_digit) simp
  moreover have "char_code c div 16 * 16 + char_code c mod 16 = char_code c" by simp
  ultimately have "getu4 ([CHR 0x5C, CHR ''u'', CHR ''0'', CHR ''0'', hex_digit (char_code c div 16), hex_digit (char_code c mod 16)] @ r)
      = Some (char_code c)"
    by (simp add: getu4_def)
  then show ?thesis using assms by (subst unquote.simps) (simp add: utf8_encode_def)
qed

lemma unquote_rune:
  assumes "utf8_len s = Some n" "s \<noteq> []" "\<not> char_code (hd s) < 0x80"
  shows "unquote s = take n s @ unquote (drop n s)"
proof -
  obtain c r where s: "s = c # r" using assms(2) by (cases s) auto
  have "c \<noteq> CHR 0x5C" using assms(3) by (auto simp: s char_code_def)
  then show ?thesis using assms(1,3) by (subst unquote.simps) (simp add: s)
qed

lemma unquote_chars: "utf8_ok s \<Longrightarrow> unquote (json_chars s) = s"
proof (induction s rule: utf8_ok.induct)
  case (1 s)
  show ?case
  proof (cases s)
    case Nil
    then show ?thesis by (simp add: unquote.simps)
  next
    case (Cons c r)
    show ?thesis
    proof (cases "char_code c < 0x80")
      case True
      then have "utf8_ok r" using "1.prems" Cons by (subst (asm) utf8_ok.simps) simp
      then have IH: "unquote (json_chars r) = r" using "1.IH"(1) Cons True by simp
      show ?thesis
        using True IH unquote_control [of c "json_chars r"] unquote_escaped [of c "json_chars r"]
          unquote_plain [of c "json_chars r"]
        by (auto simp: Cons json_quote_char_def)
    next
      case False
      then obtain n where n: "utf8_len s = Some n" "utf8_ok (drop n s)"
        using "1.prems" Cons by (subst (asm) utf8_ok.simps) (simp split: option.splits)
      then have IH: "unquote (json_chars (drop n s)) = drop n s" using "1.IH"(2) [OF Cons False n(1)] by simp
      have len: "length (take n s) = n" "0 < n" using utf8_len_pos [OF n(1)] by auto
      have "json_chars s = json_chars (take n s) @ json_chars (drop n s)" by (simp flip: json_chars_simps(3))
      also have "json_chars (take n s) = take n s" by (rule json_chars_high [OF utf8_len_high [OF n(1)]])
      finally have chars: "json_chars s = take n s @ json_chars (drop n s)" .
      have "hd (take n s) = c" "take n s \<noteq> []" using Cons len by (cases n; simp)+
      then have "unquote (take n s @ json_chars (drop n s)) = take n s @ unquote (json_chars (drop n s))"
        using False len utf8_len_append [OF n(1), of "json_chars (drop n s)"]
        by (subst unquote_rune [of _ n]) auto
      then show ?thesis using IH by (simp add: chars)
    qed
  qed
qed

section \<open>Numbers read back\<close>

text \<open>What may follow a number.\<close>

definition stops :: "string \<Rightarrow> bool" where
  "stops r \<longleftrightarrow> (r = [] \<or> (\<forall>st. number_step st (hd r) = None))"

lemma scan_number_stops:
  assumes "scan_number st s = Some (s, [])" "stops r"
  shows "scan_number st (s @ r) = Some (s, r)"
  using assms(1)
proof (induction st s rule: scan_number.induct)
  case (1 st)
  then show ?case using assms(2) by (cases r) (auto simp: stops_def split: if_splits)
qed (auto split: option.splits if_splits)

lemma scan_digits: "\<forall>c \<in> set s. is_digit c \<Longrightarrow> scan_number N1 s = Some (s, [])"
  by (induction s) (simp_all add: number_done_def number_step_def)

lemma digits_text:
  "scan_number (first_number_state (hd (digits_of n))) (tl (digits_of n)) = Some (tl (digits_of n), [])"
proof (cases "n = 0")
  case True
  have "digits_of 0 = ''0''" by (simp add: digits_small char_of_eq_iff take_bit_eq_mod)
  then show ?thesis by (simp add: True first_number_state_def number_done_def)
next
  case False
  then have "first_number_state (hd (digits_of n)) = N1"
    using digits_no_zero [of n] digit_no_sign [OF hd_digits [of n]] by (simp add: first_number_state_def)
  moreover have "\<forall>c \<in> set (tl (digits_of n)). is_digit c"
    using digits_are_digits [of n] by (cases "digits_of n") auto
  ultimately show ?thesis by (simp add: scan_digits)
qed

lemma Itoa_text: "number_text (Itoa n)"
proof (cases "n < 0")
  case True
  obtain c s where d: "digits_of (nat (- n)) = c # s" by (cases "digits_of (nat (- n))") auto
  have "c \<noteq> CHR ''0''" "is_digit c" using True digits_no_zero [of "nat (- n)"] hd_digits [of "nat (- n)"] by (simp_all add: d)
  moreover have "scan_number N1 s = Some (s, [])"
    using digits_are_digits [of "nat (- n)"] by (intro scan_digits) (simp add: d)
  ultimately show ?thesis using True by (simp add: number_text_def Itoa_def d first_number_state_def number_step_def)
next
  case False
  then show ?thesis using digits_text [of "nat n"] hd_digits [of "nat n"] by (simp add: number_text_def Itoa_def)
qed

lemma digits_no_other: "c \<in> set (digits_of n) \<Longrightarrow> c \<notin> {CHR ''.'', CHR ''e'', CHR ''E'', CHR ''-''}"
  using digits_are_digits [of n] by (auto simp: is_digit_def char_code_def)

lemma Itoa_no_decimal: "\<not> is_decimal (Itoa n)"
proof (cases "n < 0")
  case True
  then have "digits_of (nat (- n)) \<noteq> ''0''" using digits_no_zero [of "nat (- n)"] by auto
  moreover have "\<not> (\<exists>c \<in> set (Itoa n). c = CHR ''.'' \<or> c = CHR ''e'' \<or> c = CHR ''E'')"
    using True digits_no_other [of _ "nat (- n)"] by (auto simp: Itoa_def)
  ultimately show ?thesis using True by (simp add: is_decimal_def Itoa_def)
next
  case False
  have "CHR ''-'' \<notin> set (digits_of (nat n))" using digits_no_other [of "CHR ''-''" "nat n"] by auto
  then have "digits_of (nat n) \<noteq> ''-0''" by auto
  moreover have "\<not> (\<exists>c \<in> set (Itoa n). c = CHR ''.'' \<or> c = CHR ''e'' \<or> c = CHR ''E'')"
    using False digits_no_other [of _ "nat n"] by (auto simp: Itoa_def)
  ultimately show ?thesis using False by (simp add: is_decimal_def Itoa_def)
qed

lemma Itoa_value: "number_value (Itoa n) = JInt n"
proof -
  have "hd (digits_of k) \<noteq> CHR ''-''" for k using digit_no_sign [OF hd_digits] by simp
  then show ?thesis
    using Itoa_no_decimal [of n] by (simp add: number_value_def) (simp add: Itoa_def decimal_digits)
qed


section \<open>Values read back\<close>

definition resume :: "json_outcome \<Rightarrow> string \<Rightarrow> (json \<times> string) option" where
  "resume oc r =
     (case oc of JBad \<Rightarrow> None | JComplete v \<Rightarrow> Some (v, r) | JGo stack ex \<Rightarrow> read_value stack ex r)"

lemma resume_simps [simp]:
  "resume JBad r = None" "resume (JComplete v) r = Some (v, r)" "resume (JGo stack ex) r = read_value stack ex r"
  by (simp_all add: resume_def)

lemma read_value_token: "next_token s = Some (t, r) \<Longrightarrow> read_value stack ex s = resume (json_step stack ex t) r"
  by (subst read_value.simps) (simp add: resume_def split: json_outcome.split)

lemma next_token_punctuation:
  "next_token (CHR ''['' # r) = Some (TOpenArray, r)" "next_token (CHR '']'' # r) = Some (TCloseArray, r)"
  "next_token (CHR ''{'' # r) = Some (TOpenObject, r)" "next_token (CHR ''}'' # r) = Some (TCloseObject, r)"
  "next_token (CHR '':'' # r) = Some (TColon, r)" "next_token (CHR '','' # r) = Some (TComma, r)"
  by (simp_all add: next_token_def json_space_def)

lemma next_token_words:
  "next_token (''null'' @ r) = Some (TScalar JNull, r)"
  "next_token (''true'' @ r) = Some (TScalar (JBool True), r)"
  "next_token (''false'' @ r) = Some (TScalar (JBool False), r)"
  by (simp_all add: next_token_def json_space_def)

lemma next_token_quote: "utf8_ok s \<Longrightarrow> next_token (json_quote s @ r) = Some (TScalar (JString s), r)"
  by (simp add: next_token_def json_quote_def json_space_def scan_json_chars unquote_chars)

lemma digit_start:
  "is_digit c \<Longrightarrow> c \<notin> {CHR ''['', CHR '']'', CHR ''{'', CHR ''}'', CHR '':'', CHR '','', CHR 0x22, CHR ''t'', CHR ''f'', CHR ''n''}
    \<and> \<not> json_space c"
  by (auto simp: is_digit_def char_code_def json_space_def)

lemma next_token_number:
  assumes "number_text t" "stops r"
  shows "next_token (t @ r) = Some (TScalar (number_value t), r)"
proof -
  obtain c s where t: "t = c # s" "c = CHR ''-'' \<or> is_digit c" "scan_number (first_number_state c) s = Some (s, [])"
    using assms(1) by (cases t) (auto simp: number_text_def)
  have c: "c \<notin> {CHR ''['', CHR '']'', CHR ''{'', CHR ''}'', CHR '':'', CHR '','', CHR 0x22, CHR ''t'', CHR ''f'', CHR ''n''}"
      "\<not> json_space c"
    using t(2) digit_start [of c] by (cases "c = CHR ''-''"; simp add: json_space_def)+
  have "dropWhile json_space (t @ r) = c # s @ r" using c(2) by (simp add: t(1))
  then have "next_token (t @ r)
      = map_option (apfst (\<lambda>t. TScalar (number_value (c # t)))) (scan_number (first_number_state c) (s @ r))"
    using c(1) t(2) unfolding next_token_def insert_iff empty_iff de_Morgan_disj by (simp only: list.case if_False if_True simp_thms)
  then show ?thesis using scan_number_stops [OF t(3) assms(2)] by (simp add: t(1))
qed

lemma stops_after: "stops (CHR '','' # r)" "stops (CHR '']'' # r)" "stops (CHR ''}'' # r)"
  by (auto simp: stops_def number_step_def is_digit_def char_code_def split: number_state.split)

text \<open>What it means that the text of a value is read as this value wherever a value may stand.\<close>

definition read_back :: "json \<Rightarrow> bool" where
  "read_back v \<longleftrightarrow> (\<forall>stack ex r. ex \<in> {EValue, EValueOrEnd} \<longrightarrow> length stack + json_depth v \<le> maxNestingDepth \<longrightarrow> stops r
     \<longrightarrow> read_value stack ex (json_text v @ r) = resume (end_value stack v) r)"

lemma read_backD:
  assumes "read_back v" "ex \<in> {EValue, EValueOrEnd}" "length stack + json_depth v \<le> maxNestingDepth" "stops r"
  shows "read_value stack ex (json_text v @ r) = resume (end_value stack v) r"
  using assms unfolding read_back_def by blast

lemma read_back_scalar:
  assumes "\<And>r. stops r \<Longrightarrow> next_token (json_text v @ r) = Some (TScalar v, r)"
  shows "read_back v"
  using assms by (auto simp: read_back_def read_value_token json_step_def begin_value_def)

lemma foldr_max_le: "x \<in> set xs \<Longrightarrow> x \<le> foldr max xs (0 :: nat)"
  by (induction xs) auto

lemma foldr_max_bound: "(\<And>x. x \<in> set xs \<Longrightarrow> x \<le> n) \<Longrightarrow> foldr max xs (0 :: nat) \<le> n"
  by (induction xs) auto

lemma json_depth_array_le: "(\<And>v. v \<in> set vs \<Longrightarrow> json_depth v \<le> n) \<Longrightarrow> json_depth (JArray vs) \<le> Suc n"
  by (auto intro!: foldr_max_bound)

lemma json_depth_object_le: "(\<And>k v. (k, v) \<in> set ms \<Longrightarrow> json_depth v \<le> n) \<Longrightarrow> json_depth (JObject ms) \<le> Suc n"
  by (auto intro!: foldr_max_bound)

text \<open>The elements of an array, up to its end.\<close>

lemma read_elements:
  assumes "\<forall>w \<in> set (v # vs). read_back w \<and> Suc (length stack + json_depth w) \<le> maxNestingDepth"
    and "ex \<in> {EValue, EValueOrEnd}"
  shows "read_value (InArray xs # stack) ex (Join (map json_text (v # vs)) '','' @ CHR '']'' # r)
    = resume (end_value stack (JArray (xs @ v # vs))) r"
  using assms
proof (induction vs arbitrary: v xs ex)
  case Nil
  have "read_value (InArray xs # stack) ex (json_text v @ CHR '']'' # r)
      = resume (end_value (InArray xs # stack) v) (CHR '']'' # r)"
    using Nil by (intro read_backD) (auto simp: stops_after)
  then show ?case
    by (simp add: end_value_def read_value_token [OF next_token_punctuation(2)] json_step_def end_container_def
        split: list.split json_frame.split)
next
  case (Cons w vs)
  have "read_value (InArray xs # stack) ex (json_text v @ CHR '','' # Join (map json_text (w # vs)) '','' @ CHR '']'' # r)
      = resume (end_value (InArray xs # stack) v) (CHR '','' # Join (map json_text (w # vs)) '','' @ CHR '']'' # r)"
    using Cons.prems by (intro read_backD) (auto simp: stops_after)
  also have "\<dots> = read_value (InArray (xs @ [v]) # stack) EValue (Join (map json_text (w # vs)) '','' @ CHR '']'' # r)"
    by (simp add: end_value_def read_value_token [OF next_token_punctuation(6)] json_step_def)
  also have "\<dots> = resume (end_value stack (JArray ((xs @ [v]) @ w # vs))) r"
    using Cons.prems(1) by (intro Cons.IH) auto
  finally show ?case by simp
qed


text \<open>The members of an object, up to its end.\<close>

abbreviation member_text :: "string \<times> json \<Rightarrow> string" where
  "member_text m \<equiv> json_member (fst m, json_text (snd m))"

lemma read_member:
  assumes "utf8_ok k" "read_back v" "Suc (length stack + json_depth v) \<le> maxNestingDepth"
    and "ex \<in> {EKey, EKeyOrEnd}" "stops r"
  shows "read_value (InObject ms # stack) ex (json_member (k, json_text v) @ r)
    = read_value (InObject (ms @ [(k, v)]) # stack) ECommaOrEnd r"
proof -
  have "next_token (json_quote k @ CHR '':'' # json_text v @ r) = Some (TScalar (JString k), CHR '':'' # json_text v @ r)"
    by (rule next_token_quote [OF assms(1)])
  then have "read_value (InObject ms # stack) ex (json_member (k, json_text v) @ r)
      = read_value (AtMember ms k # stack) EColon (CHR '':'' # json_text v @ r)"
    using assms(4) by (auto simp: json_member_def read_value_token json_step_def read_key_def)
  also have "\<dots> = read_value (AtMember ms k # stack) EValue (json_text v @ r)"
    by (simp add: read_value_token [OF next_token_punctuation(5)] json_step_def)
  also have "\<dots> = resume (end_value (AtMember ms k # stack) v) r"
    using assms by (intro read_backD) auto
  finally show ?thesis by (simp add: end_value_def)
qed

lemma read_members:
  assumes "\<forall>m \<in> set (m # ms). utf8_ok (fst m) \<and> read_back (snd m) \<and> Suc (length stack + json_depth (snd m)) \<le> maxNestingDepth"
    and "ex \<in> {EKey, EKeyOrEnd}"
  shows "read_value (InObject xs # stack) ex (Join (map member_text (m # ms)) '','' @ CHR ''}'' # r)
    = resume (end_value stack (JObject (xs @ m # ms))) r"
  using assms
proof (induction ms arbitrary: m xs ex)
  case Nil
  have "read_value (InObject xs # stack) ex (member_text m @ CHR ''}'' # r)
      = read_value (InObject (xs @ [m]) # stack) ECommaOrEnd (CHR ''}'' # r)"
    using Nil read_member [of "fst m" "snd m" stack ex "CHR ''}'' # r" xs] by (simp add: stops_after)
  then show ?case
    by (simp add: read_value_token [OF next_token_punctuation(4)] json_step_def end_container_def)
next
  case (Cons n ms)
  have "read_value (InObject xs # stack) ex (member_text m @ CHR '','' # Join (map member_text (n # ms)) '','' @ CHR ''}'' # r)
      = read_value (InObject (xs @ [m]) # stack) ECommaOrEnd (CHR '','' # Join (map member_text (n # ms)) '','' @ CHR ''}'' # r)"
    using Cons.prems read_member [of "fst m" "snd m" stack ex _ xs] by (simp add: stops_after)
  also have "\<dots> = read_value (InObject (xs @ [m]) # stack) EKey (Join (map member_text (n # ms)) '','' @ CHR ''}'' # r)"
    by (simp add: read_value_token [OF next_token_punctuation(6)] json_step_def)
  also have "\<dots> = resume (end_value stack (JObject ((xs @ [m]) @ n # ms))) r"
    using Cons.prems(1) by (intro Cons.IH) auto
  finally show ?case by simp
qed

lemma read_back_array:
  assumes "\<forall>w \<in> set vs. read_back w"
  shows "read_back (JArray vs)"
  unfolding read_back_def
proof (intro allI impI)
  fix stack :: "json_frame list" and ex r
  assume a: "ex \<in> {EValue, EValueOrEnd}" "length stack + json_depth (JArray vs) \<le> maxNestingDepth" "stops r"
  have opens: "read_value stack ex (CHR ''['' # s) = read_value (InArray [] # stack) EValueOrEnd s" for s
    using a(1,2) by (auto simp: read_value_token [OF next_token_punctuation(1)] json_step_def begin_value_def open_container_def)
  show "read_value stack ex (json_text (JArray vs) @ r) = resume (end_value stack (JArray vs)) r"
  proof (cases vs)
    case Nil
    then show ?thesis
      by (simp add: opens read_value_token [OF next_token_punctuation(2)] json_step_def end_container_def)
  next
    case (Cons w ws)
    have "\<forall>u \<in> set (w # ws). json_depth u \<le> foldr max (map json_depth vs) 0"
      unfolding Cons [symmetric] by (intro ballI foldr_max_le) simp
    then have "\<forall>u \<in> set (w # ws). read_back u \<and> Suc (length stack + json_depth u) \<le> maxNestingDepth"
      using assms a(2) unfolding Cons by fastforce
    then show ?thesis using read_elements [of w ws stack EValueOrEnd "[]" r] by (simp add: opens Cons)
  qed
qed

text \<open>An object is read whatever follows it.\<close>

lemma read_object:
  assumes "\<forall>m \<in> set ms. utf8_ok (fst m) \<and> read_back (snd m)"
    and a: "ex \<in> {EValue, EValueOrEnd}" "length stack + json_depth (JObject ms) \<le> maxNestingDepth"
  shows "read_value stack ex (json_text (JObject ms) @ r) = resume (end_value stack (JObject ms)) r"
proof -
  have opens: "read_value stack ex (CHR ''{'' # s) = read_value (InObject [] # stack) EKeyOrEnd s" for s
    using a(1,2) by (auto simp: read_value_token [OF next_token_punctuation(3)] json_step_def begin_value_def open_container_def)
  have texts: "map json_member (map (map_prod id json_text) ms) = map member_text ms" by (simp add: map_prod_def case_prod_unfold)
  show ?thesis
  proof (cases ms)
    case Nil
    then show ?thesis
      by (simp add: opens read_value_token [OF next_token_punctuation(4)] json_step_def end_container_def)
  next
    case (Cons n ns)
    have "\<forall>m \<in> set (n # ns). json_depth (snd m) \<le> foldr max (map snd (map (map_prod id json_depth) ms)) 0"
      unfolding Cons [symmetric] by (intro ballI foldr_max_le) force
    then have "\<forall>m \<in> set (n # ns). utf8_ok (fst m) \<and> read_back (snd m) \<and> Suc (length stack + json_depth (snd m)) \<le> maxNestingDepth"
      using assms(1) a(2) unfolding Cons by fastforce
    then show ?thesis
      using read_members [of n ns stack EKeyOrEnd "[]" r] unfolding json_text.simps texts by (simp add: opens Cons)
  qed
qed

lemma read_back_object: "\<forall>m \<in> set ms. utf8_ok (fst m) \<and> read_back (snd m) \<Longrightarrow> read_back (JObject ms)"
  unfolding read_back_def [of "JObject ms"] using read_object by blast

lemma ok_read_back: "json_ok v \<Longrightarrow> read_back v"
proof (induction v)
  case (JInt n)
  show ?case using next_token_number [OF Itoa_text] by (intro read_back_scalar) (simp add: Itoa_value)
next
  case (JDecimal t)
  then show ?case using next_token_number [of t] by (intro read_back_scalar) (simp add: number_value_def)
next
  case (JArray vs)
  then show ?case by (intro read_back_array) (auto simp: list_all_iff)
next
  case (JObject ms)
  then show ?case by (intro read_back_object) (fastforce simp: list_all_iff)
qed (auto intro!: read_back_scalar simp: next_token_words [simplified] next_token_quote)

text \<open>Every value within the limit on its depth has a text from which it is read back.\<close>

lemma json_read_back:
  assumes "json_ok v" "json_depth v \<le> maxNestingDepth"
  shows "parse_json (json_text v) = Inr v"
  using read_backD [OF ok_read_back [OF assms(1)], of EValue "[]" "[]"] assms(2)
  by (simp add: parse_json_def end_value_def stops_def)


lemma Unmarshal_text:
  "json_ok v \<Longrightarrow> json_depth v \<le> maxNestingDepth \<Longrightarrow> f v = Some x \<Longrightarrow> Unmarshal f (json_text v) = Inr x"
  by (simp add: Unmarshal_def json_read_back)

text \<open>An object is decoded as soon as it is complete, whatever follows it and however the reading ends.\<close>

lemma Decode_text:
  assumes "json_ok (JObject ms)" "json_depth (JObject ms) \<le> maxNestingDepth" "f (JObject ms) = Some x"
  shows "Decode f (json_text (JObject ms) @ r) readErr = Inr x"
proof -
  have "\<forall>m \<in> set ms. utf8_ok (fst m) \<and> read_back (snd m)"
    using assms(1) by (fastforce simp: list_all_iff intro: ok_read_back)
  then show ?thesis
    using read_object [of ms EValue "[]" r] assms(2,3) by (cases r) (simp_all add: Decode_def decode_first_def end_value_def)
qed

text \<open>Members that are decoded one by one into a map.\<close>

lemma decode_entries_append:
  assumes "\<And>k x. (k, x) \<in> set xs \<Longrightarrow> f (g x) = Some x" "is_gomap (m @ xs)"
  shows "decode_entries f (map (map_prod id g) xs) m = Some (m @ xs)"
  using assms
proof (induction xs arbitrary: m)
  case (Cons kx xs)
  have "map_put (fst kx) (snd kx) m = m @ [kx]"
    using Cons.prems(2) map_put_new [of "fst kx" m "snd kx"] by (auto simp: is_gomap_def)
  moreover have "f (g (snd kx)) = Some (snd kx)" using Cons.prems(1) [of "fst kx" "snd kx"] by simp
  moreover have "decode_entries f (map (map_prod id g) xs) (m @ [kx]) = Some ((m @ [kx]) @ xs)"
    using Cons.prems by (intro Cons.IH) auto
  ultimately show ?case by (cases kx) (simp add: id_def)
qed simp

lemma decode_map_entries:
  assumes "\<And>k x. (k, x) \<in> set xs \<Longrightarrow> f (g x) = Some x" "is_gomap xs"
  shows "decode_map f (JObject (map (map_prod id g) xs)) [] = Some xs"
  using decode_entries_append [of xs f g "[]"] assms by (simp add: decode_map_def)

text \<open>Elements that are decoded one by one into an empty slice.\<close>

lemma decode_elements_fresh:
  assumes "\<And>x. x \<in> set ys \<Longrightarrow> f (g x) zero = Some x"
  shows "decode_elements f zero (map g ys) [] xs = Some (xs @ ys, [])"
  using assms by (induction ys arbitrary: xs) auto

lemma decode_slice_fresh:
  assumes "\<And>x. x \<in> set ys \<Longrightarrow> f (g x) zero = Some x"
  shows "decode_slice f zero (JArray (map g ys)) ([], []) = Some (ys, [])"
  using decode_elements_fresh [of ys f g zero "[]"] assms by (cases ys) (auto simp: decode_slice_def)

end
