(* ===== verification/FuncCli.thy ===== *)
theory FuncCli
  imports Download ReconcileEnv GoJson
begin

text \<open>
  The manager of the \<open>func\<close> binary, \<open>internal/funccli/manager.go\<close>: it runs the binary and reads its
  output, and keeps it at the latest release. The operations run on the operating system of
  \<open>Download\<close>; what the binary does is \<open>env_Exec\<close>, JSON is read by \<open>GoJson\<close>.
  The mutex of \<open>checkAndUpdate\<close> serialises updates, which the model runs one at a time.
\<close>

section \<open>Types\<close>

record Asset =
  asset_Name :: string
  asset_BrowserDownloadURL :: string

record GitHubRelease =
  release_Name :: string
  release_Assets :: "Asset list"

text \<open>
  The decoding of what the manager reads: a release, the versions that \<open>func version\<close> lists, and the instance that
  \<open>func describe\<close> gives. The type of an instance is one of \<open>func\<close>, and how a JSON value is decoded into it is a
  parameter.
\<close>

definition decode_asset :: "json \<Rightarrow> Asset \<Rightarrow> Asset option" where
  "decode_asset = decode_struct (\<lambda>name v a.
     if name = ''name'' then map_option (\<lambda>s. a\<lparr>asset_Name := s\<rparr>) (decode_string v (asset_Name a))
     else if name = ''browser_download_url''
     then map_option (\<lambda>s. a\<lparr>asset_BrowserDownloadURL := s\<rparr>) (decode_string v (asset_BrowserDownloadURL a))
     else Some a)"

definition decode_release :: "json \<Rightarrow> GitHubRelease option" where
  "decode_release v = map_option fst (decode_struct (\<lambda>name v (r, old).
     if name = ''name'' then map_option (\<lambda>s. (r\<lparr>release_Name := s\<rparr>, old)) (decode_string v (release_Name r))
     else if name = ''assets'' then
       map_option (\<lambda>(xs, old). (r\<lparr>release_Assets := xs\<rparr>, old))
         (decode_slice decode_asset \<lparr>asset_Name = [], asset_BrowserDownloadURL = []\<rparr> v (release_Assets r, old))
     else Some (r, old)) v (\<lparr>release_Name = [], release_Assets = []\<rparr>, []))"

definition decode_versions :: "json \<Rightarrow> string gomap gomap option" where
  "decode_versions v = decode_struct (\<lambda>name v versions.
     if name = ''middlewareversions''
     then decode_map (\<lambda>v. decode_map (\<lambda>v. decode_string v []) v []) v versions
     else Some versions) v []"

type_synonym Codec = "json \<Rightarrow> Instance option"

record managerImpl =
  m_checkInterval :: int
  m_installPath :: string
  m_disableCLIUpdate :: bool

text \<open>What \<open>os.Stat\<close> says of a path, and where the process runs.\<close>

datatype StatResult = StatFile bool | StatNotExist | StatError goerr

record Host =
  host_TempDir :: string
  host_GOOS :: string
  host_GOARCH :: string
  host_Stat :: "(string \<rightharpoonup> string) \<Rightarrow> string \<Rightarrow> StatResult"
  host_MkdirAll :: "string \<Rightarrow> goerr option"

definition githubAPIURL :: string where
  "githubAPIURL = ''https://api.github.com/repos/knative/func/releases/latest''"

definition defaultCheckInterval :: int where
  "defaultCheckInterval = 5 * 60 * 1000000000"

definition binaryName :: string where
  "binaryName = ''func''"

definition NewManager :: "Host \<Rightarrow> string \<Rightarrow> int \<Rightarrow> bool \<Rightarrow> ('x, goerr + managerImpl) os" where
  "NewManager host installPath checkInterval disableCLIUpdate = do {
     let installPath = (if installPath = [] then path_Join [host_TempDir host, ''func-operator'', ''bin''] else installPath);
     let checkInterval = (if checkInterval = 0 then defaultCheckInterval else checkInterval);
     let m = \<lparr>m_checkInterval = checkInterval, m_installPath = installPath, m_disableCLIUpdate = disableCLIUpdate\<rparr>;
     case host_MkdirAll host installPath of
       Some e \<Rightarrow> ret (Inl (Errorf ''failed to create install directory for func cli: '' e))
     | None \<Rightarrow>
         if disableCLIUpdate then do {
           let cliPath = path_Join [installPath, binaryName];
           files \<leftarrow> gets os_Files;
           case host_Stat host files cliPath of
             StatNotExist \<Rightarrow> ret (Inl (Errorf ''failed to determine if binary exists already: ''
                               (ErrorString (''stat '' @ cliPath @ '': no such file or directory''))))
           | StatError e \<Rightarrow> ret (Inl (Errorf ''failed to determine if binary exists already: '' e))
           | StatFile regular \<Rightarrow>
               if \<not> regular then ret (Inl (ErrorString (cliPath @ '' binary is not a regular file'')))
               else ret (Inr m)
         }
         else ret (Inr m)
   }"

section \<open>Running the binary\<close>

definition GetBinaryPath :: "Host \<Rightarrow> managerImpl \<Rightarrow> ('x, goerr + string) os" where
  "GetBinaryPath host m = do {
     let binaryPath = path_Join [m_installPath m, binaryName];
     files \<leftarrow> gets os_Files;
     case host_Stat host files binaryPath of
       StatNotExist \<Rightarrow> ret (Inl (ErrorString (''binary '' @ binaryPath @ '' does not exist'')))
     | _ \<Rightarrow> ret (Inr binaryPath)
   }"

text \<open>\<open>exec.Cmd.CombinedOutput\<close>: the binary acts on the world outside.\<close>

definition os_exec :: "'x OsEnv \<Rightarrow> string \<Rightarrow> string \<Rightarrow> string list \<Rightarrow> ('x, string \<times> goerr option) os" where
  "os_exec env bin dir args = zoom os_Extern (\<lambda>x w. w\<lparr>os_Extern := x\<rparr>) (env_Exec env bin dir args)"

definition Run :: "Host \<Rightarrow> 'x OsEnv \<Rightarrow> managerImpl \<Rightarrow> string \<Rightarrow> string list \<Rightarrow> ('x, string \<times> goerr option) os" where
  "Run host env m dir args = do {
     res \<leftarrow> GetBinaryPath host m;
     case res of
       Inl e \<Rightarrow> ret ([], Some (Errorf ''failed to get binary path: '' e))
     | Inr bin \<Rightarrow> do {
         (output, err) \<leftarrow> os_exec env bin dir args;
         case err of
           Some e \<Rightarrow> ret (output, Some (Errorf
             (''failed to run func '' @ Join (bin # args) '' '' @ '': '' @ Quote output @ ''. '') e))
         | None \<Rightarrow> ret (output, None)
       }
   }"

text \<open>The loop of \<open>GetCurrentVersion\<close> over the lines of the output.\<close>

fun find_version :: "string list \<Rightarrow> string option" where
  "find_version [] = None"
| "find_version (line # lines) =
     (if HasPrefix line ''Knative:'' then
        (case Split line (CHR '' '') of
           [_, v] \<Rightarrow> Some (TrimSpace v)
         | _ \<Rightarrow> find_version lines)
      else find_version lines)"

definition GetCurrentVersion :: "Host \<Rightarrow> 'x OsEnv \<Rightarrow> managerImpl \<Rightarrow> ('x, goerr + string) os" where
  "GetCurrentVersion host env m = do {
     (output, err) \<leftarrow> Run host env m [] [''version'', ''-v''];
     case err of
       Some e \<Rightarrow> ret (Inl (Errorf ''failed to get version: '' e))
     | None \<Rightarrow> (case find_version (Split output newline) of
         Some v \<Rightarrow> ret (Inr v)
       | None \<Rightarrow> ret (Inl (ErrorString ''failed to get version from func binary'')))
   }"

definition Describe :: "Host \<Rightarrow> 'x OsEnv \<Rightarrow> Codec \<Rightarrow> managerImpl \<Rightarrow> string \<Rightarrow> string \<Rightarrow> ('x, goerr + Instance) os" where
  "Describe host env codec m name namespace = do {
     (out, err) \<leftarrow> Run host env m [] [''describe'', ''-n'', namespace, ''-o'', ''json'', name];
     case err of
       Some e \<Rightarrow>
         if Contains (err_Error e) ''not found'' \<or> Contains (err_Error e) ''no describe function''
         then ret (Inl ErrFunctionNotFound)
         else ret (Inl (Errorf (''failed to describe function: '' @ Quote out @ ''. '') e))
     | None \<Rightarrow> (case Unmarshal codec out of
         Inl e \<Rightarrow> ret (Inl (Errorf ''failed to unmarshal func describe output: '' e))
       | Inr inst \<Rightarrow> ret (Inr inst))
   }"

text \<open>The arguments of \<open>func deploy\<close>.\<close>

definition deployArgs :: "string \<Rightarrow> DeployOptions \<Rightarrow> string list" where
  "deployArgs namespace opts =
     [''deploy'', ''--remote'', ''--namespace'', namespace, ''--management-disabled'']
     @ (if opt_RegistryAuthFile opts \<noteq> [] then [''--registry-authfile'', opt_RegistryAuthFile opts] else [])
     @ (if opt_ImagePullSecret opts \<noteq> [] then [''--image-pull-secret'', opt_ImagePullSecret opts] else [])"

definition Deploy :: "Host \<Rightarrow> 'x OsEnv \<Rightarrow> managerImpl \<Rightarrow> string \<Rightarrow> string \<Rightarrow> DeployOptions \<Rightarrow> ('x, goerr option) os" where
  "Deploy host env m repoPath namespace opts = do {
     (out, err) \<leftarrow> Run host env m repoPath (deployArgs namespace opts);
     case err of
       Some e \<Rightarrow> ret (Some (Errorf (''failed to deploy function: '' @ Quote out @ ''. '') e))
     | None \<Rightarrow> ret None
   }"

definition select_version :: "string gomap gomap \<Rightarrow> string \<Rightarrow> string \<Rightarrow> goerr + string" where
  "select_version versions runtime invoke =
     (case map_of versions runtime of
        None \<Rightarrow> Inl (ErrorString (''failed to find latest middleware version for runtime '' @ runtime))
      | Some runtimeVersions \<Rightarrow> (case map_of runtimeVersions invoke of
          None \<Rightarrow> Inl (ErrorString (''failed to find latest middleware version for runtime '' @ runtime
                    @ '' with '' @ invoke @ '' invoke type''))
        | Some v \<Rightarrow> Inr v))"

definition GetLatestMiddlewareVersion ::
  "Host \<Rightarrow> 'x OsEnv \<Rightarrow> managerImpl \<Rightarrow> string \<Rightarrow> string \<Rightarrow> ('x, goerr + string) os" where
  "GetLatestMiddlewareVersion host env m runtime invoke = do {
     let invoke = (if invoke = [] then ''http'' else invoke);
     (out, err) \<leftarrow> Run host env m [] [''version'', ''-v'', ''-o'', ''json''];
     case err of
       Some e \<Rightarrow> ret (Inl (Errorf ''failed to get latest middleware version: '' e))
     | None \<Rightarrow> (case Unmarshal decode_versions out of
         Inl e \<Rightarrow> ret (Inl (Errorf ''failed to unmarshal latest middleware version: '' e))
       | Inr versions \<Rightarrow> ret (select_version versions runtime invoke))
   }"

definition GetMiddlewareVersion ::
  "Host \<Rightarrow> 'x OsEnv \<Rightarrow> Codec \<Rightarrow> managerImpl \<Rightarrow> string \<Rightarrow> string \<Rightarrow> ('x, goerr + string) os" where
  "GetMiddlewareVersion host env codec m name namespace = do {
     res \<leftarrow> Describe host env codec m name namespace;
     case res of
       Inl e \<Rightarrow> ret (Inl (Errorf ''failed to describe function: '' e))
     | Inr inst \<Rightarrow> ret (Inr (inst_MiddlewareVersion inst))
   }"

section \<open>Keeping the binary up to date\<close>

definition AssetName :: "Host \<Rightarrow> string" where
  "AssetName host = ''func_'' @ host_GOOS host @ ''_'' @ host_GOARCH host"

definition getLatestRelease :: "'x OsEnv \<Rightarrow> ('x, goerr + GitHubRelease) os" where
  "getLatestRelease env = do {
     res \<leftarrow> http_Get env githubAPIURL;
     case res of
       Inl e \<Rightarrow> ret (Inl e)
     | Inr resp \<Rightarrow>
         if resp_StatusCode resp \<noteq> 200 then
           ret (Inl (ErrorString (''GitHub API returned status '' @ digits_of (resp_StatusCode resp))))
         else ret (Decode decode_release (resp_Body resp) (resp_ReadErr resp))
   }"

text \<open>The loop over the assets: the last asset of each name wins.\<close>

definition asset_urls :: "string \<Rightarrow> Asset list \<Rightarrow> string \<times> string" where
  "asset_urls assetName assets =
     fold (\<lambda>asset (downloadURL, checksumURL).
       if asset_Name asset = assetName then (asset_BrowserDownloadURL asset, checksumURL)
       else if asset_Name asset = ''checksums.txt'' then (downloadURL, asset_BrowserDownloadURL asset)
       else (downloadURL, checksumURL)) assets ([], [])"

definition downloadAndInstall :: "Host \<Rightarrow> 'x OsEnv \<Rightarrow> managerImpl \<Rightarrow> GitHubRelease \<Rightarrow> ('x, goerr option) os" where
  "downloadAndInstall host env m release =
     (case asset_urls (AssetName host) (release_Assets release) of
        (downloadURL, checksumURL) \<Rightarrow>
          if downloadURL = [] then
            ret (Some (ErrorString (''no suitable asset found for '' @ host_GOOS host @ ''/'' @ host_GOARCH host)))
          else if checksumURL = [] then
            ret (Some (ErrorString (''no checksums.txt found in release '' @ release_Name release)))
          else DownloadAndInstall env downloadURL checksumURL (path_Join [m_installPath m, binaryName]))"

definition checkAndUpdate :: "Host \<Rightarrow> 'x OsEnv \<Rightarrow> managerImpl \<Rightarrow> ('x, goerr option) os" where
  "checkAndUpdate host env m =
     (if m_disableCLIUpdate m then ret None
      else do {
        res \<leftarrow> getLatestRelease env;
        case res of
          Inl e \<Rightarrow> ret (Some (Errorf ''failed to get latest release: '' e))
        | Inr latestRelease \<Rightarrow> do {
            res \<leftarrow> GetCurrentVersion host env m;
            let currentVersion = (case res of Inl e \<Rightarrow> [] | Inr v \<Rightarrow> v);
            if currentVersion = release_Name latestRelease then ret None
            else do {
              err \<leftarrow> downloadAndInstall host env m latestRelease;
              case err of
                Some e \<Rightarrow> ret (Some (Errorf ''failed to download and install: '' e))
              | None \<Rightarrow> ret None
            }
          }
      })"

definition EnsureReady :: "Host \<Rightarrow> 'x OsEnv \<Rightarrow> managerImpl \<Rightarrow> ('x, goerr option) os" where
  "EnsureReady host env m = checkAndUpdate host env m"

text \<open>\<open>Start\<close>: what its \<open>select\<close> receives, one after the other; the loop ends when the context is done.\<close>

datatype StartEvent = Tick | Done

text \<open>Whether \<open>Start\<close> has returned, still waits, or has panicked.\<close>

datatype StartOutcome = Returns | Waits | Panics

fun start_loop :: "Host \<Rightarrow> 'x OsEnv \<Rightarrow> managerImpl \<Rightarrow> StartEvent list \<Rightarrow> ('x, StartOutcome) os" where
  "start_loop host env m [] = ret Waits"
| "start_loop host env m (Done # events) = ret Returns"
| "start_loop host env m (Tick # events) =
     do { _ \<leftarrow> checkAndUpdate host env m; start_loop host env m events }"

text \<open>\<open>time.NewTicker\<close> panics on an interval that is not positive.\<close>

definition Start :: "Host \<Rightarrow> 'x OsEnv \<Rightarrow> managerImpl \<Rightarrow> StartEvent list \<Rightarrow> ('x, StartOutcome) os" where
  "Start host env m events =
     (if m_disableCLIUpdate m then ret Returns
      else do {
        _ \<leftarrow> checkAndUpdate host env m;
        if m_checkInterval m \<le> 0 then ret Panics else start_loop host env m events
      })"

text \<open>\<open>var _ Manager = &managerImpl{}\<close>: the implementation as a value of the interface.\<close>

definition as_Manager :: "Host \<Rightarrow> 'x OsEnv \<Rightarrow> Codec \<Rightarrow> managerImpl \<Rightarrow> 'x OsWorld FuncCliManager" where
  "as_Manager host env codec m = \<lparr>
     fcm_Run = Run host env m,
     fcm_Describe = Describe host env codec m,
     fcm_Deploy = Deploy host env m,
     fcm_GetCurrentVersion = GetCurrentVersion host env m,
     fcm_GetLatestMiddlewareVersion = GetLatestMiddlewareVersion host env m,
     fcm_GetMiddlewareVersion = GetMiddlewareVersion host env codec m\<rparr>"

section \<open>Facts\<close>

definition binary_path :: "managerImpl \<Rightarrow> string" where
  "binary_path m = path_Join [m_installPath m, binaryName]"

text \<open>Running the binary changes the world outside only.\<close>

lemma Run_keeps_files: "preserves (\<lambda>w. P (os_Files w) (os_Executable w)) (Run host env m dir args)"
proof -
  have "preserves (\<lambda>w. P (os_Files w) (os_Executable w)) (os_exec env bin dir args)" for bin
    by (rule preservesI) (auto simp: os_exec_def holds_zoom intro: holds_any)
  moreover have "preserves (\<lambda>w. P (os_Files w) (os_Executable w)) (GetBinaryPath host m)"
    unfolding GetBinaryPath_def by (rule preservesI) (auto simp: wp_simps Let_def split: StatResult.split)
  ultimately show ?thesis unfolding Run_def by (intro frame_intros)
qed

lemma GetCurrentVersion_keeps_files:
  "preserves (\<lambda>w. P (os_Files w) (os_Executable w)) (GetCurrentVersion host env m)"
  unfolding GetCurrentVersion_def by (intro frame_intros Run_keeps_files)

lemma getLatestRelease_keeps_files:
  "preserves (\<lambda>w. P (os_Files w) (os_Executable w)) (getLatestRelease env)"
  by (rule preservesI) (auto simp: getLatestRelease_def wp_simps http_Get_def next_op_def split: sum.split)

text \<open>The content of the binary is one that was downloaded and verified.\<close>

definition release_binary :: "'x OsEnv \<Rightarrow> string \<Rightarrow> bool" where
  "release_binary env content \<longleftrightarrow> (\<exists>binaryURL checksumURL. verified env binaryURL checksumURL content)"

definition binary_inv :: "'x OsEnv \<Rightarrow> managerImpl \<Rightarrow> string option \<Rightarrow> (string \<rightharpoonup> string) \<Rightarrow> bool" where
  "binary_inv env m old files \<longleftrightarrow> files (binary_path m) = old
     \<or> (\<exists>content. files (binary_path m) = Some content \<and> release_binary env content)"

lemma downloadAndInstall_inv:
  "preserves (\<lambda>w. binary_inv env m old (os_Files w)) (downloadAndInstall host env m release)"
proof -
  have "preserves (\<lambda>w. binary_inv env m old (os_Files w)) (DownloadAndInstall env u c (path_Join [m_installPath m, binaryName]))" for u c
  proof (rule preservesI, rule holds_mono [OF install_holds])
    fix w :: "'a OsWorld" and err w'
    assume inv: "binary_inv env m old (os_Files w)"
      and i: "(\<forall>p. p \<noteq> path_Join [m_installPath m, binaryName] \<longrightarrow> p \<noteq> tmp_of (path_Join [m_installPath m, binaryName]) \<longrightarrow>
           os_Files w' p = os_Files w p) \<and> os_Extern w' = os_Extern w \<and>
         (err \<noteq> None \<longrightarrow> os_Files w' (path_Join [m_installPath m, binaryName]) = os_Files w (path_Join [m_installPath m, binaryName]) \<and>
           (path_Join [m_installPath m, binaryName] \<in> os_Executable w') = (path_Join [m_installPath m, binaryName] \<in> os_Executable w)) \<and>
         (err = None \<longrightarrow> path_Join [m_installPath m, binaryName] \<in> os_Executable w' \<and>
           os_Files w' (tmp_of (path_Join [m_installPath m, binaryName])) = None \<and>
           (\<exists>content. os_Files w' (path_Join [m_installPath m, binaryName]) = Some content \<and> verified env u c content))"
    then show "binary_inv env m old (os_Files w')"
      by (cases err) (auto simp: binary_inv_def binary_path_def release_binary_def)
  qed
  then show ?thesis unfolding downloadAndInstall_def by (intro frame_intros)
qed

lemma checkAndUpdate_inv: "preserves (\<lambda>w. binary_inv env m old (os_Files w)) (checkAndUpdate host env m)"
  unfolding checkAndUpdate_def
  by (intro frame_intros getLatestRelease_keeps_files GetCurrentVersion_keeps_files downloadAndInstall_inv)

lemma start_loop_inv: "preserves (\<lambda>w. binary_inv env m old (os_Files w)) (start_loop host env m events)"
  by (induction events rule: start_loop.induct) (auto intro!: frame_intros checkAndUpdate_inv)

lemma start_loop_returns:
  "holds (start_loop host env m events) w
     (\<lambda>outcome _. outcome = (if Done \<in> set events then Returns else Waits))"
proof (induction events arbitrary: w rule: start_loop.induct)
  case (3 host env m events)
  then show ?case by (simp add: holds_bind holds_any)
qed (simp_all add: wp_simps)

section \<open>Properties\<close>

text \<open>
  C26: as long as the manager runs, through any number of checks, failed or not, the binary is the one
  found at the start or one that was downloaded in full and verified against the sums of its release;
  and \<open>Start\<close> returns only once its context is done, or at once when updates are disabled. It panics
  after its first check when its interval is not positive, and only then.
\<close>

theorem manager_keeps_binary_verified:
  "holds (Start host env m events) w (\<lambda>outcome w'.
     outcome = (if m_disableCLIUpdate m then Returns else if m_checkInterval m \<le> 0 then Panics
       else if Done \<in> set events then Returns else Waits)
     \<and> (os_Files w' (binary_path m) = os_Files w (binary_path m)
        \<or> (\<exists>content. os_Files w' (binary_path m) = Some content \<and> release_binary env content)))"
proof -
  have inv: "preserves (\<lambda>w'. binary_inv env m (os_Files w (binary_path m)) (os_Files w')) (Start host env m events)"
    unfolding Start_def by (intro frame_intros checkAndUpdate_inv start_loop_inv)
  have "holds (Start host env m events) w (\<lambda>outcome _.
      outcome = (if m_disableCLIUpdate m then Returns else if m_checkInterval m \<le> 0 then Panics
        else if Done \<in> set events then Returns else Waits))"
    unfolding Start_def by (auto simp: holds_bind holds_return intro!: holds_any [of "\<lambda>_ s. holds (F s) s (Q s)" for F Q]
        holds_mono [OF start_loop_returns])
  moreover have "holds (Start host env m events) w (\<lambda>_ w'.
      os_Files w' (binary_path m) = os_Files w (binary_path m)
      \<or> (\<exists>content. os_Files w' (binary_path m) = Some content \<and> release_binary env content))"
    using preserves_holds [OF inv, of w] by (simp add: binary_inv_def)
  ultimately show ?thesis by (rule holds_conj)
qed

text \<open>
  With updates disabled the manager changes nothing, and it is created only when the binary is
  there already as a regular file, so that the path of the binary is found.
\<close>

theorem disabled_updates:
  assumes "run_state (NewManager host installPath checkInterval True) w = (Inr m, w')"
  shows "w' = w \<and> host_Stat host (os_Files w) (binary_path m) = StatFile True
    \<and> run_state (GetBinaryPath host m) w = (Inr (binary_path m), w)
    \<and> run_state (checkAndUpdate host env m) w = (None, w)"
  using assms
  by (auto simp: NewManager_def GetBinaryPath_def checkAndUpdate_def binary_path_def Let_def
      split: option.splits StatResult.splits if_splits)

definition sample_host :: Host where
  "sample_host = \<lparr>host_TempDir = ''/tmp'', host_GOOS = ''linux'', host_GOARCH = ''amd64'',
     host_Stat = (\<lambda>files path. if files path = None then StatNotExist else StatFile True),
     host_MkdirAll = (\<lambda>path. None)\<rparr>"

theorem disabled_updates_witness:
  "\<exists>m. run_state (NewManager sample_host ''/bin'' 0 True) sample_os = (Inr m, sample_os)
     \<and> run_state (GetBinaryPath sample_host m) sample_os = (Inr ''/bin/func'', sample_os)"
proof -
  let ?m = "\<lparr>m_checkInterval = defaultCheckInterval, m_installPath = ''/bin'', m_disableCLIUpdate = True\<rparr>"
  have p: "path_Join [''/bin'', binaryName] = ''/bin/func''" by code_simp
  then have n: "run_state (NewManager sample_host ''/bin'' 0 True) sample_os = (Inr ?m, sample_os)"
    by (simp add: NewManager_def sample_host_def sample_os_def Let_def)
  have "binary_path ?m = ''/bin/func''" using p by (simp add: binary_path_def)
  then show ?thesis using n disabled_updates [OF n, of sample_os_env] by auto
qed

text \<open>
  The installed version is the word after the first line label \<open>Knative:\<close> in the output of
  \<open>func version -v\<close>, wherever that line stands.
\<close>

theorem current_version_is_read:
  assumes "\<forall>l \<in> set pre. newline \<notin> set l \<and> \<not> HasPrefix l ''Knative:''"
    and "\<forall>l \<in> set post. newline \<notin> set l" and "word v"
  shows "find_version (Split (Join (pre @ (''Knative: '' @ v) # post) [newline]) newline) = Some v"
proof -
  have v: "CHR '' '' \<notin> set v" "newline \<notin> set v" using assms(3) by (auto simp: word_def is_space_def newline_def)
  have "Split (Join (pre @ (''Knative: '' @ v) # post) [newline]) newline = pre @ (''Knative: '' @ v) # post"
    using assms(1,2) v by (intro Split_Join) (auto simp: newline_def)
  moreover have "find_version (pre @ (''Knative: '' @ v) # post) = Some v" using assms(1)
  proof (induction pre)
    case Nil
    have "Split (''Knative:'' @ CHR '' '' # v) (CHR '' '') = [''Knative:'', v]"
      by (subst Split_append_sep) (use v in \<open>simp_all add: Split_no_sep\<close>)
    then show ?case using assms(3) by (simp add: HasPrefix_def TrimSpace_no_space word_def)
  qed auto
  ultimately show ?thesis by simp
qed

theorem current_version_is_read_witness:
  "find_version (Split (Join [''Version: v0.1'', ''Knative: v1.20.0'', ''SpecVersion: 2''] [newline]) newline) = Some ''v1.20.0''"
  using current_version_is_read [of "[''Version: v0.1'']" "[''SpecVersion: 2'']" "''v1.20.0''"]
  by (simp add: newline_def HasPrefix_def word_def is_space_def)

text \<open>
  The reading of a command line by \<open>func deploy\<close>: two of the flags are switches, every other flag
  takes the next argument as its value, whatever it looks like.
\<close>

fun parse_flags :: "string list \<Rightarrow> (string \<times> string option) list option" where
  "parse_flags [] = Some []"
| "parse_flags (flag # args) =
     (if \<not> HasPrefix flag ''--'' then None
      else if flag \<in> {''--remote'', ''--management-disabled''} then map_option ((#) (flag, None)) (parse_flags args)
      else (case args of
              [] \<Rightarrow> None
            | value # rest \<Rightarrow> map_option ((#) (flag, Some value)) (parse_flags rest)))"

text \<open>
  \<open>func deploy\<close> reads its command line as the operator means it, for every namespace, file and
  secret: a remote build in that namespace, without touching the Function resource, with the
  credentials and the pull secret exactly when they are given.
\<close>

theorem deploy_command_line:
  "\<exists>flags. deployArgs namespace opts = ''deploy'' # flags
     \<and> parse_flags flags = Some
         ([(''--remote'', None), (''--namespace'', Some namespace), (''--management-disabled'', None)]
          @ (if opt_RegistryAuthFile opts = [] then [] else [(''--registry-authfile'', Some (opt_RegistryAuthFile opts))])
          @ (if opt_ImagePullSecret opts = [] then [] else [(''--image-pull-secret'', Some (opt_ImagePullSecret opts))]))"
  by (simp add: deployArgs_def HasPrefix_def)

text \<open>
  \<open>Describe\<close> reports a function as not found only when the run of the binary failed with a text that
  says so; any other failure, and any output that is not an instance, is an error of its own, and a
  well-formed output is the instance.
\<close>

theorem describe_classification:
  "holds (Describe host env codec m name namespace) w (\<lambda>res w'.
     case run_state (Run host env m [] [''describe'', ''-n'', namespace, ''-o'', ''json'', name]) w of ((out, err), w'') \<Rightarrow>
       w' = w''
       \<and> (case err of
            None \<Rightarrow> (case Unmarshal codec out of
                Inr inst \<Rightarrow> res = Inr inst
              | Inl e \<Rightarrow> (\<exists>e'. res = Inl e' \<and> \<not> Is_ErrFunctionNotFound e'))
          | Some e \<Rightarrow>
              if (\<exists>a b. err_Error e = a @ ''not found'' @ b) \<or> (\<exists>a b. err_Error e = a @ ''no describe function'' @ b)
              then res = Inl ErrFunctionNotFound
              else (\<exists>e'. res = Inl e' \<and> (Is_ErrFunctionNotFound e' \<longleftrightarrow> Is_ErrFunctionNotFound e))))"
  by (auto simp: Describe_def holds_def Contains_iff SyntaxError_def TypeError_def
      split: prod.split option.split sum.split dest!: Unmarshal_error)

text \<open>
  A check downloads nothing when the installed version is the latest release: the files stay as they are.
\<close>

theorem no_download_when_current:
  assumes "run_state (getLatestRelease env) w = (Inr release, w1)"
    and "run_state (GetCurrentVersion host env m) w1 = (Inr (release_Name release), w2)"
  shows "\<exists>w'. run_state (checkAndUpdate host env m) w = (None, w') \<and> os_Files w' = os_Files w
    \<and> os_Executable w' = os_Executable w"
proof (cases "m_disableCLIUpdate m")
  case True
  then show ?thesis by (simp add: checkAndUpdate_def)
next
  case False
  have "os_Files w1 = os_Files w \<and> os_Executable w1 = os_Executable w"
    using preservesD [OF getLatestRelease_keeps_files [where P = "\<lambda>f x. f = os_Files w \<and> x = os_Executable w"] _ assms(1)] by simp
  moreover have "os_Files w2 = os_Files w1 \<and> os_Executable w2 = os_Executable w1"
    using preservesD [OF GetCurrentVersion_keeps_files [where P = "\<lambda>f x. f = os_Files w1 \<and> x = os_Executable w1"] _ assms(2)] by simp
  ultimately show ?thesis using False assms by (simp add: checkAndUpdate_def)
qed

text \<open>The JSON of a release, and that of a table of middleware versions.\<close>

definition asset_json :: "Asset \<Rightarrow> json" where
  "asset_json a = JObject [(''name'', JString (asset_Name a)), (''browser_download_url'', JString (asset_BrowserDownloadURL a))]"

definition release_json :: "GitHubRelease \<Rightarrow> json" where
  "release_json r = JObject [(''name'', JString (release_Name r)), (''assets'', JArray (map asset_json (release_Assets r)))]"

definition versions_json :: "string gomap gomap \<Rightarrow> json" where
  "versions_json vs = JObject [(''middlewareVersions'',
     JObject (map (map_prod id (\<lambda>m. JObject (map (map_prod id JString) m))) vs))]"

lemma fold_field_names:
  "foldName ''name'' = ''name''" "foldName ''browser_download_url'' = ''browser_download_url''"
  "foldName ''assets'' = ''assets''" "foldName ''middlewareVersions'' = ''middlewareversions''"
  by code_simp+

lemma decode_asset_json: "decode_asset (asset_json a) \<lparr>asset_Name = [], asset_BrowserDownloadURL = []\<rparr> = Some a"
  by (simp add: decode_asset_def asset_json_def decode_struct_def decode_string_def fold_field_names)

lemma decode_release_json: "decode_release (release_json r) = Some r"
  using decode_slice_fresh [where f = decode_asset and g = asset_json and ys = "release_Assets r"
      and zero = "\<lparr>asset_Name = [], asset_BrowserDownloadURL = []\<rparr>"] decode_asset_json
  by (simp add: decode_release_def release_json_def decode_struct_def decode_string_def fold_field_names)

lemma release_depth: "json_depth (release_json r) \<le> maxNestingDepth"
proof -
  have "json_depth (asset_json a) \<le> 1" for a by (simp add: asset_json_def)
  then have "json_depth (JArray (map asset_json (release_Assets r))) \<le> 2"
    using json_depth_array_le [of "map asset_json (release_Assets r)" 1] by auto
  then have "json_depth (release_json r) \<le> Suc 2"
    unfolding release_json_def by (intro json_depth_object_le) auto
  then show ?thesis by (simp add: maxNestingDepth_def)
qed

lemma versions_depth: "json_depth (versions_json vs) \<le> maxNestingDepth"
proof -
  have "json_depth (JObject (map (map_prod id JString) m)) \<le> Suc 0" for m :: "string gomap"
    by (intro json_depth_object_le) auto
  then have "json_depth (JObject (map (map_prod id (\<lambda>m. JObject (map (map_prod id JString) m))) vs)) \<le> Suc 1"
    by (intro json_depth_object_le) (auto simp del: json_depth.simps)
  then have "json_depth (versions_json vs) \<le> Suc (Suc 1)"
    unfolding versions_json_def by (intro json_depth_object_le) (simp del: json_depth.simps)
  then show ?thesis by (simp add: maxNestingDepth_def)
qed

text \<open>A release is decoded from the beginning of a body, whatever follows and however its reading ends.\<close>

lemma release_decoded:
  assumes "json_ok (release_json r)"
  shows "Decode decode_release (json_text (release_json r) @ s) readErr = Inr r"
  using Decode_text [where f = decode_release and x = r and r = s and readErr = readErr] assms release_depth [of r] decode_release_json [of r]
  by (simp only: release_json_def)

lemma decode_versions_json:
  assumes "is_gomap vs" "\<And>k m. (k, m) \<in> set vs \<Longrightarrow> is_gomap m"
  shows "decode_versions (versions_json vs) = Some vs"
proof -
  have "decode_map (\<lambda>v. decode_string v []) (JObject (map (map_prod id JString) m)) [] = Some m" if "(k, m) \<in> set vs" for k m
    using assms(2) [OF that] by (intro decode_map_entries) (simp_all add: decode_string_def)
  then show ?thesis
    using decode_map_entries [of vs "\<lambda>v. decode_map (\<lambda>v. decode_string v []) v []" "\<lambda>m. JObject (map (map_prod id JString) m)"]
      assms(1)
    by (simp add: decode_versions_def versions_json_def decode_struct_def fold_field_names)
qed

text \<open>
  The latest version of a middleware is read as \<open>func version\<close> lists it: the entry of its table for the runtime
  and the invocation, http when none is given, and an error when the table has no such entry.
\<close>

theorem latest_version_read:
  assumes "run_state (Run host env m [] [''version'', ''-v'', ''-o'', ''json'']) w = ((json_text (versions_json vs), None), w')"
    and "json_ok (versions_json vs)" "is_gomap vs" "\<And>k m. (k, m) \<in> set vs \<Longrightarrow> is_gomap m"
  shows "run_state (GetLatestMiddlewareVersion host env m runtime invoke) w
    = (select_version vs runtime (if invoke = [] then ''http'' else invoke), w')"
proof -
  have "Unmarshal decode_versions (json_text (versions_json vs)) = Inr vs"
    by (intro Unmarshal_text assms(2) versions_depth decode_versions_json assms(3)) (rule assms(4))
  then show ?thesis using assms(1) by (simp add: GetLatestMiddlewareVersion_def Let_def)
qed

definition sample_versions :: "string gomap gomap" where
  "sample_versions = [(''go'', [(''http'', ''1.2'')]), (''python'', [(''http'', ''0.9''), (''cloudevent'', ''0.8'')])]"

definition sample_table_env :: "unit OsEnv" where
  "sample_table_env = sample_os_env\<lparr>env_Exec := (\<lambda>bin dir args. ret (json_text (versions_json sample_versions), None))\<rparr>"

theorem latest_version_read_witness:
  "run_state (GetLatestMiddlewareVersion sample_host sample_table_env
      \<lparr>m_checkInterval = 1, m_installPath = ''/bin'', m_disableCLIUpdate = False\<rparr> ''python'' []) sample_os = (Inr ''0.9'', sample_os)"
proof -
  let ?m = "\<lparr>m_checkInterval = 1, m_installPath = ''/bin'', m_disableCLIUpdate = False\<rparr>"
  have p: "path_Join [''/bin'', binaryName] = ''/bin/func''" by code_simp
  have "run_state (Run sample_host sample_table_env ?m [] [''version'', ''-v'', ''-o'', ''json'']) sample_os
      = ((json_text (versions_json sample_versions), None), sample_os)"
    using p by (simp add: Run_def GetBinaryPath_def os_exec_def sample_host_def sample_table_env_def sample_os_def Let_def)
  moreover have "json_ok (versions_json sample_versions)" by code_simp
  moreover have "is_gomap sample_versions" "(k, m) \<in> set sample_versions \<Longrightarrow> is_gomap m" for k m
    by (auto simp: is_gomap_def sample_versions_def)
  ultimately show ?thesis
    using latest_version_read [of sample_host sample_table_env ?m sample_os sample_versions sample_os "''python''" "[]"]
    by (simp add: select_version_def sample_versions_def)
qed

text \<open>
  C38: the latest release is read from the answer of the server as soon as its object is complete: neither what
  follows in the body nor an error in reading it is noticed. What is read is the release that was written,
  with its assets in their order.
\<close>

theorem latest_release_read:
  assumes "run_state (http_Get env githubAPIURL) w = (Inr resp, w')" and "resp_StatusCode resp = 200"
    and "resp_Body resp = json_text (release_json release) @ s" and "json_ok (release_json release)"
  shows "run_state (getLatestRelease env) w = (Inr release, w')"
  using assms release_decoded [OF assms(4), of s "resp_ReadErr resp"] by (simp add: getLatestRelease_def)

definition sample_release :: GitHubRelease where
  "sample_release = \<lparr>release_Name = ''v1'', release_Assets = [\<lparr>asset_Name = ''a'', asset_BrowserDownloadURL = ''u''\<rparr>]\<rparr>"

text \<open>An answer that breaks off behind the release.\<close>

definition sample_answer :: HttpResponse where
  "sample_answer = \<lparr>resp_StatusCode = 200, resp_Body = json_text (release_json sample_release) @ ''}'',
     resp_ReadErr = Some (ErrorString ''reset'')\<rparr>"

theorem latest_release_read_witness:
  "run_state (getLatestRelease (sample_os_env\<lparr>env_Get := (\<lambda>n url. Inr sample_answer)\<rparr>)) sample_os
     = (Inr sample_release, sample_os\<lparr>os_Ops := 1\<rparr>)"
proof (rule latest_release_read [where resp = sample_answer and s = "''}''"])
  show "json_ok (release_json sample_release)" by code_simp
qed (simp_all add: http_Get_def next_op_def sample_os_def sample_answer_def)

definition sample_version_env :: "unit OsEnv" where
  "sample_version_env = sample_os_env\<lparr>env_Exec := (\<lambda>bin dir args. ret (''Knative: v1'', None)),
     env_Get := (\<lambda>n url. Inr \<lparr>resp_StatusCode = 200,
       resp_Body = json_text (release_json \<lparr>release_Name = ''v1'', release_Assets = []\<rparr>), resp_ReadErr = None\<rparr>)\<rparr>"

definition sample_manager :: managerImpl where
  "sample_manager = \<lparr>m_checkInterval = 1, m_installPath = ''/bin'', m_disableCLIUpdate = False\<rparr>"

theorem no_download_when_current_witness:
  "\<exists>w'. run_state (checkAndUpdate sample_host sample_version_env sample_manager) sample_os = (None, w')
     \<and> os_Files w' = os_Files sample_os"
proof -
  let ?release = "\<lparr>release_Name = ''v1'', release_Assets = []\<rparr>"
  have ok: "json_ok (release_json ?release)" by code_simp
  have r: "run_state (getLatestRelease sample_version_env) sample_os =
      (Inr \<lparr>release_Name = ''v1'', release_Assets = []\<rparr>, sample_os\<lparr>os_Ops := 1\<rparr>)"
    using release_decoded [of ?release "[]" None] ok
    by (simp add: getLatestRelease_def http_Get_def next_op_def sample_version_env_def sample_os_env_def sample_os_def
        del: json_text.simps)
  have p: "path_Join [''/bin'', binaryName] = ''/bin/func''" by code_simp
  have "find_version (Split ''Knative: v1'' newline) = Some ''v1''" by code_simp
  then have v: "run_state (GetCurrentVersion sample_host sample_version_env sample_manager) (sample_os\<lparr>os_Ops := 1\<rparr>) =
      (Inr ''v1'', sample_os\<lparr>os_Ops := 1\<rparr>)"
    using p by (simp add: GetCurrentVersion_def Run_def GetBinaryPath_def os_exec_def sample_manager_def sample_host_def
        sample_version_env_def sample_os_def Let_def)
  show ?thesis
    using no_download_when_current [where release = "\<lparr>release_Name = ''v1'', release_Assets = []\<rparr>" and m = sample_manager and host = sample_host, OF r] v
    by auto
qed

end
