(* ===== verification/GitClone.thy ===== *)
theory GitClone
  imports ReconcileEnv
begin

text \<open>
  The git manager, \<open>internal/git/manager.go\<close>: cloning a repository into a temporary directory with the
  credentials of a secret. The state is the part of the file system it touches. Which temporary names
  are given out, which operations fail, and what go-git and its SSH transport answer are fields of \<open>GitEnv\<close>,
  indexed by the number of the operation.
\<close>

section \<open>Types\<close>

text \<open>How the host key of an SSH server is checked, and the options for the transport.\<close>

datatype HostKeyCallback = InsecureIgnoreHostKey | KnownHosts string

datatype ClientOption =
    HTTPAuth string string
  | SSHPassword string HostKeyCallback
  | SSHPublicKeys string string string HostKeyCallback

record GitHead =
  head_IsBranch :: bool
  head_Short :: string
  head_Hash :: string

record CloneOptions =
  co_URL :: string
  co_ReferenceName :: string
  co_ClientOptions :: "ClientOption list"

record GitWorld =
  gw_Files :: "string \<rightharpoonup> string"
  gw_Dirs :: "string set"
  gw_Home :: "string option"
  gw_Ops :: nat

record GitEnv =
  ge_ParseURL :: "string \<Rightarrow> goerr + string"
  ge_MkdirTemp :: "nat \<Rightarrow> goerr + string"
  ge_CreateTemp :: "nat \<Rightarrow> goerr + string"
  ge_Fault :: "nat \<Rightarrow> goerr option"
  ge_RemoveFault :: "nat \<Rightarrow> goerr option"
  ge_MkdirAll :: "string \<Rightarrow> goerr option"
  ge_Clone :: "nat \<Rightarrow> string \<Rightarrow> CloneOptions \<Rightarrow> goerr + (goerr + GitHead)"
  ge_NewPublicKeys :: "string \<Rightarrow> string \<Rightarrow> goerr option"
  ge_KnownHostsCallback :: "string \<Rightarrow> goerr option"

type_synonym 'a git = "(GitWorld, 'a) state"

definition git_op :: "nat git" where
  "git_op = State (\<lambda>w. (gw_Ops w, w\<lparr>gw_Ops := gw_Ops w + 1\<rparr>))"

definition cloneBaseDir :: string where
  "cloneBaseDir = ''/git-repos''"

definition git_MkdirTemp :: "GitEnv \<Rightarrow> (goerr + string) git" where
  "git_MkdirTemp env = do {
     n \<leftarrow> git_op;
     case ge_MkdirTemp env n of
       Inl e \<Rightarrow> ret (Inl e)
     | Inr dir \<Rightarrow> do { modify (\<lambda>w. w\<lparr>gw_Dirs := insert dir (gw_Dirs w)\<rparr>); ret (Inr dir) }
   }"

definition git_CreateTemp :: "GitEnv \<Rightarrow> (goerr + string) git" where
  "git_CreateTemp env = do {
     n \<leftarrow> git_op;
     case ge_CreateTemp env n of
       Inl e \<Rightarrow> ret (Inl e)
     | Inr file \<Rightarrow> do { modify (\<lambda>w. w\<lparr>gw_Files := (gw_Files w)(file \<mapsto> [])\<rparr>); ret (Inr file) }
   }"

definition git_Write :: "GitEnv \<Rightarrow> string \<Rightarrow> string \<Rightarrow> (goerr option) git" where
  "git_Write env file content = do {
     n \<leftarrow> git_op;
     case ge_Fault env n of
       Some e \<Rightarrow> ret (Some e)
     | None \<Rightarrow> do { modify (\<lambda>w. w\<lparr>gw_Files := (gw_Files w)(file \<mapsto> content)\<rparr>); ret None }
   }"

text \<open>\<open>_ = os.Remove(path)\<close>.\<close>

definition git_Remove :: "GitEnv \<Rightarrow> string \<Rightarrow> unit git" where
  "git_Remove env file = do {
     n \<leftarrow> git_op;
     case ge_RemoveFault env n of
       Some e \<Rightarrow> ret ()
     | None \<Rightarrow> modify (\<lambda>w. w\<lparr>gw_Files := (gw_Files w)(file := None)\<rparr>)
   }"

section \<open>Credentials\<close>

definition getHTTPClientOptions :: "string gomap \<Rightarrow> ClientOption list" where
  "getHTTPClientOptions authSecret =
     (if authSecret = [] then []
      else (case map_of authSecret ''token'' of
          Some token \<Rightarrow> [HTTPAuth ''empty'' token]
        | None \<Rightarrow> (case map_of authSecret ''username'' of
            Some username \<Rightarrow> (case map_of authSecret ''password'' of
                Some password \<Rightarrow> [HTTPAuth username password]
              | None \<Rightarrow> [])
          | None \<Rightarrow> [])))"

definition getSSHClientOptions :: "GitEnv \<Rightarrow> string gomap \<Rightarrow> (goerr + (ClientOption list \<times> string)) git" where
  "getSSHClientOptions env authSecret =
     (case map_of authSecret ''sshPrivateKey'' of
        None \<Rightarrow> ret (Inr ([SSHPassword ''git'' InsecureIgnoreHostKey], []))
      | Some privateKey \<Rightarrow> do {
          let password = (case map_of authSecret ''sshPrivateKeyPassword'' of None \<Rightarrow> [] | Some p \<Rightarrow> p);
          case ge_NewPublicKeys env privateKey password of
            Some e \<Rightarrow> ret (Inl (Errorf ''failed to parse SSH private key: '' e))
          | None \<Rightarrow>
              (case map_of authSecret ''known_hosts'' of
                 None \<Rightarrow> ret (Inr ([SSHPublicKeys ''git'' privateKey password InsecureIgnoreHostKey], []))
               | Some knownHostsData \<Rightarrow> do {
                   res \<leftarrow> git_CreateTemp env;
                   case res of
                     Inl e \<Rightarrow> ret (Inl (Errorf ''failed to create known_hosts temp file: '' e))
                   | Inr tmpFile \<Rightarrow> do {
                       err \<leftarrow> git_Write env tmpFile knownHostsData;
                       case err of
                         Some e \<Rightarrow> do {
                           git_Remove env tmpFile;
                           ret (Inl (Errorf ''failed to write known_hosts temp file: '' e))
                         }
                       | None \<Rightarrow> (case ge_KnownHostsCallback env knownHostsData of
                           Some e \<Rightarrow> do {
                             git_Remove env tmpFile;
                             ret (Inl (Errorf ''failed to configure known_hosts callback: '' e))
                           }
                         | None \<Rightarrow> ret (Inr ([SSHPublicKeys ''git'' privateKey password (KnownHosts tmpFile)], tmpFile)))
                     }
                 })
        })"

definition getClientOptions :: "GitEnv \<Rightarrow> string \<Rightarrow> string gomap \<Rightarrow> (goerr + (ClientOption list \<times> string)) git" where
  "getClientOptions env scheme authSecret =
     (if scheme = ''ssh'' then getSSHClientOptions env authSecret
      else ret (Inr (getHTTPClientOptions authSecret, [])))"

section \<open>Cloning\<close>

text \<open>The rest of \<open>CloneRepository\<close> once the credentials are there, without the deferred removal.\<close>

definition clone_with :: "GitEnv \<Rightarrow> string \<Rightarrow> string \<Rightarrow> string \<Rightarrow> string \<Rightarrow> ClientOption list \<Rightarrow> string \<Rightarrow> (goerr + Repository) git" where
  "clone_with env repoUrl subPath reference targetDir clientOpts tempFile = do {
     n \<leftarrow> git_op;
     case ge_Clone env n targetDir \<lparr>co_URL = repoUrl, co_ReferenceName = reference, co_ClientOptions = clientOpts\<rparr> of
       Inl e \<Rightarrow> ret (Inl (Errorf ''failed to clone repo: '' e))
     | Inr (Inl e) \<Rightarrow> ret (Inl (Errorf ''failed to find head: '' e))
     | Inr (Inr head) \<Rightarrow>
         (let revision = (if reference = [] \<and> head_IsBranch head then head_Short head else reference)
          in ret (Inr \<lparr>repository_CloneDir = targetDir, repository_SubPath = subPath,
                repository_Commit = head_Hash head, repository_Revision = revision,
                repository_knownHostFile = tempFile\<rparr>))
   }"

text \<open>With the deferred removal of the temporary file, when an error is returned.\<close>

definition clone_cleaned :: "GitEnv \<Rightarrow> string \<Rightarrow> string \<Rightarrow> string \<Rightarrow> string \<Rightarrow> ClientOption list \<Rightarrow> string \<Rightarrow> (goerr + Repository) git" where
  "clone_cleaned env repoUrl subPath reference targetDir clientOpts tempFile = do {
     res \<leftarrow> clone_with env repoUrl subPath reference targetDir clientOpts tempFile;
     (case res of
        Inl e \<Rightarrow> if tempFile \<noteq> [] then git_Remove env tempFile else ret ()
      | Inr repo \<Rightarrow> ret ());
     ret res
   }"

definition clone_into :: "GitEnv \<Rightarrow> string \<Rightarrow> string \<Rightarrow> string \<Rightarrow> string \<Rightarrow> string \<Rightarrow> string gomap \<Rightarrow> (goerr + Repository) git" where
  "clone_into env repoUrl subPath reference targetDir scheme auth = do {
     res \<leftarrow> getClientOptions env scheme auth;
     case res of
       Inl e \<Rightarrow> ret (Inl (Errorf ''failed to configure auth: '' e))
     | Inr (clientOpts, tempFile) \<Rightarrow> clone_cleaned env repoUrl subPath reference targetDir clientOpts tempFile
   }"

definition CloneRepository :: "GitEnv \<Rightarrow> string \<Rightarrow> string \<Rightarrow> string \<Rightarrow> string gomap \<Rightarrow> (goerr + Repository) git" where
  "CloneRepository env repoUrl subPath reference auth =
     (case ge_ParseURL env repoUrl of
        Inl e \<Rightarrow> ret (Inl (Errorf ''failed to parse repository URL: '' e))
      | Inr scheme \<Rightarrow> do {
          res \<leftarrow> git_MkdirTemp env;
          case res of
            Inl e \<Rightarrow> ret (Inl (Errorf ''failed to create temporary directory: '' e))
          | Inr targetDir \<Rightarrow> clone_into env repoUrl subPath reference targetDir scheme auth
        })"

section \<open>Start-up\<close>

definition git_WriteFile :: "GitEnv \<Rightarrow> string \<Rightarrow> string \<Rightarrow> (goerr option) git" where
  "git_WriteFile env file content = git_Write env file content"

definition ensureKnownHostsExists :: "GitEnv \<Rightarrow> (goerr option) git" where
  "ensureKnownHostsExists env = do {
     home \<leftarrow> gets gw_Home;
     case home of
       None \<Rightarrow> ret (Some (ErrorString ''$HOME is not defined''))
     | Some home \<Rightarrow> do {
         sshDir \<leftarrow> (case ge_MkdirAll env (path_Join [home, ''.ssh'']) of
             None \<Rightarrow> ret (Inr (path_Join [home, ''.ssh'']))
           | Some err \<Rightarrow> do {
               res \<leftarrow> git_MkdirTemp env;
               case res of
                 Inl tmpErr \<Rightarrow> ret (Inl (Errorf (''home dir not writable ('' @ err_Error err
                                 @ '') and failed to create temp home: '') tmpErr))
               | Inr tmpHome \<Rightarrow>
                   (case ge_MkdirAll env (path_Join [tmpHome, ''.ssh'']) of
                      Some mkErr \<Rightarrow> ret (Inl (Errorf ''failed to create .ssh in temp home: '' mkErr))
                    | None \<Rightarrow> do {
                        n \<leftarrow> git_op;
                        case ge_Fault env n of
                          Some setErr \<Rightarrow> ret (Inl (Errorf ''failed to set HOME to temp dir: '' setErr))
                        | None \<Rightarrow> do {
                            modify (\<lambda>w. w\<lparr>gw_Home := Some tmpHome\<rparr>);
                            ret (Inr (path_Join [tmpHome, ''.ssh'']))
                          }
                      })
             });
         case sshDir of
           Inl e \<Rightarrow> ret (Some e)
         | Inr sshDir \<Rightarrow> do {
             let knownHostsPath = path_Join [sshDir, ''known_hosts''];
             files \<leftarrow> gets gw_Files;
             if files knownHostsPath = None then git_WriteFile env knownHostsPath [] else ret None
           }
       }
   }"

definition NewGitManager :: "GitEnv \<Rightarrow> (goerr option) git" where
  "NewGitManager env =
     (case ge_MkdirAll env cloneBaseDir of
        Some e \<Rightarrow> ret (Some (Errorf ''failed to create git clone base directory: '' e))
      | None \<Rightarrow> do {
          err \<leftarrow> ensureKnownHostsExists env;
          case err of
            Some e \<Rightarrow> ret (Some (Errorf ''failed to ensure known_hosts exists: '' e))
          | None \<Rightarrow> ret None
        })"

text \<open>The implementation as a value of the interface \<open>git.Manager\<close>.\<close>

definition as_GitManager :: "GitEnv \<Rightarrow> GitWorld GitManager" where
  "as_GitManager env = \<lparr>gm_CloneRepository = CloneRepository env\<rparr>"

section \<open>Facts\<close>

lemmas git_defs = git_op_def git_MkdirTemp_def git_CreateTemp_def git_Write_def git_Remove_def

text \<open>The names given out for temporary files and directories are new, and removing a file works.\<close>

definition fresh_temps :: "GitEnv \<Rightarrow> GitWorld \<Rightarrow> bool" where
  "fresh_temps env w \<longleftrightarrow>
     (\<forall>n file. ge_CreateTemp env n = Inr file \<longrightarrow> file \<noteq> [] \<and> gw_Files w file = None)
     \<and> (\<forall>n dir. ge_MkdirTemp env n = Inr dir \<longrightarrow> dir \<notin> gw_Dirs w)
     \<and> (\<forall>n. ge_RemoveFault env n = None)"

text \<open>The files after the world \<open>w\<close> got at most a temporary file with the known hosts of the secret.\<close>

definition with_hosts :: "string gomap \<Rightarrow> GitWorld \<Rightarrow> string \<Rightarrow> GitWorld \<Rightarrow> bool" where
  "with_hosts auth w tmp w' \<longleftrightarrow>
     (if tmp = [] then gw_Files w' = gw_Files w
      else gw_Files w tmp = None \<and> (\<exists>hosts. map_of auth ''known_hosts'' = Some hosts
             \<and> gw_Files w' = (gw_Files w)(tmp \<mapsto> hosts)))"

lemma with_hosts_drop:
  "with_hosts auth w tmp w' \<Longrightarrow> (if tmp = [] then gw_Files w' else (gw_Files w')(tmp := None)) = gw_Files w"
  by (auto simp: with_hosts_def fun_upd_idem split: if_splits)

lemma options_files:
  assumes "fresh_temps env w0" and "gw_Files w = gw_Files w0"
  shows "holds (getClientOptions env scheme auth) w (\<lambda>res w'. gw_Dirs w' = gw_Dirs w
     \<and> (case res of Inl e \<Rightarrow> gw_Files w' = gw_Files w0 | Inr (opts, tmp) \<Rightarrow> with_hosts auth w0 tmp w'))"
  using assms unfolding getClientOptions_def getSSHClientOptions_def git_defs with_hosts_def
  by (auto simp: wp_simps Let_def fresh_temps_def fun_upd_idem split: option.split sum.split)

lemma clone_cleaned_files:
  assumes "fresh_temps env w" and "with_hosts auth w tmp w'"
  shows "holds (clone_cleaned env url dir reference d opts tmp) w' (\<lambda>res w''. gw_Dirs w'' = gw_Dirs w'
     \<and> (case res of Inl e \<Rightarrow> gw_Files w'' = gw_Files w
         | Inr repo \<Rightarrow> repository_CloneDir repo = d \<and> with_hosts auth w (repository_knownHostFile repo) w''))"
  using assms with_hosts_drop [OF assms(2)] unfolding clone_cleaned_def clone_with_def git_defs fresh_temps_def
  by (auto simp: wp_simps Let_def with_hosts_def split: sum.split)

lemma clone_into_files:
  assumes "fresh_temps env w" and "gw_Files w' = gw_Files w"
  shows "holds (clone_into env url dir reference d scheme auth) w' (\<lambda>res w''. gw_Dirs w'' = gw_Dirs w'
     \<and> (case res of Inl e \<Rightarrow> gw_Files w'' = gw_Files w
         | Inr repo \<Rightarrow> repository_CloneDir repo = d \<and> with_hosts auth w (repository_knownHostFile repo) w''))"
  unfolding clone_into_def
proof (subst holds_bind, rule holds_mono [OF options_files [OF assms]])
  fix res :: "goerr + (ClientOption list \<times> string)" and w1 :: GitWorld
  assume o: "gw_Dirs w1 = gw_Dirs w' \<and> (case res of Inl e \<Rightarrow> gw_Files w1 = gw_Files w
     | Inr (opts, tmp) \<Rightarrow> with_hosts auth w tmp w1)"
  then show "holds (case res of
       Inl e \<Rightarrow> ret (Inl (Errorf ''failed to configure auth: '' e))
     | Inr (clientOpts, tempFile) \<Rightarrow> clone_cleaned env url dir reference d clientOpts tempFile) w1
     (\<lambda>res w''. gw_Dirs w'' = gw_Dirs w'
     \<and> (case res of Inl e \<Rightarrow> gw_Files w'' = gw_Files w
         | Inr repo \<Rightarrow> repository_CloneDir repo = d \<and> with_hosts auth w (repository_knownHostFile repo) w''))"
  proof (cases res)
    case (Inr p)
    obtain opts tmp where p: "p = (opts, tmp)" by force
    with o Inr have h: "with_hosts auth w tmp w1" and d: "gw_Dirs w1 = gw_Dirs w'" by simp_all
    show ?thesis unfolding Inr p
      by (simp only: sum.case prod.case, rule holds_mono [OF clone_cleaned_files [OF assms(1) h]]) (simp add: d)
  qed (simp add: holds_return)
qed

section \<open>Properties\<close>

text \<open>
  C33: a clone that succeeds has made one new directory, which the result names, and at most one
  temporary file, named by the result and holding the known hosts of the secret. A clone that fails
  leaves no such file. The new directory it leaves: whenever it got as far as making it, it is still
  there.
\<close>

theorem clone_files:
  assumes "fresh_temps env w"
  shows "holds (CloneRepository env url subPath reference auth) w (\<lambda>res w'.
     case res of
       Inl e \<Rightarrow> gw_Files w' = gw_Files w
         \<and> gw_Dirs w' = gw_Dirs w \<union>
             (case ge_ParseURL env url of Inl e \<Rightarrow> {} | Inr scheme \<Rightarrow>
               (case ge_MkdirTemp env (gw_Ops w) of Inl e \<Rightarrow> {} | Inr dir \<Rightarrow> {dir}))
     | Inr repo \<Rightarrow> repository_CloneDir repo \<notin> gw_Dirs w
         \<and> gw_Dirs w' = insert (repository_CloneDir repo) (gw_Dirs w)
         \<and> (if repository_knownHostFile repo = [] then gw_Files w' = gw_Files w
            else gw_Files w (repository_knownHostFile repo) = None
              \<and> (\<exists>hosts. map_of auth ''known_hosts'' = Some hosts
                   \<and> gw_Files w' = (gw_Files w)(repository_knownHostFile repo \<mapsto> hosts))))"
proof (cases "ge_ParseURL env url")
  case (Inl e)
  then show ?thesis by (simp add: CloneRepository_def holds_return)
next
  case (Inr scheme)
  note url = this
  show ?thesis
  proof (cases "ge_MkdirTemp env (gw_Ops w)")
    case (Inl e)
    then show ?thesis by (simp add: CloneRepository_def url git_defs wp_simps)
  next
    case (Inr d)
    let ?w = "w\<lparr>gw_Ops := Suc (gw_Ops w), gw_Dirs := insert d (gw_Dirs w)\<rparr>"
    have f: "gw_Files ?w = gw_Files w" by simp
    have "d \<notin> gw_Dirs w" using assms Inr by (auto simp: fresh_temps_def)
    then have "holds (clone_into env url subPath reference d scheme auth) ?w (\<lambda>res w'.
     case res of
       Inl e \<Rightarrow> gw_Files w' = gw_Files w \<and> gw_Dirs w' = gw_Dirs w \<union> {d}
     | Inr repo \<Rightarrow> repository_CloneDir repo \<notin> gw_Dirs w
         \<and> gw_Dirs w' = insert (repository_CloneDir repo) (gw_Dirs w)
         \<and> with_hosts auth w (repository_knownHostFile repo) w')"
      by (intro holds_mono [OF clone_into_files [OF assms f]]) (auto split: sum.splits)
    then show ?thesis
      unfolding CloneRepository_def url git_defs
      by (simp add: Inr wp_simps, elim holds_mono) (auto simp: with_hosts_def url Inr split: sum.splits)
  qed
qed

definition sample_git_env :: GitEnv where
  "sample_git_env = \<lparr>
     ge_ParseURL = (\<lambda>url. Inr ''ssh''),
     ge_MkdirTemp = (\<lambda>n. Inr ''/git-repos/repo-1''),
     ge_CreateTemp = (\<lambda>n. Inr ''/tmp/known_hosts-1''),
     ge_Fault = (\<lambda>n. None), ge_RemoveFault = (\<lambda>n. None), ge_MkdirAll = (\<lambda>dir. None),
     ge_Clone = (\<lambda>n dir opts. if co_ReferenceName opts = ''gone'' then Inl (ErrorString ''reference not found'')
        else Inr (Inr \<lparr>head_IsBranch = True, head_Short = ''main'', head_Hash = ''c0ffee''\<rparr>)),
     ge_NewPublicKeys = (\<lambda>key pw. None),
     ge_KnownHostsCallback = (\<lambda>hosts. None)\<rparr>"

definition sample_git :: GitWorld where
  "sample_git = \<lparr>gw_Files = Map.empty, gw_Dirs = {}, gw_Home = Some ''/root'', gw_Ops = 0\<rparr>"

theorem clone_files_witness:
  "holds (CloneRepository sample_git_env ''ssh://git/fn'' [] ''gone'' [(''sshPrivateKey'', ''K''), (''known_hosts'', ''H'')]) sample_git
     (\<lambda>res w'. \<exists>e. res = Inl e \<and> gw_Files w' = Map.empty \<and> gw_Dirs w' = {''/git-repos/repo-1''})"
proof -
  have "fresh_temps sample_git_env sample_git" by (simp add: fresh_temps_def sample_git_env_def sample_git_def)
  note c = clone_files [OF this, of "''ssh://git/fn''" "[]" "''gone''" "[(''sshPrivateKey'', ''K''), (''known_hosts'', ''H'')]"]
  have "holds (CloneRepository sample_git_env ''ssh://git/fn'' [] ''gone'' [(''sshPrivateKey'', ''K''), (''known_hosts'', ''H'')]) sample_git
     (\<lambda>res w'. \<exists>e. res = Inl e)"
    by (simp add: CloneRepository_def clone_into_def clone_cleaned_def clone_with_def getClientOptions_def
        getSSHClientOptions_def git_defs sample_git_env_def sample_git_def wp_simps)
  from holds_conj [OF c this] show ?thesis
    by (rule holds_mono) (auto simp: sample_git_env_def sample_git_def)
qed



text \<open>
  When the manager could be set up, the file of known hosts that the SSH transport looks for exists in the home
  directory that is in effect then, and no file that was there has changed.
\<close>

theorem known_hosts_file_exists:
  "holds (NewGitManager env) w (\<lambda>err w'. err = None \<longrightarrow>
     (\<exists>home. gw_Home w' = Some home \<and> gw_Files w' (path_Join [path_Join [home, ''.ssh''], ''known_hosts'']) \<noteq> None)
     \<and> (\<forall>p c. gw_Files w p = Some c \<longrightarrow> gw_Files w' p = Some c))"
  unfolding NewGitManager_def ensureKnownHostsExists_def git_WriteFile_def git_defs
  by (auto simp: wp_simps Let_def split: option.split sum.split)

theorem known_hosts_file_exists_witness:
  "holds (NewGitManager sample_git_env) sample_git (\<lambda>err w'. err = None \<and> gw_Files w' ''/root/.ssh/known_hosts'' = Some [])"
proof -
  have p: "path_Join [path_Join [''/root'', ''.ssh''], ''known_hosts''] = ''/root/.ssh/known_hosts''" by code_simp
  have "holds (NewGitManager sample_git_env) sample_git (\<lambda>err w'. err = None \<and> gw_Home w' = Some ''/root''
      \<and> gw_Files w' = [path_Join [path_Join [''/root'', ''.ssh''], ''known_hosts''] \<mapsto> []])"
    by (simp add: NewGitManager_def ensureKnownHostsExists_def git_WriteFile_def git_defs sample_git_env_def sample_git_def wp_simps Let_def)
  from holds_conj [OF this known_hosts_file_exists] show ?thesis
    by (rule holds_mono) (simp add: p)
qed

end
