(* ===== verification/PluginObjects.thy ===== *)
theory PluginObjects
  imports KubeMeta GoJson
begin

text \<open>
  The objects that \<open>internal/controller/consoleplugin_controller.go\<close> manages and the functions that
  build them. The records have the fields that the controller sets or reads; a quantity such as
  \<open>10m\<close> is kept as the text that \<open>resource.MustParse\<close> is given, and an unstructured object as the JSON
  value below the key it is set under; \<open>JDecimal\<close> is a number that is no integer, by its text.
\<close>

datatype IntOrString = FromInt32 int | FromString string

section \<open>The kinds of objects\<close>

record ServiceAccount =
  sa_Meta :: ObjectMeta

record ServicePort =
  sp_Name :: string
  sp_Protocol :: string
  sp_Port :: int
  sp_TargetPort :: IntOrString

record Service =
  svc_Meta :: ObjectMeta
  svc_Type :: string
  svc_Selector :: "string gomap"
  svc_Ports :: "ServicePort list"

record HTTPGetAction =
  hg_Path :: string
  hg_Port :: IntOrString
  hg_Scheme :: string

record Probe =
  probe_HTTPGet :: HTTPGetAction
  probe_InitialDelaySeconds :: int
  probe_PeriodSeconds :: int

record VolumeMount =
  vm_Name :: string
  vm_ReadOnly :: bool
  vm_MountPath :: string

record SecurityContext =
  sc_AllowPrivilegeEscalation :: bool
  sc_DropCapabilities :: "string list"

record Container =
  ctr_Name :: string
  ctr_Image :: string
  ctr_ImagePullPolicy :: string
  ctr_Args :: "string list"
  ctr_Ports :: "(int \<times> string) list"
  ctr_LivenessProbe :: Probe
  ctr_ReadinessProbe :: Probe
  ctr_Requests :: "string gomap"
  ctr_SecurityContext :: SecurityContext
  ctr_VolumeMounts :: "VolumeMount list"

record SecretVolume =
  sv_Name :: string
  sv_SecretName :: string
  sv_DefaultMode :: int

record PodSpec =
  pod_ServiceAccountName :: string
  pod_RestartPolicy :: string
  pod_DNSPolicy :: string
  pod_RunAsNonRoot :: bool
  pod_SeccompProfile :: string
  pod_Containers :: "Container list"
  pod_Volumes :: "SecretVolume list"

record DeploymentSpec =
  ds_Replicas :: int
  ds_Selector :: "string gomap"
  ds_StrategyType :: string
  ds_MaxUnavailable :: IntOrString
  ds_MaxSurge :: IntOrString
  ds_TemplateLabels :: "string gomap"
  ds_TemplateSpec :: PodSpec

record Deployment =
  dep_Meta :: ObjectMeta
  dep_Spec :: DeploymentSpec

record Pod =
  pod_Meta :: ObjectMeta
  pod_SpecServiceAccountName :: string

record ReplicaSet =
  rs_Meta :: ObjectMeta

record ClusterRoleBinding =
  crb_Meta :: ObjectMeta
  crb_Subjects :: "Subject list"

text \<open>The custom resource of the console: its metadata and what is set under \<open>spec\<close>.\<close>

record ConsolePlugin =
  cp_Meta :: ObjectMeta
  cp_Spec :: json

section \<open>Constants\<close>

definition consolePluginName :: string where
  "consolePluginName = ''console-functions-plugin''"

definition consolePluginPort :: int where
  "consolePluginPort = 9443"

definition consolePluginPortInt32 :: int where
  "consolePluginPortInt32 = 9443"

definition consolePluginBasePath :: string where
  "consolePluginBasePath = ''/''"

definition consolePluginCertSecret :: string where
  "consolePluginCertSecret = ''faas-console-plugin-cert''"

definition consolePluginCertMount :: string where
  "consolePluginCertMount = ''/var/cert''"

section \<open>Owner references and labels\<close>

definition findOwnerRef :: "OwnerReference list \<Rightarrow> string \<Rightarrow> OwnerReference option" where
  "findOwnerRef refs kind = find (\<lambda>ref. or_Kind ref = kind) refs"

text \<open>The loop of \<open>ensureOwnerRef\<close>: the first reference with the UID is replaced, or one is appended.\<close>

fun put_owner_ref :: "OwnerReference list \<Rightarrow> OwnerReference \<Rightarrow> OwnerReference list" where
  "put_owner_ref [] ref = [ref]"
| "put_owner_ref (r # rs) ref = (if or_UID r = or_UID ref then ref # rs else r # put_owner_ref rs ref)"

definition ensureOwnerRef :: "ObjectMeta \<Rightarrow> OwnerReference option \<Rightarrow> ObjectMeta" where
  "ensureOwnerRef obj ref =
     (case ref of
        None \<Rightarrow> obj
      | Some ref \<Rightarrow> obj\<lparr>om_OwnerReferences := put_owner_ref (om_OwnerReferences obj) ref\<rparr>)"

definition consolePluginLabels :: "string gomap" where
  "consolePluginLabels =
     [(''app'', consolePluginName),
      (''app.kubernetes.io/name'', consolePluginName),
      (''app.kubernetes.io/part-of'', consolePluginName),
      (''app.kubernetes.io/managed-by'', ''func-operator'')]"

definition consolePluginSelectorLabels :: "string gomap" where
  "consolePluginSelectorLabels =
     [(''app'', consolePluginName),
      (''app.kubernetes.io/name'', consolePluginName)]"

definition plugin_meta :: "string \<Rightarrow> ObjectMeta" where
  "plugin_meta namespace = (new_meta consolePluginName namespace)\<lparr>om_Labels := consolePluginLabels\<rparr>"

section \<open>The desired objects\<close>

definition buildServiceAccount :: "string \<Rightarrow> ServiceAccount" where
  "buildServiceAccount namespace = \<lparr>sa_Meta = plugin_meta namespace\<rparr>"

definition buildRole :: "string \<Rightarrow> Role" where
  "buildRole namespace =
     \<lparr>role_Meta = plugin_meta namespace,
      role_Rules =
        [\<lparr>rule_APIGroups = [''''],
          rule_Resources = [''secrets''],
          rule_Verbs = [''create'', ''get'', ''update'', ''delete'']\<rparr>]\<rparr>"

definition buildRoleBinding :: "string \<Rightarrow> RoleBinding" where
  "buildRoleBinding namespace =
     \<lparr>rb_Meta = plugin_meta namespace,
      rb_RoleRef = \<lparr>rr_APIGroup = ''rbac.authorization.k8s.io'', rr_Kind = ''Role'', rr_Name = consolePluginName\<rparr>,
      rb_Subjects =
        [\<lparr>subj_Kind = ''ServiceAccount'', subj_Name = consolePluginName, subj_Namespace = namespace\<rparr>]\<rparr>"

definition buildService :: "string \<Rightarrow> Service" where
  "buildService namespace =
     \<lparr>svc_Meta = (plugin_meta namespace)\<lparr>om_Annotations :=
        [(''service.alpha.openshift.io/serving-cert-secret-name'', consolePluginCertSecret)]\<rparr>,
      svc_Type = ''ClusterIP'',
      svc_Selector = consolePluginSelectorLabels,
      svc_Ports =
        [\<lparr>sp_Name = ''9443-tcp'',
          sp_Protocol = ''TCP'',
          sp_Port = consolePluginPortInt32,
          sp_TargetPort = FromInt32 consolePluginPortInt32\<rparr>]\<rparr>"

definition healthz_probe :: Probe where
  "healthz_probe =
     \<lparr>probe_HTTPGet =
        \<lparr>hg_Path = ''/healthz'', hg_Port = FromInt32 consolePluginPortInt32, hg_Scheme = ''HTTPS''\<rparr>,
      probe_InitialDelaySeconds = 5,
      probe_PeriodSeconds = 10\<rparr>"

definition plugin_args :: "string \<Rightarrow> string \<Rightarrow> string \<Rightarrow> string list" where
  "plugin_args apiServerURL clusterID ghApiURL =
     [''--https-port=9443'',
      ''--external-api-server-url='' @ apiServerURL,
      ''--cluster-id='' @ clusterID]
     @ (if ghApiURL \<noteq> [] then [''--gh-api-url='' @ ghApiURL] else [])"

definition plugin_container :: "string \<Rightarrow> string list \<Rightarrow> Container" where
  "plugin_container consolePluginImage args =
     \<lparr>ctr_Name = consolePluginName,
      ctr_Image = consolePluginImage,
      ctr_ImagePullPolicy = ''IfNotPresent'',
      ctr_Args = args,
      ctr_Ports = [(consolePluginPortInt32, ''TCP'')],
      ctr_LivenessProbe = healthz_probe,
      ctr_ReadinessProbe = healthz_probe,
      ctr_Requests = [(''cpu'', ''10m''), (''memory'', ''50Mi'')],
      ctr_SecurityContext = \<lparr>sc_AllowPrivilegeEscalation = False, sc_DropCapabilities = [''ALL'']\<rparr>,
      ctr_VolumeMounts =
        [\<lparr>vm_Name = consolePluginCertSecret, vm_ReadOnly = True, vm_MountPath = consolePluginCertMount\<rparr>]\<rparr>"

definition buildDeployment :: "string \<Rightarrow> string \<Rightarrow> string \<Rightarrow> string \<Rightarrow> string \<Rightarrow> Deployment" where
  "buildDeployment namespace consolePluginImage apiServerURL clusterID ghApiURL =
     (let args = plugin_args apiServerURL clusterID ghApiURL in
      \<lparr>dep_Meta = plugin_meta namespace,
       dep_Spec =
         \<lparr>ds_Replicas = 2,
          ds_Selector = consolePluginSelectorLabels,
          ds_StrategyType = ''RollingUpdate'',
          ds_MaxUnavailable = FromString ''25%'',
          ds_MaxSurge = FromString ''25%'',
          ds_TemplateLabels = consolePluginLabels,
          ds_TemplateSpec =
            \<lparr>pod_ServiceAccountName = consolePluginName,
             pod_RestartPolicy = ''Always'',
             pod_DNSPolicy = ''ClusterFirst'',
             pod_RunAsNonRoot = True,
             pod_SeccompProfile = ''RuntimeDefault'',
             pod_Containers = [plugin_container consolePluginImage args],
             pod_Volumes =
               [\<lparr>sv_Name = consolePluginCertSecret, sv_SecretName = consolePluginCertSecret, sv_DefaultMode = 420\<rparr>]\<rparr>\<rparr>\<rparr>)"

definition buildConsolePlugin :: "string \<Rightarrow> ConsolePlugin" where
  "buildConsolePlugin namespace =
     \<lparr>cp_Meta = plugin_meta [],
      cp_Spec = JObject
        [(''displayName'', JString ''OpenShift Serverless Functions Console Plugin''),
         (''i18n'', JObject [(''loadType'', JString ''Preload'')]),
         (''backend'', JObject
            [(''type'', JString ''Service''),
             (''service'', JObject
                [(''name'', JString consolePluginName),
                 (''namespace'', JString namespace),
                 (''port'', JInt consolePluginPort),
                 (''basePath'', JString consolePluginBasePath)])]),
         (''proxy'', JArray
            [JObject
               [(''alias'', JString ''backend''),
                (''authorization'', JString ''UserToken''),
                (''endpoint'', JObject
                   [(''type'', JString ''Service''),
                    (''service'', JObject
                       [(''name'', JString consolePluginName),
                        (''namespace'', JString namespace),
                        (''port'', JInt consolePluginPort)])])]])]\<rparr>"

section \<open>Facts\<close>

lemma plugin_meta_simps [simp]:
  "om_Name (plugin_meta ns) = consolePluginName" "om_Namespace (plugin_meta ns) = ns"
  "om_Labels (plugin_meta ns) = consolePluginLabels" "om_OwnerReferences (plugin_meta ns) = []"
  by (simp_all add: plugin_meta_def new_meta_def)

lemma ensureOwnerRef_simps [simp]:
  "om_Name (ensureOwnerRef m ref) = om_Name m" "om_Namespace (ensureOwnerRef m ref) = om_Namespace m"
  "om_Labels (ensureOwnerRef m ref) = om_Labels m" "om_Annotations (ensureOwnerRef m ref) = om_Annotations m"
  "meta_key (ensureOwnerRef m ref) = meta_key m"
  by (simp_all add: ensureOwnerRef_def meta_key_def split: option.split)

lemma put_owner_ref_in: "ref \<in> set (put_owner_ref refs ref)"
  by (induction refs) auto

lemma put_owner_ref_keeps: "r \<in> set refs \<Longrightarrow> or_UID r \<noteq> or_UID ref \<Longrightarrow> r \<in> set (put_owner_ref refs ref)"
  by (induction refs) auto

lemma put_owner_ref_distinct:
  "distinct (map or_UID refs) \<Longrightarrow> distinct (map or_UID (put_owner_ref refs ref))"
proof (induction refs)
  case (Cons r rs)
  have "or_UID ` set (put_owner_ref rs ref) \<subseteq> insert (or_UID ref) (or_UID ` set rs)"
    by (induction rs) auto
  with Cons show ?case by auto
qed simp

lemma put_owner_ref_idem: "put_owner_ref (put_owner_ref refs ref) ref = put_owner_ref refs ref"
  by (induction refs) auto

end
