(* ===== verification/ConsolePlugin.thy ===== *)
theory ConsolePlugin
  imports PluginObjects FunctionController
begin

text \<open>
  The reconciler of the console plugin, \<open>internal/controller/consoleplugin_controller.go\<close>.

  Its collaborators are the client of the manager, for each kind of object a \<open>KindClient\<close>, and the
  uncached \<open>DirectReader\<close>. The fields of the reconciler that a run changes, what it has found out
  about its owners, are in the state of a run, with the world and the calls made so far.
\<close>

section \<open>Collaborators\<close>

record ('w, 'o) KindClient =
  kc_Get :: "nsname \<Rightarrow> ('w, goerr + 'o) state"
  kc_Create :: "'o \<Rightarrow> ('w, goerr option) state"
  kc_Update :: "'o \<Rightarrow> ('w, goerr option) state"
  kc_Delete :: "nsname \<Rightarrow> ('w, goerr option) state"

text \<open>\<open>pc_GetUnstructured\<close> takes the API version and the kind that are set on the object.\<close>

record 'w PluginClient =
  pc_GetConfigMap :: "nsname \<Rightarrow> ('w, goerr + ConfigMap) state"
  pc_GetUnstructured :: "string \<Rightarrow> string \<Rightarrow> nsname \<Rightarrow> ('w, goerr + json gomap) state"
  pc_ServiceAccount :: "('w, ServiceAccount) KindClient"
  pc_Role :: "('w, Role) KindClient"
  pc_RoleBinding :: "('w, RoleBinding) KindClient"
  pc_Service :: "('w, Service) KindClient"
  pc_Deployment :: "('w, Deployment) KindClient"
  pc_ConsolePlugin :: "('w, ConsolePlugin) KindClient"

record 'w DirectReader =
  dr_GetPod :: "nsname \<Rightarrow> ('w, goerr + Pod) state"
  dr_GetReplicaSet :: "nsname \<Rightarrow> ('w, goerr + ReplicaSet) state"
  dr_GetDeployment :: "nsname \<Rightarrow> ('w, goerr + Deployment) state"
  dr_ListClusterRoleBindings :: "string gomap \<Rightarrow> ('w, goerr + ClusterRoleBinding list) state"

record 'w ConsolePluginReconciler =
  cpr_Client :: "'w PluginClient"
  cpr_DirectReader :: "'w DirectReader option"
  cpr_OperatorNamespace :: string
  cpr_ConsolePluginImage :: string
  cpr_PodName :: string
  cpr_Getenv :: "string \<Rightarrow> string"

section \<open>The state of a run\<close>

datatype PluginKind =
  KServiceAccount | KRole | KRoleBinding | KService | KDeployment | KConsolePlugin

datatype PluginCall =
    PRead string
  | PGet PluginKind
  | PCreate PluginKind "goerr option"
  | PUpdate PluginKind "goerr option"
  | PDelete PluginKind "goerr option"

record 'w plugin_state =
  ps_World :: 'w
  ps_Calls :: "PluginCall list"
  ps_ownerInfoResolved :: bool
  ps_deploymentOwnerRef :: "OwnerReference option"
  ps_clusterOwnerRef :: "OwnerReference option"

type_synonym ('w, 'a) plugin_run = "('w plugin_state, 'a) state"

definition pcall :: "('a \<Rightarrow> PluginCall) \<Rightarrow> ('w, 'a) state \<Rightarrow> ('w, 'a) plugin_run" where
  "pcall c m = do {
     a \<leftarrow> zoom ps_World (\<lambda>w s. s\<lparr>ps_World := w\<rparr>) m;
     modify (\<lambda>s. s\<lparr>ps_Calls := ps_Calls s @ [c a]\<rparr>);
     ret a
   }"

abbreviation pread :: "string \<Rightarrow> ('w, 'a) state \<Rightarrow> ('w, 'a) plugin_run" where
  "pread what \<equiv> pcall (\<lambda>_. PRead what)"

section \<open>Configuration\<close>

definition isConsolePluginEnabled :: "'w ConsolePluginReconciler \<Rightarrow> ('w, goerr + bool) plugin_run" where
  "isConsolePluginEnabled r = do {
     res \<leftarrow> pread ''ConfigMap'' (pc_GetConfigMap (cpr_Client r) (nsn (cpr_OperatorNamespace r) controllerConfigName));
     case res of
       Inl err \<Rightarrow> ret (Inl (Errorf ''failed to get operator config configmap: '' err))
     | Inr cm \<Rightarrow>
         (case map_of (cm_Data cm) consolePluginConfigKey of
            None \<Rightarrow> ret (Inr False)
          | Some val \<Rightarrow>
              (case ParseBool val of
                 None \<Rightarrow> ret (Inl (Errorf (''failed to parse '' @ consolePluginConfigKey @ '' value from configmap: '')
                    (ErrorString (''strconv.ParseBool: parsing '' @ Quote val @ '': invalid syntax''))))
               | Some boolVal \<Rightarrow> ret (Inr boolVal)))
   }"

text \<open>
  \<open>string_field obj outer inner\<close> reads \<open>obj[outer][inner]\<close> with the two type assertions of the code:
  no \<open>outer\<close> object, then no non-empty \<open>inner\<close> string.
\<close>

definition string_field :: "json gomap \<Rightarrow> string \<Rightarrow> string \<Rightarrow> string \<Rightarrow> string \<Rightarrow> goerr + string" where
  "string_field obj outer inner no_outer no_inner =
     (case map_of obj outer of
        Some (JObject entries) \<Rightarrow>
          (case map_of entries inner of
             Some (JString s) \<Rightarrow> if s = [] then Inl (ErrorString no_inner) else Inr s
           | _ \<Rightarrow> Inl (ErrorString no_inner))
      | _ \<Rightarrow> Inl (ErrorString no_outer))"

definition getAPIServerURL :: "'w ConsolePluginReconciler \<Rightarrow> ('w, goerr + string) plugin_run" where
  "getAPIServerURL r = do {
     res \<leftarrow> pread ''Infrastructure''
       (pc_GetUnstructured (cpr_Client r) ''config.openshift.io/v1'' ''Infrastructure'' (nsn [] ''cluster''));
     case res of
       Inl err \<Rightarrow> ret (Inl (Errorf ''failed to get Infrastructure CR: '' err))
     | Inr infra \<Rightarrow> ret (string_field infra ''status'' ''apiServerURL''
         ''infrastructure CR has no status'' ''infrastructure CR has no apiServerURL in status'')
   }"

definition getClusterID :: "'w ConsolePluginReconciler \<Rightarrow> ('w, goerr + string) plugin_run" where
  "getClusterID r = do {
     res \<leftarrow> pread ''ClusterVersion''
       (pc_GetUnstructured (cpr_Client r) ''config.openshift.io/v1'' ''ClusterVersion'' (nsn [] ''version''));
     case res of
       Inl err \<Rightarrow> ret (Inl (Errorf ''failed to get ClusterVersion CR: '' err))
     | Inr cv \<Rightarrow> ret (string_field cv ''spec'' ''clusterID''
         ''ClusterVersion CR has no spec'' ''ClusterVersion CR has no clusterID in spec'')
   }"

definition getGHApiURL :: "'w ConsolePluginReconciler \<Rightarrow> ('w, string) plugin_run" where
  "getGHApiURL r = do {
     res \<leftarrow> pread ''ConfigMap'' (pc_GetConfigMap (cpr_Client r) (nsn (cpr_OperatorNamespace r) controllerConfigName));
     case res of
       Inl err \<Rightarrow> ret []
     | Inr cm \<Rightarrow>
         (case map_of (cm_Data cm) ''ghApiUrl'' of
            Some val \<Rightarrow> ret (if val \<noteq> [] then val else cpr_Getenv r ''GH_API_URL'')
          | None \<Rightarrow> ret (cpr_Getenv r ''GH_API_URL''))
   }"

section \<open>Ownership\<close>

text \<open>
  The two owner references come from the pod of the controller: its deployment, when the Operator
  Lifecycle Manager manages that, and the cluster role binding that the manager made for it.
\<close>

definition resolveOwnerDeployment ::
  "'w ConsolePluginReconciler \<Rightarrow> 'w DirectReader \<Rightarrow> Pod \<Rightarrow> ('w, goerr + Deployment option) plugin_run" where
  "resolveOwnerDeployment r dr pod =
     (case findOwnerRef (om_OwnerReferences (pod_Meta pod)) ''ReplicaSet'' of
        None \<Rightarrow> ret (Inr None)
      | Some rsRef \<Rightarrow> do {
          res \<leftarrow> pread ''ReplicaSet'' (dr_GetReplicaSet dr (nsn (cpr_OperatorNamespace r) (or_Name rsRef)));
          case res of
            Inl err \<Rightarrow> ret (Inl (Errorf ''failed to get owner ReplicaSet: '' err))
          | Inr rs \<Rightarrow>
              (case findOwnerRef (om_OwnerReferences (rs_Meta rs)) ''Deployment'' of
                 None \<Rightarrow> ret (Inr None)
               | Some deployRef \<Rightarrow> do {
                   res \<leftarrow> pread ''Deployment'' (dr_GetDeployment dr (nsn (cpr_OperatorNamespace r) (or_Name deployRef)));
                   case res of
                     Inl err \<Rightarrow> ret (Inl (Errorf ''failed to get owner Deployment: '' err))
                   | Inr dply \<Rightarrow> ret (Inr (Some dply))
                 })
        })"

definition binds_service_account :: "string \<Rightarrow> string \<Rightarrow> ClusterRoleBinding \<Rightarrow> bool" where
  "binds_service_account namespace saName crb \<longleftrightarrow>
     list_ex (\<lambda>subject. subj_Kind subject = ''ServiceAccount'' \<and> subj_Name subject = saName
        \<and> subj_Namespace subject = namespace) (crb_Subjects crb)"

definition findOLMClusterRoleBinding ::
  "'w ConsolePluginReconciler \<Rightarrow> 'w DirectReader \<Rightarrow> string \<Rightarrow> string \<Rightarrow> ('w, goerr + ClusterRoleBinding) plugin_run" where
  "findOLMClusterRoleBinding r dr olmOwner saName = do {
     res \<leftarrow> pread ''ClusterRoleBindings'' (dr_ListClusterRoleBindings dr [(''olm.owner'', olmOwner)]);
     case res of
       Inl err \<Rightarrow> ret (Inl (Errorf ''failed to list ClusterRoleBindings: '' err))
     | Inr items \<Rightarrow>
         (case find (binds_service_account (cpr_OperatorNamespace r) saName) items of
            Some crb \<Rightarrow> ret (Inr crb)
          | None \<Rightarrow> ret (Inl (ErrorString (''no ClusterRoleBinding found with olm.owner='' @ olmOwner
              @ '' and SA '' @ cpr_OperatorNamespace r @ ''/'' @ saName @ '' as subject''))))
   }"

definition set_resolved :: "('w, goerr option) plugin_run" where
  "set_resolved = do { modify (\<lambda>s. s\<lparr>ps_ownerInfoResolved := True\<rparr>); ret None }"

text \<open>From the label \<open>olm.owner\<close> of the deployment to the two references.\<close>

definition resolve_refs ::
  "'w ConsolePluginReconciler \<Rightarrow> 'w DirectReader \<Rightarrow> Pod \<Rightarrow> Deployment \<Rightarrow> ('w, goerr option) plugin_run" where
  "resolve_refs r dr pod dply =
     (case map_of (om_Labels (dep_Meta dply)) ''olm.owner'' of
        None \<Rightarrow> ret (Some (ErrorString ''OLM-managed deployment has no olm.owner label''))
      | Some olmOwner \<Rightarrow>
          if olmOwner = [] then ret (Some (ErrorString ''OLM-managed deployment has no olm.owner label''))
          else do {
            modify (\<lambda>s. s\<lparr>ps_deploymentOwnerRef := Some
              \<lparr>or_APIVersion = ''apps/v1'', or_Kind = ''Deployment'',
               or_Name = om_Name (dep_Meta dply), or_UID = om_UID (dep_Meta dply)\<rparr>\<rparr>);
            res \<leftarrow> findOLMClusterRoleBinding r dr olmOwner (pod_SpecServiceAccountName pod);
            case res of
              Inl err \<Rightarrow> ret (Some err)
            | Inr crb \<Rightarrow> do {
                modify (\<lambda>s. s\<lparr>ps_clusterOwnerRef := Some
                  \<lparr>or_APIVersion = ''rbac.authorization.k8s.io/v1'', or_Kind = ''ClusterRoleBinding'',
                   or_Name = om_Name (crb_Meta crb), or_UID = om_UID (crb_Meta crb)\<rparr>\<rparr>);
                set_resolved
              }
          })"

definition resolve_from_pod :: "'w ConsolePluginReconciler \<Rightarrow> 'w DirectReader \<Rightarrow> ('w, goerr option) plugin_run" where
  "resolve_from_pod r dr = do {
     res \<leftarrow> pread ''Pod'' (dr_GetPod dr (nsn (cpr_OperatorNamespace r) (cpr_PodName r)));
     case res of
       Inl err \<Rightarrow> ret (Some (Errorf ''failed to get controller pod: '' err))
     | Inr pod \<Rightarrow> do {
         res \<leftarrow> resolveOwnerDeployment r dr pod;
         case res of
           Inl err \<Rightarrow> ret (Some err)
         | Inr None \<Rightarrow> set_resolved
         | Inr (Some dply) \<Rightarrow>
             if map_of (om_Labels (dep_Meta dply)) ''olm.managed'' \<noteq> Some ''true'' then set_resolved
             else resolve_refs r dr pod dply
       }
   }"

definition resolveOLMOwnership :: "'w ConsolePluginReconciler \<Rightarrow> ('w, goerr option) plugin_run" where
  "resolveOLMOwnership r = do {
     resolved \<leftarrow> gets ps_ownerInfoResolved;
     if resolved then ret None
     else (case cpr_DirectReader r of
             None \<Rightarrow> set_resolved
           | Some dr \<Rightarrow> if cpr_PodName r = [] then set_resolved else resolve_from_pod r dr)
   }"

section \<open>Bringing the objects about\<close>

text \<open>
  What the six \<open>ensure\<close> functions share: the object is fetched, created when it is not there, and
  otherwise handed to the rest of the function.
\<close>

abbreviation pcreate :: "PluginKind \<Rightarrow> ('w, 'o) KindClient \<Rightarrow> 'o \<Rightarrow> ('w, goerr option) plugin_run" where
  "pcreate k c obj \<equiv> pcall (PCreate k) (kc_Create c obj)"

abbreviation pupdate :: "PluginKind \<Rightarrow> ('w, 'o) KindClient \<Rightarrow> 'o \<Rightarrow> ('w, goerr option) plugin_run" where
  "pupdate k c obj \<equiv> pcall (PUpdate k) (kc_Update c obj)"

definition ensure ::
  "PluginKind \<Rightarrow> string \<Rightarrow> ('w, 'o) KindClient \<Rightarrow> nsname \<Rightarrow> 'o \<Rightarrow> ('o \<Rightarrow> ('w, goerr option) plugin_run) \<Rightarrow> ('w, goerr option) plugin_run" where
  "ensure k name c key desired found = do {
     res \<leftarrow> pcall (\<lambda>_. PGet k) (kc_Get c key);
     case res of
       Inl err \<Rightarrow>
         if IsNotFound err then pcreate k c desired
         else ret (Some (Errorf (''failed to get '' @ name @ '': '') err))
     | Inr existing \<Rightarrow> found existing
   }"

definition plugin_key :: "'w ConsolePluginReconciler \<Rightarrow> nsname" where
  "plugin_key r = nsn (cpr_OperatorNamespace r) consolePluginName"

text \<open>\<open>existing.Labels = desired.Labels\<close>, then \<open>ensureOwnerRef(existing, ref)\<close>.\<close>

definition adopt :: "OwnerReference option \<Rightarrow> ObjectMeta \<Rightarrow> ObjectMeta \<Rightarrow> ObjectMeta" where
  "adopt ref desired existing = ensureOwnerRef (existing\<lparr>om_Labels := om_Labels desired\<rparr>) ref"

definition desired_ServiceAccount :: "'w ConsolePluginReconciler \<Rightarrow> OwnerReference option \<Rightarrow> ServiceAccount" where
  "desired_ServiceAccount r ref = sa_Meta_update (\<lambda>m. ensureOwnerRef m ref) (buildServiceAccount (cpr_OperatorNamespace r))"

definition ensureServiceAccount :: "'w ConsolePluginReconciler \<Rightarrow> ('w, goerr option) plugin_run" where
  "ensureServiceAccount r = do {
     ref \<leftarrow> gets ps_deploymentOwnerRef;
     let desired = desired_ServiceAccount r ref;
     ensure KServiceAccount ''ServiceAccount'' (pc_ServiceAccount (cpr_Client r)) (plugin_key r) desired
       (\<lambda>existing. pupdate KServiceAccount (pc_ServiceAccount (cpr_Client r))
          (existing\<lparr>sa_Meta := adopt ref (sa_Meta desired) (sa_Meta existing)\<rparr>))
   }"

definition desired_Role :: "'w ConsolePluginReconciler \<Rightarrow> OwnerReference option \<Rightarrow> Role" where
  "desired_Role r ref = role_Meta_update (\<lambda>m. ensureOwnerRef m ref) (buildRole (cpr_OperatorNamespace r))"

definition ensureRole :: "'w ConsolePluginReconciler \<Rightarrow> ('w, goerr option) plugin_run" where
  "ensureRole r = do {
     ref \<leftarrow> gets ps_deploymentOwnerRef;
     let desired = desired_Role r ref;
     ensure KRole ''Role'' (pc_Role (cpr_Client r)) (plugin_key r) desired
       (\<lambda>existing. pupdate KRole (pc_Role (cpr_Client r))
          (existing\<lparr>role_Rules := role_Rules desired, role_Meta := adopt ref (role_Meta desired) (role_Meta existing)\<rparr>))
   }"

definition desired_RoleBinding :: "'w ConsolePluginReconciler \<Rightarrow> OwnerReference option \<Rightarrow> RoleBinding" where
  "desired_RoleBinding r ref = rb_Meta_update (\<lambda>m. ensureOwnerRef m ref) (buildRoleBinding (cpr_OperatorNamespace r))"

text \<open>A binding with another \<open>roleRef\<close> is replaced, as the field is immutable.\<close>

definition replace_RoleBinding :: "'w ConsolePluginReconciler \<Rightarrow> RoleBinding \<Rightarrow> RoleBinding \<Rightarrow> ('w, goerr option) plugin_run" where
  "replace_RoleBinding r existing desired = do {
     err \<leftarrow> pcall (PDelete KRoleBinding) (kc_Delete (pc_RoleBinding (cpr_Client r)) (meta_key (rb_Meta existing)));
     case err of
       Some e \<Rightarrow>
         if \<not> IsNotFound e then ret (Some (Errorf ''failed to delete RoleBinding: '' e))
         else pcreate KRoleBinding (pc_RoleBinding (cpr_Client r)) desired
     | None \<Rightarrow> pcreate KRoleBinding (pc_RoleBinding (cpr_Client r)) desired
   }"

definition ensureRoleBinding :: "'w ConsolePluginReconciler \<Rightarrow> ('w, goerr option) plugin_run" where
  "ensureRoleBinding r = do {
     ref \<leftarrow> gets ps_deploymentOwnerRef;
     let desired = desired_RoleBinding r ref;
     ensure KRoleBinding ''RoleBinding'' (pc_RoleBinding (cpr_Client r)) (plugin_key r) desired
       (\<lambda>existing.
          if rb_RoleRef existing \<noteq> rb_RoleRef desired then replace_RoleBinding r existing desired
          else pupdate KRoleBinding (pc_RoleBinding (cpr_Client r))
            (existing\<lparr>rb_Subjects := rb_Subjects desired, rb_Meta := adopt ref (rb_Meta desired) (rb_Meta existing)\<rparr>))
   }"

definition desired_Service :: "'w ConsolePluginReconciler \<Rightarrow> OwnerReference option \<Rightarrow> Service" where
  "desired_Service r ref = svc_Meta_update (\<lambda>m. ensureOwnerRef m ref) (buildService (cpr_OperatorNamespace r))"

definition ensureService :: "'w ConsolePluginReconciler \<Rightarrow> ('w, goerr option) plugin_run" where
  "ensureService r = do {
     ref \<leftarrow> gets ps_deploymentOwnerRef;
     let desired = desired_Service r ref;
     ensure KService ''Service'' (pc_Service (cpr_Client r)) (plugin_key r) desired
       (\<lambda>existing. pupdate KService (pc_Service (cpr_Client r))
          (existing\<lparr>svc_Meta := adopt ref (svc_Meta desired)
                      ((svc_Meta existing)\<lparr>om_Annotations := om_Annotations (svc_Meta desired)\<rparr>),
                    svc_Ports := svc_Ports desired,
                    svc_Selector := svc_Selector desired,
                    svc_Type := svc_Type desired\<rparr>))
   }"

definition desired_Deployment ::
  "'w ConsolePluginReconciler \<Rightarrow> string \<Rightarrow> string \<Rightarrow> string \<Rightarrow> OwnerReference option \<Rightarrow> Deployment" where
  "desired_Deployment r apiServerURL clusterID ghApiURL ref =
     dep_Meta_update (\<lambda>m. ensureOwnerRef m ref)
       (buildDeployment (cpr_OperatorNamespace r) (cpr_ConsolePluginImage r) apiServerURL clusterID ghApiURL)"

definition ensureDeployment ::
  "'w ConsolePluginReconciler \<Rightarrow> string \<Rightarrow> string \<Rightarrow> string \<Rightarrow> ('w, goerr option) plugin_run" where
  "ensureDeployment r apiServerURL clusterID ghApiURL = do {
     ref \<leftarrow> gets ps_deploymentOwnerRef;
     let desired = desired_Deployment r apiServerURL clusterID ghApiURL ref;
     ensure KDeployment ''Deployment'' (pc_Deployment (cpr_Client r)) (plugin_key r) desired
       (\<lambda>existing. pupdate KDeployment (pc_Deployment (cpr_Client r))
          (existing\<lparr>dep_Meta := adopt ref (dep_Meta desired) (dep_Meta existing), dep_Spec := dep_Spec desired\<rparr>))
   }"

definition desired_ConsolePlugin :: "'w ConsolePluginReconciler \<Rightarrow> OwnerReference option \<Rightarrow> ConsolePlugin" where
  "desired_ConsolePlugin r ref = cp_Meta_update (\<lambda>m. ensureOwnerRef m ref) (buildConsolePlugin (cpr_OperatorNamespace r))"

definition ensureConsolePlugin :: "'w ConsolePluginReconciler \<Rightarrow> ('w, goerr option) plugin_run" where
  "ensureConsolePlugin r = do {
     ref \<leftarrow> gets ps_clusterOwnerRef;
     let desired = desired_ConsolePlugin r ref;
     ensure KConsolePlugin ''ConsolePlugin'' (pc_ConsolePlugin (cpr_Client r)) (nsn [] consolePluginName) desired
       (\<lambda>existing. pupdate KConsolePlugin (pc_ConsolePlugin (cpr_Client r))
          (existing\<lparr>cp_Spec := cp_Spec desired, cp_Meta := adopt ref (cp_Meta desired) (cp_Meta existing)\<rparr>))
   }"

section \<open>Removing the objects\<close>

text \<open>What the six \<open>delete\<close> functions share: an object that is not there is as good as deleted.\<close>

definition remove :: "PluginKind \<Rightarrow> string \<Rightarrow> ('w, 'o) KindClient \<Rightarrow> nsname \<Rightarrow> ('w, goerr option) plugin_run" where
  "remove k name c key = do {
     err \<leftarrow> pcall (PDelete k) (kc_Delete c key);
     case err of
       None \<Rightarrow> ret None
     | Some e \<Rightarrow> if IsNotFound e then ret None else ret (Some (Errorf (''failed to delete '' @ name @ '': '') e))
   }"

definition deleteConsolePlugin :: "'w ConsolePluginReconciler \<Rightarrow> ('w, goerr option) plugin_run" where
  "deleteConsolePlugin r = remove KConsolePlugin ''ConsolePlugin'' (pc_ConsolePlugin (cpr_Client r)) (nsn [] consolePluginName)"

definition deleteDeployment :: "'w ConsolePluginReconciler \<Rightarrow> ('w, goerr option) plugin_run" where
  "deleteDeployment r = remove KDeployment ''Deployment'' (pc_Deployment (cpr_Client r)) (plugin_key r)"

definition deleteService :: "'w ConsolePluginReconciler \<Rightarrow> ('w, goerr option) plugin_run" where
  "deleteService r = remove KService ''Service'' (pc_Service (cpr_Client r)) (plugin_key r)"

definition deleteRoleBinding :: "'w ConsolePluginReconciler \<Rightarrow> ('w, goerr option) plugin_run" where
  "deleteRoleBinding r = remove KRoleBinding ''RoleBinding'' (pc_RoleBinding (cpr_Client r)) (plugin_key r)"

definition deleteRole :: "'w ConsolePluginReconciler \<Rightarrow> ('w, goerr option) plugin_run" where
  "deleteRole r = remove KRole ''Role'' (pc_Role (cpr_Client r)) (plugin_key r)"

definition deleteServiceAccount :: "'w ConsolePluginReconciler \<Rightarrow> ('w, goerr option) plugin_run" where
  "deleteServiceAccount r = remove KServiceAccount ''ServiceAccount'' (pc_ServiceAccount (cpr_Client r)) (plugin_key r)"

section \<open>The reconciler\<close>

text \<open>\<open>until_error ms\<close> runs one function after the other and stops at the first error.\<close>

fun until_error :: "('w, goerr option) plugin_run list \<Rightarrow> ('w, goerr option) plugin_run" where
  "until_error [] = ret None"
| "until_error (m # ms) = do {
     err \<leftarrow> m;
     case err of Some e \<Rightarrow> ret (Some e) | None \<Rightarrow> until_error ms
   }"

definition plugin_installed :: "'w ConsolePluginReconciler \<Rightarrow> ('w, goerr option) plugin_run" where
  "plugin_installed r = do {
     res \<leftarrow> getAPIServerURL r;
     case res of
       Inl err \<Rightarrow> ret (Some err)
     | Inr apiServerURL \<Rightarrow> do {
         res \<leftarrow> getClusterID r;
         case res of
           Inl err \<Rightarrow> ret (Some err)
         | Inr clusterID \<Rightarrow> do {
             ghApiURL \<leftarrow> getGHApiURL r;
             until_error
               [ensureServiceAccount r,
                ensureRole r,
                ensureRoleBinding r,
                ensureService r,
                ensureDeployment r apiServerURL clusterID ghApiURL,
                ensureConsolePlugin r]
           }
       }
   }"

definition plugin_removed :: "'w ConsolePluginReconciler \<Rightarrow> ('w, goerr option) plugin_run" where
  "plugin_removed r =
     until_error
       [deleteConsolePlugin r,
        deleteDeployment r,
        deleteService r,
        deleteRoleBinding r,
        deleteRole r,
        deleteServiceAccount r]"

definition ReconcilePlugin :: "'w ConsolePluginReconciler \<Rightarrow> ('w, goerr option) plugin_run" where
  "ReconcilePlugin r = do {
     err \<leftarrow> resolveOLMOwnership r;
     case err of
       Some e \<Rightarrow> ret (Some e)
     | None \<Rightarrow> do {
         res \<leftarrow> isConsolePluginEnabled r;
         case res of
           Inl e \<Rightarrow> ret (Some e)
         | Inr enabled \<Rightarrow> if enabled then plugin_installed r else plugin_removed r
       }
   }"

section \<open>The watches\<close>

text \<open>
  \<open>SetupWithManager\<close> installs the controller when there is an image for the plugin and the cluster
  knows its custom resource; each watch is a kind with its predicate. Every event that passes leads to
  the same request.
\<close>

definition plugin_watches :: "'w ConsolePluginReconciler \<Rightarrow> (string \<times> (ObjectMeta \<Rightarrow> bool)) list" where
  "plugin_watches r =
     (let ours = (\<lambda>obj. om_Name obj = consolePluginName \<and> om_Namespace obj = cpr_OperatorNamespace r) in
      [(''ConsolePlugin'', \<lambda>obj. om_Name obj = consolePluginName),
       (''ConfigMap'', \<lambda>obj. om_Name obj = controllerConfigName \<and> om_Namespace obj = cpr_OperatorNamespace r),
       (''Deployment'', ours),
       (''Service'', ours),
       (''ServiceAccount'', ours)])"

definition SetupPlugin ::
  "'w ConsolePluginReconciler \<Rightarrow> goerr option \<Rightarrow> (string \<times> (ObjectMeta \<Rightarrow> bool)) list option" where
  "SetupPlugin r rest_mapping =
     (if cpr_ConsolePluginImage r = [] then None
      else case rest_mapping of Some err \<Rightarrow> None | None \<Rightarrow> Some (plugin_watches r))"

definition mapToRequest :: "ObjectMeta \<Rightarrow> nsname list" where
  "mapToRequest obj = [nsn [] consolePluginName]"

end
