(* ===== verification/PluginProperties.thy ===== *)
theory PluginProperties
  imports ConsolePlugin SampleCluster
begin

text \<open>
  What the reconciler of the console plugin brings about. The contract of the API server for one kind of
  object is the locale \<open>kind_store\<close>, that of the six kinds together \<open>plugin_store\<close>; both hold for a
  world that is the stored objects themselves.
\<close>

section \<open>The API server as a store of objects\<close>

text \<open>
  What an API server that is reachable and serves no one else promises for one kind of object. \<open>getm\<close>
  is the part of the stored objects that has this kind; the server sets the UID and the generation of
  what it stores, and \<open>may_update old new\<close> says which updates it accepts: some fields are immutable.
\<close>

definition served :: "((ObjectMeta \<Rightarrow> ObjectMeta) \<Rightarrow> 'o \<Rightarrow> 'o) \<Rightarrow> 'o \<Rightarrow> 'o \<Rightarrow> bool" where
  "served set_meta obj obj' \<longleftrightarrow> (\<exists>uid gen. obj' = set_meta (\<lambda>m. m\<lparr>om_UID := uid, om_Generation := gen\<rparr>) obj)"

locale kind_store =
  fixes c :: "('w, 'o) KindClient"
    and view :: "'w \<Rightarrow> 's"
    and getm :: "'s \<Rightarrow> nsname \<Rightarrow> 'o option"
    and upd :: "((nsname \<Rightarrow> 'o option) \<Rightarrow> nsname \<Rightarrow> 'o option) \<Rightarrow> 's \<Rightarrow> 's"
    and metaof :: "'o \<Rightarrow> ObjectMeta"
    and set_meta :: "(ObjectMeta \<Rightarrow> ObjectMeta) \<Rightarrow> 'o \<Rightarrow> 'o"
    and may_update :: "'o \<Rightarrow> 'o \<Rightarrow> bool"
  assumes get: "holds (kc_Get c k) w (\<lambda>res w'. view w' = view w
      \<and> (case getm (view w) k of Some obj \<Rightarrow> res = Inr obj | None \<Rightarrow> \<exists>e. res = Inl e \<and> IsNotFound e))"
    and create: "getm (view w) (meta_key (metaof obj)) = None \<Longrightarrow> holds (kc_Create c obj) w (\<lambda>err w'.
      err = None \<and> (\<exists>obj'. served set_meta obj obj' \<and> view w' = upd (\<lambda>m. m(meta_key (metaof obj) \<mapsto> obj')) (view w)))"
    and update: "getm (view w) (meta_key (metaof obj)) = Some old \<Longrightarrow> may_update old obj \<Longrightarrow> holds (kc_Update c obj) w (\<lambda>err w'.
      err = None \<and> (\<exists>obj'. served set_meta obj obj' \<and> view w' = upd (\<lambda>m. m(meta_key (metaof obj) \<mapsto> obj')) (view w)))"
    and delete: "holds (kc_Delete c k) w (\<lambda>err w'. (err = None \<or> (\<exists>e. err = Some e \<and> IsNotFound e))
      \<and> view w' = upd (\<lambda>m. m(k := None)) (view w))"
    and getm_upd: "getm (upd f st) = f (getm st)"
    and upd_upd: "upd f (upd g st) = upd (\<lambda>m. f (g m)) st"

lemma holds_pcall [wp_simps]:
  "holds (pcall d m) s Q =
     holds m (ps_World s) (\<lambda>a w. Q a (s\<lparr>ps_World := w, ps_Calls := ps_Calls s @ [d a]\<rparr>))"
  by (simp add: pcall_def wp_simps)

text \<open>The owner references that a run works with are those of the state.\<close>

definition same_owner :: "'w plugin_state \<Rightarrow> 'w plugin_state \<Rightarrow> bool" where
  "same_owner s s' \<longleftrightarrow> ps_deploymentOwnerRef s' = ps_deploymentOwnerRef s \<and> ps_clusterOwnerRef s' = ps_clusterOwnerRef s
     \<and> ps_ownerInfoResolved s' = ps_ownerInfoResolved s"

context kind_store begin

definition stores :: "'w plugin_state \<Rightarrow> nsname \<Rightarrow> ('o \<Rightarrow> bool) \<Rightarrow> goerr option \<Rightarrow> 'w plugin_state \<Rightarrow> bool" where
  "stores s k Q err s' \<longleftrightarrow> err = None \<and> same_owner s s'
     \<and> (\<exists>obj'. Q obj' \<and> view (ps_World s') = upd (\<lambda>m. m(k \<mapsto> obj')) (view (ps_World s)))"

lemma pcreate_stores:
  assumes "getm (view (ps_World s)) (meta_key (metaof obj)) = None"
    and "\<And>obj'. served set_meta obj obj' \<Longrightarrow> Q obj'"
  shows "holds (pcreate kd c obj) s (stores s (meta_key (metaof obj)) Q)"
  unfolding holds_pcall stores_def same_owner_def
  by (rule holds_mono [OF create [OF assms(1)]]) (auto dest: assms(2))

lemma pupdate_stores:
  assumes "getm (view (ps_World s)) (meta_key (metaof obj)) = Some old" and "may_update old obj"
    and "\<And>obj'. served set_meta obj obj' \<Longrightarrow> Q obj'"
  shows "holds (pupdate kd c obj) s (stores s (meta_key (metaof obj)) Q)"
  unfolding holds_pcall stores_def same_owner_def
  by (rule holds_mono [OF update [OF assms(1,2)]]) (auto dest: assms(3))

lemma ensure_stores:
  assumes k: "meta_key (metaof desired) = k" and d: "\<And>obj'. served set_meta desired obj' \<Longrightarrow> Q obj'"
    and f: "\<And>old s1. getm (view (ps_World s1)) k = Some old \<Longrightarrow> view (ps_World s1) = view (ps_World s) \<Longrightarrow>
      same_owner s s1 \<Longrightarrow> holds (found old) s1 (stores s1 k Q)"
  shows "holds (ensure kd name c k desired found) s (stores s k Q)"
proof -
  have trans: "stores s k Q err s'" if "stores s1 k Q err s'" "view (ps_World s1) = view (ps_World s)" "same_owner s s1"
    for err s' s1 using that by (simp add: stores_def same_owner_def)
  show ?thesis
    unfolding ensure_def holds_bind holds_pcall
  proof (rule holds_mono [OF get])
    fix res w'
    let ?s = "s\<lparr>ps_World := w', ps_Calls := ps_Calls s @ [PGet kd]\<rparr>"
    assume g: "view w' = view (ps_World s) \<and> (case getm (view (ps_World s)) k of Some obj \<Rightarrow> res = Inr obj
        | None \<Rightarrow> \<exists>e. res = Inl e \<and> IsNotFound e)"
    then have v: "view (ps_World ?s) = view (ps_World s)" and o: "same_owner s ?s" by (simp_all add: same_owner_def)
    show "holds (case res of
         Inl err \<Rightarrow> if IsNotFound err then pcreate kd c desired
           else ret (Some (Errorf (''failed to get '' @ name @ '': '') err))
       | Inr existing \<Rightarrow> found existing) ?s (stores s k Q)"
    proof (cases "getm (view (ps_World s)) k")
      case None
      with g obtain e where e: "res = Inl e" "IsNotFound e" by auto
      have n: "getm (view (ps_World ?s)) (meta_key (metaof desired)) = None" using None v k by simp
      show ?thesis unfolding e by (simp add: e, rule holds_mono [OF pcreate_stores [OF n d]])
          (use v o k trans in auto)
    next
      case (Some old)
      with g have "res = Inr old" by simp
      moreover have "holds (found old) ?s (stores ?s k Q)" using f [of ?s old] Some v o by simp
      ultimately show ?thesis using v o by (auto elim!: holds_mono intro: trans)
    qed
  qed
qed

lemma remove_absent:
  "holds (remove kd name c k) s (\<lambda>err s'. err = None \<and> same_owner s s'
     \<and> view (ps_World s') = upd (\<lambda>m. m(k := None)) (view (ps_World s)))"
  unfolding remove_def holds_bind holds_pcall
  by (rule holds_mono [OF delete]) (auto simp: wp_simps same_owner_def)

end

section \<open>The six kinds together\<close>

record PluginStore =
  st_ServiceAccounts :: "nsname \<Rightarrow> ServiceAccount option"
  st_Roles :: "nsname \<Rightarrow> Role option"
  st_RoleBindings :: "nsname \<Rightarrow> RoleBinding option"
  st_Services :: "nsname \<Rightarrow> Service option"
  st_Deployments :: "nsname \<Rightarrow> Deployment option"
  st_ConsolePlugins :: "nsname \<Rightarrow> ConsolePlugin option"

definition same_roleRef :: "RoleBinding \<Rightarrow> RoleBinding \<Rightarrow> bool" where
  "same_roleRef old new \<longleftrightarrow> rb_RoleRef old = rb_RoleRef new"

definition same_selector :: "Deployment \<Rightarrow> Deployment \<Rightarrow> bool" where
  "same_selector old new \<longleftrightarrow> ds_Selector (dep_Spec old) = ds_Selector (dep_Spec new)"

locale plugin_store =
  sa: kind_store "pc_ServiceAccount (cpr_Client r)" view st_ServiceAccounts st_ServiceAccounts_update sa_Meta sa_Meta_update "\<lambda>_ _. True"
  + ro: kind_store "pc_Role (cpr_Client r)" view st_Roles st_Roles_update role_Meta role_Meta_update "\<lambda>_ _. True"
  + rb: kind_store "pc_RoleBinding (cpr_Client r)" view st_RoleBindings st_RoleBindings_update rb_Meta rb_Meta_update same_roleRef
  + svc: kind_store "pc_Service (cpr_Client r)" view st_Services st_Services_update svc_Meta svc_Meta_update "\<lambda>_ _. True"
  + dep: kind_store "pc_Deployment (cpr_Client r)" view st_Deployments st_Deployments_update dep_Meta dep_Meta_update same_selector
  + cp: kind_store "pc_ConsolePlugin (cpr_Client r)" view st_ConsolePlugins st_ConsolePlugins_update cp_Meta cp_Meta_update "\<lambda>_ _. True"
  for r :: "'w ConsolePluginReconciler" and view :: "'w \<Rightarrow> PluginStore" +
  assumes config_reads: "holds (pc_GetConfigMap (cpr_Client r) k) w (\<lambda>_ w'. view w' = view w)"
    and unstructured_reads: "holds (pc_GetUnstructured (cpr_Client r) api kind k) w (\<lambda>_ w'. view w' = view w)"
    and keyed: "st_ServiceAccounts (view w) k = Some a \<Longrightarrow> meta_key (sa_Meta a) = k"
      "st_Roles (view w) k = Some b \<Longrightarrow> meta_key (role_Meta b) = k"
      "st_RoleBindings (view w) k = Some d \<Longrightarrow> meta_key (rb_Meta d) = k"
      "st_Services (view w) k = Some e \<Longrightarrow> meta_key (svc_Meta e) = k"
      "st_Deployments (view w) k = Some f \<Longrightarrow> meta_key (dep_Meta f) = k"
      "st_ConsolePlugins (view w) k = Some g \<Longrightarrow> meta_key (cp_Meta g) = k"

text \<open>What the objects of the plugin have to be.\<close>

definition owned :: "OwnerReference option \<Rightarrow> ObjectMeta \<Rightarrow> bool" where
  "owned ref m \<longleftrightarrow> om_Labels m = consolePluginLabels \<and> set_option ref \<subseteq> set (om_OwnerReferences m)"

definition right_ServiceAccount :: "OwnerReference option \<Rightarrow> ServiceAccount \<Rightarrow> bool" where
  "right_ServiceAccount ref a \<longleftrightarrow> owned ref (sa_Meta a)"

definition right_Role :: "string \<Rightarrow> OwnerReference option \<Rightarrow> Role \<Rightarrow> bool" where
  "right_Role ns ref b \<longleftrightarrow> owned ref (role_Meta b) \<and> role_Rules b = role_Rules (buildRole ns)"

definition right_RoleBinding :: "string \<Rightarrow> OwnerReference option \<Rightarrow> RoleBinding \<Rightarrow> bool" where
  "right_RoleBinding ns ref b \<longleftrightarrow> owned ref (rb_Meta b) \<and> rb_RoleRef b = rb_RoleRef (buildRoleBinding ns)
     \<and> rb_Subjects b = rb_Subjects (buildRoleBinding ns)"

definition right_Service :: "string \<Rightarrow> OwnerReference option \<Rightarrow> Service \<Rightarrow> bool" where
  "right_Service ns ref b \<longleftrightarrow> owned ref (svc_Meta b) \<and> om_Annotations (svc_Meta b) = om_Annotations (svc_Meta (buildService ns))
     \<and> svc_Type b = svc_Type (buildService ns) \<and> svc_Selector b = svc_Selector (buildService ns)
     \<and> svc_Ports b = svc_Ports (buildService ns)"

definition right_Deployment :: "DeploymentSpec \<Rightarrow> OwnerReference option \<Rightarrow> Deployment \<Rightarrow> bool" where
  "right_Deployment sp ref b \<longleftrightarrow> owned ref (dep_Meta b) \<and> dep_Spec b = sp"

definition right_ConsolePlugin :: "string \<Rightarrow> OwnerReference option \<Rightarrow> ConsolePlugin \<Rightarrow> bool" where
  "right_ConsolePlugin ns ref b \<longleftrightarrow> owned ref (cp_Meta b) \<and> cp_Spec b = cp_Spec (buildConsolePlugin ns)"

lemmas right_defs = right_ServiceAccount_def right_Role_def right_RoleBinding_def right_Service_def
  right_Deployment_def right_ConsolePlugin_def

lemma owned_server [simp]: "owned ref (m\<lparr>om_UID := uid, om_Generation := gen\<rparr>) = owned ref m"
  by (simp add: owned_def)

lemma owned_adopt: "om_Labels d = consolePluginLabels \<Longrightarrow> owned ref (adopt ref d m)"
  by (simp add: owned_def adopt_def ensureOwnerRef_def put_owner_ref_in split: option.split)

lemma owned_plugin_meta: "owned ref (ensureOwnerRef (plugin_meta ns) ref)"
  by (simp add: owned_def ensureOwnerRef_def put_owner_ref_in split: option.split)

lemma meta_key_adopt [simp]: "meta_key (adopt ref d m) = meta_key m"
  by (simp add: adopt_def meta_key_def)

lemmas desired_defs = desired_ServiceAccount_def desired_Role_def desired_RoleBinding_def desired_Service_def
  desired_Deployment_def desired_ConsolePlugin_def
  buildServiceAccount_def buildRole_def buildRoleBinding_def buildService_def buildDeployment_def buildConsolePlugin_def

lemma meta_key_plugin [simp]: "meta_key (plugin_meta ns) = nsn ns consolePluginName"
  by (simp add: meta_key_def)

lemma meta_key_annotations [simp]: "meta_key (m\<lparr>om_Annotations := x\<rparr>) = meta_key m"
  by (simp add: meta_key_def)

lemma adopt_annotations [simp]: "om_Annotations (adopt ref d m) = om_Annotations m"
  by (simp add: adopt_def)

lemma owned_annotations: "owned ref (ensureOwnerRef (plugin_meta ns\<lparr>om_Annotations := x\<rparr>) ref)"
  by (simp add: owned_def ensureOwnerRef_def put_owner_ref_in split: option.split)

context kind_store begin

lemma ensure_update_stores:
  assumes "meta_key (metaof desired) = k" and "\<And>obj'. served set_meta desired obj' \<Longrightarrow> Q obj'"
    and m: "\<And>old. getm (view (ps_World s)) k = Some old \<Longrightarrow> meta_key (metaof (merge old)) = k \<and> may_update old (merge old)"
    and q: "\<And>old obj'. getm (view (ps_World s)) k = Some old \<Longrightarrow> served set_meta (merge old) obj' \<Longrightarrow> Q obj'"
  shows "holds (ensure kd name c k desired (\<lambda>existing. pupdate kd c (merge existing))) s (stores s k Q)"
proof (rule ensure_stores [OF assms(1,2)])
  fix old and s1 :: "'w plugin_state"
  assume g: "getm (view (ps_World s1)) k = Some old" and v: "view (ps_World s1) = view (ps_World s)"
  with m [of old] have k: "meta_key (metaof (merge old)) = k" and u: "may_update old (merge old)" by simp_all
  show "holds (pupdate kd c (merge old)) s1 (stores s1 k Q)"
    using pupdate_stores [of s1 "merge old" old Q kd] g k u q [of old] v by simp
qed auto

end

context plugin_store begin

lemma ensureServiceAccount_stores:
  "holds (ensureServiceAccount r) s (sa.stores s (plugin_key r) (right_ServiceAccount (ps_deploymentOwnerRef s)))"
  unfolding ensureServiceAccount_def holds_bind holds_gets Let_def
  by (rule sa.ensure_update_stores)
    (auto simp: desired_defs plugin_key_def served_def right_defs owned_plugin_meta owned_adopt keyed)

lemma ensureRole_stores:
  "holds (ensureRole r) s (ro.stores s (plugin_key r) (right_Role (cpr_OperatorNamespace r) (ps_deploymentOwnerRef s)))"
  unfolding ensureRole_def holds_bind holds_gets Let_def
  by (rule ro.ensure_update_stores)
    (auto simp: desired_defs plugin_key_def served_def right_defs owned_plugin_meta owned_adopt keyed)

lemma ensureService_stores:
  "holds (ensureService r) s (svc.stores s (plugin_key r) (right_Service (cpr_OperatorNamespace r) (ps_deploymentOwnerRef s)))"
  unfolding ensureService_def holds_bind holds_gets Let_def
  by (rule svc.ensure_update_stores)
    (auto simp: desired_defs plugin_key_def served_def right_defs owned_annotations owned_adopt keyed)

lemma ensureConsolePlugin_stores:
  "holds (ensureConsolePlugin r) s (cp.stores s (nsn [] consolePluginName)
     (right_ConsolePlugin (cpr_OperatorNamespace r) (ps_clusterOwnerRef s)))"
  unfolding ensureConsolePlugin_def holds_bind holds_gets Let_def
  by (rule cp.ensure_update_stores)
    (auto simp: desired_defs plugin_key_def served_def right_defs owned_plugin_meta owned_adopt keyed)

lemma replace_RoleBinding_stores:
  assumes "meta_key (rb_Meta old) = plugin_key r" and "\<And>obj'. served rb_Meta_update desired obj' \<Longrightarrow> Q obj'"
    and k: "meta_key (rb_Meta desired) = plugin_key r"
  shows "holds (replace_RoleBinding r old desired) s (rb.stores s (plugin_key r) Q)"
  unfolding replace_RoleBinding_def holds_bind holds_pcall assms(1)
proof (rule holds_mono [OF rb.delete])
  fix err w'
  let ?s = "s\<lparr>ps_World := w', ps_Calls := ps_Calls s @ [PDelete KRoleBinding err]\<rparr>"
  assume d: "(err = None \<or> (\<exists>e. err = Some e \<and> IsNotFound e))
    \<and> view w' = st_RoleBindings_update (\<lambda>m. m(plugin_key r := None)) (view (ps_World s))"
  have c: "holds (pcreate KRoleBinding (pc_RoleBinding (cpr_Client r)) desired) ?s (rb.stores ?s (plugin_key r) Q)"
    using rb.pcreate_stores [of ?s desired Q] assms d by simp
  have "rb.stores s (plugin_key r) Q e s'" if "rb.stores ?s (plugin_key r) Q e s'" for e s'
    using that d by (auto simp: rb.stores_def same_owner_def comp_def)
  with c d show "holds (case err of
       None \<Rightarrow> pcreate KRoleBinding (pc_RoleBinding (cpr_Client r)) desired
     | Some e \<Rightarrow> if \<not> IsNotFound e then ret (Some (Errorf ''failed to delete RoleBinding: '' e))
         else pcreate KRoleBinding (pc_RoleBinding (cpr_Client r)) desired) ?s (rb.stores s (plugin_key r) Q)"
    by (auto elim!: holds_mono)
qed

lemma ensureRoleBinding_stores:
  "holds (ensureRoleBinding r) s (rb.stores s (plugin_key r) (right_RoleBinding (cpr_OperatorNamespace r) (ps_deploymentOwnerRef s)))"
  unfolding ensureRoleBinding_def holds_bind holds_gets Let_def
proof (rule rb.ensure_stores)
  let ?d = "desired_RoleBinding r (ps_deploymentOwnerRef s)"
  let ?Q = "right_RoleBinding (cpr_OperatorNamespace r) (ps_deploymentOwnerRef s)"
  show k: "meta_key (rb_Meta ?d) = plugin_key r" by (simp add: desired_defs plugin_key_def)
  show q: "?Q obj'" if "served rb_Meta_update ?d obj'" for obj'
    using that by (auto simp: desired_defs served_def right_defs owned_plugin_meta)
  fix old and s1 :: "'w plugin_state"
  assume g: "st_RoleBindings (view (ps_World s1)) (plugin_key r) = Some old"
  let ?new = "old\<lparr>rb_Subjects := rb_Subjects ?d, rb_Meta := adopt (ps_deploymentOwnerRef s) (rb_Meta ?d) (rb_Meta old)\<rparr>"
  show "holds (if rb_RoleRef old \<noteq> rb_RoleRef ?d then replace_RoleBinding r old ?d
      else pupdate KRoleBinding (pc_RoleBinding (cpr_Client r)) ?new) s1 (rb.stores s1 (plugin_key r) ?Q)"
  proof (cases "rb_RoleRef old = rb_RoleRef ?d")
    case True
    have "?Q obj'" if "served rb_Meta_update ?new obj'" for obj'
      using that True by (auto simp: desired_defs served_def right_defs owned_adopt)
    with True rb.pupdate_stores [of s1 ?new old ?Q] g keyed(3) [OF g] show ?thesis
      by (simp add: same_roleRef_def)
  next
    case False
    with replace_RoleBinding_stores [OF keyed(3) [OF g] q k] show ?thesis by simp
  qed
qed

lemma ensureDeployment_stores:
  assumes "\<And>old. st_Deployments (view (ps_World s)) (plugin_key r) = Some old \<Longrightarrow> ds_Selector (dep_Spec old) = consolePluginSelectorLabels"
  shows "holds (ensureDeployment r url cid gh) s (dep.stores s (plugin_key r)
     (right_Deployment (dep_Spec (buildDeployment (cpr_OperatorNamespace r) (cpr_ConsolePluginImage r) url cid gh)) (ps_deploymentOwnerRef s)))"
  unfolding ensureDeployment_def holds_bind holds_gets Let_def
  by (rule dep.ensure_update_stores)
    (use assms in \<open>auto simp: desired_defs plugin_key_def served_def right_defs owned_plugin_meta owned_adopt keyed same_selector_def\<close>)

end

lemma until_step:
  assumes "holds m s P" and "\<And>err s'. P err s' \<Longrightarrow> err = None" and "\<And>s'. P None s' \<Longrightarrow> holds (until_error ms) s' Q"
  shows "holds (until_error (m # ms)) s Q"
  unfolding until_error.simps holds_bind by (rule holds_mono [OF assms(1)]) (use assms(2,3) in fastforce)

text \<open>All six objects are there, with the content that the code wants them to have.\<close>

definition plugin_in_place ::
  "'w ConsolePluginReconciler \<Rightarrow> DeploymentSpec \<Rightarrow> OwnerReference option \<Rightarrow> OwnerReference option \<Rightarrow> PluginStore \<Rightarrow> bool" where
  "plugin_in_place r sp dref cref st \<longleftrightarrow>
     (let ns = cpr_OperatorNamespace r; k = plugin_key r in
      (\<exists>a. st_ServiceAccounts st k = Some a \<and> right_ServiceAccount dref a)
      \<and> (\<exists>b. st_Roles st k = Some b \<and> right_Role ns dref b)
      \<and> (\<exists>b. st_RoleBindings st k = Some b \<and> right_RoleBinding ns dref b)
      \<and> (\<exists>b. st_Services st k = Some b \<and> right_Service ns dref b)
      \<and> (\<exists>b. st_Deployments st k = Some b \<and> right_Deployment sp dref b)
      \<and> (\<exists>b. st_ConsolePlugins st (nsn [] consolePluginName) = Some b \<and> right_ConsolePlugin ns cref b))"

definition plugin_gone :: "'w ConsolePluginReconciler \<Rightarrow> PluginStore \<Rightarrow> bool" where
  "plugin_gone r st \<longleftrightarrow>
     (let k = plugin_key r in
      st_ServiceAccounts st k = None \<and> st_Roles st k = None \<and> st_RoleBindings st k = None
      \<and> st_Services st k = None \<and> st_Deployments st k = None \<and> st_ConsolePlugins st (nsn [] consolePluginName) = None)"

context plugin_store begin

lemmas all_stores = sa.stores_def ro.stores_def rb.stores_def svc.stores_def dep.stores_def cp.stores_def

lemma ensure_all:
  assumes "\<And>old. st_Deployments (view (ps_World s)) (plugin_key r) = Some old \<Longrightarrow> ds_Selector (dep_Spec old) = consolePluginSelectorLabels"
  shows "holds (until_error [ensureServiceAccount r, ensureRole r, ensureRoleBinding r, ensureService r,
       ensureDeployment r url cid gh, ensureConsolePlugin r]) s (\<lambda>err s'. err = None
     \<and> plugin_in_place r (dep_Spec (buildDeployment (cpr_OperatorNamespace r) (cpr_ConsolePluginImage r) url cid gh))
         (ps_deploymentOwnerRef s) (ps_clusterOwnerRef s) (view (ps_World s')))"
  apply (rule until_step [OF ensureServiceAccount_stores], simp add: all_stores)
  apply (rule until_step [OF ensureRole_stores], simp add: all_stores)
  apply (rule until_step [OF ensureRoleBinding_stores], simp add: all_stores)
  apply (rule until_step [OF ensureService_stores], simp add: all_stores)
  apply (rule until_step [OF ensureDeployment_stores])
    apply (rule assms, fastforce simp: all_stores)
   apply (simp add: all_stores)
  apply (rule until_step [OF ensureConsolePlugin_stores], simp add: all_stores)
  apply (clarsimp simp: all_stores holds_return plugin_in_place_def same_owner_def Let_def)
  done

lemma remove_all:
  "holds (plugin_removed r) s (\<lambda>err s'. err = None \<and> plugin_gone r (view (ps_World s')))"
  unfolding plugin_removed_def deleteConsolePlugin_def deleteDeployment_def deleteService_def
    deleteRoleBinding_def deleteRole_def deleteServiceAccount_def
  by (intro until_step [OF cp.remove_absent] until_step [OF dep.remove_absent] until_step [OF svc.remove_absent]
      until_step [OF rb.remove_absent] until_step [OF ro.remove_absent] until_step [OF sa.remove_absent])
    (simp_all add: plugin_gone_def holds_return Let_def)

end

lemma holds_pread_answers:
  assumes "answers m a" and "\<And>w. holds m w (\<lambda>_ w'. view w' = view w)"
    and "\<And>s1. view (ps_World s1) = view (ps_World s) \<Longrightarrow> same_owner s s1 \<Longrightarrow> Q a s1"
  shows "holds (pread what m) s Q"
proof -
  obtain b w' where r: "run_state m (ps_World s) = (b, w')" by (cases "run_state m (ps_World s)")
  then have "b = a" and "view w' = view (ps_World s)"
    using assms(1) assms(2) [of "ps_World s"] by (auto simp: answers_def holds_def dest: spec [of _ "ps_World s"])
  with assms(3) [of "s\<lparr>ps_World := w', ps_Calls := ps_Calls s @ [PRead what]\<rparr>"] r show ?thesis
    by (subst holds_pcall) (simp add: holds_def same_owner_def)
qed

definition gh_api_url :: "'w ConsolePluginReconciler \<Rightarrow> ConfigMap \<Rightarrow> string" where
  "gh_api_url r cm = (case map_of (cm_Data cm) ''ghApiUrl'' of
      Some val \<Rightarrow> if val \<noteq> [] then val else cpr_Getenv r ''GH_API_URL'' | None \<Rightarrow> cpr_Getenv r ''GH_API_URL'')"

text \<open>The switch that a config map sets: on, off, or unreadable.\<close>

definition plugin_switch :: "ConfigMap \<Rightarrow> bool option" where
  "plugin_switch cm = (case map_of (cm_Data cm) consolePluginConfigKey of None \<Rightarrow> Some False | Some val \<Rightarrow> ParseBool val)"

context plugin_store begin

lemma switch_read:
  assumes "answers (pc_GetConfigMap (cpr_Client r) (nsn (cpr_OperatorNamespace r) controllerConfigName)) (Inr cm)"
    and "plugin_switch cm = Some b"
  shows "holds (isConsolePluginEnabled r) s (\<lambda>res s'. res = Inr b \<and> view (ps_World s') = view (ps_World s) \<and> same_owner s s')"
  unfolding isConsolePluginEnabled_def holds_bind
  by (rule holds_pread_answers [OF assms(1) config_reads])
    (use assms(2) in \<open>auto simp: plugin_switch_def holds_return split: option.splits\<close>)

lemma ReconcilePlugin_switch:
  assumes "ps_ownerInfoResolved s"
    and "answers (pc_GetConfigMap (cpr_Client r) (nsn (cpr_OperatorNamespace r) controllerConfigName)) (Inr cm)"
    and "plugin_switch cm = Some b"
    and "\<And>s2. view (ps_World s2) = view (ps_World s) \<Longrightarrow> same_owner s s2 \<Longrightarrow>
      holds (if b then plugin_installed r else plugin_removed r) s2 Q"
  shows "holds (ReconcilePlugin r) s Q"
  by (simp add: ReconcilePlugin_def holds_bind resolveOLMOwnership_def holds_gets assms(1) holds_return,
      rule holds_mono [OF switch_read [OF assms(2,3)]]) (use assms(4) in auto)

lemma ReconcilePlugin_off:
  assumes "ps_ownerInfoResolved s"
    and "answers (pc_GetConfigMap (cpr_Client r) (nsn (cpr_OperatorNamespace r) controllerConfigName)) (Inr cm)"
    and "plugin_switch cm = Some False"
  shows "holds (ReconcilePlugin r) s (\<lambda>err s'. err = None \<and> plugin_gone r (view (ps_World s')))"
  by (rule ReconcilePlugin_switch [OF assms]) (simp add: remove_all)

lemma installed:
  assumes "answers (pc_GetConfigMap (cpr_Client r) (nsn (cpr_OperatorNamespace r) controllerConfigName)) (Inr cm)"
    and "answers (pc_GetUnstructured (cpr_Client r) ''config.openshift.io/v1'' ''Infrastructure'' (nsn [] ''cluster'')) (Inr infra)"
    and "string_field infra ''status'' ''apiServerURL'' ''infrastructure CR has no status'' ''infrastructure CR has no apiServerURL in status'' = Inr url"
    and "answers (pc_GetUnstructured (cpr_Client r) ''config.openshift.io/v1'' ''ClusterVersion'' (nsn [] ''version'')) (Inr cv)"
    and "string_field cv ''spec'' ''clusterID'' ''ClusterVersion CR has no spec'' ''ClusterVersion CR has no clusterID in spec'' = Inr cid"
    and sel: "\<And>old. st_Deployments (view (ps_World s)) (plugin_key r) = Some old \<Longrightarrow> ds_Selector (dep_Spec old) = consolePluginSelectorLabels"
  shows "holds (plugin_installed r) s (\<lambda>err s'. err = None
     \<and> plugin_in_place r (dep_Spec (buildDeployment (cpr_OperatorNamespace r) (cpr_ConsolePluginImage r) url cid (gh_api_url r cm)))
         (ps_deploymentOwnerRef s) (ps_clusterOwnerRef s) (view (ps_World s')))"
proof -
  let ?Q = "\<lambda>err s'. err = None
     \<and> plugin_in_place r (dep_Spec (buildDeployment (cpr_OperatorNamespace r) (cpr_ConsolePluginImage r) url cid (gh_api_url r cm)))
         (ps_deploymentOwnerRef s) (ps_clusterOwnerRef s) (view (ps_World s'))"
  have "holds (getAPIServerURL r) s (\<lambda>res s'. res = Inr url \<and> view (ps_World s') = view (ps_World s) \<and> same_owner s s')" for s
    unfolding getAPIServerURL_def holds_bind
    by (rule holds_pread_answers [OF assms(2) unstructured_reads]) (use assms(3) in \<open>simp add: holds_return\<close>)
  note url = holds_mono [OF this]
  have "holds (getClusterID r) s (\<lambda>res s'. res = Inr cid \<and> view (ps_World s') = view (ps_World s) \<and> same_owner s s')" for s
    unfolding getClusterID_def holds_bind
    by (rule holds_pread_answers [OF assms(4) unstructured_reads]) (use assms(5) in \<open>simp add: holds_return\<close>)
  note cid = holds_mono [OF this]
  have "holds (getGHApiURL r) s (\<lambda>gh s'. gh = gh_api_url r cm \<and> view (ps_World s') = view (ps_World s) \<and> same_owner s s')" for s
    unfolding getGHApiURL_def holds_bind
    by (rule holds_pread_answers [OF assms(1) config_reads]) (auto simp: holds_return gh_api_url_def split: option.split)
  note gh = holds_mono [OF this]
  have all: "holds (until_error [ensureServiceAccount r, ensureRole r, ensureRoleBinding r, ensureService r,
       ensureDeployment r url cid (gh_api_url r cm), ensureConsolePlugin r]) s1 ?Q"
    if "view (ps_World s1) = view (ps_World s)" "same_owner s s1" for s1
    using ensure_all [of s1 url cid "gh_api_url r cm"] sel that by (auto simp: same_owner_def)
  show ?thesis
    unfolding plugin_installed_def holds_bind
    apply (rule url, clarsimp simp: holds_bind simp del: until_error.simps)
    apply (rule cid, clarsimp simp: holds_bind simp del: until_error.simps)
    apply (rule gh, simp del: until_error.simps)
    apply (rule all; simp add: same_owner_def)
    done
qed

lemma ReconcilePlugin_on:
  assumes "ps_ownerInfoResolved s"
    and "answers (pc_GetConfigMap (cpr_Client r) (nsn (cpr_OperatorNamespace r) controllerConfigName)) (Inr cm)"
    and "plugin_switch cm = Some True"
    and "answers (pc_GetUnstructured (cpr_Client r) ''config.openshift.io/v1'' ''Infrastructure'' (nsn [] ''cluster'')) (Inr infra)"
    and "string_field infra ''status'' ''apiServerURL'' ''infrastructure CR has no status'' ''infrastructure CR has no apiServerURL in status'' = Inr url"
    and "answers (pc_GetUnstructured (cpr_Client r) ''config.openshift.io/v1'' ''ClusterVersion'' (nsn [] ''version'')) (Inr cv)"
    and "string_field cv ''spec'' ''clusterID'' ''ClusterVersion CR has no spec'' ''ClusterVersion CR has no clusterID in spec'' = Inr cid"
    and sel: "\<And>old. st_Deployments (view (ps_World s)) (plugin_key r) = Some old \<Longrightarrow> ds_Selector (dep_Spec old) = consolePluginSelectorLabels"
  shows "holds (ReconcilePlugin r) s (\<lambda>err s'. err = None
     \<and> plugin_in_place r (dep_Spec (buildDeployment (cpr_OperatorNamespace r) (cpr_ConsolePluginImage r) url cid (gh_api_url r cm)))
         (ps_deploymentOwnerRef s) (ps_clusterOwnerRef s) (view (ps_World s')))" (is "holds _ _ ?Q")
proof (rule ReconcilePlugin_switch [OF assms(1,2,3)])
  fix s2 assume v: "view (ps_World s2) = view (ps_World s)" and o: "same_owner s s2"
  then show "holds (if True then plugin_installed r else plugin_removed r) s2 ?Q"
    using installed [OF assms(2,4-7), of s2] sel by (simp add: same_owner_def)
qed

end

section \<open>A world that is the stored objects\<close>

definition store_client ::
  "('s \<Rightarrow> nsname \<Rightarrow> 'o option) \<Rightarrow> (((nsname \<Rightarrow> 'o option) \<Rightarrow> nsname \<Rightarrow> 'o option) \<Rightarrow> 's \<Rightarrow> 's) \<Rightarrow> ('o \<Rightarrow> ObjectMeta)
    \<Rightarrow> ('o \<Rightarrow> 'o \<Rightarrow> bool) \<Rightarrow> ('s, 'o) KindClient" where
  "store_client getm upd metaof may_update = \<lparr>
     kc_Get = (\<lambda>k. State (\<lambda>w. (case getm w k of None \<Rightarrow> Inl (not_found ''object'') | Some obj \<Rightarrow> Inr obj, w))),
     kc_Create = (\<lambda>obj. State (\<lambda>w. case getm w (meta_key (metaof obj)) of
        None \<Rightarrow> (None, upd (\<lambda>m. m(meta_key (metaof obj) \<mapsto> obj)) w)
      | Some old \<Rightarrow> (Some (ApiError ReasonAlreadyExists ''exists''), w))),
     kc_Update = (\<lambda>obj. State (\<lambda>w. case getm w (meta_key (metaof obj)) of
        None \<Rightarrow> (Some (not_found ''object''), w)
      | Some old \<Rightarrow> if may_update old obj then (None, upd (\<lambda>m. m(meta_key (metaof obj) \<mapsto> obj)) w)
          else (Some (ApiError (ReasonOther ''Invalid'') ''field is immutable''), w))),
     kc_Delete = (\<lambda>k. State (\<lambda>w. case getm w k of
        None \<Rightarrow> (Some (not_found ''object''), upd (\<lambda>m. m(k := None)) w)
      | Some old \<Rightarrow> (None, upd (\<lambda>m. m(k := None)) w)))\<rparr>"

text \<open>The objects of a store are those that are kept under their own key.\<close>

definition keyed_only :: "('o \<Rightarrow> ObjectMeta) \<Rightarrow> (nsname \<Rightarrow> 'o option) \<Rightarrow> nsname \<Rightarrow> 'o option" where
  "keyed_only metaof m k = (case m k of Some a \<Rightarrow> if meta_key (metaof a) = k then Some a else None | None \<Rightarrow> None)"

definition proper :: "PluginStore \<Rightarrow> PluginStore" where
  "proper st = \<lparr>
     st_ServiceAccounts = keyed_only sa_Meta (st_ServiceAccounts st),
     st_Roles = keyed_only role_Meta (st_Roles st),
     st_RoleBindings = keyed_only rb_Meta (st_RoleBindings st),
     st_Services = keyed_only svc_Meta (st_Services st),
     st_Deployments = keyed_only dep_Meta (st_Deployments st),
     st_ConsolePlugins = keyed_only cp_Meta (st_ConsolePlugins st)\<rparr>"

lemma keyed_only_put [simp]:
  "keyed_only metaof (m(meta_key (metaof a) \<mapsto> a)) = (keyed_only metaof m)(meta_key (metaof a) \<mapsto> a)"
  "keyed_only metaof (m(k := None)) = (keyed_only metaof m)(k := None)"
  by (auto simp: keyed_only_def fun_eq_iff)

lemma keyed_only_key: "keyed_only metaof m k = Some a \<Longrightarrow> meta_key (metaof a) = k"
  by (auto simp: keyed_only_def split: option.splits if_splits)

definition sample_cluster_client :: "ConfigMap \<Rightarrow> json gomap \<Rightarrow> json gomap \<Rightarrow> PluginStore PluginClient" where
  "sample_cluster_client cm infra cv = \<lparr>
     pc_GetConfigMap = (\<lambda>k. ret (Inr cm)),
     pc_GetUnstructured = (\<lambda>api kind k. ret (Inr (if kind = ''Infrastructure'' then infra else cv))),
     pc_ServiceAccount = store_client (st_ServiceAccounts \<circ> proper) st_ServiceAccounts_update sa_Meta (\<lambda>_ _. True),
     pc_Role = store_client (st_Roles \<circ> proper) st_Roles_update role_Meta (\<lambda>_ _. True),
     pc_RoleBinding = store_client (st_RoleBindings \<circ> proper) st_RoleBindings_update rb_Meta same_roleRef,
     pc_Service = store_client (st_Services \<circ> proper) st_Services_update svc_Meta (\<lambda>_ _. True),
     pc_Deployment = store_client (st_Deployments \<circ> proper) st_Deployments_update dep_Meta same_selector,
     pc_ConsolePlugin = store_client (st_ConsolePlugins \<circ> proper) st_ConsolePlugins_update cp_Meta (\<lambda>_ _. True)\<rparr>"

lemma store_client_kind_store:
  assumes "\<And>f st. getm (upd f st) = f (getm st)" and "\<And>f g st. upd f (upd g st) = upd (\<lambda>m. f (g m)) st"
    and "\<And>a st. proper (upd (\<lambda>m. m(meta_key (metaof a) \<mapsto> a)) st) = upd (\<lambda>m. m(meta_key (metaof a) \<mapsto> a)) (proper st)"
    and "\<And>k st. proper (upd (\<lambda>m. m(k := None)) st) = upd (\<lambda>m. m(k := None)) (proper st)"
    and "\<And>a. set_meta (\<lambda>m. m\<lparr>om_UID := om_UID (metaof a), om_Generation := om_Generation (metaof a)\<rparr>) a = a"
  shows "kind_store (store_client (getm \<circ> proper) upd metaof may_update) proper getm upd metaof set_meta may_update"
proof -
  have s: "served set_meta a a" for a unfolding served_def using assms(5) [of a] by metis
  show ?thesis
    by unfold_locales (auto simp: store_client_def wp_simps assms(1-4) IsNotFound_def intro!: exI s split: option.split)
qed

definition with_client :: "ConfigMap \<Rightarrow> json gomap \<Rightarrow> json gomap \<Rightarrow> PluginStore ConsolePluginReconciler \<Rightarrow> PluginStore ConsolePluginReconciler" where
  "with_client cm infra cv r = r\<lparr>cpr_Client := sample_cluster_client cm infra cv\<rparr>"

interpretation stored: plugin_store "with_client cm infra cv r" proper for cm infra cv r
proof -
  have k: "kind_store (store_client (st_ServiceAccounts \<circ> proper) st_ServiceAccounts_update sa_Meta (\<lambda>_ _. True))
      proper st_ServiceAccounts st_ServiceAccounts_update sa_Meta sa_Meta_update (\<lambda>_ _. True)"
    "kind_store (store_client (st_Roles \<circ> proper) st_Roles_update role_Meta (\<lambda>_ _. True))
      proper st_Roles st_Roles_update role_Meta role_Meta_update (\<lambda>_ _. True)"
    "kind_store (store_client (st_RoleBindings \<circ> proper) st_RoleBindings_update rb_Meta same_roleRef)
      proper st_RoleBindings st_RoleBindings_update rb_Meta rb_Meta_update same_roleRef"
    "kind_store (store_client (st_Services \<circ> proper) st_Services_update svc_Meta (\<lambda>_ _. True))
      proper st_Services st_Services_update svc_Meta svc_Meta_update (\<lambda>_ _. True)"
    "kind_store (store_client (st_Deployments \<circ> proper) st_Deployments_update dep_Meta same_selector)
      proper st_Deployments st_Deployments_update dep_Meta dep_Meta_update same_selector"
    "kind_store (store_client (st_ConsolePlugins \<circ> proper) st_ConsolePlugins_update cp_Meta (\<lambda>_ _. True))
      proper st_ConsolePlugins st_ConsolePlugins_update cp_Meta cp_Meta_update (\<lambda>_ _. True)"
    by (rule store_client_kind_store; simp add: proper_def comp_def)+
  then show "plugin_store (with_client cm infra cv r) proper"
    by (auto simp: plugin_store_def plugin_store_axioms_def with_client_def sample_cluster_client_def wp_simps
        proper_def keyed_only_key)
qed

section \<open>The order of the calls\<close>

text \<open>
  \<open>settled k calls\<close>: the object of kind \<open>k\<close> has been created or updated. \<open>unregistered calls\<close>: the
  console has been relieved of the plugin.
\<close>

definition settled :: "PluginKind \<Rightarrow> PluginCall list \<Rightarrow> bool" where
  "settled k calls \<longleftrightarrow> PCreate k None \<in> set calls \<or> PUpdate k None \<in> set calls"

definition unregistered :: "PluginCall list \<Rightarrow> bool" where
  "unregistered calls \<longleftrightarrow> list_ex (\<lambda>c. case c of
      PDelete KConsolePlugin err \<Rightarrow> (case err of None \<Rightarrow> True | Some e \<Rightarrow> IsNotFound e) | _ \<Rightarrow> False) calls"

definition backend_kinds :: "PluginKind list" where
  "backend_kinds = [KServiceAccount, KRole, KRoleBinding, KService, KDeployment]"

text \<open>What may be called after the calls \<open>before\<close>. A role binding is also deleted to be replaced.\<close>

definition in_order :: "PluginCall list \<Rightarrow> PluginCall \<Rightarrow> bool" where
  "in_order before c = (case c of
     PCreate KConsolePlugin err \<Rightarrow> list_all (\<lambda>k. settled k before) backend_kinds
   | PUpdate KConsolePlugin err \<Rightarrow> list_all (\<lambda>k. settled k before) backend_kinds
   | PDelete KServiceAccount err \<Rightarrow> unregistered before
   | PDelete KRole err \<Rightarrow> unregistered before
   | PDelete KService err \<Rightarrow> unregistered before
   | PDelete KDeployment err \<Rightarrow> unregistered before
   | _ \<Rightarrow> True)"

fun ordered_from :: "PluginCall list \<Rightarrow> PluginCall list \<Rightarrow> bool" where
  "ordered_from before [] = True"
| "ordered_from before (c # calls) = (in_order before c \<and> ordered_from (before @ [c]) calls)"

definition ordered :: "PluginCall list \<Rightarrow> bool" where
  "ordered calls = ordered_from [] calls"

lemma ordered_from_append: "ordered_from before (xs @ ys) \<longleftrightarrow> ordered_from before xs \<and> ordered_from (before @ xs) ys"
  by (induction xs arbitrary: before) auto

lemma ordered_Nil [simp]: "ordered []"
  by (simp add: ordered_def)

lemma ordered_append [simp]: "ordered (xs @ ys) \<longleftrightarrow> ordered xs \<and> ordered_from xs ys"
  by (simp add: ordered_def ordered_from_append)

lemma settled_append [simp]: "settled k (xs @ ys) \<longleftrightarrow> settled k xs \<or> settled k ys"
  by (auto simp: settled_def)

lemma settled_Cons [simp]: "settled k (c # ys) \<longleftrightarrow> c = PCreate k None \<or> c = PUpdate k None \<or> settled k ys" "\<not> settled k []"
  by (auto simp: settled_def)

lemma unregistered_append [simp]: "unregistered (xs @ ys) \<longleftrightarrow> unregistered xs \<or> unregistered ys"
  by (auto simp: unregistered_def)

lemma unregistered_delete [simp]: "unregistered [PDelete KConsolePlugin err] \<longleftrightarrow> (case err of None \<Rightarrow> True | Some e \<Rightarrow> IsNotFound e)"
  by (simp add: unregistered_def)

text \<open>A step that keeps the order and what was settled, and settles \<open>k\<close> when it succeeds.\<close>

definition settles :: "(PluginCall list \<Rightarrow> bool) \<Rightarrow> 'w plugin_state \<Rightarrow> goerr option \<Rightarrow> 'w plugin_state \<Rightarrow> bool" where
  "settles P s err s' \<longleftrightarrow> ordered (ps_Calls s')
     \<and> (\<forall>k. settled k (ps_Calls s) \<longrightarrow> settled k (ps_Calls s')) \<and> (unregistered (ps_Calls s) \<longrightarrow> unregistered (ps_Calls s'))
     \<and> (err = None \<longrightarrow> P (ps_Calls s'))"

lemma holds_pcall_any:
  "(\<And>a w. Q a (s\<lparr>ps_World := w, ps_Calls := ps_Calls s @ [d a]\<rparr>)) \<Longrightarrow> holds (pcall d m) s Q"
  by (simp add: holds_pcall holds_any)

lemma ensure_settles:
  assumes "ordered (ps_Calls s)"
    and "k = KConsolePlugin \<Longrightarrow> list_all (\<lambda>k. settled k (ps_Calls s)) backend_kinds"
  shows "holds (ensure k name c key d (\<lambda>ex. pupdate k c (f ex))) s (settles (settled k) s)"
  unfolding ensure_def holds_bind
  apply (rule holds_pcall_any)
  using assms
  by (auto split: sum.split PluginKind.split intro!: holds_pcall_any
      simp: holds_return settles_def in_order_def backend_kinds_def)

lemma ensureRoleBinding_settles:
  assumes "ordered (ps_Calls s)"
  shows "holds (ensureRoleBinding r) s (settles (settled KRoleBinding) s)"
  unfolding ensureRoleBinding_def ensure_def replace_RoleBinding_def holds_bind holds_gets Let_def
  apply (rule holds_pcall_any)
  using assms
  by (auto split: sum.split option.split intro!: holds_pcall_any
      simp: holds_bind holds_return settles_def in_order_def)

lemma remove_settles:
  assumes "ordered (ps_Calls s)" and "k \<noteq> KConsolePlugin \<Longrightarrow> unregistered (ps_Calls s)"
  shows "holds (remove k name c key) s (settles unregistered s)"
  unfolding remove_def holds_bind
  apply (rule holds_pcall_any)
  using assms
  by (cases k) (auto split: option.split simp: holds_return settles_def in_order_def)

lemma until_settles:
  assumes "holds m s (settles P s)"
    and "\<And>s'. settles P s None s' \<Longrightarrow> holds (until_error ms) s' (\<lambda>err s'. ordered (ps_Calls s'))"
  shows "holds (until_error (m # ms)) s (\<lambda>err s'. ordered (ps_Calls s'))"
  unfolding until_error.simps holds_bind
  by (rule holds_mono [OF assms(1)]) (use assms(2) in \<open>auto simp: holds_return settles_def split: option.split\<close>)

lemma installed_ordered:
  assumes "ordered (ps_Calls s)"
  shows "holds (until_error [ensureServiceAccount r, ensureRole r, ensureRoleBinding r, ensureService r,
       ensureDeployment r url cid gh, ensureConsolePlugin r]) s (\<lambda>err s'. ordered (ps_Calls s'))"
  unfolding ensureServiceAccount_def ensureRole_def ensureService_def ensureDeployment_def ensureConsolePlugin_def Let_def
  apply (rule until_settles, simp only: holds_bind holds_gets, rule ensure_settles, rule assms, simp)
  apply (rule until_settles, simp only: holds_bind holds_gets, rule ensure_settles, simp add: settles_def, simp)
  apply (rule until_settles, rule ensureRoleBinding_settles, simp add: settles_def)
  apply (rule until_settles, simp only: holds_bind holds_gets, rule ensure_settles, simp add: settles_def, simp)
  apply (rule until_settles, simp only: holds_bind holds_gets, rule ensure_settles, simp add: settles_def, simp)
  apply (rule until_settles, simp only: holds_bind holds_gets, rule ensure_settles, simp add: settles_def)
   apply (simp add: settles_def backend_kinds_def)
  apply (simp add: holds_return settles_def)
  done

lemma removed_ordered:
  assumes "ordered (ps_Calls s)"
  shows "holds (plugin_removed r) s (\<lambda>err s'. ordered (ps_Calls s'))"
  unfolding plugin_removed_def deleteConsolePlugin_def deleteDeployment_def deleteService_def
    deleteRoleBinding_def deleteRole_def deleteServiceAccount_def
  apply (rule until_settles, rule remove_settles, rule assms, simp)
  apply (rule until_settles, rule remove_settles, simp add: settles_def, simp add: settles_def)+
  apply (simp add: holds_return settles_def)
  done

lemma read_ordered: "ordered (ps_Calls s) \<Longrightarrow> holds (pread what m) s (\<lambda>_ s'. ordered (ps_Calls s'))"
  by (rule holds_pcall_any) (simp add: in_order_def)

lemma preserves_ordered_read [frame_intros]: "preserves (\<lambda>s. ordered (ps_Calls s)) (pread what m)"
  by (simp add: preserves_def read_ordered)

lemma preserves_ordered_modify [frame_intros]:
  "(\<And>s. ps_Calls (f s) = ps_Calls s) \<Longrightarrow> preserves (\<lambda>s. ordered (ps_Calls s)) (modify f)"
  by (rule preserves_modify) simp

lemma ReconcilePlugin_ordered: "preserves (\<lambda>s. ordered (ps_Calls s)) (ReconcilePlugin r)"
proof -
  have inst: "preserves (\<lambda>s. ordered (ps_Calls s)) (until_error [ensureServiceAccount r, ensureRole r, ensureRoleBinding r,
      ensureService r, ensureDeployment r url cid gh, ensureConsolePlugin r])" for url cid gh
    by (rule preservesI) (rule installed_ordered)
  have rem: "preserves (\<lambda>s. ordered (ps_Calls s)) (plugin_removed r)"
    by (rule preservesI) (rule removed_ordered)
  show ?thesis
    unfolding ReconcilePlugin_def plugin_installed_def resolveOLMOwnership_def resolve_from_pod_def resolve_refs_def
      resolveOwnerDeployment_def findOLMClusterRoleBinding_def set_resolved_def isConsolePluginEnabled_def
      getAPIServerURL_def getClusterID_def getGHApiURL_def
    by (intro frame_intros inst rem) simp_all
qed

section \<open>Properties\<close>


definition sample_plugin :: "string \<Rightarrow> PluginStore ConsolePluginReconciler" where
  "sample_plugin switch = with_client
     \<lparr>cm_Meta = new_meta controllerConfigName ''operator'', cm_Data = [(consolePluginConfigKey, switch)]\<rparr>
     [(''status'', JObject [(''apiServerURL'', JString ''https://api:6443'')])]
     [(''spec'', JObject [(''clusterID'', JString ''c-1'')])]
     \<lparr>cpr_Client = undefined, cpr_DirectReader = None, cpr_OperatorNamespace = ''operator'',
      cpr_ConsolePluginImage = ''quay.io/plugin'', cpr_PodName = [], cpr_Getenv = (\<lambda>v. [])\<rparr>"

definition foreign_role_binding :: RoleBinding where
  "foreign_role_binding = \<lparr>rb_Meta = new_meta consolePluginName ''operator'',
     rb_RoleRef = \<lparr>rr_APIGroup = ''rbac.authorization.k8s.io'', rr_Kind = ''Role'', rr_Name = ''other''\<rparr>, rb_Subjects = []\<rparr>"

definition sample_plugin_start :: "PluginStore plugin_state" where
  "sample_plugin_start = \<lparr>ps_World = \<lparr>st_ServiceAccounts = Map.empty, st_Roles = Map.empty,
       st_RoleBindings = [nsn ''operator'' consolePluginName \<mapsto> foreign_role_binding],
       st_Services = Map.empty, st_Deployments = Map.empty, st_ConsolePlugins = Map.empty\<rparr>,
     ps_Calls = [], ps_ownerInfoResolved = True,
     ps_deploymentOwnerRef = Some \<lparr>or_APIVersion = ''apps/v1'', or_Kind = ''Deployment'', or_Name = ''operator'', or_UID = ''u''\<rparr>,
     ps_clusterOwnerRef = None\<rparr>"

lemmas sample_plugin_defs = sample_plugin_def with_client_def sample_cluster_client_def sample_plugin_start_def


text \<open>
  C13: with the plugin switched off or the switch missing, a reconcile succeeds and none of the six
  objects is left, whichever of them were there.
\<close>

theorem console_plugin_removed:
  assumes "plugin_store r view" and "ps_ownerInfoResolved s"
    and "answers (pc_GetConfigMap (cpr_Client r) (nsn (cpr_OperatorNamespace r) controllerConfigName)) (Inr cm)"
    and "plugin_switch cm = Some False"
  shows "holds (ReconcilePlugin r) s (\<lambda>err s'. err = None \<and> plugin_gone r (view (ps_World s')))"
  using assms by (rule plugin_store.ReconcilePlugin_off)

theorem console_plugin_removed_witness:
  "holds (ReconcilePlugin (sample_plugin ''0'')) sample_plugin_start (\<lambda>err s'. err = None
     \<and> st_RoleBindings (proper (ps_World s')) (nsn ''operator'' consolePluginName) = None)"
proof -
  have st: "plugin_store (sample_plugin ''0'') proper"
    unfolding sample_plugin_def by (rule stored.plugin_store_axioms)
  have h: "ps_ownerInfoResolved sample_plugin_start" by (simp add: sample_plugin_start_def)
  have "holds (ReconcilePlugin (sample_plugin ''0'')) sample_plugin_start (\<lambda>err s'. err = None
     \<and> plugin_gone (sample_plugin ''0'') (proper (ps_World s')))"
    by (rule console_plugin_removed [OF st h])
      (simp_all add: sample_plugin_defs, simp add: plugin_switch_def ParseBool_def)
  then show ?thesis
    by (rule holds_mono) (auto simp: plugin_gone_def plugin_key_def sample_plugin_defs Let_def)
qed

text \<open>
  C14: whatever the API server answers, the console gets to know of the plugin last and forgets it
  first: its custom resource is created or updated only after the service account, the role, its
  binding, the service and the deployment were, and the service, the deployment, the role and the
  service account are deleted only once that resource is gone.
\<close>

theorem plugin_registered_last:
  assumes "ps_Calls s = []"
  shows "holds (ReconcilePlugin r) s (\<lambda>err s'. ordered (ps_Calls s'))"
  using preserves_holds [OF ReconcilePlugin_ordered, of s r] assms by simp

theorem plugin_registered_last_witness:
  "holds (ReconcilePlugin (sample_plugin ''true'')) sample_plugin_start (\<lambda>err s'. ordered (ps_Calls s'))
   \<and> \<not> ordered [PCreate KConsolePlugin None] \<and> \<not> ordered [PDelete KService None]"
  by (intro conjI plugin_registered_last)
    (simp_all add: sample_plugin_start_def ordered_def in_order_def backend_kinds_def settled_def unregistered_def)

end
