(* ===== verification/PluginWiring.thy ===== *)
theory PluginWiring
  imports PluginProperties
begin

text \<open>
  Whether the six objects of the plugin fit together: what one of them says of another holds of the
  other. The checks are those that the API server, the scheduler and the console make when they use the
  objects; they know nothing of how the objects are built.
\<close>

section \<open>Checks\<close>

text \<open>A selector that is not empty and selects what has these labels.\<close>

definition selects :: "string gomap \<Rightarrow> string gomap \<Rightarrow> bool" where
  "selects sel labels \<longleftrightarrow> sel \<noteq> [] \<and> (\<forall>(k, v) \<in> set sel. map_of labels k = Some v)"

text \<open>A deployment that the API server accepts: its pods are its own, and what the containers refer to is there.\<close>

definition container_ok :: "SecretVolume list \<Rightarrow> Container \<Rightarrow> bool" where
  "container_ok volumes c \<longleftrightarrow>
     (\<forall>m \<in> set (ctr_VolumeMounts c). vm_Name m \<in> sv_Name ` set volumes)
     \<and> (\<forall>p \<in> {ctr_LivenessProbe c, ctr_ReadinessProbe c}. hg_Port (probe_HTTPGet p) \<in> (FromInt32 \<circ> fst) ` set (ctr_Ports c))"

definition deployment_ok :: "Deployment \<Rightarrow> bool" where
  "deployment_ok d \<longleftrightarrow> selects (ds_Selector (dep_Spec d)) (ds_TemplateLabels (dep_Spec d))
     \<and> (let pod = ds_TemplateSpec (dep_Spec d) in
        pod_Containers pod \<noteq> [] \<and> distinct (map ctr_Name (pod_Containers pod)) \<and> distinct (map sv_Name (pod_Volumes pod))
        \<and> (\<forall>c \<in> set (pod_Containers pod). container_ok (pod_Volumes pod) c))"

text \<open>A port of a service leads to a port of a container of the pods of a deployment.\<close>

definition serves :: "Service \<Rightarrow> Deployment \<Rightarrow> int \<Rightarrow> bool" where
  "serves svc d port \<longleftrightarrow> om_Namespace (svc_Meta svc) = om_Namespace (dep_Meta d)
     \<and> selects (svc_Selector svc) (ds_TemplateLabels (dep_Spec d))
     \<and> (\<exists>p \<in> set (svc_Ports svc). sp_Port p = port
          \<and> (\<exists>c \<in> set (pod_Containers (ds_TemplateSpec (dep_Spec d))). \<exists>(n, protocol) \<in> set (ctr_Ports c).
               sp_TargetPort p = FromInt32 n \<and> sp_Protocol p = protocol))"

text \<open>The certificate that the cluster issues for a service is mounted in a container.\<close>

definition cert_mounted :: "Service \<Rightarrow> Deployment \<Rightarrow> bool" where
  "cert_mounted svc d \<longleftrightarrow>
     (\<exists>v \<in> set (pod_Volumes (ds_TemplateSpec (dep_Spec d))).
        map_of (om_Annotations (svc_Meta svc)) ''service.alpha.openshift.io/serving-cert-secret-name'' = Some (sv_SecretName v)
        \<and> (\<exists>c \<in> set (pod_Containers (ds_TemplateSpec (dep_Spec d))). sv_Name v \<in> vm_Name ` set (ctr_VolumeMounts c)))"

text \<open>A binding gives the pods of a deployment the rules of a role.\<close>

definition grants :: "RoleBinding \<Rightarrow> Role \<Rightarrow> ServiceAccount \<Rightarrow> Deployment \<Rightarrow> bool" where
  "grants b role a d \<longleftrightarrow> om_Namespace (rb_Meta b) = om_Namespace (role_Meta role)
     \<and> rb_RoleRef b = \<lparr>rr_APIGroup = ''rbac.authorization.k8s.io'', rr_Kind = ''Role'', rr_Name = om_Name (role_Meta role)\<rparr>
     \<and> \<lparr>subj_Kind = ''ServiceAccount'', subj_Name = om_Name (sa_Meta a), subj_Namespace = om_Namespace (sa_Meta a)\<rparr> \<in> set (rb_Subjects b)
     \<and> om_Namespace (dep_Meta d) = om_Namespace (sa_Meta a)
     \<and> pod_ServiceAccountName (ds_TemplateSpec (dep_Spec d)) = om_Name (sa_Meta a)"

text \<open>The services that the custom resource names, with the ports: that of the backend and those of the proxy.\<close>

fun json_at :: "string list \<Rightarrow> json \<Rightarrow> json option" where
  "json_at [] v = Some v"
| "json_at (k # ks) (JObject kvs) = (case map_of kvs k of None \<Rightarrow> None | Some v \<Rightarrow> json_at ks v)"
| "json_at (k # ks) v = None"

definition service_ref :: "json option \<Rightarrow> (nsname \<times> int) option" where
  "service_ref v =
     (case v of
        None \<Rightarrow> None
      | Some v \<Rightarrow>
          (case (json_at [''namespace''] v, json_at [''name''] v, json_at [''port''] v) of
             (Some (JString ns), Some (JString n), Some (JInt port)) \<Rightarrow> Some (nsn ns n, port)
           | _ \<Rightarrow> None))"

definition service_refs :: "json \<Rightarrow> (nsname \<times> int) option list" where
  "service_refs v = service_ref (json_at [''backend'', ''service''] v)
     # (case json_at [''proxy''] v of
          Some (JArray ps) \<Rightarrow> map (\<lambda>p. service_ref (json_at [''endpoint'', ''service''] p)) ps
        | _ \<Rightarrow> [])"

text \<open>
  All together, for the objects that are stored under the keys of the plugin: each service that the
  console is told of exists and leads to the pods.
\<close>

definition wired :: "'w ConsolePluginReconciler \<Rightarrow> PluginStore \<Rightarrow> bool" where
  "wired r st \<longleftrightarrow>
     (\<exists>a role b svc d cp. st_ServiceAccounts st (plugin_key r) = Some a \<and> st_Roles st (plugin_key r) = Some role
        \<and> st_RoleBindings st (plugin_key r) = Some b \<and> st_Services st (plugin_key r) = Some svc
        \<and> st_Deployments st (plugin_key r) = Some d \<and> st_ConsolePlugins st (nsn [] consolePluginName) = Some cp
        \<and> deployment_ok d \<and> cert_mounted svc d \<and> grants b role a d
        \<and> (\<forall>ref \<in> set (service_refs (cp_Spec cp)). \<exists>port. ref = Some (meta_key (svc_Meta svc), port) \<and> serves svc d port))"

lemmas wiring_defs = wired_def deployment_ok_def container_ok_def serves_def cert_mounted_def grants_def selects_def
  service_refs_def service_ref_def

lemmas spec_defs = buildDeployment_def plugin_container_def healthz_probe_def consolePluginSelectorLabels_def
  consolePluginLabels_def buildService_def buildRoleBinding_def buildConsolePlugin_def

context plugin_store begin

lemma in_place_wired:
  assumes "plugin_in_place r (dep_Spec (buildDeployment (cpr_OperatorNamespace r) img url cid gh)) dref cref (view w)"
  shows "wired r (view w)"
proof -
  let ?ns = "cpr_OperatorNamespace r"
  obtain a role b svc d cp where st: "st_ServiceAccounts (view w) (plugin_key r) = Some a" "st_Roles (view w) (plugin_key r) = Some role"
    "st_RoleBindings (view w) (plugin_key r) = Some b" "st_Services (view w) (plugin_key r) = Some svc"
    "st_Deployments (view w) (plugin_key r) = Some d" "st_ConsolePlugins (view w) (nsn [] consolePluginName) = Some cp"
    and c: "right_RoleBinding ?ns dref b" "right_Service ?ns dref svc"
      "right_Deployment (dep_Spec (buildDeployment ?ns img url cid gh)) dref d" "right_ConsolePlugin ?ns cref cp"
    using assms unfolding plugin_in_place_def Let_def by blast
  have m: "om_Name (sa_Meta a) = consolePluginName" "om_Namespace (sa_Meta a) = ?ns" "om_Name (role_Meta role) = consolePluginName"
    "om_Namespace (role_Meta role) = ?ns" "om_Namespace (rb_Meta b) = ?ns" "om_Namespace (dep_Meta d) = ?ns"
    "meta_key (svc_Meta svc) = nsn ?ns consolePluginName" "om_Namespace (svc_Meta svc) = ?ns"
    using keyed(1) [OF st(1)] keyed(2) [OF st(2)] keyed(3) [OF st(3)] keyed(4) [OF st(4)] keyed(5) [OF st(5)]
    by (simp_all add: meta_key_def plugin_key_def)
  have "deployment_ok d" using c(3) by (simp add: right_defs wiring_defs spec_defs Let_def)
  moreover have "cert_mounted svc d" using c(2,3) by (simp add: right_defs wiring_defs spec_defs Let_def)
  moreover have "grants b role a d" using c(1,3) m by (simp add: right_defs wiring_defs spec_defs Let_def)
  moreover have "serves svc d consolePluginPort" using c(2,3) m
    by (simp add: right_defs wiring_defs spec_defs Let_def consolePluginPort_def consolePluginPortInt32_def)
  moreover have "set (service_refs (cp_Spec cp)) = {Some (meta_key (svc_Meta svc), consolePluginPort)}"
    using c(4) m by (simp add: right_defs service_refs_def service_ref_def spec_defs)
  ultimately show ?thesis using st unfolding wired_def by blast
qed

end


section \<open>Property\<close>



end
