(* ===== verification/PluginOwnership.thy ===== *)
theory PluginOwnership
  imports PluginProperties
begin

text \<open>
  Who owns the objects of the plugin. The controller follows the owner references of its own pod to the
  deployment that the Operator Lifecycle Manager made, and finds the cluster role binding that it made for
  that; both become owners of the objects, so that uninstalling the operator removes them.
\<close>

section \<open>What the reader sees\<close>

text \<open>
  A cluster that does not change while it is read, and a reader of it. The reads leave the objects that the
  manager's client serves alone.
\<close>

record OlmView =
  ov_Pod :: "nsname \<Rightarrow> goerr + Pod"
  ov_ReplicaSet :: "nsname \<Rightarrow> goerr + ReplicaSet"
  ov_Deployment :: "nsname \<Rightarrow> goerr + Deployment"
  ov_Bindings :: "string gomap \<Rightarrow> goerr + ClusterRoleBinding list"

definition serves_read :: "('w \<Rightarrow> 's) \<Rightarrow> ('w, 'a) state \<Rightarrow> 'a \<Rightarrow> bool" where
  "serves_read view m a \<longleftrightarrow> (\<forall>w. holds m w (\<lambda>b w'. b = a \<and> view w' = view w))"

definition reader_sees :: "('w \<Rightarrow> 's) \<Rightarrow> 'w DirectReader \<Rightarrow> OlmView \<Rightarrow> bool" where
  "reader_sees view dr ov \<longleftrightarrow>
     (\<forall>k. serves_read view (dr_GetPod dr k) (ov_Pod ov k) \<and> serves_read view (dr_GetReplicaSet dr k) (ov_ReplicaSet ov k)
        \<and> serves_read view (dr_GetDeployment dr k) (ov_Deployment ov k))
     \<and> (\<forall>sel. serves_read view (dr_ListClusterRoleBindings dr sel) (ov_Bindings ov sel))"

section \<open>The chain of owners\<close>

definition deployment_ref :: "Deployment \<Rightarrow> OwnerReference" where
  "deployment_ref d = \<lparr>or_APIVersion = ''apps/v1'', or_Kind = ''Deployment'',
     or_Name = om_Name (dep_Meta d), or_UID = om_UID (dep_Meta d)\<rparr>"

definition binding_ref :: "ClusterRoleBinding \<Rightarrow> OwnerReference" where
  "binding_ref c = \<lparr>or_APIVersion = ''rbac.authorization.k8s.io/v1'', or_Kind = ''ClusterRoleBinding'',
     or_Name = om_Name (crb_Meta c), or_UID = om_UID (crb_Meta c)\<rparr>"

text \<open>The deployment that the pod belongs to.\<close>

inductive runs_pod :: "OlmView \<Rightarrow> string \<Rightarrow> string \<Rightarrow> Pod \<Rightarrow> Deployment \<Rightarrow> bool" for ov ns name where
  "ov_Pod ov (nsn ns name) = Inr pod \<Longrightarrow>
   findOwnerRef (om_OwnerReferences (pod_Meta pod)) ''ReplicaSet'' = Some rsRef \<Longrightarrow>
   ov_ReplicaSet ov (nsn ns (or_Name rsRef)) = Inr rs \<Longrightarrow>
   findOwnerRef (om_OwnerReferences (rs_Meta rs)) ''Deployment'' = Some deployRef \<Longrightarrow>
   ov_Deployment ov (nsn ns (or_Name deployRef)) = Inr d \<Longrightarrow>
   runs_pod ov ns name pod d"

text \<open>A managed one with an owner, and the binding of that owner for the service account of the pod.\<close>

inductive managed_by :: "OlmView \<Rightarrow> string \<Rightarrow> string \<Rightarrow> Deployment \<Rightarrow> ClusterRoleBinding \<Rightarrow> bool" for ov ns name where
  "runs_pod ov ns name pod d \<Longrightarrow>
   map_of (om_Labels (dep_Meta d)) ''olm.managed'' = Some ''true'' \<Longrightarrow>
   map_of (om_Labels (dep_Meta d)) ''olm.owner'' = Some owner \<Longrightarrow> owner \<noteq> [] \<Longrightarrow>
   ov_Bindings ov [(''olm.owner'', owner)] = Inr bindings \<Longrightarrow>
   find (binds_service_account ns (pod_SpecServiceAccountName pod)) bindings = Some c \<Longrightarrow>
   managed_by ov ns name d c"

inductive_simps runs_pod_iff: "runs_pod ov ns name pod d"
inductive_simps managed_by_iff: "managed_by ov ns name d c"

lemma managed_by_unique: "managed_by ov ns name d c \<Longrightarrow> managed_by ov ns name d' c' \<Longrightarrow> d' = d \<and> c' = c"
  by (auto simp: managed_by_iff runs_pod_iff)

section \<open>The resolution\<close>

definition resolution ::
  "OlmView \<Rightarrow> string \<Rightarrow> string \<Rightarrow> ('w \<Rightarrow> 's) \<Rightarrow> 'w plugin_state \<Rightarrow> goerr option \<Rightarrow> 'w plugin_state \<Rightarrow> bool" where
  "resolution ov ns name view s err s' \<longleftrightarrow> view (ps_World s') = view (ps_World s)
     \<and> (err = None \<longleftrightarrow> ps_ownerInfoResolved s')
     \<and> (\<forall>c. ps_clusterOwnerRef s' = Some c \<longleftrightarrow> (\<exists>d crb. managed_by ov ns name d crb \<and> c = binding_ref crb))
     \<and> (\<forall>d crb. managed_by ov ns name d crb \<longrightarrow> err = None \<and> ps_deploymentOwnerRef s' = Some (deployment_ref d))
     \<and> (err = None \<and> ps_clusterOwnerRef s' = None \<longrightarrow> ps_deploymentOwnerRef s' = None)"

lemma holds_pread_serves:
  assumes "serves_read view m a"
    and "\<And>w. view w = view (ps_World s) \<Longrightarrow> Q a (s\<lparr>ps_World := w, ps_Calls := ps_Calls s @ [PRead what]\<rparr>)"
  shows "holds (pread what m) s Q"
  unfolding holds_pcall
  by (rule holds_mono [OF spec [OF assms(1) [unfolded serves_read_def]]]) (use assms(2) in auto)

lemma resolve_refs_outcome:
  assumes "reader_sees view dr ov" and "runs_pod ov (cpr_OperatorNamespace r) name pod d"
    and "map_of (om_Labels (dep_Meta d)) ''olm.managed'' = Some ''true''"
    and "\<not> ps_ownerInfoResolved s" and "ps_deploymentOwnerRef s = None" and "ps_clusterOwnerRef s = None"
  shows "holds (resolve_refs r dr pod d) s (resolution ov (cpr_OperatorNamespace r) name view s)"
proof -
  have b: "serves_read view (dr_ListClusterRoleBindings dr sel) (ov_Bindings ov sel)" for sel
    using assms(1) by (simp add: reader_sees_def)
  have m: "managed_by ov (cpr_OperatorNamespace r) name d' c \<longleftrightarrow> d' = d \<and>
      (\<exists>owner bindings. map_of (om_Labels (dep_Meta d)) ''olm.owner'' = Some owner \<and> owner \<noteq> []
        \<and> ov_Bindings ov [(''olm.owner'', owner)] = Inr bindings
        \<and> find (binds_service_account (cpr_OperatorNamespace r) (pod_SpecServiceAccountName pod)) bindings = Some c)" for d' c
    using assms(2,3) by (auto simp: managed_by_iff runs_pod_iff)
  show ?thesis
  proof (cases "map_of (om_Labels (dep_Meta d)) ''olm.owner''")
    case None
    then show ?thesis using assms(4-6) by (simp add: resolve_refs_def holds_return resolution_def m)
  next
    case (Some owner)
    show ?thesis
    proof (cases "owner = []")
      case True
      then show ?thesis using assms(4-6) Some by (simp add: resolve_refs_def holds_return resolution_def m)
    next
      case False
      then show ?thesis
        using Some assms(4-6)
        by (auto simp: resolve_refs_def findOLMClusterRoleBinding_def holds_bind holds_modify set_resolved_def holds_return
            resolution_def m deployment_ref_def binding_ref_def intro!: holds_pread_serves [OF b] split: sum.split option.split)
    qed
  qed
qed

lemma runs_pod_reads:
  assumes "reader_sees view dr ov"
  shows "serves_read view (dr_GetPod dr k) (ov_Pod ov k)" "serves_read view (dr_GetReplicaSet dr k) (ov_ReplicaSet ov k)"
    "serves_read view (dr_GetDeployment dr k) (ov_Deployment ov k)"
  using assms by (simp_all add: reader_sees_def)

text \<open>The deployment of the pod, when it has been read; nothing else changes.\<close>

lemma resolveOwnerDeployment_outcome:
  assumes "reader_sees view dr ov" and "ov_Pod ov (nsn (cpr_OperatorNamespace r) name) = Inr pod"
  shows "holds (resolveOwnerDeployment r dr pod) s (\<lambda>res s'. view (ps_World s') = view (ps_World s) \<and> same_owner s s'
     \<and> (case res of
          Inr (Some d) \<Rightarrow> runs_pod ov (cpr_OperatorNamespace r) name pod d
        | _ \<Rightarrow> \<not> (\<exists>pod d. runs_pod ov (cpr_OperatorNamespace r) name pod d)))"
  using assms(2)
  by (auto simp: resolveOwnerDeployment_def holds_bind holds_return same_owner_def runs_pod_iff
      intro!: holds_pread_serves runs_pod_reads [OF assms(1)] split: sum.split option.split)

lemma resolve_from_pod_outcome:
  assumes "reader_sees view dr ov"
    and "\<not> ps_ownerInfoResolved s" and "ps_deploymentOwnerRef s = None" and "ps_clusterOwnerRef s = None"
  shows "holds (resolve_from_pod r dr) s (resolution ov (cpr_OperatorNamespace r) (cpr_PodName r) view s)"
proof -
  let ?R = "resolution ov (cpr_OperatorNamespace r) (cpr_PodName r) view"
  have none: "?R s1 err s'" if "view (ps_World s') = view (ps_World s1)" "err = None \<longleftrightarrow> ps_ownerInfoResolved s'"
      "ps_clusterOwnerRef s' = None" "ps_deploymentOwnerRef s' = None"
      "\<not> (\<exists>d c. managed_by ov (cpr_OperatorNamespace r) (cpr_PodName r) d c)" for s1 err s'
    using that by (simp add: resolution_def)
  have trans: "?R s err s' = ?R s1 err s'" if "view (ps_World s1) = view (ps_World s)" for s1 err s'
    by (simp only: resolution_def that)
  show ?thesis
  proof (cases "ov_Pod ov (nsn (cpr_OperatorNamespace r) (cpr_PodName r))")
    case (Inl err)
    then show ?thesis
      unfolding resolve_from_pod_def holds_bind
      by (intro holds_pread_serves [OF runs_pod_reads(1) [OF assms(1)]])
        (simp add: holds_return none assms(2-4) managed_by_iff runs_pod_iff)
  next
    case (Inr pod)
    show ?thesis
      unfolding resolve_from_pod_def holds_bind
    proof (rule holds_pread_serves [OF runs_pod_reads(1) [OF assms(1)]], simp only: Inr sum.case, unfold holds_bind,
        rule holds_mono [OF resolveOwnerDeployment_outcome [OF assms(1) Inr]])
      fix w and res :: "goerr + Deployment option" and s1
      let ?s = "s\<lparr>ps_World := w, ps_Calls := ps_Calls s @ [PRead ''Pod'']\<rparr>"
      assume w: "view w = view (ps_World s)"
      assume o: "view (ps_World s1) = view (ps_World ?s) \<and> same_owner ?s s1
        \<and> (case res of Inr (Some d) \<Rightarrow> runs_pod ov (cpr_OperatorNamespace r) (cpr_PodName r) pod d
           | _ \<Rightarrow> \<not> (\<exists>pod d. runs_pod ov (cpr_OperatorNamespace r) (cpr_PodName r) pod d))"
      then have s1: "\<not> ps_ownerInfoResolved s1" "ps_deploymentOwnerRef s1 = None" "ps_clusterOwnerRef s1 = None"
        "view (ps_World s1) = view (ps_World s)"
        using assms(2-4) w by (simp_all add: same_owner_def)
      show "holds (case res of
             Inl err \<Rightarrow> ret (Some err)
           | Inr None \<Rightarrow> set_resolved
           | Inr (Some dply) \<Rightarrow>
               if map_of (om_Labels (dep_Meta dply)) ''olm.managed'' \<noteq> Some ''true'' then set_resolved
               else resolve_refs r dr pod dply) s1 (?R s)"
      proof (cases res)
        case (Inl err)
        with o s1 show ?thesis by (simp add: holds_return none managed_by_iff)
      next
        case (Inr found)
        show ?thesis
        proof (cases found)
          case None
          with Inr o s1 show ?thesis
            by (simp add: set_resolved_def holds_bind holds_modify holds_return none managed_by_iff)
        next
          case (Some d)
          with Inr o have d: "runs_pod ov (cpr_OperatorNamespace r) (cpr_PodName r) pod d" by simp
          show ?thesis
          proof (cases "map_of (om_Labels (dep_Meta d)) ''olm.managed'' = Some ''true''")
            case True
            with Inr Some show ?thesis
              using holds_mono [OF resolve_refs_outcome [OF assms(1) d True s1(1-3)], of "?R s"] trans [OF s1(4)] by simp
          next
            case False
            then have "\<not> managed_by ov (cpr_OperatorNamespace r) (cpr_PodName r) d' c" for d' c
              using d by (auto simp: managed_by_iff runs_pod_iff)
            with False Inr Some s1 show ?thesis
              by (simp add: set_resolved_def holds_bind holds_modify holds_return none)
          qed
        qed
      qed
    qed
  qed
qed

lemma resolveOLMOwnership_outcome:
  assumes "cpr_DirectReader r = Some dr" and "cpr_PodName r \<noteq> []" and "reader_sees view dr ov"
    and "\<not> ps_ownerInfoResolved s" and "ps_deploymentOwnerRef s = None" and "ps_clusterOwnerRef s = None"
  shows "holds (resolveOLMOwnership r) s (resolution ov (cpr_OperatorNamespace r) (cpr_PodName r) view s)"
  using resolve_from_pod_outcome [OF assms(3-6), of r] assms(1,2,4)
  by (simp add: resolveOLMOwnership_def holds_bind holds_gets)

text \<open>Once it is known who owns the objects, a reconcile goes on as if it had been known all along.\<close>

lemma ReconcilePlugin_resolved:
  assumes "holds (resolveOLMOwnership r) s (\<lambda>err s1. err = None \<and> ps_ownerInfoResolved s1 \<and> holds (ReconcilePlugin r) s1 Q)"
  shows "holds (ReconcilePlugin r) s Q"
proof -
  have "holds (ReconcilePlugin r) s1 Q =
      holds (do { res \<leftarrow> isConsolePluginEnabled r;
        case res of Inl e \<Rightarrow> ret (Some e) | Inr enabled \<Rightarrow> if enabled then plugin_installed r else plugin_removed r }) s1 Q"
    if "ps_ownerInfoResolved s1" for s1
    using that by (simp add: ReconcilePlugin_def resolveOLMOwnership_def holds_bind holds_gets holds_return)
  note resolved = this
  show ?thesis
    unfolding ReconcilePlugin_def holds_bind
    by (rule holds_mono [OF assms]) (auto simp: resolved simp flip: holds_bind)
qed


text \<open>A managed operator with the pod of its controller.\<close>

definition sample_view :: OlmView where
  "sample_view =
     \<lparr>ov_Pod = (\<lambda>k. Inr \<lparr>pod_Meta = (new_meta ''pod'' ''operator'')\<lparr>om_OwnerReferences :=
          [\<lparr>or_APIVersion = ''apps/v1'', or_Kind = ''ReplicaSet'', or_Name = ''rs'', or_UID = ''u1''\<rparr>]\<rparr>,
        pod_SpecServiceAccountName = ''sa''\<rparr>),
      ov_ReplicaSet = (\<lambda>k. Inr \<lparr>rs_Meta = (new_meta ''rs'' ''operator'')\<lparr>om_OwnerReferences :=
          [\<lparr>or_APIVersion = ''apps/v1'', or_Kind = ''Deployment'', or_Name = ''controller'', or_UID = ''u2''\<rparr>]\<rparr>\<rparr>),
      ov_Deployment = (\<lambda>k. Inr \<lparr>dep_Meta = (new_meta (nn_Name k) ''operator'')\<lparr>om_UID := ''u2'',
          om_Labels := [(''olm.managed'', ''true''), (''olm.owner'', ''csv'')]\<rparr>, dep_Spec = undefined\<rparr>),
      ov_Bindings = (\<lambda>sel. Inr
        [\<lparr>crb_Meta = new_meta ''other'' [], crb_Subjects = []\<rparr>,
         \<lparr>crb_Meta = (new_meta ''binding'' [])\<lparr>om_UID := ''u3''\<rparr>,
          crb_Subjects = [\<lparr>subj_Kind = ''ServiceAccount'', subj_Name = ''sa'', subj_Namespace = ''operator''\<rparr>]\<rparr>])\<rparr>"

definition view_reader :: "OlmView \<Rightarrow> 'w DirectReader" where
  "view_reader ov = \<lparr>dr_GetPod = (\<lambda>k. ret (ov_Pod ov k)), dr_GetReplicaSet = (\<lambda>k. ret (ov_ReplicaSet ov k)),
     dr_GetDeployment = (\<lambda>k. ret (ov_Deployment ov k)), dr_ListClusterRoleBindings = (\<lambda>sel. ret (ov_Bindings ov sel))\<rparr>"

lemma view_reader_sees: "reader_sees view (view_reader ov) ov"
  by (simp add: reader_sees_def serves_read_def view_reader_def holds_return)

definition managed_plugin :: "PluginStore ConsolePluginReconciler" where
  "managed_plugin = (sample_plugin ''true'')\<lparr>cpr_DirectReader := Some (view_reader sample_view), cpr_PodName := ''pod''\<rparr>"

lemma managed_plugin_simps [simp]:
  "cpr_DirectReader managed_plugin = Some (view_reader sample_view)" "cpr_PodName managed_plugin = ''pod''"
  "cpr_OperatorNamespace managed_plugin = ''operator''" "cpr_Client managed_plugin = cpr_Client (sample_plugin ''true'')"
  by (simp_all add: managed_plugin_def sample_plugin_def with_client_def)

definition fresh_start :: "PluginStore plugin_state" where
  "fresh_start = sample_plugin_start\<lparr>ps_ownerInfoResolved := False, ps_deploymentOwnerRef := None\<rparr>"

lemma fresh_start_simps [simp]:
  "\<not> ps_ownerInfoResolved fresh_start" "ps_deploymentOwnerRef fresh_start = None" "ps_clusterOwnerRef fresh_start = None"
  by (simp_all add: fresh_start_def sample_plugin_start_def)

lemma sample_managed: "\<exists>d crb. managed_by sample_view ''operator'' ''pod'' d crb
    \<and> deployment_ref d = \<lparr>or_APIVersion = ''apps/v1'', or_Kind = ''Deployment'', or_Name = ''controller'', or_UID = ''u2''\<rparr>"
  by (simp add: managed_by_iff runs_pod_iff sample_view_def findOwnerRef_def binds_service_account_def deployment_ref_def new_meta_def)

lemma managed_plugin_store: "plugin_store managed_plugin proper"
proof -
  have "managed_plugin = with_client
     \<lparr>cm_Meta = new_meta controllerConfigName ''operator'', cm_Data = [(consolePluginConfigKey, ''true'')]\<rparr>
     [(''status'', JObject [(''apiServerURL'', JString ''https://api:6443'')])]
     [(''spec'', JObject [(''clusterID'', JString ''c-1'')])] managed_plugin"
    by (simp add: managed_plugin_def sample_plugin_def with_client_def)
  then show ?thesis using stored.plugin_store_axioms by metis
qed

section \<open>Properties\<close>

text \<open>
  C17: the controller finds its owners. With a reader of the cluster and the name of its pod, the cluster role binding it keeps is
  the one at the end of the chain from its pod over the replica set and the managed deployment, and
  there is none without such a chain; with the chain the resolution succeeds and the deployment of the
  chain is kept too. It is over for good exactly when it succeeded, and a resolution that succeeds knows
  both owners or none.
\<close>

theorem olm_ownership_resolved:
  assumes "cpr_DirectReader r = Some dr" and "cpr_PodName r \<noteq> []" and "reader_sees view dr ov"
    and "\<not> ps_ownerInfoResolved s" and "ps_deploymentOwnerRef s = None" and "ps_clusterOwnerRef s = None"
  shows "holds (resolveOLMOwnership r) s (\<lambda>err s'.
     (err = None \<longleftrightarrow> ps_ownerInfoResolved s')
     \<and> (\<forall>c. ps_clusterOwnerRef s' = Some c
          \<longleftrightarrow> (\<exists>d crb. managed_by ov (cpr_OperatorNamespace r) (cpr_PodName r) d crb \<and> c = binding_ref crb))
     \<and> (\<forall>d crb. managed_by ov (cpr_OperatorNamespace r) (cpr_PodName r) d crb
          \<longrightarrow> err = None \<and> ps_deploymentOwnerRef s' = Some (deployment_ref d))
     \<and> (err = None \<and> ps_clusterOwnerRef s' = None \<longrightarrow> ps_deploymentOwnerRef s' = None))"
  by (rule holds_mono [OF resolveOLMOwnership_outcome [OF assms]], unfold resolution_def) blast

theorem olm_ownership_resolved_witness:
  "holds (resolveOLMOwnership managed_plugin) fresh_start (\<lambda>err s'. err = None \<and> ps_ownerInfoResolved s'
     \<and> ps_deploymentOwnerRef s' = Some \<lparr>or_APIVersion = ''apps/v1'', or_Kind = ''Deployment'', or_Name = ''controller'', or_UID = ''u2''\<rparr>)"
proof -
  obtain d crb where m: "managed_by sample_view ''operator'' ''pod'' d crb"
    "deployment_ref d = \<lparr>or_APIVersion = ''apps/v1'', or_Kind = ''Deployment'', or_Name = ''controller'', or_UID = ''u2''\<rparr>"
    using sample_managed by blast
  show ?thesis
    by (rule holds_mono [OF olm_ownership_resolved [OF managed_plugin_simps(1) _ view_reader_sees]]) (use m in auto)
qed

text \<open>
  C16: the first reconcile of a managed operator with the plugin switched on gives the objects to their
  owners: it resolves them, and then the five objects of the namespace are owned by the deployment of the
  operator and the custom resource by its cluster role binding, with the content that the code builds.
\<close>

theorem plugin_owned_by_operator:
  assumes "plugin_store r view"
    and "cpr_DirectReader r = Some dr" and "cpr_PodName r \<noteq> []" and "reader_sees view dr ov"
    and "\<not> ps_ownerInfoResolved s" and "ps_deploymentOwnerRef s = None" and "ps_clusterOwnerRef s = None"
    and "managed_by ov (cpr_OperatorNamespace r) (cpr_PodName r) d crb"
    and "answers (pc_GetConfigMap (cpr_Client r) (nsn (cpr_OperatorNamespace r) controllerConfigName)) (Inr cm)"
    and "plugin_switch cm = Some True"
    and "answers (pc_GetUnstructured (cpr_Client r) ''config.openshift.io/v1'' ''Infrastructure'' (nsn [] ''cluster'')) (Inr infra)"
    and "string_field infra ''status'' ''apiServerURL'' ''infrastructure CR has no status''
           ''infrastructure CR has no apiServerURL in status'' = Inr url"
    and "answers (pc_GetUnstructured (cpr_Client r) ''config.openshift.io/v1'' ''ClusterVersion'' (nsn [] ''version'')) (Inr cv)"
    and "string_field cv ''spec'' ''clusterID'' ''ClusterVersion CR has no spec''
           ''ClusterVersion CR has no clusterID in spec'' = Inr cid"
    and "\<And>old. st_Deployments (view (ps_World s)) (plugin_key r) = Some old \<Longrightarrow> ds_Selector (dep_Spec old) = consolePluginSelectorLabels"
  shows "holds (ReconcilePlugin r) s (\<lambda>err s'. err = None
     \<and> plugin_in_place r (dep_Spec (buildDeployment (cpr_OperatorNamespace r) (cpr_ConsolePluginImage r) url cid (gh_api_url r cm)))
         (Some (deployment_ref d)) (Some (binding_ref crb)) (view (ps_World s')))"
proof (rule ReconcilePlugin_resolved, rule holds_mono [OF resolveOLMOwnership_outcome [OF assms(2-7)]])
  fix err s1
  assume r: "resolution ov (cpr_OperatorNamespace r) (cpr_PodName r) view s err s1"
  have c: "ps_clusterOwnerRef s1 = Some (binding_ref crb)" and d: "err = None" "ps_deploymentOwnerRef s1 = Some (deployment_ref d)"
    and i: "ps_ownerInfoResolved s1" and v: "view (ps_World s1) = view (ps_World s)"
    using r assms(8) unfolding resolution_def by blast+
  show "err = None \<and> ps_ownerInfoResolved s1 \<and> holds (ReconcilePlugin r) s1 (\<lambda>err s'. err = None
     \<and> plugin_in_place r (dep_Spec (buildDeployment (cpr_OperatorNamespace r) (cpr_ConsolePluginImage r) url cid (gh_api_url r cm)))
         (Some (deployment_ref d)) (Some (binding_ref crb)) (view (ps_World s')))"
    using plugin_store.ReconcilePlugin_on [OF assms(1) i assms(9-14)] assms(15) i d c v by simp
qed

theorem plugin_owned_by_operator_witness:
  "holds (ReconcilePlugin managed_plugin) fresh_start (\<lambda>err s'. err = None
     \<and> (\<exists>a. st_ServiceAccounts (proper (ps_World s')) (nsn ''operator'' consolePluginName) = Some a
          \<and> \<lparr>or_APIVersion = ''apps/v1'', or_Kind = ''Deployment'', or_Name = ''controller'', or_UID = ''u2''\<rparr> \<in> set (om_OwnerReferences (sa_Meta a))))"
proof -
  obtain d crb where m: "managed_by sample_view ''operator'' ''pod'' d crb"
    "deployment_ref d = \<lparr>or_APIVersion = ''apps/v1'', or_Kind = ''Deployment'', or_Name = ''controller'', or_UID = ''u2''\<rparr>"
    using sample_managed by blast
  have h: "st_Deployments (proper (ps_World fresh_start)) k \<noteq> Some old" for k old
    by (simp add: fresh_start_def sample_plugin_start_def proper_def keyed_only_def)
  have "holds (ReconcilePlugin managed_plugin) fresh_start (\<lambda>err s'. err = None
     \<and> plugin_in_place managed_plugin (dep_Spec (buildDeployment (cpr_OperatorNamespace managed_plugin)
         (cpr_ConsolePluginImage managed_plugin) ''https://api:6443'' ''c-1'' (gh_api_url managed_plugin
         \<lparr>cm_Meta = new_meta controllerConfigName ''operator'', cm_Data = [(consolePluginConfigKey, ''true'')]\<rparr>)))
         (Some (deployment_ref d)) (Some (binding_ref crb)) (proper (ps_World s')))"
    by (rule plugin_owned_by_operator [OF managed_plugin_store managed_plugin_simps(1) _ view_reader_sees,
          where infra = "[(''status'', JObject [(''apiServerURL'', JString ''https://api:6443'')])]"
          and cv = "[(''spec'', JObject [(''clusterID'', JString ''c-1'')])]"])
      (simp_all add: h m(1), simp_all add: sample_plugin_defs plugin_switch_def ParseBool_def string_field_def)
  then show ?thesis
    by (rule holds_mono) (auto simp: plugin_in_place_def plugin_key_def right_defs owned_def Let_def m(2))
qed

end
