(* ===== verification/KafkaConfig.thy ===== *)
theory KafkaConfig
  imports KubeMeta
begin

text \<open>
  The connection settings for Kafka, \<open>internal/objectbucketsource/kafka/config.go\<close>: from the data of a
  secret to the client configuration. \<open>SaramaConfig\<close> has the fields of \<open>sarama.Config\<close> that the code sets;
  the certificate routines of Go's \<open>crypto\<close> packages and the defaults of \<open>sarama.NewConfig\<close> are
  parameters.
\<close>

record TlsConfig =
  tls_MinVersion :: nat
  tls_RootCAs :: "string option"
  tls_Certificates :: "(string \<times> string) list"

datatype SaslMechanism = SASLTypePlaintext | SASLTypeSCRAMSHA256 | SASLTypeSCRAMSHA512

datatype ScramHash = SHA256 | SHA512

record SaramaConfig =
  sar_ReturnSuccesses :: bool
  sasl_Enable :: bool
  sasl_User :: string
  sasl_Password :: string
  sasl_Mechanism :: "SaslMechanism option"
  sasl_Scram :: "ScramHash option"
  sar_TlsEnable :: bool
  sar_Tls :: "TlsConfig option"

record CryptoEnv =
  cr_NewConfig :: SaramaConfig
  cr_AppendCertsFromPEM :: "string \<Rightarrow> bool"
  cr_X509KeyPair :: "string \<Rightarrow> string \<Rightarrow> goerr option"

text \<open>Indexing a Go map of strings: a missing key reads as the empty string.\<close>

definition lookup :: "string gomap \<Rightarrow> string \<Rightarrow> string" where
  "lookup data key = (case map_of data key of Some v \<Rightarrow> v | None \<Rightarrow> [])"

definition VersionTLS12 :: nat where
  "VersionTLS12 = 771"

definition SASLMechanismPlain :: string where
  "SASLMechanismPlain = ''PLAIN''"

definition SASLMechanismSHA256 :: string where
  "SASLMechanismSHA256 = ''SCRAM-SHA-256''"

definition SASLMechanismSHA512 :: string where
  "SASLMechanismSHA512 = ''SCRAM-SHA-512''"

definition configureSASL :: "SaramaConfig \<Rightarrow> string gomap \<Rightarrow> goerr + SaramaConfig" where
  "configureSASL config data =
     (let user = lookup data ''user'';
          password = lookup data ''password''
      in if user = [] \<or> password = [] then Inl (ErrorString ''kafka SASL requires \"user\" and \"password\" keys'')
      else
        let m = TrimSpace (lookup data ''sasl.mechanism'');
            mechanism = (if m = [] then SASLMechanismPlain else m);
            config = config\<lparr>sasl_Enable := True, sasl_User := user, sasl_Password := password\<rparr>
        in if mechanism = SASLMechanismPlain then Inr (config\<lparr>sasl_Mechanism := Some SASLTypePlaintext\<rparr>)
        else if mechanism = SASLMechanismSHA256 then
          Inr (config\<lparr>sasl_Mechanism := Some SASLTypeSCRAMSHA256, sasl_Scram := Some SHA256\<rparr>)
        else if mechanism = SASLMechanismSHA512 then
          Inr (config\<lparr>sasl_Mechanism := Some SASLTypeSCRAMSHA512, sasl_Scram := Some SHA512\<rparr>)
        else Inl (ErrorString (''unsupported SASL mechanism '' @ Quote mechanism)))"

text \<open>The certificates of the authority, then those of the client.\<close>

definition tls_roots :: "CryptoEnv \<Rightarrow> string gomap \<Rightarrow> goerr + TlsConfig" where
  "tls_roots env data =
     (let tlsConfig = \<lparr>tls_MinVersion = VersionTLS12, tls_RootCAs = None, tls_Certificates = []\<rparr>;
          caCert = lookup data ''ca.crt''
      in if caCert \<noteq> [] then
           if \<not> cr_AppendCertsFromPEM env caCert then Inl (ErrorString ''failed to parse ca.crt'')
           else Inr (tlsConfig\<lparr>tls_RootCAs := Some caCert\<rparr>)
         else Inr tlsConfig)"

definition tls_client :: "CryptoEnv \<Rightarrow> string gomap \<Rightarrow> TlsConfig \<Rightarrow> goerr + TlsConfig" where
  "tls_client env data tlsConfig =
     (let skip = (TrimSpace (lookup data ''user.skip'') = ''true'') in
      if skip then Inr tlsConfig
      else (case (map_of data ''user.crt'', map_of data ''user.key'') of
              (Some certPEM, Some keyPEM) \<Rightarrow>
                (case cr_X509KeyPair env certPEM keyPEM of
                   Some err \<Rightarrow> Inl (Errorf ''parsing client certificate: '' err)
                 | None \<Rightarrow> Inr (tlsConfig\<lparr>tls_Certificates := [(certPEM, keyPEM)]\<rparr>))
            | _ \<Rightarrow> Inl (ErrorString
                ''kafka SSL requires \"user.crt\" and \"user.key\" (or set \"user.skip\" to \"true\")'')))"

definition configureTLS :: "CryptoEnv \<Rightarrow> SaramaConfig \<Rightarrow> string gomap \<Rightarrow> bool \<Rightarrow> goerr + SaramaConfig" where
  "configureTLS env config data requireClientCert =
     (case tls_roots env data of
        Inl err \<Rightarrow> Inl err
      | Inr tlsConfig \<Rightarrow>
          (case (if requireClientCert then tls_client env data tlsConfig else Inr tlsConfig) of
             Inl err \<Rightarrow> Inl err
           | Inr tlsConfig \<Rightarrow> Inr (config\<lparr>sar_TlsEnable := True, sar_Tls := Some tlsConfig\<rparr>)))"

definition NewConfig :: "CryptoEnv \<Rightarrow> string gomap \<Rightarrow> goerr + SaramaConfig" where
  "NewConfig env secretData =
     (let config = (cr_NewConfig env)\<lparr>sar_ReturnSuccesses := True\<rparr> in
      if secretData = [] then Inr config
      else
        let protocol = TrimSpace (lookup secretData ''protocol'') in
        if protocol = [] then Inl (ErrorString ''kafka secret missing required key \"protocol\"'')
        else if protocol = ''PLAINTEXT'' then Inr config
        else if protocol = ''SASL_PLAINTEXT'' then
          (case configureSASL config secretData of Inl err \<Rightarrow> Inl err | Inr config \<Rightarrow> Inr config)
        else if protocol = ''SSL'' then
          (case configureTLS env config secretData True of Inl err \<Rightarrow> Inl err | Inr config \<Rightarrow> Inr config)
        else if protocol = ''SASL_SSL'' then
          (case configureSASL config secretData of
             Inl err \<Rightarrow> Inl err
           | Inr config \<Rightarrow> (case configureTLS env config secretData False of Inl err \<Rightarrow> Inl err | Inr config \<Rightarrow> Inr config))
        else Inl (ErrorString (''unsupported kafka protocol '' @ Quote protocol)))"

section \<open>What a configuration stands for\<close>

definition protocol_of :: "string gomap \<Rightarrow> string" where
  "protocol_of data = TrimSpace (lookup data ''protocol'')"

lemma configureSASL_Inr:
  "configureSASL c data = Inr c' \<Longrightarrow> sasl_Enable c' \<and> sasl_User c' = lookup data ''user'' \<and> sasl_User c' \<noteq> []
     \<and> sasl_Password c' = lookup data ''password'' \<and> sasl_Password c' \<noteq> [] \<and> sasl_Mechanism c' \<noteq> None
     \<and> sar_TlsEnable c' = sar_TlsEnable c \<and> sar_Tls c' = sar_Tls c"
  by (auto simp: configureSASL_def Let_def split: if_splits)

lemma configureTLS_Inr:
  "configureTLS env c data req = Inr c' \<Longrightarrow> sar_TlsEnable c'
     \<and> (\<exists>t. sar_Tls c' = Some t \<and> tls_MinVersion t = VersionTLS12
          \<and> tls_RootCAs t = (if lookup data ''ca.crt'' = [] then None else Some (lookup data ''ca.crt''))
          \<and> (req \<and> TrimSpace (lookup data ''user.skip'') \<noteq> ''true'' \<longrightarrow>
               tls_Certificates t = [(lookup data ''user.crt'', lookup data ''user.key'')]
               \<and> cr_X509KeyPair env (lookup data ''user.crt'') (lookup data ''user.key'') = None))
     \<and> sasl_Enable c' = sasl_Enable c \<and> sasl_User c' = sasl_User c \<and> sasl_Password c' = sasl_Password c
     \<and> sasl_Mechanism c' = sasl_Mechanism c"
  by (auto simp: configureTLS_def tls_roots_def tls_client_def Let_def lookup_def
      split: if_splits sum.splits option.splits)

text \<open>
  C28: the protocol that a non-empty secret names is the one that is used, and nothing weaker: the
  connection is encrypted, from TLS 1.2 upwards and trusting the given authority, exactly for \<open>SSL\<close> and
  \<open>SASL_SSL\<close>; it is authenticated, with the user and the non-empty password of the secret, exactly for
  \<open>SASL_PLAINTEXT\<close> and \<open>SASL_SSL\<close>; \<open>SSL\<close> presents the client certificate of the secret unless told not to.
  Any other protocol is an error.
\<close>

theorem kafka_protocol_honoured:
  assumes "NewConfig env data = Inr c" and "data \<noteq> []"
    and "\<not> sasl_Enable (cr_NewConfig env)" and "\<not> sar_TlsEnable (cr_NewConfig env)"
  shows "protocol_of data \<in> {''PLAINTEXT'', ''SASL_PLAINTEXT'', ''SSL'', ''SASL_SSL''}
    \<and> (sar_TlsEnable c \<longleftrightarrow> protocol_of data \<in> {''SSL'', ''SASL_SSL''})
    \<and> (sasl_Enable c \<longleftrightarrow> protocol_of data \<in> {''SASL_PLAINTEXT'', ''SASL_SSL''})
    \<and> (sar_TlsEnable c \<longrightarrow> (\<exists>t. sar_Tls c = Some t \<and> tls_MinVersion t = VersionTLS12
         \<and> tls_RootCAs t = (if lookup data ''ca.crt'' = [] then None else Some (lookup data ''ca.crt''))
         \<and> (protocol_of data = ''SSL'' \<and> TrimSpace (lookup data ''user.skip'') \<noteq> ''true'' \<longrightarrow>
              tls_Certificates t = [(lookup data ''user.crt'', lookup data ''user.key'')])))
    \<and> (sasl_Enable c \<longrightarrow> sasl_User c = lookup data ''user'' \<and> sasl_User c \<noteq> []
         \<and> sasl_Password c = lookup data ''password'' \<and> sasl_Password c \<noteq> [] \<and> sasl_Mechanism c \<noteq> None)"
  using assms
  by (auto simp: NewConfig_def protocol_of_def Let_def split: if_splits sum.splits
      dest!: configureSASL_Inr configureTLS_Inr)

definition sample_crypto :: CryptoEnv where
  "sample_crypto = \<lparr>
     cr_NewConfig = \<lparr>sar_ReturnSuccesses = False, sasl_Enable = False, sasl_User = [], sasl_Password = [],
        sasl_Mechanism = None, sasl_Scram = None, sar_TlsEnable = False, sar_Tls = None\<rparr>,
     cr_AppendCertsFromPEM = (\<lambda>pem. True),
     cr_X509KeyPair = (\<lambda>cert key. None)\<rparr>"

definition sample_kafka_secret :: "string gomap" where
  "sample_kafka_secret = [(''protocol'', '' SASL_SSL ''), (''user'', ''u''), (''password'', ''p''), (''sasl.mechanism'', ''SCRAM-SHA-512'')]"

theorem kafka_protocol_honoured_witness:
  "\<exists>c. NewConfig sample_crypto sample_kafka_secret = Inr c \<and> sar_TlsEnable c \<and> sasl_Enable c \<and> sasl_Password c = ''p''"
proof -
  have p: "protocol_of sample_kafka_secret = ''SASL_SSL''" by code_simp
  have "isl (NewConfig sample_crypto sample_kafka_secret) = False" by code_simp
  then obtain c where "NewConfig sample_crypto sample_kafka_secret = Inr c"
    by (cases "NewConfig sample_crypto sample_kafka_secret") auto
  moreover from kafka_protocol_honoured [OF this] have "sar_TlsEnable c \<and> sasl_Enable c
      \<and> sasl_Password c = lookup sample_kafka_secret ''password''"
    using p by (simp add: sample_crypto_def sample_kafka_secret_def)
  ultimately show ?thesis by (auto simp: sample_kafka_secret_def lookup_def)
qed

section \<open>SCRAM\<close>

text \<open>
  The client that the configuration generates for a broker connection; \<open>ScramLib\<close> is the library of the
  conversations. The conversation is \<open>nil\<close> before \<open>Begin\<close>, and a \<open>Step\<close> or \<open>Done\<close> then panics: \<open>None\<close>.
\<close>

record 'c ScramLib =
  sl_NewConversation :: "ScramHash \<Rightarrow> string \<Rightarrow> string \<Rightarrow> string \<Rightarrow> goerr + 'c"
  sl_Step :: "'c \<Rightarrow> string \<Rightarrow> (goerr + string) \<times> 'c"
  sl_Done :: "'c \<Rightarrow> bool"

record 'c scramClient =
  sc_ClientConversation :: "'c option"
  sc_HashGeneratorFcn :: ScramHash

definition SCRAMClientGeneratorFunc :: "SaramaConfig \<Rightarrow> 'c scramClient option" where
  "SCRAMClientGeneratorFunc config =
     map_option (\<lambda>h. \<lparr>sc_ClientConversation = None, sc_HashGeneratorFcn = h\<rparr>) (sasl_Scram config)"

definition scramClient_Begin ::
  "'c ScramLib \<Rightarrow> 'c scramClient \<Rightarrow> string \<Rightarrow> string \<Rightarrow> string \<Rightarrow> goerr option \<times> 'c scramClient" where
  "scramClient_Begin lib c userName password authzID =
     (case sl_NewConversation lib (sc_HashGeneratorFcn c) userName password authzID of
        Inl err \<Rightarrow> (Some err, c)
      | Inr conversation \<Rightarrow> (None, c\<lparr>sc_ClientConversation := Some conversation\<rparr>))"

definition scramClient_Step :: "'c ScramLib \<Rightarrow> 'c scramClient \<Rightarrow> string \<Rightarrow> ((goerr + string) \<times> 'c scramClient) option" where
  "scramClient_Step lib c challenge =
     (case sc_ClientConversation c of
        None \<Rightarrow> None
      | Some conversation \<Rightarrow>
          (case sl_Step lib conversation challenge of
             (res, conversation) \<Rightarrow> Some (res, c\<lparr>sc_ClientConversation := Some conversation\<rparr>)))"

definition scramClient_Done :: "'c ScramLib \<Rightarrow> 'c scramClient \<Rightarrow> bool option" where
  "scramClient_Done lib c = map_option (sl_Done lib) (sc_ClientConversation c)"

text \<open>A connection that is authenticated as the configuration says never panics, and uses the hash of the mechanism.\<close>

fun scram_steps :: "'c ScramLib \<Rightarrow> 'c scramClient \<Rightarrow> string list \<Rightarrow> (goerr + string) list option" where
  "scram_steps lib c [] = Some []"
| "scram_steps lib c (challenge # challenges) =
     (case scramClient_Step lib c challenge of
        None \<Rightarrow> None
      | Some (res, c) \<Rightarrow> map_option (Cons res) (scram_steps lib c challenges))"

lemma scram_steps_return: "sc_ClientConversation c \<noteq> None \<Longrightarrow> scram_steps lib c challenges \<noteq> None"
  by (induction challenges arbitrary: c) (auto simp: scramClient_Step_def split: prod.split)

lemma scram_conversation:
  assumes "SCRAMClientGeneratorFunc config = Some c" and "scramClient_Begin lib c u p a = (None, c')"
  shows "scram_steps lib c' challenges \<noteq> None \<and> scramClient_Done lib c' \<noteq> None
    \<and> sasl_Scram config = Some (sc_HashGeneratorFcn c')"
  using assms scram_steps_return [of c' lib challenges]
  by (auto simp: SCRAMClientGeneratorFunc_def scramClient_Begin_def scramClient_Done_def split: sum.splits)

end
