(* ===== verification/AdapterConfig.thy ===== *)
theory AdapterConfig
  imports KafkaConfig ReconcileEnv Sha256
begin

text \<open>
  The configuration of the notifications adapter, \<open>internal/objectbucketsource/config\<close>: the settings and
  their defaults, the parser of the ConfigMap, and the provider that loads them, keeps the current ones
  and signals its subscribers. Regular expressions (of type \<open>'re\<close>) are a parameter.
\<close>

section \<open>Settings\<close>

definition defaultNoobaaAdapterID :: string where
  "defaultNoobaaAdapterID = ''mcg-adapter''"

definition defaultNoobaaTopicARN :: string where
  "defaultNoobaaTopicARN = ''mcg-adapter-connection/connect.json''"

definition defaultNoobaaStorageClassRE :: string where
  "defaultNoobaaStorageClassRE = ''.*noobaa'' @ [CHR 0x5C] @ ''.io$''"

definition defaultRadosgwAdapterID :: string where
  "defaultRadosgwAdapterID = ''rgw-adapter''"

definition defaultRadosgwTopicARN :: string where
  "defaultRadosgwTopicARN = ''arn:aws:sns:ocs-storagecluster-cephobjectstore::rgw-adapter-notifications''"

definition defaultRadosgwStorageClassRE :: string where
  "defaultRadosgwStorageClassRE = ''.*ceph-rgw$''"

record 're AdapterBackendConfig =
  ab_ID :: string
  ab_TopicARN :: string
  ab_StorageClassPattern :: 're

record NotificationSettings =
  ns_Mode :: string
  ns_KafkaBrokers :: "string list"
  ns_KafkaNotificationsTopics :: "string list"
  ns_KafkaNotificationsGroupID :: string

record 're Config =
  cfg_NoobaaAdapter :: "'re AdapterBackendConfig"
  cfg_RadosgwAdapter :: "'re AdapterBackendConfig"
  cfg_Notifications :: NotificationSettings

section \<open>Parsing the ConfigMap\<close>

definition getOrDefault :: "string gomap \<Rightarrow> string \<Rightarrow> string \<Rightarrow> string" where
  "getOrDefault data key defaultValue =
     (case map_of data key of Some v \<Rightarrow> if v \<noteq> [] then v else defaultValue | None \<Rightarrow> defaultValue)"

definition splitAndTrim :: "string \<Rightarrow> string list" where
  "splitAndTrim s = filter (\<lambda>trimmed. trimmed \<noteq> []) (map TrimSpace (Split s (CHR '','')))"

text \<open>A list given in the ConfigMap replaces the one of the flags unless it is blank.\<close>

definition list_setting :: "string gomap \<Rightarrow> string \<Rightarrow> string list \<Rightarrow> string list" where
  "list_setting data key defaults =
     (case map_of data key of
        Some v \<Rightarrow> if TrimSpace v \<noteq> [] then splitAndTrim v else defaults
      | None \<Rightarrow> defaults)"

definition parseNotificationSettings ::
  "string gomap \<Rightarrow> NotificationSettings \<Rightarrow> goerr + NotificationSettings" where
  "parseNotificationSettings data defaults =
     (let m = getOrDefault data ''NOTIFICATIONS_MODE'' (ns_Mode defaults);
          mode = (if m = [] then ''http'' else m)
      in if mode \<noteq> ''http'' \<and> mode \<noteq> ''kafka'' then
           Inl (ErrorString (''invalid NOTIFICATIONS_MODE '' @ Quote mode @ '': must be \"http\" or \"kafka\"''))
         else
           let settings =
             \<lparr>ns_Mode = mode,
              ns_KafkaBrokers = list_setting data ''KAFKA_BROKERS'' (ns_KafkaBrokers defaults),
              ns_KafkaNotificationsTopics =
                list_setting data ''KAFKA_NOTIFICATIONS_TOPICS'' (ns_KafkaNotificationsTopics defaults),
              ns_KafkaNotificationsGroupID =
                getOrDefault data ''KAFKA_NOTIFICATIONS_GROUP_ID'' (ns_KafkaNotificationsGroupID defaults)\<rparr>
           in if mode = ''kafka'' \<and> ns_KafkaBrokers settings = [] then
                Inl (ErrorString ''KAFKA_BROKERS is required when NOTIFICATIONS_MODE=kafka'')
              else if mode = ''kafka'' \<and> ns_KafkaNotificationsTopics settings = [] then
                Inl (ErrorString ''KAFKA_NOTIFICATIONS_TOPICS is required when NOTIFICATIONS_MODE=kafka'')
              else if mode = ''kafka'' \<and> ns_KafkaNotificationsGroupID settings = [] then
                Inl (ErrorString ''KAFKA_NOTIFICATIONS_GROUP_ID is required when NOTIFICATIONS_MODE=kafka'')
              else Inr settings)"

definition parseConfig ::
  "(string \<Rightarrow> goerr + 're) \<Rightarrow> ConfigMap \<Rightarrow> NotificationSettings \<Rightarrow> goerr + 're Config" where
  "parseConfig regexp_Compile cm defaults =
     (let data = cm_Data cm;
          noobaaPattern = getOrDefault data ''NOOBAA_ADAPTER_STORAGECLASS_PATTERN'' defaultNoobaaStorageClassRE;
          radosgwPattern = getOrDefault data ''RADOSGW_ADAPTER_STORAGECLASS_PATTERN'' defaultRadosgwStorageClassRE
      in case regexp_Compile noobaaPattern of
           Inl err \<Rightarrow> Inl (Errorf ''invalid NOOBAA_ADAPTER_STORAGECLASS_PATTERN: '' err)
         | Inr noobaaRe \<Rightarrow>
             (case regexp_Compile radosgwPattern of
                Inl err \<Rightarrow> Inl (Errorf ''invalid RADOSGW_ADAPTER_STORAGECLASS_PATTERN: '' err)
              | Inr radosgwRe \<Rightarrow>
                  (case parseNotificationSettings data defaults of
                     Inl err \<Rightarrow> Inl err
                   | Inr notifications \<Rightarrow> Inr
                       \<lparr>cfg_NoobaaAdapter =
                          \<lparr>ab_ID = getOrDefault data ''NOOBAA_ADAPTER_ID'' defaultNoobaaAdapterID,
                           ab_TopicARN = getOrDefault data ''NOOBAA_ADAPTER_TOPIC_ARN'' defaultNoobaaTopicARN,
                           ab_StorageClassPattern = noobaaRe\<rparr>,
                        cfg_RadosgwAdapter =
                          \<lparr>ab_ID = getOrDefault data ''RADOSGW_ADAPTER_ID'' defaultRadosgwAdapterID,
                           ab_TopicARN = getOrDefault data ''RADOSGW_ADAPTER_TOPIC_ARN'' defaultRadosgwTopicARN,
                           ab_StorageClassPattern = radosgwRe\<rparr>,
                        cfg_Notifications = notifications\<rparr>)))"

section \<open>The default ConfigMap\<close>

definition defaultConfigMapData :: "NotificationSettings \<Rightarrow> string gomap" where
  "defaultConfigMapData defaults =
     [(''NOOBAA_ADAPTER_ID'', defaultNoobaaAdapterID),
      (''NOOBAA_ADAPTER_TOPIC_ARN'', defaultNoobaaTopicARN),
      (''NOOBAA_ADAPTER_STORAGECLASS_PATTERN'', defaultNoobaaStorageClassRE),
      (''RADOSGW_ADAPTER_ID'', defaultRadosgwAdapterID),
      (''RADOSGW_ADAPTER_TOPIC_ARN'', defaultRadosgwTopicARN),
      (''RADOSGW_ADAPTER_STORAGECLASS_PATTERN'', defaultRadosgwStorageClassRE),
      (''NOTIFICATIONS_MODE'', if ns_Mode defaults = [] then ''http'' else ns_Mode defaults)]
     @ (if ns_KafkaBrokers defaults \<noteq> [] then [(''KAFKA_BROKERS'', Join (ns_KafkaBrokers defaults) '','')] else [])
     @ (if ns_KafkaNotificationsTopics defaults \<noteq> []
        then [(''KAFKA_NOTIFICATIONS_TOPICS'', Join (ns_KafkaNotificationsTopics defaults) '','')] else [])
     @ (if ns_KafkaNotificationsGroupID defaults \<noteq> []
        then [(''KAFKA_NOTIFICATIONS_GROUP_ID'', ns_KafkaNotificationsGroupID defaults)] else [])"

definition default_adapter_config_map :: "string \<Rightarrow> string \<Rightarrow> NotificationSettings \<Rightarrow> ConfigMap" where
  "default_adapter_config_map namespace configMapName defaults =
     \<lparr>cm_Meta = new_meta configMapName namespace, cm_Data = defaultConfigMapData defaults\<rparr>"

definition EnsureDefaultAdapterConfigMap ::
  "'w KubeClient \<Rightarrow> string \<Rightarrow> string \<Rightarrow> NotificationSettings \<Rightarrow> ('w, goerr option) state" where
  "EnsureDefaultAdapterConfigMap clientset namespace configMapName defaults = do {
     res \<leftarrow> k_GetConfigMap clientset (nsn namespace configMapName);
     case res of
       Inr cm \<Rightarrow> ret None
     | Inl err \<Rightarrow>
         if \<not> IsNotFound err then
           ret (Some (Errorf (''checking for ConfigMap '' @ namespace @ ''/'' @ configMapName @ '': '') err))
         else do {
           err \<leftarrow> k_CreateConfigMap clientset (default_adapter_config_map namespace configMapName defaults);
           case err of
             Some e \<Rightarrow>
               if IsAlreadyExists e then ret None
               else ret (Some (Errorf (''creating default ConfigMap '' @ namespace @ ''/'' @ configMapName @ '': '') e))
           | None \<Rightarrow> ret None
         }
   }"

section \<open>The fingerprint of the Kafka secret\<close>

text \<open>
  What is written to the hash: every string is followed by a zero byte. The keys are sorted, so that the
  order of the Go map does not matter.
\<close>

definition nul :: char where
  "nul = CHR 0x00"

fun string_le :: "string \<Rightarrow> string \<Rightarrow> bool" where
  "string_le [] t = True"
| "string_le (c # s) [] = False"
| "string_le (c # s) (d # t) =
     (of_char c < (of_char d :: nat) \<or> of_char c = (of_char d :: nat) \<and> string_le s t)"

fun insert_string :: "string \<Rightarrow> string list \<Rightarrow> string list" where
  "insert_string k [] = [k]"
| "insert_string k (j # js) = (if string_le k j then k # j # js else j # insert_string k js)"

definition sort_Strings :: "string list \<Rightarrow> string list" where
  "sort_Strings ks = foldr insert_string ks []"

definition fingerprint_text :: "string \<Rightarrow> string gomap \<Rightarrow> string" where
  "fingerprint_text secretName data =
     secretName @ [nul] @ concat (map (\<lambda>k. k @ [nul] @ lookup data k @ [nul]) (sort_Strings (keys data)))"

definition kafkaFingerprint :: "string \<Rightarrow> string gomap \<Rightarrow> string" where
  "kafkaFingerprint secretName data = sha256_hex (fingerprint_text secretName data)"

section \<open>The provider\<close>

text \<open>
  A channel of size 1 is the question whether a signal waits in it. The environment has the clientset and
  the routines of the library.
\<close>

record ('w, 're) ConfigEnv =
  ce_Client :: "'w KubeClient"
  ce_Compile :: "string \<Rightarrow> goerr + 're"
  ce_Crypto :: CryptoEnv

record 're Provider =
  pv_config :: "'re Config"
  pv_namespace :: string
  pv_configMapName :: string
  pv_defaults :: NotificationSettings
  pv_kafkaConfig :: SaramaConfig
  pv_kafkaSecret :: string
  pv_kafkaFingerprint :: string
  pv_subscribers :: "bool list"
  pv_reloadSignal :: bool
  pv_watching :: bool

definition GetConfig :: "'re Provider \<Rightarrow> 're Config" where
  "GetConfig p = pv_config p"

definition GetKafkaConfig :: "'re Provider \<Rightarrow> SaramaConfig" where
  "GetKafkaConfig p = pv_kafkaConfig p"

definition GetKafkaFingerprint :: "'re Provider \<Rightarrow> string" where
  "GetKafkaFingerprint p = pv_kafkaFingerprint p"

definition currentKafkaSecret :: "'re Provider \<Rightarrow> string" where
  "currentKafkaSecret p = pv_kafkaSecret p"

text \<open>The result of \<open>Subscribe\<close> is the position of the new channel.\<close>

definition Subscribe :: "'re Provider \<Rightarrow> nat \<times> 're Provider" where
  "Subscribe p = (length (pv_subscribers p), p\<lparr>pv_subscribers := pv_subscribers p @ [False]\<rparr>)"

text \<open>A send that is dropped when the buffer is full leaves a signal in it either way.\<close>

definition notifySubscribers :: "'re Provider \<Rightarrow> 're Provider" where
  "notifySubscribers p = p\<lparr>pv_subscribers := map (\<lambda>ch. True) (pv_subscribers p)\<rparr>"

definition signalReload :: "'re Provider \<Rightarrow> 're Provider" where
  "signalReload p = p\<lparr>pv_reloadSignal := True\<rparr>"

definition Stop :: "'re Provider \<Rightarrow> 're Provider" where
  "Stop p = p\<lparr>pv_watching := False\<rparr>"

text \<open>
  \<open>loadConfig\<close> reads everything first; what it has read it then stores under two locks, one after the
  other.
\<close>

record 're Loaded =
  ld_config :: "'re Config"
  ld_kafkaConfig :: SaramaConfig
  ld_kafkaSecret :: string
  ld_kafkaFingerprint :: string

definition read_kafka ::
  "('w, 're) ConfigEnv \<Rightarrow> 're Provider \<Rightarrow> string \<Rightarrow> ('w, goerr + (SaramaConfig \<times> string gomap)) state" where
  "read_kafka env p kafkaSecret =
     (if kafkaSecret \<noteq> [] then do {
        res \<leftarrow> k_GetSecret (ce_Client env) (nsn (pv_namespace p) kafkaSecret);
        case res of
          Inl err \<Rightarrow> ret (Inl (Errorf (''reading KAFKA_SECRET '' @ pv_namespace p @ ''/'' @ kafkaSecret @ '': '') err))
        | Inr secret \<Rightarrow>
            (case NewConfig (ce_Crypto env) (sec_Data secret) of
               Inl err \<Rightarrow> ret (Inl (Errorf (''configuring kafka from secret '' @ kafkaSecret @ '': '') err))
             | Inr kafkaCfg \<Rightarrow> ret (Inr (kafkaCfg, sec_Data secret)))
      }
      else
        (case NewConfig (ce_Crypto env) [] of
           Inl err \<Rightarrow> ret (Inl (Errorf ''creating default kafka config: '' err))
         | Inr kafkaCfg \<Rightarrow> ret (Inr (kafkaCfg, []))))"

definition read_config :: "('w, 're) ConfigEnv \<Rightarrow> 're Provider \<Rightarrow> ('w, goerr + 're Loaded) state" where
  "read_config env p = do {
     res \<leftarrow> k_GetConfigMap (ce_Client env) (nsn (pv_namespace p) (pv_configMapName p));
     case res of
       Inl err \<Rightarrow> ret (Inl (Errorf (''getting ConfigMap '' @ pv_namespace p @ ''/'' @ pv_configMapName p @ '': '') err))
     | Inr cm \<Rightarrow>
         (case parseConfig (ce_Compile env) cm (pv_defaults p) of
            Inl err \<Rightarrow> ret (Inl (Errorf ''parsing ConfigMap: '' err))
          | Inr config \<Rightarrow> do {
              let kafkaSecret = lookup (cm_Data cm) ''KAFKA_SECRET'';
              res \<leftarrow> read_kafka env p kafkaSecret;
              case res of
                Inl err \<Rightarrow> ret (Inl err)
              | Inr (kafkaCfg, secretData) \<Rightarrow> ret (Inr
                  \<lparr>ld_config = config, ld_kafkaConfig = kafkaCfg, ld_kafkaSecret = kafkaSecret,
                   ld_kafkaFingerprint = kafkaFingerprint kafkaSecret secretData\<rparr>)
            })
   }"

definition store_config :: "'re Loaded \<Rightarrow> 're Provider \<Rightarrow> 're Provider" where
  "store_config ld p = p\<lparr>pv_config := ld_config ld\<rparr>"

definition store_kafka :: "'re Loaded \<Rightarrow> 're Provider \<Rightarrow> 're Provider" where
  "store_kafka ld p = p\<lparr>pv_kafkaConfig := ld_kafkaConfig ld, pv_kafkaSecret := ld_kafkaSecret ld,
     pv_kafkaFingerprint := ld_kafkaFingerprint ld\<rparr>"

definition loadConfig :: "('w, 're) ConfigEnv \<Rightarrow> 're Provider \<Rightarrow> ('w, goerr option \<times> 're Provider) state" where
  "loadConfig env p = do {
     res \<leftarrow> read_config env p;
     case res of
       Inl err \<Rightarrow> ret (Some err, p)
     | Inr ld \<Rightarrow> ret (None, signalReload (notifySubscribers (store_kafka ld (store_config ld p))))
   }"

text \<open>
  The provider that \<open>NewProvider\<close> fills in: nothing loaded yet, all other fields at their zero value.
  The zero of the configuration and of the Kafka settings is never read, so that they are parameters.
\<close>

definition NewProvider ::
  "('w, 're) ConfigEnv \<Rightarrow> 're Config \<Rightarrow> SaramaConfig \<Rightarrow> string \<Rightarrow> string \<Rightarrow> NotificationSettings
    \<Rightarrow> ('w, goerr + 're Provider) state" where
  "NewProvider env no_config no_kafka namespace configMapName defaults = do {
     let p = \<lparr>pv_config = no_config, pv_namespace = namespace, pv_configMapName = configMapName,
              pv_defaults = defaults, pv_kafkaConfig = no_kafka, pv_kafkaSecret = [], pv_kafkaFingerprint = [],
              pv_subscribers = [], pv_reloadSignal = False, pv_watching = False\<rparr>;
     (err, p) \<leftarrow> loadConfig env p;
     case err of
       Some e \<Rightarrow> ret (Inl (Errorf ''loading initial config: '' e))
     | None \<Rightarrow> ret (Inr (p\<lparr>pv_watching := True\<rparr>))
   }"

section \<open>The provider of the tests\<close>

record 're MockProvider =
  mp_config :: "'re Config"
  mp_kafkaConfig :: SaramaConfig
  mp_kafkaFingerprint :: string
  mp_subscribers :: "bool list"

definition NewMockProvider :: "(string \<Rightarrow> 're) \<Rightarrow> SaramaConfig \<Rightarrow> 're MockProvider" where
  "NewMockProvider regexp_MustCompile sarama_NewConfig =
     \<lparr>mp_config =
        \<lparr>cfg_NoobaaAdapter =
           \<lparr>ab_ID = ''mcg-adapter'', ab_TopicARN = ''mcg-adapter-connection/connect.json'',
            ab_StorageClassPattern = regexp_MustCompile (''.*noobaa'' @ [CHR 0x5C] @ ''.io$'')\<rparr>,
         cfg_RadosgwAdapter =
           \<lparr>ab_ID = ''rgw-adapter'',
            ab_TopicARN = ''arn:aws:sns:ocs-storagecluster-cephobjectstore::rgw-adapter-notifications'',
            ab_StorageClassPattern = regexp_MustCompile ''.*ceph-rgw$''\<rparr>,
         cfg_Notifications = \<lparr>ns_Mode = ''http'', ns_KafkaBrokers = [], ns_KafkaNotificationsTopics = [],
            ns_KafkaNotificationsGroupID = []\<rparr>\<rparr>,
      mp_kafkaConfig = sarama_NewConfig, mp_kafkaFingerprint = [], mp_subscribers = []\<rparr>"

definition mock_Subscribe :: "'re MockProvider \<Rightarrow> nat \<times> 're MockProvider" where
  "mock_Subscribe m = (length (mp_subscribers m), m\<lparr>mp_subscribers := mp_subscribers m @ [False]\<rparr>)"

definition mock_notify :: "'re MockProvider \<Rightarrow> 're MockProvider" where
  "mock_notify m = m\<lparr>mp_subscribers := map (\<lambda>ch. True) (mp_subscribers m)\<rparr>"

definition SetConfig :: "'re Config \<Rightarrow> 're MockProvider \<Rightarrow> 're MockProvider" where
  "SetConfig cfg m = mock_notify (m\<lparr>mp_config := cfg\<rparr>)"

definition SetKafkaConfig :: "SaramaConfig \<Rightarrow> 're MockProvider \<Rightarrow> 're MockProvider" where
  "SetKafkaConfig cfg m = mock_notify (m\<lparr>mp_kafkaConfig := cfg\<rparr>)"

definition SetKafkaFingerprint :: "string \<Rightarrow> 're MockProvider \<Rightarrow> 're MockProvider" where
  "SetKafkaFingerprint fingerprint m = mock_notify (m\<lparr>mp_kafkaFingerprint := fingerprint\<rparr>)"

end
