(* ===== verification/NotificationServer.thy ===== *)
theory NotificationServer
  imports AdapterConfig
begin

text \<open>
  The notification server, \<open>internal/objectbucketsource/notificationserver/server.go\<close>: it runs an HTTP
  server or a Kafka consumer for the settings of a snapshot and decides on every change signal whether
  the runner has to be restarted. The provider it gets its settings from is an interface.
\<close>

section \<open>Snapshots\<close>

record ('p, 're) ConfigProvider =
  cp_GetConfig :: "'p \<Rightarrow> 're Config"
  cp_GetKafkaConfig :: "'p \<Rightarrow> SaramaConfig"
  cp_GetKafkaFingerprint :: "'p \<Rightarrow> string"
  cp_Subscribe :: "'p \<Rightarrow> nat \<times> 'p"

text \<open>The two implementations.\<close>

definition provider :: "('re Provider, 're) ConfigProvider" where
  "provider = \<lparr>cp_GetConfig = GetConfig, cp_GetKafkaConfig = GetKafkaConfig,
     cp_GetKafkaFingerprint = GetKafkaFingerprint, cp_Subscribe = Subscribe\<rparr>"

definition mock_provider :: "('re MockProvider, 're) ConfigProvider" where
  "mock_provider = \<lparr>cp_GetConfig = mp_config, cp_GetKafkaConfig = mp_kafkaConfig,
     cp_GetKafkaFingerprint = mp_kafkaFingerprint, cp_Subscribe = mock_Subscribe\<rparr>"

record runSnapshot =
  snap_settings :: NotificationSettings
  snap_kafkaFingerprint :: string

definition snapshot :: "('p, 're) ConfigProvider \<Rightarrow> 'p \<Rightarrow> runSnapshot" where
  "snapshot cp p = \<lparr>snap_settings = cfg_Notifications (cp_GetConfig cp p),
     snap_kafkaFingerprint = cp_GetKafkaFingerprint cp p\<rparr>"

section \<open>When to restart\<close>

text \<open>The loop compares the elements one by one; it is only reached for slices of equal length.\<close>

fun elements_equal :: "string list \<Rightarrow> string list \<Rightarrow> bool" where
  "elements_equal (a # as) (b # bs) = (if a \<noteq> b then False else elements_equal as bs)"
| "elements_equal as bs = True"

definition stringSlicesEqual :: "string list \<Rightarrow> string list \<Rightarrow> bool" where
  "stringSlicesEqual a b = (if length a \<noteq> length b then False else elements_equal a b)"

definition notificationSettingsEqual :: "NotificationSettings \<Rightarrow> NotificationSettings \<Rightarrow> bool" where
  "notificationSettingsEqual a b \<longleftrightarrow>
     ns_Mode a = ns_Mode b \<and>
     ns_KafkaNotificationsGroupID a = ns_KafkaNotificationsGroupID b \<and>
     stringSlicesEqual (ns_KafkaBrokers a) (ns_KafkaBrokers b) \<and>
     stringSlicesEqual (ns_KafkaNotificationsTopics a) (ns_KafkaNotificationsTopics b)"

definition usesKafka :: "NotificationSettings \<Rightarrow> bool" where
  "usesKafka s \<longleftrightarrow> ns_Mode s = ''kafka'' \<or> length (ns_KafkaBrokers s) > 0"

definition needsRestart :: "runSnapshot \<Rightarrow> runSnapshot \<Rightarrow> bool" where
  "needsRestart old new =
     (if \<not> notificationSettingsEqual (snap_settings old) (snap_settings new) then True
      else if usesKafka (snap_settings new) \<and> snap_kafkaFingerprint old \<noteq> snap_kafkaFingerprint new then True
      else False)"

section \<open>The runner\<close>

text \<open>
  What \<open>run\<close> starts: a transport, and a producer when there are brokers. A consumer works with the
  configuration of the provider, with its errors returned and from the newest offset on.
\<close>

record ConsumerConfig =
  cc_Config :: SaramaConfig
  cc_ReturnErrors :: bool
  cc_OffsetNewest :: bool

datatype Transport =
    HTTPServer string
  | KafkaConsumer "string list" string "string list" ConsumerConfig

record Runner =
  run_Producer :: "(string list \<times> SaramaConfig) option"
  run_Transport :: Transport

definition consumer_config :: "SaramaConfig \<Rightarrow> ConsumerConfig" where
  "consumer_config kafkaCfg = \<lparr>cc_Config = kafkaCfg, cc_ReturnErrors = True, cc_OffsetNewest = True\<rparr>"

text \<open>The consumer of a group; its sessions are those of \<open>consume_sessions\<close>.\<close>

definition startKafkaConsumer ::
  "(string list \<Rightarrow> string \<Rightarrow> ConsumerConfig \<Rightarrow> goerr option) \<Rightarrow> SaramaConfig \<Rightarrow> NotificationSettings \<Rightarrow> goerr + Transport" where
  "startKafkaConsumer new_group kafkaCfg settings =
     (let consumerConfig = consumer_config kafkaCfg in
      case new_group (ns_KafkaBrokers settings) (ns_KafkaNotificationsGroupID settings) consumerConfig of
        Some err \<Rightarrow> Inl (Errorf ''creating kafka consumer group: '' err)
      | None \<Rightarrow> Inr (KafkaConsumer (ns_KafkaBrokers settings) (ns_KafkaNotificationsGroupID settings)
          (ns_KafkaNotificationsTopics settings) consumerConfig))"

text \<open>
  \<open>NewSyncProducer\<close> and \<open>NewConsumerGroup\<close> are parameters: whether they fail. The Kafka configuration is
  read twice, from the provider as it is at the time: \<open>p\<close>, then \<open>p'\<close>.
\<close>

definition run ::
  "(string list \<Rightarrow> SaramaConfig \<Rightarrow> goerr option) \<Rightarrow> (string list \<Rightarrow> string \<Rightarrow> ConsumerConfig \<Rightarrow> goerr option)
    \<Rightarrow> int \<Rightarrow> ('p, 're) ConfigProvider \<Rightarrow> 'p \<Rightarrow> 'p \<Rightarrow> NotificationSettings \<Rightarrow> goerr + Runner" where
  "run new_producer new_group port cp p p' settings =
     (let kafkaCfg = cp_GetKafkaConfig cp p;
          consumerCfg = cp_GetKafkaConfig cp p';
          producer = (if length (ns_KafkaBrokers settings) > 0
                      then (case new_producer (ns_KafkaBrokers settings) kafkaCfg of
                              Some err \<Rightarrow> Inl (Errorf ''creating kafka producer: '' err)
                            | None \<Rightarrow> Inr (Some (ns_KafkaBrokers settings, kafkaCfg)))
                      else Inr None)
      in case producer of
           Inl err \<Rightarrow> Inl err
         | Inr kafkaProducer \<Rightarrow>
             if ns_Mode settings = ''kafka'' then
               (case startKafkaConsumer new_group consumerCfg settings of
                  Inl err \<Rightarrow> Inl err
                | Inr transport \<Rightarrow> Inr \<lparr>run_Producer = kafkaProducer, run_Transport = transport\<rparr>)
             else Inr \<lparr>run_Producer = kafkaProducer, run_Transport = HTTPServer (CHR '':'' # Itoa port)\<rparr>)"

text \<open>What the HTTP server gives back when \<open>ListenAndServe\<close> ends with an error; \<open>None\<close> is \<open>ErrServerClosed\<close>.\<close>

definition startHTTPServer :: "goerr option \<Rightarrow> goerr option" where
  "startHTTPServer listenAndServe =
     (case listenAndServe of Some err \<Rightarrow> Some (Errorf ''notification server: '' err) | None \<Rightarrow> None)"

text \<open>
  The sessions of the consumer: for each, what \<open>Consume\<close> gives back and whether the runner is stopped by
  then. \<open>None\<close>: it goes on consuming. The rest of the list is what is left of the sessions.
\<close>

fun consume_sessions :: "(goerr option \<times> bool) list \<Rightarrow> (goerr option \<times> (goerr option \<times> bool) list) option" where
  "consume_sessions [] = None"
| "consume_sessions ((err, stopped) # sessions) =
     (case err of
        Some e \<Rightarrow> if stopped then Some (None, sessions) else consume_sessions sessions
      | None \<Rightarrow> if stopped then Some (None, sessions) else consume_sessions sessions)"

section \<open>Supervision\<close>

text \<open>
  One round of the \<open>select\<close> in \<open>superviseRun\<close>: the shutdown of the process, the end of the runner, or a
  change signal with the snapshot that is taken then. \<open>Return b\<close> is a return of \<open>b\<close> with the runner
  stopped. For a runner that ended, the flags tell whether the process is being shut down already and
  whether it is shut down while the restart of a failed runner waits.
\<close>

datatype SupervisorEvent =
    CtxDone
  | RunnerExit "goerr option" bool bool
  | Changed runSnapshot

datatype Supervision = Return bool | Continue

definition supervise_round :: "runSnapshot \<Rightarrow> SupervisorEvent \<Rightarrow> Supervision" where
  "supervise_round snap event =
     (case event of
        CtxDone \<Rightarrow> Return True
      | RunnerExit err ctxDone ctxDoneInWait \<Rightarrow>
          if ctxDone then Return True
          else if err \<noteq> None \<and> ctxDoneInWait then Return True
          else Return False
      | Changed newSnap \<Rightarrow> if \<not> needsRestart snap newSnap then Continue else Return False)"

text \<open>The loop over the events; \<open>None\<close>: it is still waiting for one.\<close>

fun superviseRun :: "runSnapshot \<Rightarrow> SupervisorEvent list \<Rightarrow> (bool \<times> SupervisorEvent list) option" where
  "superviseRun snap [] = None"
| "superviseRun snap (event # events) =
     (case supervise_round snap event of
        Return shutdown \<Rightarrow> Some (shutdown, events)
      | Continue \<Rightarrow> superviseRun snap events)"

section \<open>Facts\<close>

lemma elements_equal_iff: "length a = length b \<Longrightarrow> elements_equal a b \<longleftrightarrow> a = b"
  by (induction a b rule: elements_equal.induct) auto

lemma stringSlicesEqual_iff [simp]: "stringSlicesEqual a b \<longleftrightarrow> a = b"
  by (auto simp: stringSlicesEqual_def elements_equal_iff)

lemma notificationSettingsEqual_iff [simp]: "notificationSettingsEqual a b \<longleftrightarrow> a = b"
  by (cases a; cases b) (auto simp: notificationSettingsEqual_def)

lemma needsRestart_refl [simp]: "\<not> needsRestart snap snap"
  by (simp add: needsRestart_def)

section \<open>The interface of the provider\<close>

text \<open>
  What the server relies on: a new subscription is a channel of its own without a signal, the other
  channels keep theirs, and subscribing does not change the configuration. \<open>chans\<close> are the channels.
\<close>

locale config_provider =
  fixes cp :: "('p, 're) ConfigProvider" and chans :: "'p \<Rightarrow> bool list"
  assumes subscribe_channel: "cp_Subscribe cp p = (ch, p') \<Longrightarrow> ch = length (chans p) \<and> chans p' = chans p @ [False]"
    and subscribe_settings: "cp_Subscribe cp p = (ch, p') \<Longrightarrow> snapshot cp p' = snapshot cp p"

begin

lemma subscription_is_quiet: "cp_Subscribe cp p = (ch, p') \<Longrightarrow> ch < length (chans p') \<and> \<not> chans p' ! ch"
  using subscribe_channel by fastforce

lemma subscription_keeps: "cp_Subscribe cp p = (ch, p') \<Longrightarrow> i < length (chans p) \<Longrightarrow> chans p' ! i = chans p ! i"
  using subscribe_channel by (fastforce simp: nth_append)

end

interpretation provider: config_provider provider pv_subscribers
  by unfold_locales (auto simp: provider_def Subscribe_def snapshot_def GetConfig_def GetKafkaFingerprint_def)

interpretation mock_provider: config_provider mock_provider mp_subscribers
  by unfold_locales (auto simp: mock_provider_def mock_Subscribe_def snapshot_def)

end
