(* ===== verification/ReloadMachine.thy ===== *)
theory ReloadMachine
  imports NotificationServer
begin

text \<open>
  The goroutines of the adapter that share the configuration: the watcher of the ConfigMap and the watcher
  of the Kafka secret of \<open>config.go\<close>, which both load it, and the notification server, which is told of
  every load. They run in any order; a step is what one of them does between two points at which
  another can see the difference: a read of the cluster, a locked section of the provider, an operation
  on a channel. The cluster changes at any time.
\<close>

section \<open>The cluster\<close>

record AdapterCluster =
  ac_ConfigMap :: "ConfigMap option"
  ac_Secrets :: "string \<Rightarrow> string gomap option"

definition get_config_map :: "AdapterCluster \<Rightarrow> goerr + ConfigMap" where
  "get_config_map cl = (case ac_ConfigMap cl of Some cm \<Rightarrow> Inr cm | None \<Rightarrow> Inl (ApiError ReasonNotFound ''config map not found''))"

definition get_secret :: "AdapterCluster \<Rightarrow> string \<Rightarrow> goerr + Secret" where
  "get_secret cl name = (case ac_Secrets cl name of
     Some data \<Rightarrow> Inr \<lparr>sec_Meta = new_meta name [], sec_Type = [], sec_Data = data\<rparr>
   | None \<Rightarrow> Inl (ApiError ReasonNotFound ''secret not found''))"

text \<open>A clientset that reads this cluster.\<close>

definition cluster_client :: "AdapterCluster KubeClient \<Rightarrow> AdapterCluster KubeClient" where
  "cluster_client k = k
     \<lparr>k_GetConfigMap := (\<lambda>key. State (\<lambda>cl. (get_config_map cl, cl))),
      k_GetSecret := (\<lambda>key. State (\<lambda>cl. (get_secret cl (nn_Name key), cl)))\<rparr>"

section \<open>Loading, step by step\<close>

text \<open>
  Where a goroutine is in \<open>loadConfig\<close>: not in it, about to read the ConfigMap, the secret, about to store
  the two parts, to notify the subscribers, and to signal the watcher of the secret. A failed load
  leaves from one of the first two.
\<close>

datatype 're LoadPhase =
    LIdle
  | LStart
  | LParsed "'re Config" string
  | LLoaded "'re Loaded"
  | LStoredConfig "'re Loaded"
  | LStoredKafka
  | LNotified

text \<open>The part of \<open>read_kafka\<close> after the secret is read.\<close>

definition kafka_of :: "('w, 're) ConfigEnv \<Rightarrow> AdapterCluster \<Rightarrow> string \<Rightarrow> (SaramaConfig \<times> string gomap) option" where
  "kafka_of env cl kafkaSecret =
     (if kafkaSecret \<noteq> [] then
        (case get_secret cl kafkaSecret of
           Inl err \<Rightarrow> None
         | Inr secret \<Rightarrow> (case NewConfig (ce_Crypto env) (sec_Data secret) of Inl err \<Rightarrow> None | Inr cfg \<Rightarrow> Some (cfg, sec_Data secret)))
      else (case NewConfig (ce_Crypto env) [] of Inl err \<Rightarrow> None | Inr cfg \<Rightarrow> Some (cfg, [])))"

fun load_step :: "('w, 're) ConfigEnv \<Rightarrow> AdapterCluster \<Rightarrow> 're LoadPhase \<times> 're Provider \<Rightarrow> 're LoadPhase \<times> 're Provider" where
  "load_step env cl (LIdle, p) = (LIdle, p)"
| "load_step env cl (LStart, p) =
     (case get_config_map cl of
        Inl err \<Rightarrow> (LIdle, p)
      | Inr cm \<Rightarrow>
          (case parseConfig (ce_Compile env) cm (pv_defaults p) of
             Inl err \<Rightarrow> (LIdle, p)
           | Inr config \<Rightarrow> (LParsed config (lookup (cm_Data cm) ''KAFKA_SECRET''), p)))"
| "load_step env cl (LParsed config kafkaSecret, p) =
     (case kafka_of env cl kafkaSecret of
        None \<Rightarrow> (LIdle, p)
      | Some (cfg, data) \<Rightarrow> (LLoaded \<lparr>ld_config = config, ld_kafkaConfig = cfg, ld_kafkaSecret = kafkaSecret,
            ld_kafkaFingerprint = kafkaFingerprint kafkaSecret data\<rparr>, p))"
| "load_step env cl (LLoaded ld, p) = (LStoredConfig ld, store_config ld p)"
| "load_step env cl (LStoredConfig ld, p) = (LStoredKafka, store_kafka ld p)"
| "load_step env cl (LStoredKafka, p) = (LNotified, notifySubscribers p)"
| "load_step env cl (LNotified, p) = (LIdle, signalReload p)"

text \<open>Six steps without interruption are \<open>loadConfig\<close>.\<close>

lemma load_steps_are_loadConfig:
  assumes "k_GetConfigMap (ce_Client env) = k_GetConfigMap (cluster_client k)"
    and "k_GetSecret (ce_Client env) = k_GetSecret (cluster_client k)"
  shows "(load_step env cl ^^ 6) (LStart, p) = (LIdle, snd (fst (run_state (loadConfig env p) cl)))"
proof -
  have six: "(f ^^ 6) x = f (f (f (f (f (f x)))))" for f :: "'z \<Rightarrow> 'z" and x
    by (simp add: eval_nat_numeral)
  show ?thesis
    unfolding six
    by (auto simp: loadConfig_def read_config_def read_kafka_def kafka_of_def assms cluster_client_def
        get_config_map_def get_secret_def Let_def split: option.split sum.split)
qed

section \<open>The machine\<close>

text \<open>
  Where the server is: at the top of its loop, between the two reads of a snapshot there, running with a
  snapshot, and, after a signal, before and between the two reads of the new one.
\<close>

datatype ServerPhase =
    SLoop
  | SSettings NotificationSettings
  | SRun runSnapshot
  | SSignalled runSnapshot
  | SNewSettings runSnapshot NotificationSettings
  | SStopped

text \<open>
  \<open>sy_cmEvent\<close> and \<open>sy_secEvent\<close>: an event of the watch waits for its goroutine. \<open>sy_secWatch\<close> is the name
  of the secret that is watched, \<open>None\<close> at the top of the loop of \<open>watchSecret\<close>. \<open>sy_ch\<close> is the channel
  of the server.
\<close>

record 're AdapterSystem =
  sy_Cluster :: AdapterCluster
  sy_Provider :: "'re Provider"
  sy_cmEvent :: bool
  sy_cmLoad :: "'re LoadPhase"
  sy_secWatch :: "string option"
  sy_secEvent :: bool
  sy_secLoad :: "'re LoadPhase"
  sy_Server :: ServerPhase
  sy_ch :: nat

definition take_signal :: "nat \<Rightarrow> 're Provider \<Rightarrow> 're Provider" where
  "take_signal ch p = p\<lparr>pv_subscribers := (pv_subscribers p)[ch := False]\<rparr>"

definition take_reload :: "'re Provider \<Rightarrow> 're Provider" where
  "take_reload p = p\<lparr>pv_reloadSignal := False\<rparr>"

inductive step :: "('w, 're) ConfigEnv \<Rightarrow> 're AdapterSystem \<Rightarrow> 're AdapterSystem \<Rightarrow> bool" for env where
  EditConfigMap: "step env s (s\<lparr>sy_Cluster := (sy_Cluster s)\<lparr>ac_ConfigMap := cm\<rparr>, sy_cmEvent := (cm \<noteq> None \<or> sy_cmEvent s)\<rparr>)"
| EditSecret: "step env s (s\<lparr>sy_Cluster := (sy_Cluster s)\<lparr>ac_Secrets := (ac_Secrets (sy_Cluster s))(name := data)\<rparr>,
      sy_secEvent := (sy_secWatch s = Some name \<and> data \<noteq> None \<or> sy_secEvent s)\<rparr>)"
| ConfigMapEvent: "sy_cmEvent s \<Longrightarrow> sy_cmLoad s = LIdle \<Longrightarrow> step env s (s\<lparr>sy_cmEvent := False, sy_cmLoad := LStart\<rparr>)"
| ConfigMapRewatch: "sy_cmLoad s = LIdle \<Longrightarrow> ac_ConfigMap (sy_Cluster s) \<noteq> None \<Longrightarrow> step env s (s\<lparr>sy_cmEvent := True\<rparr>)"
| ConfigMapLoad: "sy_cmLoad s \<noteq> LIdle \<Longrightarrow> load_step env (sy_Cluster s) (sy_cmLoad s, sy_Provider s) = (l, p) \<Longrightarrow>
      step env s (s\<lparr>sy_cmLoad := l, sy_Provider := p\<rparr>)"
| SecretWatch: "sy_secWatch s = None \<Longrightarrow> currentKafkaSecret (sy_Provider s) = name \<Longrightarrow> name \<noteq> [] \<Longrightarrow>
      step env s (s\<lparr>sy_secWatch := Some name, sy_secEvent := (ac_Secrets (sy_Cluster s) name \<noteq> None)\<rparr>)"
| SecretWait: "sy_secWatch s = None \<Longrightarrow> currentKafkaSecret (sy_Provider s) = [] \<Longrightarrow> pv_reloadSignal (sy_Provider s) \<Longrightarrow>
      step env s (s\<lparr>sy_Provider := take_reload (sy_Provider s)\<rparr>)"
| SecretReloaded: "sy_secWatch s = Some name \<Longrightarrow> sy_secLoad s = LIdle \<Longrightarrow> pv_reloadSignal (sy_Provider s) \<Longrightarrow>
      step env s (s\<lparr>sy_Provider := take_reload (sy_Provider s),
        sy_secWatch := (if currentKafkaSecret (sy_Provider s) \<noteq> name then None else Some name)\<rparr>)"
| SecretEvent: "sy_secWatch s = Some name \<Longrightarrow> sy_secLoad s = LIdle \<Longrightarrow> sy_secEvent s \<Longrightarrow>
      step env s (s\<lparr>sy_secEvent := False, sy_secLoad := LStart\<rparr>)"
| SecretClosed: "sy_secWatch s = Some name \<Longrightarrow> sy_secLoad s = LIdle \<Longrightarrow> step env s (s\<lparr>sy_secWatch := None\<rparr>)"
| SecretLoad: "sy_secLoad s \<noteq> LIdle \<Longrightarrow> load_step env (sy_Cluster s) (sy_secLoad s, sy_Provider s) = (l, p) \<Longrightarrow>
      step env s (s\<lparr>sy_secLoad := l, sy_Provider := p\<rparr>)"
| ServerSettings: "sy_Server s = SLoop \<Longrightarrow>
      step env s (s\<lparr>sy_Server := SSettings (cfg_Notifications (GetConfig (sy_Provider s)))\<rparr>)"
| ServerRun: "sy_Server s = SSettings st \<Longrightarrow> step env s (s\<lparr>sy_Server :=
      SRun \<lparr>snap_settings = st, snap_kafkaFingerprint = GetKafkaFingerprint (sy_Provider s)\<rparr>\<rparr>)"
| ServerSignal: "sy_Server s = SRun snap \<Longrightarrow> pv_subscribers (sy_Provider s) ! sy_ch s \<Longrightarrow>
      step env s (s\<lparr>sy_Server := SSignalled snap, sy_Provider := take_signal (sy_ch s) (sy_Provider s)\<rparr>)"
| ServerNewSettings: "sy_Server s = SSignalled snap \<Longrightarrow>
      step env s (s\<lparr>sy_Server := SNewSettings snap (cfg_Notifications (GetConfig (sy_Provider s)))\<rparr>)"
| ServerDecide: "sy_Server s = SNewSettings snap st \<Longrightarrow>
      supervise_round snap (Changed \<lparr>snap_settings = st, snap_kafkaFingerprint = GetKafkaFingerprint (sy_Provider s)\<rparr>) = d \<Longrightarrow>
      step env s (s\<lparr>sy_Server := (if d = Continue then SRun snap else SLoop)\<rparr>)"
| ServerExit: "sy_Server s = SRun snap \<Longrightarrow> supervise_round snap (RunnerExit err False False) = Return False \<Longrightarrow>
      step env s (s\<lparr>sy_Server := SLoop\<rparr>)"
| ServerStop: "sy_Server s = SRun snap \<Longrightarrow> supervise_round snap CtxDone = Return True \<Longrightarrow>
      step env s (s\<lparr>sy_Server := SStopped\<rparr>)"

text \<open>
  The start, in a cluster of any content: \<open>NewProvider\<close> has loaded the configuration, both watches are
  still to be established, and the server has subscribed.
\<close>

definition start_system :: "'re Provider \<Rightarrow> AdapterCluster \<Rightarrow> 're AdapterSystem" where
  "start_system p cl =
     \<lparr>sy_Cluster = cl, sy_Provider = snd (Subscribe p),
      sy_cmEvent = (ac_ConfigMap cl \<noteq> None), sy_cmLoad = LIdle,
      sy_secWatch = None, sy_secEvent = False, sy_secLoad = LIdle,
      sy_Server = SLoop, sy_ch = fst (Subscribe p)\<rparr>"

abbreviation steps :: "('w, 're) ConfigEnv \<Rightarrow> 're AdapterSystem \<Rightarrow> 're AdapterSystem \<Rightarrow> bool" where
  "steps env \<equiv> (step env)\<^sup>*\<^sup>*"

section \<open>The invariant\<close>

text \<open>Settings that the parser lets through: with Kafka, everything it needs is there.\<close>

definition valid_settings :: "NotificationSettings \<Rightarrow> bool" where
  "valid_settings st \<longleftrightarrow> (ns_Mode st = ''http'' \<or> ns_Mode st = ''kafka'')
     \<and> (ns_Mode st = ''kafka'' \<longrightarrow> ns_KafkaBrokers st \<noteq> [] \<and> ns_KafkaNotificationsTopics st \<noteq> []
          \<and> ns_KafkaNotificationsGroupID st \<noteq> [])"

lemma parseNotificationSettings_valid: "parseNotificationSettings data d = Inr st \<Longrightarrow> valid_settings st"
  by (auto simp: parseNotificationSettings_def valid_settings_def Let_def split: if_splits)

lemma parseConfig_valid: "parseConfig re cm d = Inr cfg \<Longrightarrow> valid_settings (cfg_Notifications cfg)"
  by (auto simp: parseConfig_def Let_def split: sum.splits dest: parseNotificationSettings_valid)

text \<open>One secret accounts for the Kafka configuration and for the fingerprint.\<close>

definition kafka_from :: "('w, 're) ConfigEnv \<Rightarrow> SaramaConfig \<Rightarrow> string \<Rightarrow> string \<Rightarrow> bool" where
  "kafka_from env cfg name fp \<longleftrightarrow> (\<exists>data. NewConfig (ce_Crypto env) data = Inr cfg
     \<and> fp = kafkaFingerprint name data)"

definition good_load :: "('w, 're) ConfigEnv \<Rightarrow> 're Loaded \<Rightarrow> bool" where
  "good_load env ld \<longleftrightarrow> valid_settings (cfg_Notifications (ld_config ld))
     \<and> kafka_from env (ld_kafkaConfig ld) (ld_kafkaSecret ld) (ld_kafkaFingerprint ld)"

fun good_phase :: "('w, 're) ConfigEnv \<Rightarrow> 're LoadPhase \<Rightarrow> bool" where
  "good_phase env (LParsed cfg name) = valid_settings (cfg_Notifications cfg)"
| "good_phase env (LLoaded ld) = good_load env ld"
| "good_phase env (LStoredConfig ld) = good_load env ld"
| "good_phase env l = True"

definition good_provider :: "('w, 're) ConfigEnv \<Rightarrow> 're Provider \<Rightarrow> bool" where
  "good_provider env p \<longleftrightarrow> valid_settings (cfg_Notifications (pv_config p))
     \<and> kafka_from env (pv_kafkaConfig p) (pv_kafkaSecret p) (pv_kafkaFingerprint p)"

text \<open>A load that has stored something and still has to signal it.\<close>

fun to_notify :: "'re LoadPhase \<Rightarrow> bool" where
  "to_notify (LStoredConfig ld) = True" | "to_notify LStoredKafka = True" | "to_notify l = False"

fun to_signal :: "'re LoadPhase \<Rightarrow> bool" where
  "to_signal LStoredKafka = True" | "to_signal LNotified = True" | "to_signal l = False"

definition loading :: "('re LoadPhase \<Rightarrow> bool) \<Rightarrow> 're AdapterSystem \<Rightarrow> bool" where
  "loading P s \<longleftrightarrow> P (sy_cmLoad s) \<or> P (sy_secLoad s)"

definition told :: "'re AdapterSystem \<Rightarrow> bool" where
  "told s \<longleftrightarrow> pv_subscribers (sy_Provider s) ! sy_ch s \<or> loading to_notify s"

definition server_inv :: "'re AdapterSystem \<Rightarrow> bool" where
  "server_inv s \<longleftrightarrow> (case sy_Server s of
     SSettings st \<Rightarrow> told s \<or> st = cfg_Notifications (pv_config (sy_Provider s))
   | SRun snap \<Rightarrow> told s \<or> \<not> needsRestart snap (snapshot provider (sy_Provider s))
   | SNewSettings snap st \<Rightarrow> told s \<or> st = cfg_Notifications (pv_config (sy_Provider s))
   | _ \<Rightarrow> True)"

definition watch_inv :: "'re AdapterSystem \<Rightarrow> bool" where
  "watch_inv s \<longleftrightarrow> (case sy_secWatch s of
     None \<Rightarrow> sy_secLoad s = LIdle
   | Some name \<Rightarrow> name = pv_kafkaSecret (sy_Provider s) \<or> pv_reloadSignal (sy_Provider s) \<or> loading to_signal s)"

definition system_inv :: "('w, 're) ConfigEnv \<Rightarrow> 're AdapterSystem \<Rightarrow> bool" where
  "system_inv env s \<longleftrightarrow> sy_ch s < length (pv_subscribers (sy_Provider s))
     \<and> good_provider env (sy_Provider s) \<and> good_phase env (sy_cmLoad s) \<and> good_phase env (sy_secLoad s)
     \<and> server_inv s \<and> watch_inv s"

lemmas inv_defs = system_inv_def server_inv_def watch_inv_def told_def loading_def

lemma kafka_of_Some: "kafka_of env cl name = Some (cfg, data) \<Longrightarrow> NewConfig (ce_Crypto env) data = Inr cfg"
  by (auto simp: kafka_of_def split: if_splits sum.splits)

lemma good_load_step:
  "load_step env cl (l, p) = (l', p') \<Longrightarrow> good_phase env l \<Longrightarrow> good_provider env p \<Longrightarrow>
   good_phase env l' \<and> good_provider env p' \<and> length (pv_subscribers p') = length (pv_subscribers p)"
  by (cases l) (auto split: sum.splits option.splits dest: parseConfig_valid
      simp: good_load_def good_provider_def kafka_from_def store_config_def store_kafka_def notifySubscribers_def signalReload_def,
      blast dest: kafka_of_Some)

text \<open>The effect of a load step on what the other goroutines see.\<close>

definition load_effect :: "'re LoadPhase \<Rightarrow> 're Provider \<Rightarrow> 're LoadPhase \<Rightarrow> 're Provider \<Rightarrow> bool" where
  "load_effect l p l' p' \<longleftrightarrow>
     (to_notify l' \<or> snapshot provider p' = snapshot provider p)
     \<and> (to_notify l \<longrightarrow> to_notify l' \<or> pv_subscribers p' = map (\<lambda>ch. True) (pv_subscribers p))
     \<and> (pv_subscribers p' = pv_subscribers p \<or> pv_subscribers p' = map (\<lambda>ch. True) (pv_subscribers p))
     \<and> (to_signal l' \<or> pv_kafkaSecret p' = pv_kafkaSecret p)
     \<and> (to_signal l \<longrightarrow> to_signal l' \<or> pv_reloadSignal p')
     \<and> (pv_reloadSignal p \<longrightarrow> pv_reloadSignal p')"

lemma load_effect: "load_step env cl (l, p) = (l', p') \<Longrightarrow> load_effect l p l' p'"
  by (cases l) (auto split: sum.splits option.splits simp: load_effect_def snapshot_def provider_def GetConfig_def
      GetKafkaFingerprint_def store_config_def store_kafka_def notifySubscribers_def signalReload_def)

lemma load_keeps_told:
  assumes "load_effect l p l' p'" and "ch < length (pv_subscribers p)"
  shows "(pv_subscribers p ! ch \<or> to_notify l \<longrightarrow> pv_subscribers p' ! ch \<or> to_notify l')
    \<and> (pv_subscribers p' ! ch \<or> to_notify l' \<or> snapshot provider p' = snapshot provider p)"
  using assms unfolding load_effect_def by (metis length_map nth_map)

lemma server_inv_load:
  assumes "server_inv s" and "sy_ch s < length (pv_subscribers (sy_Provider s))" and e: "load_effect l (sy_Provider s) l' p'"
  shows "l = sy_cmLoad s \<Longrightarrow> server_inv (s\<lparr>sy_cmLoad := l', sy_Provider := p'\<rparr>)"
    and "l = sy_secLoad s \<Longrightarrow> server_inv (s\<lparr>sy_secLoad := l', sy_Provider := p'\<rparr>)"
  using assms load_keeps_told [OF e assms(2)]
  by (auto simp: server_inv_def told_def loading_def snapshot_def provider_def GetConfig_def split: ServerPhase.splits)

lemma watch_inv_load:
  assumes "watch_inv s" and e: "load_effect l (sy_Provider s) l' p'" and "l \<noteq> LIdle"
  shows "l = sy_cmLoad s \<Longrightarrow> watch_inv (s\<lparr>sy_cmLoad := l', sy_Provider := p'\<rparr>)"
    and "l = sy_secLoad s \<Longrightarrow> watch_inv (s\<lparr>sy_secLoad := l', sy_Provider := p'\<rparr>)"
  using assms by (auto simp: watch_inv_def loading_def load_effect_def split: option.splits)

lemma length_take_signal [simp]: "length (pv_subscribers (take_signal ch p)) = length (pv_subscribers p)"
  by (simp add: take_signal_def)

lemma snapshot_take [simp]: "snapshot provider (take_signal ch p) = snapshot provider p" "snapshot provider (take_reload p) = snapshot provider p"
  by (simp_all add: snapshot_def provider_def GetConfig_def GetKafkaFingerprint_def take_signal_def take_reload_def)

lemma good_take [simp]: "good_provider env (take_signal ch p) = good_provider env p" "good_provider env (take_reload p) = good_provider env p"
  by (simp_all add: good_provider_def take_signal_def take_reload_def)

lemmas machine_simps = GetConfig_def GetKafkaFingerprint_def currentKafkaSecret_def take_signal_def take_reload_def
  supervise_round_def snapshot_def provider_def

lemma step_inv: "step env s s' \<Longrightarrow> system_inv env s \<Longrightarrow> system_inv env s'"
proof (induction rule: step.induct)
  case (ConfigMapLoad s l p)
  then show ?case
    using good_load_step [OF ConfigMapLoad(2)] server_inv_load(1) [OF _ _ load_effect [OF ConfigMapLoad(2)]]
      watch_inv_load(1) [OF _ load_effect [OF ConfigMapLoad(2)]]
    by (auto simp: system_inv_def)
next
  case (SecretLoad s l p)
  then show ?case
    using good_load_step [OF SecretLoad(2)] server_inv_load(2) [OF _ _ load_effect [OF SecretLoad(2)]]
      watch_inv_load(2) [OF _ load_effect [OF SecretLoad(2)]]
    by (auto simp: system_inv_def)
qed (auto simp: inv_defs machine_simps needsRestart_def good_provider_def split: ServerPhase.splits option.splits if_splits)

lemma parse_good_load:
  assumes "run_state (read_config env p) w = (Inr ld, w')"
  shows "good_load env ld"
  using assms
  by (auto simp: read_config_def read_kafka_def Let_def good_load_def kafka_from_def split: sum.splits prod.splits if_splits
      dest: parseConfig_valid)

lemma NewProvider_good:
  assumes "run_state (NewProvider env z zk ns n d) w = (Inr p, w')"
  shows "good_provider env p \<and> pv_subscribers p = []"
  using assms
  by (auto simp: NewProvider_def loadConfig_def Let_def good_provider_def store_config_def store_kafka_def
      notifySubscribers_def signalReload_def split: sum.splits prod.splits option.splits
      dest!: parse_good_load simp: good_load_def)

lemma start_inv:
  assumes "run_state (NewProvider env z zk ns n d) w = (Inr p, w')"
  shows "system_inv env (start_system p cl)"
  using NewProvider_good [OF assms]
  by (simp add: inv_defs start_system_def Subscribe_def good_provider_def)

lemma steps_inv: "steps env s s' \<Longrightarrow> system_inv env s \<Longrightarrow> system_inv env s'"
  by (induction rule: rtranclp_induct) (auto intro: step_inv)

section \<open>A sample\<close>

definition sample_adapter :: "(AdapterCluster, string) ConfigEnv" where
  "sample_adapter = \<lparr>ce_Client = cluster_client undefined, ce_Compile = Inr, ce_Crypto = sample_crypto\<rparr>"

definition no_defaults :: NotificationSettings where
  "no_defaults = \<lparr>ns_Mode = [], ns_KafkaBrokers = [], ns_KafkaNotificationsTopics = [], ns_KafkaNotificationsGroupID = []\<rparr>"

definition adapter_cm :: "string gomap \<Rightarrow> ConfigMap" where
  "adapter_cm data = \<lparr>cm_Meta = new_meta ''cfg'' ''ns'', cm_Data = data\<rparr>"

text \<open>The configuration for an adapter id and brokers.\<close>

definition adapter_config :: "string \<Rightarrow> string list \<Rightarrow> string Config" where
  "adapter_config adapter_id brokers =
     \<lparr>cfg_NoobaaAdapter = \<lparr>ab_ID = adapter_id, ab_TopicARN = defaultNoobaaTopicARN, ab_StorageClassPattern = defaultNoobaaStorageClassRE\<rparr>,
      cfg_RadosgwAdapter = \<lparr>ab_ID = defaultRadosgwAdapterID, ab_TopicARN = defaultRadosgwTopicARN,
        ab_StorageClassPattern = defaultRadosgwStorageClassRE\<rparr>,
      cfg_Notifications = \<lparr>ns_Mode = ''http'', ns_KafkaBrokers = brokers, ns_KafkaNotificationsTopics = [],
        ns_KafkaNotificationsGroupID = []\<rparr>\<rparr>"

definition plain_kafka :: SaramaConfig where
  "plain_kafka = (cr_NewConfig sample_crypto)\<lparr>sar_ReturnSuccesses := True\<rparr>"

definition broker_cm :: "string \<Rightarrow> string \<Rightarrow> ConfigMap" where
  "broker_cm secret broker = adapter_cm [(''KAFKA_SECRET'', secret), (''KAFKA_BROKERS'', broker)]"

lemma parse_broker_cm:
  "broker \<noteq> [] \<Longrightarrow> TrimSpace broker = broker \<Longrightarrow> CHR '','' \<notin> set broker \<Longrightarrow>
   parseConfig Inr (broker_cm secret broker) no_defaults = Inr (adapter_config defaultNoobaaAdapterID [broker])"
  by (simp add: parseConfig_def broker_cm_def adapter_cm_def getOrDefault_def parseNotificationSettings_def Let_def
      adapter_config_def list_setting_def splitAndTrim_def Split_no_sep no_defaults_def)

definition plain_secret :: "string gomap" where
  "plain_secret = [(''protocol'', ''PLAINTEXT'')]"

lemma plain_secret_config: "NewConfig sample_crypto plain_secret = Inr plain_kafka"
  by code_simp

definition sample_adapter_cluster :: "string \<Rightarrow> AdapterCluster" where
  "sample_adapter_cluster broker = \<lparr>ac_ConfigMap = Some (broker_cm ''k'' broker), ac_Secrets = [''k'' \<mapsto> plain_secret]\<rparr>"

definition sample_loaded :: "string \<Rightarrow> string Loaded" where
  "sample_loaded broker = \<lparr>ld_config = adapter_config defaultNoobaaAdapterID [broker], ld_kafkaConfig = plain_kafka,
     ld_kafkaSecret = ''k'', ld_kafkaFingerprint = kafkaFingerprint ''k'' plain_secret\<rparr>"

definition sample_provider :: "string \<Rightarrow> string Provider" where
  "sample_provider broker = \<lparr>pv_config = adapter_config defaultNoobaaAdapterID [broker], pv_namespace = ''ns'',
     pv_configMapName = ''cfg'', pv_defaults = no_defaults, pv_kafkaConfig = plain_kafka, pv_kafkaSecret = ''k'',
     pv_kafkaFingerprint = kafkaFingerprint ''k'' plain_secret, pv_subscribers = [], pv_reloadSignal = True,
     pv_watching = True\<rparr>"

lemma trim_ab [simp]: "TrimSpace ''a'' = ''a''" "TrimSpace ''b'' = ''b''"
  by code_simp+

lemma sample_reads [simp]:
  "get_config_map (sample_adapter_cluster broker) = Inr (broker_cm ''k'' broker)"
  "kafka_of sample_adapter (sample_adapter_cluster broker) ''k'' = Some (plain_kafka, plain_secret)"
  "lookup (cm_Data (broker_cm secret broker)) ''KAFKA_SECRET'' = secret"
  by (simp_all add: get_config_map_def get_secret_def kafka_of_def sample_adapter_cluster_def sample_adapter_def
      plain_secret_config broker_cm_def adapter_cm_def lookup_def)

lemma sample_adapter_simps [simp]:
  "ce_Compile sample_adapter = Inr" "ce_Crypto sample_adapter = sample_crypto"
  "k_GetConfigMap (ce_Client sample_adapter) key = State (\<lambda>cl. (get_config_map cl, cl))"
  "k_GetSecret (ce_Client sample_adapter) key = State (\<lambda>cl. (get_secret cl (nn_Name key), cl))"
  by (simp_all add: sample_adapter_def cluster_client_def)

lemma sample_NewProvider:
  "run_state (NewProvider sample_adapter z zk ''ns'' ''cfg'' no_defaults) (sample_adapter_cluster ''a'')
     = (Inr (sample_provider ''a''), sample_adapter_cluster ''a'')"
proof -
  have s: "get_secret (sample_adapter_cluster ''a'') ''k'' = Inr \<lparr>sec_Meta = new_meta ''k'' [], sec_Type = [], sec_Data = plain_secret\<rparr>"
    by (simp add: get_secret_def sample_adapter_cluster_def)
  show ?thesis
    by (simp add: NewProvider_def loadConfig_def read_config_def read_kafka_def Let_def s parse_broker_cm plain_secret_config
        sample_provider_def store_config_def store_kafka_def notifySubscribers_def signalReload_def)
qed

section \<open>Runs\<close>

text \<open>A schedule says whose turn it is; \<open>perform\<close> takes that turn, if it can be taken.\<close>

datatype Turn =
    TEditConfigMap "ConfigMap option"
  | TEditSecret string "string gomap option"
  | TConfigMapEvent
  | TConfigMapLoad
  | TSecretWatch
  | TSecretWait
  | TSecretReloaded
  | TSecretEvent
  | TSecretLoad
  | TServer

fun perform :: "('w, 're) ConfigEnv \<Rightarrow> Turn \<Rightarrow> 're AdapterSystem \<Rightarrow> 're AdapterSystem option" where
  "perform env (TEditConfigMap cm) s =
     Some (s\<lparr>sy_Cluster := (sy_Cluster s)\<lparr>ac_ConfigMap := cm\<rparr>, sy_cmEvent := (cm \<noteq> None \<or> sy_cmEvent s)\<rparr>)"
| "perform env (TEditSecret name data) s =
     Some (s\<lparr>sy_Cluster := (sy_Cluster s)\<lparr>ac_Secrets := (ac_Secrets (sy_Cluster s))(name := data)\<rparr>,
       sy_secEvent := (sy_secWatch s = Some name \<and> data \<noteq> None \<or> sy_secEvent s)\<rparr>)"
| "perform env TConfigMapEvent s =
     (if sy_cmEvent s \<and> sy_cmLoad s = LIdle then Some (s\<lparr>sy_cmEvent := False, sy_cmLoad := LStart\<rparr>) else None)"
| "perform env TConfigMapLoad s =
     (if sy_cmLoad s = LIdle then None
      else Some (case load_step env (sy_Cluster s) (sy_cmLoad s, sy_Provider s) of
        (l, p) \<Rightarrow> s\<lparr>sy_cmLoad := l, sy_Provider := p\<rparr>))"
| "perform env TSecretWatch s =
     (if sy_secWatch s = None \<and> currentKafkaSecret (sy_Provider s) \<noteq> [] then
        Some (s\<lparr>sy_secWatch := Some (currentKafkaSecret (sy_Provider s)),
          sy_secEvent := (ac_Secrets (sy_Cluster s) (currentKafkaSecret (sy_Provider s)) \<noteq> None)\<rparr>)
      else None)"
| "perform env TSecretWait s =
     (if sy_secWatch s = None \<and> currentKafkaSecret (sy_Provider s) = [] \<and> pv_reloadSignal (sy_Provider s) then
        Some (s\<lparr>sy_Provider := take_reload (sy_Provider s)\<rparr>)
      else None)"
| "perform env TSecretReloaded s =
     (case sy_secWatch s of
        Some name \<Rightarrow>
          if sy_secLoad s = LIdle \<and> pv_reloadSignal (sy_Provider s) then
            Some (s\<lparr>sy_Provider := take_reload (sy_Provider s),
              sy_secWatch := (if currentKafkaSecret (sy_Provider s) \<noteq> name then None else Some name)\<rparr>)
          else None
      | None \<Rightarrow> None)"
| "perform env TSecretEvent s =
     (if sy_secWatch s \<noteq> None \<and> sy_secLoad s = LIdle \<and> sy_secEvent s then Some (s\<lparr>sy_secEvent := False, sy_secLoad := LStart\<rparr>)
      else None)"
| "perform env TSecretLoad s =
     (if sy_secLoad s = LIdle then None
      else Some (case load_step env (sy_Cluster s) (sy_secLoad s, sy_Provider s) of
        (l, p) \<Rightarrow> s\<lparr>sy_secLoad := l, sy_Provider := p\<rparr>))"
| "perform env TServer s =
     (case sy_Server s of
        SLoop \<Rightarrow> Some (s\<lparr>sy_Server := SSettings (cfg_Notifications (GetConfig (sy_Provider s)))\<rparr>)
      | SSettings st \<Rightarrow> Some (s\<lparr>sy_Server :=
          SRun \<lparr>snap_settings = st, snap_kafkaFingerprint = GetKafkaFingerprint (sy_Provider s)\<rparr>\<rparr>)
      | SRun snap \<Rightarrow>
          if pv_subscribers (sy_Provider s) ! sy_ch s
          then Some (s\<lparr>sy_Server := SSignalled snap, sy_Provider := take_signal (sy_ch s) (sy_Provider s)\<rparr>) else None
      | SSignalled snap \<Rightarrow> Some (s\<lparr>sy_Server := SNewSettings snap (cfg_Notifications (GetConfig (sy_Provider s)))\<rparr>)
      | SNewSettings snap st \<Rightarrow> Some (s\<lparr>sy_Server :=
          (if supervise_round snap (Changed \<lparr>snap_settings = st, snap_kafkaFingerprint = GetKafkaFingerprint (sy_Provider s)\<rparr>) = Continue
           then SRun snap else SLoop)\<rparr>)
      | SStopped \<Rightarrow> None)"

lemma perform_step: "perform env turn s = Some s' \<Longrightarrow> step env s s'"
proof (cases turn)
  case (TEditConfigMap cm)
  then show "perform env turn s = Some s' \<Longrightarrow> step env s s'" using step.EditConfigMap [of env s cm] by auto
next
  case (TEditSecret name data)
  then show "perform env turn s = Some s' \<Longrightarrow> step env s s'" using step.EditSecret [of env s name data] by auto
next
  case TSecretWatch
  then show "perform env turn s = Some s' \<Longrightarrow> step env s s'"
    using step.SecretWatch [of s _ env] by (auto split: if_splits)
next
  case TSecretReloaded
  then show "perform env turn s = Some s' \<Longrightarrow> step env s s'"
    using step.SecretReloaded [of s _ env] by (fastforce split: option.splits if_splits)
next
  case TServer
  then show "perform env turn s = Some s' \<Longrightarrow> step env s s'"
    using step.ServerDecide [of s _ _ _ env, OF _ refl]
    by (auto intro: step.intros split: ServerPhase.splits if_splits; fastforce)
qed (auto intro: step.intros split: if_splits prod.splits)

fun performs :: "('w, 're) ConfigEnv \<Rightarrow> Turn list \<Rightarrow> 're AdapterSystem \<Rightarrow> 're AdapterSystem option" where
  "performs env [] s = Some s"
| "performs env (turn # turns) s = (case perform env turn s of None \<Rightarrow> None | Some s' \<Rightarrow> performs env turns s')"

lemma performs_steps: "performs env turns s = Some s' \<Longrightarrow> steps env s s'"
  by (induction turns arbitrary: s)
    (auto split: option.splits intro: converse_rtranclp_into_rtranclp perform_step)

definition sample_system :: "string AdapterSystem" where
  "sample_system = start_system (sample_provider ''a'') (sample_adapter_cluster ''a'')"

lemma sample_system_simps [simp]:
  "sy_Cluster sample_system = sample_adapter_cluster ''a''"
  by (simp add: sample_system_def start_system_def)

text \<open>Nobody has anything left to do: no event, no signal, no load, the right watch, the server running.\<close>

definition quiet :: "'re AdapterSystem \<Rightarrow> bool" where
  "quiet s \<longleftrightarrow> \<not> sy_cmEvent s \<and> sy_cmLoad s = LIdle \<and> \<not> sy_secEvent s \<and> sy_secLoad s = LIdle
     \<and> sy_secWatch s = Some (currentKafkaSecret (sy_Provider s)) \<and> \<not> pv_reloadSignal (sy_Provider s)
     \<and> \<not> pv_subscribers (sy_Provider s) ! sy_ch s \<and> (\<exists>snap. sy_Server s = SRun snap)"

text \<open>
  The schedule of a race: the watcher of the secret has read the old ConfigMap when the new one is stored;
  the watcher of the ConfigMap loads the new one, and then the other one finishes its load.
\<close>

definition race :: "Turn list" where
  "race = [TSecretWatch, TSecretEvent, TSecretLoad, TSecretLoad,
     TEditConfigMap (Some (broker_cm ''k'' ''b'')),
     TConfigMapEvent, TConfigMapLoad, TConfigMapLoad, TConfigMapLoad, TConfigMapLoad, TConfigMapLoad, TConfigMapLoad,
     TSecretLoad, TSecretLoad, TSecretLoad, TSecretLoad, TSecretReloaded,
     TServer, TServer, TServer, TServer, TServer]"

lemma set_cluster [simp]: "sample_adapter_cluster x\<lparr>ac_ConfigMap := Some (broker_cm ''k'' y)\<rparr> = sample_adapter_cluster y"
  by (simp add: sample_adapter_cluster_def)

lemma secrets_sample [simp]: "ac_Secrets (sample_adapter_cluster x) = [''k'' \<mapsto> plain_secret]"
  "ac_ConfigMap (sample_adapter_cluster x) = Some (broker_cm ''k'' x)"
  by (simp_all add: sample_adapter_cluster_def)

lemma race_outcome:
  "\<exists>s. performs sample_adapter race sample_system = Some s \<and> quiet s
     \<and> ac_ConfigMap (sy_Cluster s) = Some (broker_cm ''k'' ''b'')
     \<and> pv_config (sy_Provider s) = adapter_config defaultNoobaaAdapterID [''a'']
     \<and> pv_defaults (sy_Provider s) = no_defaults"
  by (simp add: race_def sample_system_def start_system_def Subscribe_def currentKafkaSecret_def sample_provider_def
      parse_broker_cm GetConfig_def GetKafkaFingerprint_def store_config_def store_kafka_def notifySubscribers_def
      signalReload_def take_reload_def take_signal_def supervise_round_def quiet_def)

section \<open>Properties\<close>

text \<open>
  C8: no configuration change is lost on the notification server. However the loads of the two watchers,
  the edits of the cluster and the server interleave: when the server is running, no signal waits for it
  and no load is on its way to send one, then the settings it runs with need no restart for the
  configuration that the provider has.
\<close>

theorem server_catches_up:
  assumes "run_state (NewProvider env z zk ns n d) w = (Inr p, w')"
    and "steps env (start_system p cl) s"
    and "sy_Server s = SRun snap" and "\<not> pv_subscribers (sy_Provider s) ! sy_ch s" and "\<not> loading to_notify s"
  shows "\<not> needsRestart snap (snapshot provider (sy_Provider s))"
  using steps_inv [OF assms(2) start_inv [OF assms(1)]] assms(3-5)
  by (simp add: system_inv_def server_inv_def told_def)

theorem server_catches_up_witness:
  "\<exists>s snap. performs sample_adapter [TServer, TServer] sample_system = Some s \<and> sy_Server s = SRun snap
     \<and> \<not> needsRestart snap (snapshot provider (sy_Provider s))"
proof -
  have "\<exists>s snap. performs sample_adapter [TServer, TServer] sample_system = Some s \<and> sy_Server s = SRun snap
      \<and> \<not> pv_subscribers (sy_Provider s) ! sy_ch s \<and> \<not> loading to_notify s"
    by (simp add: sample_system_def start_system_def Subscribe_def loading_def sample_provider_def)
  then obtain s snap where r: "performs sample_adapter [TServer, TServer] sample_system = Some s"
    and s: "sy_Server s = SRun snap" "\<not> pv_subscribers (sy_Provider s) ! sy_ch s" "\<not> loading to_notify s" by blast
  from server_catches_up [OF sample_NewProvider performs_steps [OF r, unfolded sample_system_def] s] r s(1)
  show ?thesis by blast
qed

text \<open>
  C9: at every moment the configuration that the provider hands out passed validation, so that with Kafka
  the brokers, the topics and the group are given; its Kafka configuration and its fingerprint come from
  one and the same secret; and when the watcher of the secret has no signal to take and no load is about
  to send it one, it watches the secret that the configuration in force names.
\<close>

theorem adapter_configuration_invariant:
  assumes "run_state (NewProvider env z zk ns n d) w = (Inr p, w')"
    and "steps env (start_system p cl) s"
  shows "valid_settings (cfg_Notifications (GetConfig (sy_Provider s)))
    \<and> (\<exists>data. NewConfig (ce_Crypto env) data = Inr (GetKafkaConfig (sy_Provider s))
         \<and> GetKafkaFingerprint (sy_Provider s) = kafkaFingerprint (currentKafkaSecret (sy_Provider s)) data)
    \<and> (\<forall>name. sy_secWatch s = Some name \<and> \<not> pv_reloadSignal (sy_Provider s) \<and> \<not> loading to_signal s
         \<longrightarrow> name = currentKafkaSecret (sy_Provider s))"
  using steps_inv [OF assms(2) start_inv [OF assms(1)]]
  by (auto simp: system_inv_def good_provider_def kafka_from_def watch_inv_def GetConfig_def GetKafkaConfig_def
      GetKafkaFingerprint_def currentKafkaSecret_def)

theorem adapter_configuration_invariant_witness:
  "\<exists>s. performs sample_adapter race sample_system = Some s \<and> valid_settings (cfg_Notifications (GetConfig (sy_Provider s)))"
proof -
  obtain s where r: "performs sample_adapter race sample_system = Some s" using race_outcome by blast
  from adapter_configuration_invariant [OF sample_NewProvider performs_steps [OF r, unfolded sample_system_def]] r
  show ?thesis by blast
qed


text \<open>
  A ConfigMap that names a secret which does not exist yet is never loaded: the secret that appears later
  is not watched.
\<close>

definition late_secret :: "Turn list" where
  "late_secret = [TSecretWatch, TSecretEvent, TSecretLoad, TSecretLoad, TSecretLoad, TSecretLoad, TSecretLoad, TSecretLoad,
     TEditConfigMap (Some (broker_cm ''new'' ''b'')), TConfigMapEvent, TConfigMapLoad, TConfigMapLoad,
     TEditSecret ''new'' (Some plain_secret), TSecretReloaded,
     TServer, TServer, TServer, TServer, TServer]"

lemma late_cluster [simp]:
  "get_config_map (sample_adapter_cluster x\<lparr>ac_ConfigMap := Some cm\<rparr>) = Inr cm"
  "kafka_of env (sample_adapter_cluster x\<lparr>ac_ConfigMap := Some cm\<rparr>) ''new'' = None"
  by (simp_all add: get_config_map_def kafka_of_def get_secret_def)

lemma late_secret_missed:
  "\<exists>s. performs sample_adapter late_secret sample_system = Some s \<and> quiet s
     \<and> ac_ConfigMap (sy_Cluster s) = Some (broker_cm ''new'' ''b'') \<and> ac_Secrets (sy_Cluster s) ''new'' = Some plain_secret
     \<and> currentKafkaSecret (sy_Provider s) = ''k''
     \<and> pv_config (sy_Provider s) = adapter_config defaultNoobaaAdapterID [''a'']"
  by (simp add: late_secret_def sample_system_def start_system_def Subscribe_def currentKafkaSecret_def sample_provider_def
      parse_broker_cm GetConfig_def GetKafkaFingerprint_def store_config_def store_kafka_def notifySubscribers_def
      signalReload_def take_reload_def take_signal_def supervise_round_def quiet_def)

end
