(* ===== verification/AdapterProperties.thy ===== *)
theory AdapterProperties
  imports ReloadMachine
begin

text \<open>
  What the settings of the notifications adapter mean: lists that are given as text, the default ConfigMap,
  and the fingerprint by which the server notices that the Kafka secret has changed.
\<close>

section \<open>The list settings\<close>

text \<open>An entry of a comma-separated list: trimmed, not empty, without a comma.\<close>

definition list_entry :: "string \<Rightarrow> bool" where
  "list_entry w \<longleftrightarrow> w \<noteq> [] \<and> trimmed w \<and> CHR '','' \<notin> set w"

lemma splitAndTrim_entries: "w \<in> set (splitAndTrim s) \<Longrightarrow> list_entry w"
  using set_TrimSpace Split_parts_no_sep
  by (fastforce simp: splitAndTrim_def list_entry_def trimmed_TrimSpace)

lemma splitAndTrim_Join:
  assumes "ws \<noteq> []" and "\<forall>w \<in> set ws. list_entry w"
  shows "splitAndTrim (Join ws '','') = ws"
proof -
  have "Split (Join ws '','') (CHR '','') = ws"
    using assms by (intro Split_Join) (auto simp: list_entry_def)
  moreover have "map TrimSpace ws = ws"
    using assms(2) by (intro map_idI) (auto simp: list_entry_def TrimSpace_id)
  moreover have "filter (\<lambda>w. w \<noteq> []) ws = ws"
    using assms(2) by (intro filter_True) (auto simp: list_entry_def)
  ultimately show ?thesis by (simp add: splitAndTrim_def)
qed

lemma TrimSpace_Nil_iff: "TrimSpace s = [] \<longleftrightarrow> (\<forall>x \<in> set s. is_space x)"
proof
  assume "TrimSpace s = []"
  then have "\<forall>x \<in> set (dropWhile is_space s). is_space x"
    by (auto simp: TrimSpace_def dropWhile_eq_Nil_conv)
  moreover have "set s = set (takeWhile is_space s) \<union> set (dropWhile is_space s)"
    by (metis set_append takeWhile_dropWhile_id)
  ultimately show "\<forall>x \<in> set s. is_space x" by (auto dest: set_takeWhileD)
next
  assume "\<forall>x \<in> set s. is_space x"
  then show "TrimSpace s = []" by (auto simp: TrimSpace_def dest: set_dropWhileD)
qed

lemma set_Join: "w \<in> set ws \<Longrightarrow> set w \<subseteq> set (Join ws sep)"
  by (induction ws sep rule: Join.induct) auto

lemma list_setting_Join:
  assumes "ws \<noteq> []" and "\<forall>w \<in> set ws. list_entry w" and "map_of data key = Some (Join ws '','')"
  shows "list_setting data key d = ws"
proof -
  obtain w where w: "w \<in> set ws" "list_entry w" using assms(1,2) by (cases ws) auto
  then have "\<not> is_space (hd w)" "hd w \<in> set w" by (auto simp: list_entry_def trimmed_def)
  with w(1) have "TrimSpace (Join ws '','') \<noteq> []" using set_Join by (fastforce simp: TrimSpace_Nil_iff)
  then show ?thesis using assms by (simp add: list_setting_def splitAndTrim_Join)
qed

lemma list_setting_entries:
  "\<forall>w \<in> set d. list_entry w \<Longrightarrow> w \<in> set (list_setting data key d) \<Longrightarrow> list_entry w"
  by (auto simp: list_setting_def dest: splitAndTrim_entries split: option.splits if_splits)

text \<open>
  The default ConfigMap that is written for the flags of the command line reads back as the same
  settings and the default adapters, whatever the flags are, as long as they are settings that the
  adapter can run with and the entries of their lists can be told apart.
\<close>

theorem default_settings_roundtrip:
  assumes "\<And>w. w \<in> set (ns_KafkaBrokers d) \<union> set (ns_KafkaNotificationsTopics d) \<Longrightarrow> list_entry w"
    and "valid_settings (d\<lparr>ns_Mode := if ns_Mode d = [] then ''http'' else ns_Mode d\<rparr>)"
    and "compile defaultNoobaaStorageClassRE = Inr noobaaRe" and "compile defaultRadosgwStorageClassRE = Inr radosgwRe"
  shows "parseConfig compile (default_adapter_config_map ns name d) d = Inr
    \<lparr>cfg_NoobaaAdapter = \<lparr>ab_ID = defaultNoobaaAdapterID, ab_TopicARN = defaultNoobaaTopicARN, ab_StorageClassPattern = noobaaRe\<rparr>,
     cfg_RadosgwAdapter = \<lparr>ab_ID = defaultRadosgwAdapterID, ab_TopicARN = defaultRadosgwTopicARN, ab_StorageClassPattern = radosgwRe\<rparr>,
     cfg_Notifications = d\<lparr>ns_Mode := if ns_Mode d = [] then ''http'' else ns_Mode d\<rparr>\<rparr>"
proof -
  let ?data = "defaultConfigMapData d"
  have brokers: "list_setting ?data ''KAFKA_BROKERS'' (ns_KafkaBrokers d) = ns_KafkaBrokers d"
    by (cases "ns_KafkaBrokers d = []")
      (simp add: list_setting_def defaultConfigMapData_def,
       rule list_setting_Join, use assms(1) in \<open>auto simp: defaultConfigMapData_def\<close>)
  have topics: "list_setting ?data ''KAFKA_NOTIFICATIONS_TOPICS'' (ns_KafkaNotificationsTopics d) = ns_KafkaNotificationsTopics d"
    by (cases "ns_KafkaNotificationsTopics d = []")
      (simp add: list_setting_def defaultConfigMapData_def,
       rule list_setting_Join, use assms(1) in \<open>auto simp: defaultConfigMapData_def\<close>)
  have "getOrDefault ?data ''NOTIFICATIONS_MODE'' (ns_Mode d) = (if ns_Mode d = [] then ''http'' else ns_Mode d)"
    "getOrDefault ?data ''KAFKA_NOTIFICATIONS_GROUP_ID'' (ns_KafkaNotificationsGroupID d) = ns_KafkaNotificationsGroupID d"
    by (simp_all add: getOrDefault_def defaultConfigMapData_def)
  then have "parseNotificationSettings ?data d = Inr (d\<lparr>ns_Mode := if ns_Mode d = [] then ''http'' else ns_Mode d\<rparr>)"
    using assms(2) by (auto simp: parseNotificationSettings_def brokers topics valid_settings_def Let_def split: if_splits)
  moreover have "getOrDefault ?data ''NOOBAA_ADAPTER_ID'' x = defaultNoobaaAdapterID"
    "getOrDefault ?data ''NOOBAA_ADAPTER_TOPIC_ARN'' x = defaultNoobaaTopicARN"
    "getOrDefault ?data ''NOOBAA_ADAPTER_STORAGECLASS_PATTERN'' x = defaultNoobaaStorageClassRE"
    "getOrDefault ?data ''RADOSGW_ADAPTER_ID'' x = defaultRadosgwAdapterID"
    "getOrDefault ?data ''RADOSGW_ADAPTER_TOPIC_ARN'' x = defaultRadosgwTopicARN"
    "getOrDefault ?data ''RADOSGW_ADAPTER_STORAGECLASS_PATTERN'' x = defaultRadosgwStorageClassRE" for x
    by (simp_all add: getOrDefault_def defaultConfigMapData_def)
      (simp_all add: defaultNoobaaAdapterID_def defaultNoobaaTopicARN_def defaultRadosgwAdapterID_def
        defaultRadosgwTopicARN_def defaultNoobaaStorageClassRE_def defaultRadosgwStorageClassRE_def)
  ultimately show ?thesis
    using assms(3,4) by (simp add: parseConfig_def default_adapter_config_map_def Let_def)
qed

definition sample_flags :: NotificationSettings where
  "sample_flags = \<lparr>ns_Mode = ''kafka'', ns_KafkaBrokers = [''b1:9092'', ''b2:9092''], ns_KafkaNotificationsTopics = [''n''],
     ns_KafkaNotificationsGroupID = ''g''\<rparr>"

theorem default_settings_roundtrip_witness:
  "\<exists>c. parseConfig Inr (default_adapter_config_map ''ns'' ''cfg'' sample_flags) sample_flags = Inr c
     \<and> cfg_Notifications c = sample_flags"
proof -
  have "list_entry w" if "w \<in> set (ns_KafkaBrokers sample_flags) \<union> set (ns_KafkaNotificationsTopics sample_flags)" for w
    using that by (auto simp: sample_flags_def list_entry_def trimmed_def is_space_def)
  from default_settings_roundtrip [where d = sample_flags and compile = Inr, OF this] show ?thesis
    by (simp add: sample_flags_def valid_settings_def)
qed

section \<open>The fingerprint\<close>

lemma set_insert_string: "set (insert_string k ks) = insert k (set ks)"
  by (induction ks) auto

lemma sort_Strings_simps [simp]: "sort_Strings [] = []" "sort_Strings (k # ks) = insert_string k (sort_Strings ks)"
  by (simp_all add: sort_Strings_def)

lemma set_sort_Strings [simp]: "set (sort_Strings ks) = set ks"
  by (induction ks) (auto simp: set_insert_string)

text \<open>The order in which a Go map is ranged over does not matter.\<close>

lemma string_le_total: "string_le s t \<or> string_le t s"
  by (induction s t rule: string_le.induct) auto

lemma string_le_antisym: "string_le s t \<Longrightarrow> string_le t s \<Longrightarrow> s = t"
proof (induction s t rule: string_le.induct)
  case (1 t)
  then show ?case by (cases t) auto
qed auto

lemma string_le_trans: "string_le s t \<Longrightarrow> string_le t u \<Longrightarrow> string_le s u"
proof (induction s t arbitrary: u rule: string_le.induct)
  case (3 c s d t)
  then show ?case by (cases u) auto
qed auto

lemma sorted_insert_string: "sorted_wrt string_le ks \<Longrightarrow> sorted_wrt string_le (insert_string k ks)"
proof (induction ks)
  case (Cons j js)
  show ?case
  proof (cases "string_le k j")
    case True
    then show ?thesis using Cons.prems string_le_trans [OF True] by auto
  next
    case False
    then have "string_le j k" using string_le_total by blast
    with False Cons show ?thesis by (simp add: set_insert_string)
  qed
qed simp

lemma sorted_sort_Strings: "sorted_wrt string_le (sort_Strings ks)"
  by (induction ks) (auto simp: sorted_insert_string)

lemma distinct_insert_string: "distinct ks \<Longrightarrow> k \<notin> set ks \<Longrightarrow> distinct (insert_string k ks)"
  by (induction ks) (auto simp: set_insert_string)

lemma distinct_sort_Strings: "distinct ks \<Longrightarrow> distinct (sort_Strings ks)"
  by (induction ks) (auto simp: distinct_insert_string)

lemma sorted_unique:
  "sorted_wrt string_le xs \<Longrightarrow> sorted_wrt string_le ys \<Longrightarrow> distinct xs \<Longrightarrow> distinct ys \<Longrightarrow> set xs = set ys \<Longrightarrow> xs = ys"
proof (induction xs arbitrary: ys)
  case (Cons x xs)
  then obtain y ys' where ys: "ys = y # ys'" by (cases ys) auto
  have "x = y" using Cons.prems ys string_le_antisym by (metis insert_iff list.simps(15) sorted_wrt.simps(2))
  moreover have "set xs = set ys'" using Cons.prems ys \<open>x = y\<close> by auto
  ultimately show ?case using Cons ys by simp
qed simp

text \<open>Strings without a zero byte can be told apart when each is closed by one.\<close>

definition nul_free :: "string \<Rightarrow> bool" where
  "nul_free w \<longleftrightarrow> nul \<notin> set w"

lemma nul_free_prefix: "nul_free v \<Longrightarrow> nul_free w \<Longrightarrow> v @ nul # s = w @ nul # t \<Longrightarrow> v = w \<and> s = t"
proof (induction v arbitrary: w)
  case Nil
  then show ?case by (cases w) (auto simp: nul_free_def)
next
  case (Cons c v)
  then show ?case by (cases w) (auto simp: nul_free_def)
qed

lemma nul_free_concat:
  "\<forall>w \<in> set vs \<union> set ws. nul_free w \<Longrightarrow> concat (map (\<lambda>w. w @ [nul]) vs) = concat (map (\<lambda>w. w @ [nul]) ws) \<Longrightarrow> vs = ws"
proof (induction vs arbitrary: ws)
  case Nil
  then show ?case by (cases ws) auto
next
  case (Cons v vs)
  then obtain w ws' where ws: "ws = w # ws'" by (cases ws) auto
  then have "v = w \<and> concat (map (\<lambda>w. w @ [nul]) vs) = concat (map (\<lambda>w. w @ [nul]) ws')"
    using Cons.prems by (intro nul_free_prefix) auto
  then show ?case using Cons ws by auto
qed

definition fingerprint_words :: "string \<Rightarrow> string gomap \<Rightarrow> string list" where
  "fingerprint_words name data = name # concat (map (\<lambda>k. [k, lookup data k]) (sort_Strings (keys data)))"

lemma fingerprint_text_words: "fingerprint_text name data = concat (map (\<lambda>w. w @ [nul]) (fingerprint_words name data))"
proof -
  have "concat (map (\<lambda>k. k @ nul # lookup data k @ [nul]) ks) = concat (map (\<lambda>w. w @ [nul]) (concat (map (\<lambda>k. [k, lookup data k]) ks)))" for ks
    by (induction ks) auto
  then show ?thesis by (simp add: fingerprint_text_def fingerprint_words_def)
qed

lemma lookup_gomap: "is_gomap data \<Longrightarrow> (k, v) \<in> set data \<Longrightarrow> lookup data k = v"
  by (simp add: is_gomap_def lookup_def)

lemma map_of_keys: "k \<in> set (keys data) \<Longrightarrow> map_of data k = Some (lookup data k)"
  by (cases "map_of data k") (auto simp: lookup_def map_of_eq_None_iff)

lemma words_pairs: "concat (map (\<lambda>k. [k, f k]) ks) = concat (map (\<lambda>k. [k, g k]) js) \<Longrightarrow> ks = js \<and> (\<forall>k \<in> set ks. f k = g k)"
proof (induction ks arbitrary: js)
  case Nil
  then show ?case by (cases js) auto
next
  case (Cons k ks)
  then show ?case by (cases js) auto
qed

lemma map_of_eq_keys: "map_of d = map_of e \<longleftrightarrow> set (keys d) = set (keys e) \<and> (\<forall>k \<in> set (keys d). lookup d k = lookup e k)"
proof
  assume "map_of d = map_of e"
  then show "set (keys d) = set (keys e) \<and> (\<forall>k \<in> set (keys d). lookup d k = lookup e k)"
    by (metis dom_map_of_conv_image_fst list.set_map lookup_def)
next
  assume a: "set (keys d) = set (keys e) \<and> (\<forall>k \<in> set (keys d). lookup d k = lookup e k)"
  show "map_of d = map_of e"
  proof
    fix k show "map_of d k = map_of e k"
    proof (cases "k \<in> set (keys d)")
      case True
      then have "k \<in> set (keys e)" and "lookup d k = lookup e k" using a by blast+
      then show ?thesis using map_of_keys [OF True] map_of_keys by metis
    next
      case False
      then have "k \<notin> set (keys e)" using a by blast
      with False show ?thesis using map_of_eq_None_iff by (metis set_map)
    qed
  qed
qed

definition plain_secret_data :: "string \<Rightarrow> string gomap \<Rightarrow> bool" where
  "plain_secret_data name data \<longleftrightarrow> is_gomap data \<and> nul_free name \<and> (\<forall>(k, v) \<in> set data. nul_free k \<and> nul_free v)"

lemma plain_words: "plain_secret_data name data \<Longrightarrow> \<forall>w \<in> set (fingerprint_words name data). nul_free w"
  using lookup_gomap by (fastforce simp: plain_secret_data_def fingerprint_words_def)

text \<open>
  C36: what is hashed for the fingerprint is the same for two secrets exactly when they have the same name
  and the same contents, in whatever order their data is ranged over, provided that no name, key or value
  has a zero byte.
\<close>

theorem fingerprint_distinguishes:
  assumes "plain_secret_data n d" and "plain_secret_data m e"
  shows "fingerprint_text n d = fingerprint_text m e \<longleftrightarrow> n = m \<and> map_of d = map_of e"
proof
  assume "fingerprint_text n d = fingerprint_text m e"
  then have "fingerprint_words n d = fingerprint_words m e"
    using plain_words [OF assms(1)] plain_words [OF assms(2)] by (intro nul_free_concat) (auto simp: fingerprint_text_words)
  then have "n = m" and w: "sort_Strings (keys d) = sort_Strings (keys e)"
    and "\<forall>k \<in> set (sort_Strings (keys d)). lookup d k = lookup e k"
    unfolding fingerprint_words_def list.inject by (blast dest: words_pairs)+
  moreover have "set (keys d) = set (keys e)" using w by (metis set_sort_Strings)
  ultimately show "n = m \<and> map_of d = map_of e"
    by (simp only: map_of_eq_keys set_sort_Strings simp_thms)
next
  assume e: "n = m \<and> map_of d = map_of e"
  then have k: "set (keys d) = set (keys e)"
    by (simp only: map_of_eq_keys simp_thms)
  have "sort_Strings (keys d) = sort_Strings (keys e)"
    using assms k by (intro sorted_unique sorted_sort_Strings distinct_sort_Strings)
      (auto simp: plain_secret_data_def is_gomap_def)
  moreover have "lookup d = lookup e" using e by (auto simp: lookup_def)
  ultimately show "fingerprint_text n d = fingerprint_text m e" using e by (simp add: fingerprint_text_def)
qed

theorem fingerprint_distinguishes_witness:
  "fingerprint_text ''k'' [(''user'', ''u''), (''password'', ''p'')] = fingerprint_text ''k'' [(''password'', ''p''), (''user'', ''u'')]
   \<and> fingerprint_text ''k'' [(''user'', ''u''), (''password'', ''p'')] \<noteq> fingerprint_text ''k'' [(''password'', ''q''), (''user'', ''u'')]"
proof -
  have p: "plain_secret_data ''k'' [(''user'', ''u''), (''password'', ''p'')]" "plain_secret_data ''k'' [(''password'', ''p''), (''user'', ''u'')]"
    "plain_secret_data ''k'' [(''password'', ''q''), (''user'', ''u'')]"
    by (simp_all add: plain_secret_data_def is_gomap_def nul_free_def nul_def)
  have "map_of [(''user'', ''u''), (''password'', ''p'')] = map_of [(''password'', ''p''), (''user'', ''u'')]"
    by (simp add: fun_upd_twist)
  moreover have "map_of [(''user'', ''u''), (''password'', ''p'')] \<noteq> map_of [(''password'', ''q''), (''user'', ''u'')]"
    by (auto dest: fun_cong [of _ _ "''password''"])
  ultimately show ?thesis
    using fingerprint_distinguishes [OF p(1,2)] fingerprint_distinguishes [OF p(1,3)] by blast
qed

text \<open>
  Without that proviso the fingerprint misses a change, whatever the hash function: a value may hold the
  separators of further entries.
\<close>

lemma fingerprint_collision:
  "kafkaFingerprint ''k'' [(''a'', ''x'' @ [nul] @ ''b'' @ [nul] @ ''y'')]
     = kafkaFingerprint ''k'' [(''a'', ''x''), (''b'', ''y'')]"
proof -
  have "fingerprint_text ''k'' [(''a'', ''x'' @ [nul] @ ''b'' @ [nul] @ ''y'')] = fingerprint_text ''k'' [(''a'', ''x''), (''b'', ''y'')]"
    by code_simp
  then show ?thesis by (simp add: kafkaFingerprint_def)
qed

end
