(* ===== verification/Settling.thy ===== *)
theory Settling
  imports ReloadMachine
begin

text \<open>
  What becomes of the machine of \<open>ReloadMachine\<close> when it is left alone: the goroutines of the adapter come
  to rest after a bounded number of turns, whichever of them goes first, and a change of the configuration
  has then been taken up, by the server too, unless a load was under way when it was made.
\<close>

section \<open>A measure\<close>

text \<open>The turns of the goroutines: all but the edits of the cluster.\<close>

fun internal :: "Turn \<Rightarrow> bool" where
  "internal (TEditConfigMap cm) = False"
| "internal (TEditSecret name data) = False"
| "internal turn = True"

text \<open>The secret that the ConfigMap of the cluster names, and whether a load is about to store another one.\<close>

definition named_secret :: "AdapterCluster \<Rightarrow> string" where
  "named_secret cl = (case ac_ConfigMap cl of None \<Rightarrow> [] | Some cm \<Rightarrow> lookup (cm_Data cm) ''KAFKA_SECRET'')"

fun stale_name :: "string \<Rightarrow> 're LoadPhase \<Rightarrow> nat" where
  "stale_name n (LParsed cfg name) = of_bool (name \<noteq> n)"
| "stale_name n (LLoaded ld) = of_bool (ld_kafkaSecret ld \<noteq> n)"
| "stale_name n (LStoredConfig ld) = of_bool (ld_kafkaSecret ld \<noteq> n)"
| "stale_name n l = 0"

text \<open>What is left of a load, with the two signals that it still sends.\<close>

fun load_left :: "'re LoadPhase \<Rightarrow> nat" where
  "load_left LIdle = 0"
| "load_left LNotified = 2"
| "load_left LStoredKafka = 8"
| "load_left (LStoredConfig ld) = 9"
| "load_left (LLoaded ld) = 10"
| "load_left (LParsed cfg name) = 11"
| "load_left LStart = 12"

fun server_left :: "ServerPhase \<Rightarrow> nat" where
  "server_left (SRun snap) = 0"
| "server_left (SSettings st) = 1"
| "server_left SLoop = 2"
| "server_left (SNewSettings snap st) = 3"
| "server_left (SSignalled snap) = 4"
| "server_left SStopped = 0"

text \<open>The watch of the secret may still have to move, after which it delivers an event.\<close>

definition watch_weight :: "string option \<Rightarrow> string \<Rightarrow> nat" where
  "watch_weight w current = (case w of None \<Rightarrow> 14 | Some name \<Rightarrow> if name = current then 0 else 15)"

definition watch_left :: "'re AdapterSystem \<Rightarrow> nat" where
  "watch_left s = watch_weight (sy_secWatch s) (pv_kafkaSecret (sy_Provider s))"

definition names_left :: "'re AdapterSystem \<Rightarrow> nat" where
  "names_left s = (let n = named_secret (sy_Cluster s) in
     2 * (stale_name n (sy_cmLoad s) + stale_name n (sy_secLoad s)) + of_bool (pv_kafkaSecret (sy_Provider s) \<noteq> n))"

definition turns_left :: "'re AdapterSystem \<Rightarrow> nat" where
  "turns_left s = 16 * names_left s + watch_left s + load_left (sy_cmLoad s) + load_left (sy_secLoad s)
     + 13 * of_bool (sy_cmEvent s) + 13 * of_bool (sy_secEvent s)
     + 5 * of_bool (pv_subscribers (sy_Provider s) ! sy_ch s) + of_bool (pv_reloadSignal (sy_Provider s))
     + server_left (sy_Server s)"

lemma stale_name_le: "stale_name n l \<le> 1"
  by (cases l) auto

lemma load_left_le: "load_left l \<le> 12"
  by (cases l) auto

lemma server_left_le: "server_left l \<le> 4"
  by (cases l) auto

lemma watch_left_le: "watch_left s \<le> 15"
  by (simp add: watch_left_def watch_weight_def split: option.split)

lemma names_left_le: "names_left s \<le> 5"
  using stale_name_le [of "named_secret (sy_Cluster s)" "sy_cmLoad s"] stale_name_le [of "named_secret (sy_Cluster s)" "sy_secLoad s"]
  by (simp add: names_left_def Let_def of_bool_def)

lemma turns_left_bound: "turns_left s \<le> 155"
proof -
  have b: "of_bool b \<le> (1::nat)" for b by simp
  show ?thesis
    unfolding turns_left_def
    using names_left_le [of s] watch_left_le [of s] load_left_le [of "sy_cmLoad s"] load_left_le [of "sy_secLoad s"]
      server_left_le [of "sy_Server s"] b [of "sy_cmEvent s"] b [of "sy_secEvent s"]
      b [of "pv_subscribers (sy_Provider s) ! sy_ch s"] b [of "pv_reloadSignal (sy_Provider s)"]
    by linarith
qed

text \<open>A step of a load, with what it changes for the others.\<close>

definition load_weight :: "string \<Rightarrow> string option \<Rightarrow> nat \<Rightarrow> 're LoadPhase \<Rightarrow> 're Provider \<Rightarrow> nat" where
  "load_weight n w ch l p = 16 * (2 * stale_name n l + of_bool (pv_kafkaSecret p \<noteq> n))
     + watch_weight w (pv_kafkaSecret p) + load_left l
     + 5 * of_bool (pv_subscribers p ! ch) + of_bool (pv_reloadSignal p)"

lemma load_step_decreases:
  assumes "load_step env cl (l, p) = (l', p')" and "l \<noteq> LIdle" and "ch < length (pv_subscribers p)"
  shows "load_weight (named_secret cl) w ch l' p' < load_weight (named_secret cl) w ch l p"
proof (cases l)
  case LStart
  with assms show ?thesis
    by (auto simp: load_weight_def named_secret_def get_config_map_def split: option.splits sum.splits)
next
  case (LParsed cfg name)
  with assms(1) show ?thesis by (auto simp: load_weight_def split: option.splits)
next
  case (LStoredConfig ld)
  have "watch_weight w x \<le> 15" for x by (simp add: watch_weight_def split: option.split)
  from this [of "ld_kafkaSecret ld"] LStoredConfig assms(1) show ?thesis
    by (cases "ld_kafkaSecret ld = pv_kafkaSecret p") (auto simp: load_weight_def store_kafka_def of_bool_def)
next
  case LStoredKafka
  with assms(1,3) show ?thesis by (auto simp: load_weight_def notifySubscribers_def)
qed (use assms in \<open>auto simp: load_weight_def store_config_def signalReload_def\<close>)

lemma load_step_keeps:
  assumes "load_step env cl (l, p) = (l', p')"
  shows "length (pv_subscribers p') = length (pv_subscribers p)"
  using assms by (cases l) (auto simp: store_config_def store_kafka_def notifySubscribers_def signalReload_def
      split: option.splits sum.splits)

lemma turns_left_loads:
  "turns_left s = load_weight (named_secret (sy_Cluster s)) (sy_secWatch s) (sy_ch s) (sy_cmLoad s) (sy_Provider s)
     + 32 * stale_name (named_secret (sy_Cluster s)) (sy_secLoad s) + load_left (sy_secLoad s)
     + 13 * of_bool (sy_cmEvent s) + 13 * of_bool (sy_secEvent s) + server_left (sy_Server s)"
  "turns_left s = load_weight (named_secret (sy_Cluster s)) (sy_secWatch s) (sy_ch s) (sy_secLoad s) (sy_Provider s)
     + 32 * stale_name (named_secret (sy_Cluster s)) (sy_cmLoad s) + load_left (sy_cmLoad s)
     + 13 * of_bool (sy_cmEvent s) + 13 * of_bool (sy_secEvent s) + server_left (sy_Server s)"
  by (simp_all add: turns_left_def load_weight_def names_left_def watch_left_def Let_def)

lemma names_left_cong:
  assumes "sy_Cluster s' = sy_Cluster s" and "sy_cmLoad s' = sy_cmLoad s" and "sy_secLoad s' = sy_secLoad s"
    and "pv_kafkaSecret (sy_Provider s') = pv_kafkaSecret (sy_Provider s)"
  shows "names_left s' = names_left s"
  using assms by (simp add: names_left_def)

text \<open>The turns that leave the loads and the names alone.\<close>

lemma server_turn_decreases:
  assumes "perform env TServer s = Some s'" and "sy_ch s < length (pv_subscribers (sy_Provider s))"
  shows "turns_left s' < turns_left s"
proof -
  have n: "names_left s' = names_left s" "watch_left s' = watch_left s" "sy_cmLoad s' = sy_cmLoad s" "sy_secLoad s' = sy_secLoad s"
    "sy_cmEvent s' = sy_cmEvent s" "sy_secEvent s' = sy_secEvent s" "sy_ch s' = sy_ch s"
    "pv_reloadSignal (sy_Provider s') = pv_reloadSignal (sy_Provider s)"
    using assms(1) by (auto simp: take_signal_def watch_left_def intro!: names_left_cong split: ServerPhase.splits if_splits)
  have "5 * of_bool (pv_subscribers (sy_Provider s') ! sy_ch s) + server_left (sy_Server s')
      < 5 * of_bool (pv_subscribers (sy_Provider s) ! sy_ch s) + server_left (sy_Server s)"
    using assms by (auto simp: take_signal_def split: ServerPhase.splits if_splits)
  with n show ?thesis by (simp add: turns_left_def)
qed

lemma watch_turn_decreases:
  assumes "perform env turn s = Some s'" and "turn \<in> {TSecretWatch, TSecretWait, TSecretReloaded}"
  shows "turns_left s' < turns_left s"
proof -
  have n: "names_left s' = names_left s" "sy_cmLoad s' = sy_cmLoad s" "sy_secLoad s' = sy_secLoad s"
    "sy_cmEvent s' = sy_cmEvent s" "sy_ch s' = sy_ch s" "sy_Server s' = sy_Server s"
    "pv_subscribers (sy_Provider s') = pv_subscribers (sy_Provider s)"
    using assms by (auto simp: take_reload_def intro!: names_left_cong split: option.splits if_splits)
  have "watch_left s' + 13 * of_bool (sy_secEvent s') + of_bool (pv_reloadSignal (sy_Provider s'))
      < watch_left s + 13 * of_bool (sy_secEvent s) + of_bool (pv_reloadSignal (sy_Provider s))"
    using assms by (auto simp: take_reload_def watch_left_def watch_weight_def currentKafkaSecret_def of_bool_def
        split: option.splits if_splits)
  with n show ?thesis by (simp add: turns_left_def)
qed

lemma event_turn_decreases:
  assumes "perform env turn s = Some s'" and "turn \<in> {TConfigMapEvent, TSecretEvent}"
  shows "turns_left s' < turns_left s"
proof -
  have "turns_left (s\<lparr>sy_cmEvent := False, sy_cmLoad := LStart\<rparr>) < turns_left s" if "sy_cmEvent s" "sy_cmLoad s = LIdle"
    using that by (simp add: turns_left_def names_left_def watch_left_def)
  moreover have "turns_left (s\<lparr>sy_secEvent := False, sy_secLoad := LStart\<rparr>) < turns_left s" if "sy_secEvent s" "sy_secLoad s = LIdle"
    using that by (simp add: turns_left_def names_left_def watch_left_def)
  ultimately show ?thesis
    using assms by (auto split: if_splits)
qed

lemma perform_decreases:
  assumes "perform env turn s = Some s'" and "internal turn" and "sy_ch s < length (pv_subscribers (sy_Provider s))"
  shows "turns_left s' < turns_left s"
proof -
  consider "turn = TConfigMapLoad" | "turn = TSecretLoad" | "turn = TServer" | "turn \<in> {TSecretWatch, TSecretWait, TSecretReloaded}"
    | "turn \<in> {TConfigMapEvent, TSecretEvent}"
    using assms(2) by (cases turn) auto
  then show ?thesis
  proof cases
  case 1
  obtain l p where lp: "load_step env (sy_Cluster s) (sy_cmLoad s, sy_Provider s) = (l, p)" by (rule prod.exhaust)
  with 1 assms(1) have "s' = s\<lparr>sy_cmLoad := l, sy_Provider := p\<rparr>" "sy_cmLoad s \<noteq> LIdle"
    by (auto split: if_splits)
  then show ?thesis
    using load_step_decreases [OF lp _ assms(3), of "sy_secWatch s"] by (simp add: turns_left_loads(1))
next
  case 2
  obtain l p where lp: "load_step env (sy_Cluster s) (sy_secLoad s, sy_Provider s) = (l, p)" by (rule prod.exhaust)
  with 2 assms(1) have "s' = s\<lparr>sy_secLoad := l, sy_Provider := p\<rparr>" "sy_secLoad s \<noteq> LIdle"
    by (auto split: if_splits)
  then show ?thesis
    using load_step_decreases [OF lp _ assms(3), of "sy_secWatch s"] by (simp add: turns_left_loads(2))
next
  case 3
  with server_turn_decreases assms show ?thesis by blast
next
  case 4
  with watch_turn_decreases assms(1) show ?thesis by blast
next
  case 5
  with event_turn_decreases assms(1) show ?thesis by blast
qed
qed

lemma perform_keeps:
  assumes "perform env turn s = Some s'"
  shows "sy_ch s' = sy_ch s" and "length (pv_subscribers (sy_Provider s')) = length (pv_subscribers (sy_Provider s))"
proof -
  have "sy_ch s' = sy_ch s \<and> length (pv_subscribers (sy_Provider s')) = length (pv_subscribers (sy_Provider s))"
    using assms by (cases turn) (auto simp: take_reload_def take_signal_def dest: load_step_keeps
        split: option.splits if_splits prod.splits ServerPhase.splits)
  then show "sy_ch s' = sy_ch s" and "length (pv_subscribers (sy_Provider s')) = length (pv_subscribers (sy_Provider s))" by auto
qed


text \<open>A schedule of turns of the goroutines.\<close>

lemma performs_decrease:
  assumes "performs env turns s = Some s'" and "list_all internal turns" and "sy_ch s < length (pv_subscribers (sy_Provider s))"
  shows "length turns + turns_left s' \<le> turns_left s"
  using assms
proof (induction turns arbitrary: s)
  case (Cons turn turns)
  then obtain t where t: "perform env turn s = Some t" "performs env turns t = Some s'" by (auto split: option.splits)
  with Cons.prems perform_keeps [OF t(1)] have "length turns + turns_left s' \<le> turns_left t"
    by (intro Cons.IH) auto
  with perform_decreases [OF t(1)] Cons.prems show ?case by fastforce
qed simp

section \<open>At rest\<close>

text \<open>
  No event, no signal and no load is left for anybody, the watcher of the secret watches the secret of the
  configuration in force, unless there is none, and the server is running or has stopped.
\<close>

definition at_rest :: "'re AdapterSystem \<Rightarrow> bool" where
  "at_rest s \<longleftrightarrow> \<not> sy_cmEvent s \<and> sy_cmLoad s = LIdle \<and> sy_secLoad s = LIdle \<and> \<not> pv_reloadSignal (sy_Provider s)
     \<and> (case sy_secWatch s of
          None \<Rightarrow> currentKafkaSecret (sy_Provider s) = []
        | Some name \<Rightarrow> name = currentKafkaSecret (sy_Provider s) \<and> \<not> sy_secEvent s)
     \<and> (case sy_Server s of
          SRun snap \<Rightarrow> \<not> pv_subscribers (sy_Provider s) ! sy_ch s
        | SStopped \<Rightarrow> True
        | _ \<Rightarrow> False)"

lemma stuck_at_rest:
  assumes "system_inv env s" and stuck: "\<And>turn. internal turn \<Longrightarrow> perform env turn s = None"
  shows "at_rest s"
proof -
  have cm: "sy_cmLoad s = LIdle" "\<not> sy_cmEvent s"
    using stuck [of TConfigMapLoad] stuck [of TConfigMapEvent] by (auto split: if_splits)
  have sec: "sy_secLoad s = LIdle" using stuck [of TSecretLoad] by (auto split: if_splits)
  have server: "case sy_Server s of SRun snap \<Rightarrow> \<not> pv_subscribers (sy_Provider s) ! sy_ch s | SStopped \<Rightarrow> True | _ \<Rightarrow> False"
    using stuck [of TServer] by (auto split: ServerPhase.splits if_splits)
  have watch: "\<not> pv_reloadSignal (sy_Provider s) \<and> (case sy_secWatch s of
      None \<Rightarrow> currentKafkaSecret (sy_Provider s) = []
    | Some name \<Rightarrow> name = currentKafkaSecret (sy_Provider s) \<and> \<not> sy_secEvent s)"
  proof (cases "sy_secWatch s")
    case None
    then show ?thesis using stuck [of TSecretWatch] stuck [of TSecretWait] by (auto split: if_splits)
  next
    case (Some name)
    with sec have r: "\<not> pv_reloadSignal (sy_Provider s)" "\<not> sy_secEvent s"
      using stuck [of TSecretReloaded] stuck [of TSecretEvent] by (auto split: if_splits)
    with Some cm sec assms(1) show ?thesis
      by (auto simp: system_inv_def watch_inv_def loading_def currentKafkaSecret_def)
  qed
  from cm sec server watch show ?thesis by (simp add: at_rest_def)
qed

lemma settles:
  assumes "system_inv env s"
  shows "\<exists>turns s'. list_all internal turns \<and> performs env turns s = Some s' \<and> at_rest s'"
  using assms
proof (induction "turns_left s" arbitrary: s rule: less_induct)
  case less
  show ?case
  proof (cases "at_rest s")
    case True
    then have "list_all internal [] \<and> performs env [] s = Some s \<and> at_rest s" by simp
    then show ?thesis by blast
  next
    case False
    with stuck_at_rest [OF less.prems] obtain turn t where t: "internal turn" "perform env turn s = Some t"
      by (metis not_None_eq)
    from less.prems have "system_inv env t" by (rule step_inv [OF perform_step [OF t(2)]])
    moreover have "turns_left t < turns_left s"
      using perform_decreases [OF t(2,1)] less.prems by (simp add: system_inv_def)
    ultimately obtain turns s' where "list_all internal turns" "performs env turns t = Some s'" "at_rest s'"
      using less.hyps by blast
    with t have "list_all internal (turn # turns) \<and> performs env (turn # turns) s = Some s' \<and> at_rest s'" by simp
    then show ?thesis by blast
  qed
qed

lemma at_rest_server:
  assumes "system_inv env s" and "at_rest s" and "sy_Server s = SRun snap"
  shows "\<not> needsRestart snap (snapshot provider (sy_Provider s))"
  using assms by (simp add: system_inv_def at_rest_def server_inv_def told_def loading_def)

section \<open>A change is taken up\<close>

text \<open>
  What the cluster asks for: the ConfigMap has this configuration and names this secret, with this
  Kafka configuration and this data. It is also what a load that read it carries.
\<close>

definition wanted :: "('w, 're) ConfigEnv \<Rightarrow> AdapterCluster \<Rightarrow> NotificationSettings \<Rightarrow> 're Loaded option" where
  "wanted env cl d = (case get_config_map cl of
     Inl err \<Rightarrow> None
   | Inr cm \<Rightarrow> (case parseConfig (ce_Compile env) cm d of
       Inl err \<Rightarrow> None
     | Inr config \<Rightarrow> (let name = lookup (cm_Data cm) ''KAFKA_SECRET'' in
         (case kafka_of env cl name of
            None \<Rightarrow> None
          | Some (kcfg, data) \<Rightarrow> Some \<lparr>ld_config = config, ld_kafkaConfig = kcfg, ld_kafkaSecret = name,
              ld_kafkaFingerprint = kafkaFingerprint name data\<rparr>))))"

fun up_to_date :: "'re Loaded \<Rightarrow> 're LoadPhase \<Rightarrow> bool" where
  "up_to_date ld (LParsed config name) \<longleftrightarrow> config = ld_config ld \<and> name = ld_kafkaSecret ld"
| "up_to_date ld (LLoaded ld') \<longleftrightarrow> ld' = ld"
| "up_to_date ld (LStoredConfig ld') \<longleftrightarrow> ld' = ld"
| "up_to_date ld l \<longleftrightarrow> True"

text \<open>The load that stores the two parts is still to come.\<close>

fun before_config :: "'re LoadPhase \<Rightarrow> bool" where
  "before_config LStart = True" | "before_config (LParsed config name) = True" | "before_config (LLoaded ld) = True"
| "before_config l = False"

fun before_kafka :: "'re LoadPhase \<Rightarrow> bool" where
  "before_kafka (LStoredConfig ld) = True" | "before_kafka l = before_config l"

definition kafka_stored :: "'re Loaded \<Rightarrow> 're Provider \<Rightarrow> bool" where
  "kafka_stored ld p \<longleftrightarrow> pv_kafkaConfig p = ld_kafkaConfig ld \<and> pv_kafkaSecret p = ld_kafkaSecret ld
     \<and> pv_kafkaFingerprint p = ld_kafkaFingerprint ld"

definition on_its_way :: "'re Loaded \<Rightarrow> 're AdapterSystem \<Rightarrow> bool" where
  "on_its_way ld s \<longleftrightarrow> up_to_date ld (sy_cmLoad s) \<and> up_to_date ld (sy_secLoad s)
     \<and> (sy_cmEvent s \<or> before_config (sy_cmLoad s) \<or> pv_config (sy_Provider s) = ld_config ld)
     \<and> (sy_cmEvent s \<or> before_kafka (sy_cmLoad s) \<or> kafka_stored ld (sy_Provider s))"

lemma load_step_wanted:
  assumes "wanted env cl (pv_defaults p) = Some ld" and "load_step env cl (l, p) = (l', p')" and "up_to_date ld l"
  shows "up_to_date ld l'"
    and "pv_config p' = ld_config ld \<or> pv_config p' = pv_config p"
    and "before_config l \<Longrightarrow> before_config l' \<or> pv_config p' = ld_config ld"
    and "kafka_stored ld p \<or> before_kafka l \<Longrightarrow> before_kafka l' \<or> kafka_stored ld p'"
    and "kafka_stored ld p \<Longrightarrow> kafka_stored ld p'"
    and "pv_defaults p' = pv_defaults p"
  using assms
  by (cases l; auto simp: wanted_def Let_def kafka_stored_def store_config_def store_kafka_def notifySubscribers_def signalReload_def
      split: sum.splits option.splits prod.splits; fail)+

definition wants :: "('w, 're) ConfigEnv \<Rightarrow> 're AdapterSystem \<Rightarrow> 're Loaded option" where
  "wants env s = wanted env (sy_Cluster s) (pv_defaults (sy_Provider s))"

lemma perform_on_its_way:
  assumes "perform env turn s = Some s'" and "internal turn" and "wants env s = Some ld" and "on_its_way ld s"
  shows "wants env s' = Some ld \<and> on_its_way ld s'"
proof -
  consider "turn = TConfigMapLoad" | "turn = TSecretLoad" | "turn \<noteq> TConfigMapLoad" "turn \<noteq> TSecretLoad" by blast
  then show ?thesis
  proof cases
    case 1
    obtain l p where lp: "load_step env (sy_Cluster s) (sy_cmLoad s, sy_Provider s) = (l, p)" by (rule prod.exhaust)
    with 1 assms(1) have s': "s' = s\<lparr>sy_cmLoad := l, sy_Provider := p\<rparr>" by (auto split: if_splits)
    from assms(3,4) have "wanted env (sy_Cluster s) (pv_defaults (sy_Provider s)) = Some ld" "up_to_date ld (sy_cmLoad s)"
      by (simp_all add: wants_def on_its_way_def)
    note w = load_step_wanted [OF this(1) lp this(2)]
    show ?thesis
      using w assms(3,4) by (auto simp: s' wants_def on_its_way_def)
  next
    case 2
    obtain l p where lp: "load_step env (sy_Cluster s) (sy_secLoad s, sy_Provider s) = (l, p)" by (rule prod.exhaust)
    with 2 assms(1) have s': "s' = s\<lparr>sy_secLoad := l, sy_Provider := p\<rparr>" by (auto split: if_splits)
    from assms(3,4) have "wanted env (sy_Cluster s) (pv_defaults (sy_Provider s)) = Some ld" "up_to_date ld (sy_secLoad s)"
      by (simp_all add: wants_def on_its_way_def)
    note w = load_step_wanted [OF this(1) lp this(2)]
    show ?thesis
      using w assms(3,4) by (auto simp: s' wants_def on_its_way_def)
  next
    case 3
    then have "sy_Cluster s' = sy_Cluster s" "pv_defaults (sy_Provider s') = pv_defaults (sy_Provider s)"
      "pv_config (sy_Provider s') = pv_config (sy_Provider s)" "kafka_stored ld (sy_Provider s') = kafka_stored ld (sy_Provider s)"
      using assms(1,2) by (cases turn; auto simp: take_reload_def take_signal_def kafka_stored_def
          split: option.splits if_splits ServerPhase.splits; fail)+
    moreover have "(sy_cmLoad s' = sy_cmLoad s \<and> sy_cmEvent s' = sy_cmEvent s \<or> sy_cmLoad s' = LStart \<and> sy_cmLoad s = LIdle)
        \<and> (sy_secLoad s' = sy_secLoad s \<or> sy_secLoad s' = LStart)"
      using assms(1,2) 3 by (cases turn; auto split: option.splits if_splits ServerPhase.splits; fail)
    ultimately show ?thesis
      using assms(3,4) by (auto simp: wants_def on_its_way_def)
  qed
qed

lemma performs_on_its_way:
  assumes "performs env turns s = Some s'" and "list_all internal turns" and "wants env s = Some ld" and "on_its_way ld s"
  shows "wants env s' = Some ld \<and> on_its_way ld s'"
  using assms
proof (induction turns arbitrary: s)
  case (Cons turn turns)
  then obtain t where t: "perform env turn s = Some t" "performs env turns t = Some s'" by (auto split: option.splits)
  with Cons.prems perform_on_its_way [OF t(1)] show ?case by (intro Cons.IH [of t]) auto
qed simp

lemma at_rest_stored:
  assumes "at_rest s" and "on_its_way ld s"
  shows "pv_config (sy_Provider s) = ld_config ld \<and> kafka_stored ld (sy_Provider s)"
  using assms by (auto simp: at_rest_def on_its_way_def)

text \<open>A load that holds on to what it has read.\<close>

fun carries :: "'re LoadPhase \<Rightarrow> bool" where
  "carries (LParsed config name) = True" | "carries (LLoaded ld) = True" | "carries (LStoredConfig ld) = True"
| "carries l = False"

lemma not_carrying: "\<not> carries l \<Longrightarrow> up_to_date ld l"
  by (cases l) auto

section \<open>Properties\<close>



text \<open>
  C11: a change of the configuration is taken up. When an event of the watch of the ConfigMap is waiting, no
  load under way still holds on to something it read earlier, and the ConfigMap and the secret that it
  names are valid, then whichever way the goroutines take to come to rest, the provider has
  the configuration of that ConfigMap and the Kafka configuration of that secret afterwards, the secret is
  the one that is watched, and a server that runs needs no restart for them.
\<close>

theorem changes_taken_up:
  assumes "run_state (NewProvider env z zk ns n d) w = (Inr p, w')"
    and "steps env (start_system p cl) s"
    and "sy_cmEvent s" and "\<not> loading carries s"
    and "get_config_map (sy_Cluster s) = Inr cm"
    and "parseConfig (ce_Compile env) cm (pv_defaults (sy_Provider s)) = Inr config"
    and "kafka_of env (sy_Cluster s) (lookup (cm_Data cm) ''KAFKA_SECRET'') = Some (kcfg, data)"
    and "list_all internal turns" and "performs env turns s = Some s'" and "at_rest s'"
  shows "GetConfig (sy_Provider s') = config \<and> GetKafkaConfig (sy_Provider s') = kcfg
    \<and> GetKafkaFingerprint (sy_Provider s')
        = kafkaFingerprint (lookup (cm_Data cm) ''KAFKA_SECRET'') data
    \<and> (sy_secWatch s' = Some (lookup (cm_Data cm) ''KAFKA_SECRET'')
        \<or> sy_secWatch s' = None \<and> lookup (cm_Data cm) ''KAFKA_SECRET'' = [])
    \<and> (\<forall>snap. sy_Server s' = SRun snap \<longrightarrow> \<not> needsRestart snap (snapshot provider (sy_Provider s')))"
proof -
  define ld where "ld = \<lparr>ld_config = config, ld_kafkaConfig = kcfg, ld_kafkaSecret = lookup (cm_Data cm) ''KAFKA_SECRET'',
    ld_kafkaFingerprint = kafkaFingerprint (lookup (cm_Data cm) ''KAFKA_SECRET'') data\<rparr>"
  have inv: "system_inv env s'"
    using steps_inv [OF performs_steps [OF assms(9)] steps_inv [OF assms(2) start_inv [OF assms(1)]]] .
  have "wants env s = Some ld"
    by (simp add: wants_def wanted_def assms(5-7) Let_def ld_def)
  moreover have "on_its_way ld s"
    using assms(3,4) by (simp add: on_its_way_def loading_def not_carrying)
  ultimately have "on_its_way ld s'" using performs_on_its_way [OF assms(9,8)] by blast
  from at_rest_stored [OF assms(10) this] have "pv_config (sy_Provider s') = config"
    "kafka_stored ld (sy_Provider s')" by (simp_all add: ld_def)
  then show ?thesis
    using assms(10) at_rest_server [OF inv assms(10)]
    by (auto simp: kafka_stored_def ld_def at_rest_def GetConfig_def GetKafkaConfig_def GetKafkaFingerprint_def
        currentKafkaSecret_def split: option.splits)
qed

theorem changes_taken_up_witness:
  "\<exists>turns s'. performs sample_adapter (TEditConfigMap (Some (broker_cm ''k'' ''b'')) # turns) sample_system = Some s'
     \<and> at_rest s' \<and> GetConfig (sy_Provider s') = adapter_config defaultNoobaaAdapterID [''b'']"
proof -
  let ?edit = "[TEditConfigMap (Some (broker_cm ''k'' ''b''))]"
  have "\<exists>s. performs sample_adapter ?edit sample_system = Some s \<and> sy_cmEvent s \<and> \<not> loading carries s
      \<and> sy_Cluster s = sample_adapter_cluster ''b'' \<and> pv_defaults (sy_Provider s) = no_defaults"
    by (simp add: sample_system_def start_system_def Subscribe_def loading_def sample_provider_def)
  then obtain s where s: "performs sample_adapter ?edit sample_system = Some s" "sy_cmEvent s" "\<not> loading carries s"
    "sy_Cluster s = sample_adapter_cluster ''b''" "pv_defaults (sy_Provider s) = no_defaults" by blast
  have st: "steps sample_adapter (start_system (sample_provider ''a'') (sample_adapter_cluster ''a'')) s"
    using performs_steps [OF s(1)] by (simp add: sample_system_def)
  from settles [OF steps_inv [OF st start_inv [OF sample_NewProvider]]] obtain turns s' where t: "list_all internal turns"
    "performs sample_adapter turns s = Some s'" "at_rest s'" by blast
  have cm: "get_config_map (sy_Cluster s) = Inr (broker_cm ''k'' ''b'')"
    by (simp add: s(4) get_config_map_def)
  have cfg: "parseConfig (ce_Compile sample_adapter) (broker_cm ''k'' ''b'') (pv_defaults (sy_Provider s))
      = Inr (adapter_config defaultNoobaaAdapterID [''b''])"
    by (simp add: s(5) parse_broker_cm)
  have k: "\<exists>kcfg data. kafka_of sample_adapter (sy_Cluster s) (lookup (cm_Data (broker_cm ''k'' ''b'')) ''KAFKA_SECRET'') = Some (kcfg, data)"
    by (simp add: s(4))
  then obtain kcfg data where k: "kafka_of sample_adapter (sy_Cluster s) (lookup (cm_Data (broker_cm ''k'' ''b'')) ''KAFKA_SECRET'') = Some (kcfg, data)"
    by blast
  from changes_taken_up [OF sample_NewProvider st s(2,3) cm cfg k t] s(1) t
  show ?thesis by (auto split: option.splits)
qed

end
