(* ===== verification/RunnerMachine.thy ===== *)
theory RunnerMachine
  imports NotificationServer
begin

text \<open>
  The life of one run of the notification server in HTTP mode, from \<open>startHTTPServer\<close> and \<open>run\<close> in
  \<open>notificationserver/server.go\<close>: the goroutine that listens, the one that shuts the server down once the run
  is cancelled, and the requests, which are handled concurrently. What \<open>net/http\<close> does is taken from its
  documentation: \<open>Shutdown\<close> closes the listener and waits for the requests, while \<open>ListenAndServe\<close> returns
  \<open>ErrServerClosed\<close> at once.
\<close>

section \<open>The machine\<close>

text \<open>\<open>hr_Result\<close> is what \<open>run\<close> has returned; its deferred \<open>Close\<close> of the producer runs as it returns.\<close>

record HttpRunner =
  hr_CtxDone :: bool
  hr_Listening :: bool
  hr_ShutdownCalled :: bool
  hr_InFlight :: nat
  hr_Result :: "goerr option option"
  hr_ProducerOpen :: bool

definition start_runner :: HttpRunner where
  "start_runner = \<lparr>hr_CtxDone = False, hr_Listening = True, hr_ShutdownCalled = False, hr_InFlight = 0,
     hr_Result = None, hr_ProducerOpen = True\<rparr>"

definition run_returns :: "goerr option \<Rightarrow> HttpRunner \<Rightarrow> HttpRunner" where
  "run_returns listenAndServe s = s\<lparr>hr_Listening := False, hr_Result := Some (startHTTPServer listenAndServe), hr_ProducerOpen := False\<rparr>"

inductive http_step :: "HttpRunner \<Rightarrow> HttpRunner \<Rightarrow> bool" where
  Request: "hr_Listening s \<Longrightarrow> http_step s (s\<lparr>hr_InFlight := Suc (hr_InFlight s)\<rparr>)"
| Handled: "hr_InFlight s = Suc n \<Longrightarrow> http_step s (s\<lparr>hr_InFlight := n\<rparr>)"
| Cancel: "http_step s (s\<lparr>hr_CtxDone := True\<rparr>)"
| Shutdown: "hr_CtxDone s \<Longrightarrow> \<not> hr_ShutdownCalled s \<Longrightarrow> http_step s (s\<lparr>hr_ShutdownCalled := True, hr_Listening := False\<rparr>)"
| ServeClosed: "hr_ShutdownCalled s \<Longrightarrow> hr_Result s = None \<Longrightarrow> http_step s (run_returns None s)"
| ServeFails: "hr_Listening s \<Longrightarrow> hr_Result s = None \<Longrightarrow> http_step s (run_returns (Some err) s)"

inductive_cases http_stepE: "http_step s s'"

abbreviation http_steps :: "HttpRunner \<Rightarrow> HttpRunner \<Rightarrow> bool" where
  "http_steps \<equiv> http_step\<^sup>*\<^sup>*"

definition runner_inv :: "HttpRunner \<Rightarrow> bool" where
  "runner_inv s \<longleftrightarrow> (hr_ProducerOpen s \<longleftrightarrow> hr_Result s = None)
     \<and> (hr_ShutdownCalled s \<longrightarrow> hr_CtxDone s \<and> \<not> hr_Listening s)
     \<and> (hr_Result s \<noteq> None \<longrightarrow> \<not> hr_Listening s)
     \<and> (hr_Result s = Some None \<longrightarrow> hr_ShutdownCalled s)"

lemma runner_inv_step: "http_step s s' \<Longrightarrow> runner_inv s \<Longrightarrow> runner_inv s'"
  by (erule http_stepE) (auto simp: runner_inv_def run_returns_def startHTTPServer_def)

lemma runner_inv_steps: "http_steps start_runner s \<Longrightarrow> runner_inv s"
proof (induction rule: rtranclp_induct)
  case base
  show ?case by (simp add: start_runner_def runner_inv_def)
next
  case (step y z)
  show ?case by (rule runner_inv_step [OF step.hyps(2) step.IH])
qed

text \<open>Once the server has been told to stop, no request is taken any more.\<close>

lemma no_new_requests:
  assumes "http_steps s s'" and "\<not> hr_Listening s"
  shows "hr_InFlight s' \<le> hr_InFlight s \<and> \<not> hr_Listening s'"
  using assms by (induction rule: rtranclp_induct) (auto elim!: http_stepE simp: run_returns_def)

section \<open>Property\<close>



end
