(* ===== verification/BucketSource.thy ===== *)
theory BucketSource
  imports KubeMeta GoMonad
begin

text \<open>
  The API type \<open>ObjectBucketSource\<close> of \<open>api/sources/v1alpha1\<close>, the matching of event names of
  \<open>internal/objectbucketsource/eventmatch\<close> and the S3 requests of \<open>internal/objectbucketsource/s3client\<close>.
\<close>

section \<open>The API type\<close>

definition ConditionOBCCredentialsAvailable :: string where
  "ConditionOBCCredentialsAvailable = ''OBCCredentialsAvailable''"

definition ConditionBucketNotificationSet :: string where
  "ConditionBucketNotificationSet = ''BucketNotificationSet''"

definition ConditionTestEventReceived :: string where
  "ConditionTestEventReceived = ''TestEventReceived''"

definition FinalizerName :: string where
  "FinalizerName = ''sources.functions.dev/objectbucketsource''"

record OBCReference =
  obc_Name :: string

record SinkSpec =
  sink_URI :: string

record ObjectBucketSourceSpec =
  obs_ObjectBucketClaim :: OBCReference
  obs_Events :: "string list"
  obs_Sink :: SinkSpec

record ObjectBucketSourceStatus =
  obs_Conditions :: "Condition list"

record ObjectBucketSource =
  obs_Meta :: ObjectMeta
  obs_Spec :: ObjectBucketSourceSpec
  obs_Status :: ObjectBucketSourceStatus

abbreviation obs_Name :: "ObjectBucketSource \<Rightarrow> string" where
  "obs_Name s \<equiv> om_Name (obs_Meta s)"

abbreviation obs_Namespace :: "ObjectBucketSource \<Rightarrow> string" where
  "obs_Namespace s \<equiv> om_Namespace (obs_Meta s)"

abbreviation obs_claim :: "ObjectBucketSource \<Rightarrow> string" where
  "obs_claim s \<equiv> obc_Name (obs_ObjectBucketClaim (obs_Spec s))"

abbreviation obs_deleted :: "ObjectBucketSource \<Rightarrow> bool" where
  "obs_deleted s \<equiv> om_DeletionTimestamp (obs_Meta s) \<noteq> None"

text \<open>The finalizer routines of \<open>controllerutil\<close>.\<close>

definition ContainsFinalizer :: "ObjectBucketSource \<Rightarrow> string \<Rightarrow> bool" where
  "ContainsFinalizer s f \<longleftrightarrow> f \<in> set (om_Finalizers (obs_Meta s))"

definition AddFinalizer :: "ObjectBucketSource \<Rightarrow> string \<Rightarrow> ObjectBucketSource" where
  "AddFinalizer s f = (if ContainsFinalizer s f then s
     else s\<lparr>obs_Meta := (obs_Meta s)\<lparr>om_Finalizers := om_Finalizers (obs_Meta s) @ [f]\<rparr>\<rparr>)"

definition RemoveFinalizer :: "ObjectBucketSource \<Rightarrow> string \<Rightarrow> ObjectBucketSource" where
  "RemoveFinalizer s f =
     s\<lparr>obs_Meta := (obs_Meta s)\<lparr>om_Finalizers := filter (\<lambda>g. g \<noteq> f) (om_Finalizers (obs_Meta s))\<rparr>\<rparr>"

section \<open>Matching\<close>

definition MatchEvent :: "string \<Rightarrow> string \<Rightarrow> bool" where
  "MatchEvent subscriptionPattern incomingEventName =
     (let pattern = TrimPrefix subscriptionPattern ''s3:'' in
      if HasSuffix pattern ''*'' then HasPrefix incomingEventName (TrimSuffix pattern ''*'')
      else pattern = incomingEventName)"

lemma MatchEvent_wildcard: "MatchEvent (''s3:'' @ p @ ''*'') e \<longleftrightarrow> (\<exists>t. e = p @ t)"
proof -
  have "TrimPrefix (''s3:'' @ p @ ''*'') ''s3:'' = p @ ''*''" by (rule TrimPrefix_append)
  then show ?thesis by (simp add: MatchEvent_def HasPrefix_iff HasSuffix_iff)
qed

lemma MatchEvent_exact: "e = [] \<or> last e \<noteq> CHR ''*'' \<Longrightarrow> MatchEvent (''s3:'' @ e) e' \<longleftrightarrow> e' = e"
proof -
  assume e: "e = [] \<or> last e \<noteq> CHR ''*''"
  have "TrimPrefix (''s3:'' @ e) ''s3:'' = e" by (rule TrimPrefix_append)
  with e show ?thesis by (auto simp: MatchEvent_def HasSuffix_iff)
qed

section \<open>S3 requests\<close>

record S3Options =
  s3_BaseEndpoint :: string
  s3_AccessKey :: string
  s3_SecretKey :: string
  s3_Region :: string
  s3_UsePathStyle :: bool
  s3_InsecureSkipVerify :: bool

record TopicConfiguration =
  topic_Id :: string
  topic_Events :: "string list"
  topic_TopicArn :: string

definition NewS3Client :: "string \<Rightarrow> string \<Rightarrow> string \<Rightarrow> S3Options" where
  "NewS3Client endpoint accessKey secretKey =
     \<lparr>s3_BaseEndpoint = endpoint, s3_AccessKey = accessKey, s3_SecretKey = secretKey,
      s3_Region = ''us-east-1'', s3_UsePathStyle = True, s3_InsecureSkipVerify = True\<rparr>"

text \<open>
  The two requests are one operation of S3, \<open>PutBucketNotificationConfiguration\<close>, which replaces all that is
  configured for the bucket: \<open>put\<close> is that operation with the bucket and the topics.
\<close>

definition PutBucketNotification ::
  "(string \<Rightarrow> TopicConfiguration list \<Rightarrow> ('s, goerr option) state) \<Rightarrow> string \<Rightarrow> string \<Rightarrow> string \<Rightarrow> string list
    \<Rightarrow> ('s, goerr option) state" where
  "PutBucketNotification put bucket topic_id topic events = do {
     let s3Events = events;
     err \<leftarrow> put bucket [\<lparr>topic_Id = topic_id, topic_Events = s3Events, topic_TopicArn = topic\<rparr>];
     case err of
       Some e \<Rightarrow> ret (Some (Errorf (''put-bucket-notification for '' @ Quote bucket @ '': '') e))
     | None \<Rightarrow> ret None
   }"

definition RemoveBucketNotification ::
  "(string \<Rightarrow> TopicConfiguration list \<Rightarrow> ('s, goerr option) state) \<Rightarrow> string \<Rightarrow> ('s, goerr option) state" where
  "RemoveBucketNotification put bucket = do {
     err \<leftarrow> put bucket [];
     case err of
       Some e \<Rightarrow> ret (Some (Errorf (''remove bucket notification for '' @ Quote bucket @ '': '') e))
     | None \<Rightarrow> ret None
   }"

end
