(* ===== verification/SourceController.thy ===== *)
theory SourceController
  imports BucketSource PluginObjects AdapterConfig
begin

text \<open>
  The reconciler of bucket sources,
  \<open>internal/objectbucketsource/controller/objectbucketsource_controller.go\<close>: it configures the
  notifications of a bucket for all the sources of a claim, and undoes that when a source is deleted,
  which a finalizer holds up until then. The clients of Kubernetes and S3 are parameters; every call is
  recorded.
\<close>

section \<open>Collaborators\<close>

record 'w SourceClient =
  sc_GetSource :: "nsname \<Rightarrow> ('w, goerr + ObjectBucketSource) state"
  sc_UpdateSource :: "ObjectBucketSource \<Rightarrow> ('w, goerr option) state"
  sc_UpdateStatus :: "ObjectBucketSource \<Rightarrow> ('w, goerr option) state"
  sc_ListSources :: "string \<Rightarrow> ('w, goerr + ObjectBucketSource list) state"
  sc_GetConfigMap :: "nsname \<Rightarrow> ('w, goerr + ConfigMap) state"
  sc_GetSecret :: "nsname \<Rightarrow> ('w, goerr + Secret) state"
  sc_GetOBC :: "nsname \<Rightarrow> ('w, goerr + json gomap) state"
  sc_PutBucketNotificationConfiguration :: "S3Options \<Rightarrow> string \<Rightarrow> TopicConfiguration list \<Rightarrow> ('w, goerr option) state"

text \<open>\<open>osr_MapOrder\<close> is the order in which the keys of a Go map are ranged over.\<close>

record ('w, 're) ObjectBucketSourceReconciler =
  osr_Client :: "'w SourceClient"
  osr_Config :: "'re Config"
  osr_MatchString :: "'re \<Rightarrow> string \<Rightarrow> bool"
  osr_SetStatusCondition :: "time \<Rightarrow> Condition list \<Rightarrow> Condition \<Rightarrow> Condition list"
  osr_Clock :: time
  osr_MapOrder :: "string list \<Rightarrow> string list"

record 're BackendAdapter =
  ba_ID :: string
  ba_Topic :: string
  ba_StorageClassPattern :: "'re option"

datatype SourceCall =
    SRead string
  | SGetSource "goerr + ObjectBucketSource"
  | SListSources "goerr + ObjectBucketSource list"
  | SUpdate ObjectBucketSource "goerr option"
  | SStatus ObjectBucketSource "goerr option"
  | SPutNotification S3Options string "TopicConfiguration list" "goerr option"

record 'w source_state =
  ss_World :: 'w
  ss_Calls :: "SourceCall list"

type_synonym ('w, 'a) source_run = "('w source_state, 'a) state"

definition scall :: "('a \<Rightarrow> SourceCall) \<Rightarrow> ('w, 'a) state \<Rightarrow> ('w, 'a) source_run" where
  "scall c m = do {
     a \<leftarrow> zoom ss_World (\<lambda>w s. s\<lparr>ss_World := w\<rparr>) m;
     modify (\<lambda>s. s\<lparr>ss_Calls := ss_Calls s @ [c a]\<rparr>);
     ret a
   }"

definition s3_put ::
  "('w, 're) ObjectBucketSourceReconciler \<Rightarrow> S3Options \<Rightarrow> string \<Rightarrow> TopicConfiguration list \<Rightarrow> ('w, goerr option) source_run" where
  "s3_put r s3c bucket topics =
     scall (SPutNotification s3c bucket topics) (sc_PutBucketNotificationConfiguration (osr_Client r) s3c bucket topics)"

text \<open>The result of a reconcile: the seconds after which to try again, and the error.\<close>

type_synonym reconcile_result = "nat option \<times> goerr option"

section \<open>What the claim provides\<close>

definition readOBCConfigMap ::
  "('w, 're) ObjectBucketSourceReconciler \<Rightarrow> string \<Rightarrow> string \<Rightarrow> ('w, goerr + (string \<times> string \<times> string)) source_run" where
  "readOBCConfigMap r namespace name = do {
     res \<leftarrow> scall (\<lambda>_. SRead ''ConfigMap'') (sc_GetConfigMap (osr_Client r) (nsn namespace name));
     case res of
       Inl err \<Rightarrow> ret (Inl (Errorf (''getting ConfigMap '' @ namespace @ ''/'' @ name @ '': '') err))
     | Inr cm \<Rightarrow> do {
         let host = lookup (cm_Data cm) ''BUCKET_HOST'';
         let bucketName = lookup (cm_Data cm) ''BUCKET_NAME'';
         let port = lookup (cm_Data cm) ''BUCKET_PORT'';
         if host = [] \<or> bucketName = [] \<or> port = [] then
           ret (Inl (ErrorString (''ConfigMap '' @ namespace @ ''/'' @ name
             @ '' missing required keys (BUCKET_HOST, BUCKET_NAME, BUCKET_PORT)'')))
         else ret (Inr (host, bucketName, port))
       }
   }"

definition readOBCSecret ::
  "('w, 're) ObjectBucketSourceReconciler \<Rightarrow> string \<Rightarrow> string \<Rightarrow> ('w, goerr + (string \<times> string)) source_run" where
  "readOBCSecret r namespace name = do {
     res \<leftarrow> scall (\<lambda>_. SRead ''Secret'') (sc_GetSecret (osr_Client r) (nsn namespace name));
     case res of
       Inl err \<Rightarrow> ret (Inl (Errorf (''getting Secret '' @ namespace @ ''/'' @ name @ '': '') err))
     | Inr secret \<Rightarrow> do {
         let accessKey = lookup (sec_Data secret) ''AWS_ACCESS_KEY_ID'';
         let secretKey = lookup (sec_Data secret) ''AWS_SECRET_ACCESS_KEY'';
         if accessKey = [] \<or> secretKey = [] then
           ret (Inl (ErrorString (''secret '' @ namespace @ ''/'' @ name
             @ '' missing required keys (AWS_ACCESS_KEY_ID, AWS_SECRET_ACCESS_KEY)'')))
         else ret (Inr (accessKey, secretKey))
       }
   }"

text \<open>\<open>unstructured.NestedString\<close> on \<open>spec.storageClassName\<close>; the errors are dropped.\<close>

definition storage_class :: "json gomap \<Rightarrow> string" where
  "storage_class obc =
     (case map_of obc ''spec'' of
        Some (JObject sp) \<Rightarrow> (case map_of sp ''storageClassName'' of Some (JString sc) \<Rightarrow> sc | _ \<Rightarrow> [])
      | _ \<Rightarrow> [])"

definition readOBCStorageClassName ::
  "('w, 're) ObjectBucketSourceReconciler \<Rightarrow> string \<Rightarrow> string \<Rightarrow> ('w, goerr + string) source_run" where
  "readOBCStorageClassName r namespace name = do {
     res \<leftarrow> scall (\<lambda>_. SRead ''ObjectBucketClaim'') (sc_GetOBC (osr_Client r) (nsn namespace name));
     case res of
       Inl err \<Rightarrow> ret (Inl (Errorf (''getting ObjectBucketClaim '' @ namespace @ ''/'' @ name @ '': '') err))
     | Inr obc \<Rightarrow> ret (Inr (storage_class obc))
   }"

definition adapters :: "'re Config \<Rightarrow> 're BackendAdapter list" where
  "adapters cfg =
     [\<lparr>ba_ID = ab_ID (cfg_NoobaaAdapter cfg), ba_Topic = ab_TopicARN (cfg_NoobaaAdapter cfg),
       ba_StorageClassPattern = Some (ab_StorageClassPattern (cfg_NoobaaAdapter cfg))\<rparr>,
      \<lparr>ba_ID = ab_ID (cfg_RadosgwAdapter cfg), ba_Topic = ab_TopicARN (cfg_RadosgwAdapter cfg),
       ba_StorageClassPattern = Some (ab_StorageClassPattern (cfg_RadosgwAdapter cfg))\<rparr>]"

definition resolveAdapterConfig ::
  "('w, 're) ObjectBucketSourceReconciler \<Rightarrow> string \<Rightarrow> string \<Rightarrow> ('w, goerr + 're BackendAdapter) source_run" where
  "resolveAdapterConfig r namespace obcName = do {
     let adapterConfigs = adapters (osr_Config r);
     if length adapterConfigs = 1 then ret (Inr (adapterConfigs ! 0))
     else do {
       res \<leftarrow> readOBCStorageClassName r namespace obcName;
       case res of
         Inl err \<Rightarrow> ret (Inl err)
       | Inr storageClass \<Rightarrow>
           (case find (\<lambda>cfg. case ba_StorageClassPattern cfg of None \<Rightarrow> False | Some re \<Rightarrow> osr_MatchString r re storageClass)
              adapterConfigs of
              Some cfg \<Rightarrow> ret (Inr cfg)
            | None \<Rightarrow> ret (Inl (ErrorString (''no adapter config matches storageClassName '' @ Quote storageClass
                @ '' for OBC '' @ namespace @ ''/'' @ obcName))))
     }
   }"

section \<open>The events of a claim\<close>

text \<open>The three \<open>continue\<close> of the loop.\<close>

definition counts_for :: "string \<Rightarrow> string \<Rightarrow> ObjectBucketSource \<Rightarrow> bool" where
  "counts_for obcName excludeName t =
     (if obs_claim t \<noteq> obcName then False
      else if excludeName \<noteq> [] \<and> obs_Name t = excludeName then False
      else if obs_deleted t \<and> obs_Name t \<noteq> excludeName then False
      else True)"

definition merged_events :: "(string list \<Rightarrow> string list) \<Rightarrow> string \<Rightarrow> string \<Rightarrow> ObjectBucketSource list \<Rightarrow> string list" where
  "merged_events order obcName excludeName items =
     order (remdups (concat (map (\<lambda>t. obs_Events (obs_Spec t)) (filter (counts_for obcName excludeName) items))))"

definition computeMergedEventsExcluding ::
  "('w, 're) ObjectBucketSourceReconciler \<Rightarrow> string \<Rightarrow> string \<Rightarrow> string \<Rightarrow> ('w, goerr + string list) source_run" where
  "computeMergedEventsExcluding r namespace obcName excludeName = do {
     res \<leftarrow> scall SListSources (sc_ListSources (osr_Client r) namespace);
     case res of
       Inl err \<Rightarrow> ret (Inl err)
     | Inr items \<Rightarrow> ret (Inr (merged_events (osr_MapOrder r) obcName excludeName items))
   }"

definition computeMergedEvents ::
  "('w, 're) ObjectBucketSourceReconciler \<Rightarrow> string \<Rightarrow> string \<Rightarrow> ('w, goerr + string list) source_run" where
  "computeMergedEvents r namespace obcName = computeMergedEventsExcluding r namespace obcName []"

section \<open>Conditions\<close>

text \<open>A failed status update is only logged.\<close>

definition setCondition ::
  "('w, 're) ObjectBucketSourceReconciler \<Rightarrow> ObjectBucketSource \<Rightarrow> string \<Rightarrow> ConditionStatus \<Rightarrow> string \<Rightarrow> string
    \<Rightarrow> ('w, ObjectBucketSource) source_run" where
  "setCondition r source condType status reason message = do {
     let source = source\<lparr>obs_Status := (obs_Status source)\<lparr>obs_Conditions :=
       osr_SetStatusCondition r (osr_Clock r) (obs_Conditions (obs_Status source))
         \<lparr>cond_Type = condType, cond_Status = status, cond_Reason = reason, cond_Message = message,
          cond_ObservedGeneration = om_Generation (obs_Meta source), cond_LastTransitionTime = zero_time\<rparr>\<rparr>\<rparr>;
     err \<leftarrow> scall (SStatus source) (sc_UpdateStatus (osr_Client r) source);
     ret source
   }"

definition not_ready ::
  "('w, 're) ObjectBucketSourceReconciler \<Rightarrow> ObjectBucketSource \<Rightarrow> string \<Rightarrow> goerr \<Rightarrow> ('w, reconcile_result) source_run" where
  "not_ready r source reason err = do {
     _ \<leftarrow> setCondition r source ConditionOBCCredentialsAvailable ConditionFalse reason (err_Error err);
     ret (Some 10, None)
   }"

section \<open>Deletion\<close>

definition s3_endpoint :: "string \<Rightarrow> string \<Rightarrow> string" where
  "s3_endpoint host port = ''https://'' @ host @ '':'' @ port"

text \<open>What deletion does to the bucket; every failure is logged and passed over.\<close>

definition release_bucket ::
  "('w, 're) ObjectBucketSourceReconciler \<Rightarrow> ObjectBucketSource \<Rightarrow> 're BackendAdapter \<Rightarrow> string \<times> string \<times> string
    \<Rightarrow> ('w, unit) source_run" where
  "release_bucket r source adapterCfg obc = (case obc of (bucketHost, bucketName, bucketPort) \<Rightarrow> do {
     res \<leftarrow> readOBCSecret r (obs_Namespace source) (obs_claim source);
     case res of
       Inl secretErr \<Rightarrow> ret ()
     | Inr (accessKey, secretKey) \<Rightarrow> do {
         res \<leftarrow> computeMergedEventsExcluding r (obs_Namespace source) (obs_claim source) (obs_Name source);
         case res of
           Inl mergeErr \<Rightarrow> ret ()
         | Inr mergedEvents \<Rightarrow> do {
             let s3c = NewS3Client (s3_endpoint bucketHost bucketPort) accessKey secretKey;
             err \<leftarrow> (if length mergedEvents = 0 then RemoveBucketNotification (s3_put r s3c) bucketName
                     else PutBucketNotification (s3_put r s3c) bucketName (ba_ID adapterCfg) (ba_Topic adapterCfg) mergedEvents);
             ret ()
           }
       }
   })"

definition reconcileDelete ::
  "('w, 're) ObjectBucketSourceReconciler \<Rightarrow> ObjectBucketSource \<Rightarrow> ('w, reconcile_result) source_run" where
  "reconcileDelete r source =
     (if \<not> ContainsFinalizer source FinalizerName then ret (None, None)
      else do {
        cfg \<leftarrow> resolveAdapterConfig r (obs_Namespace source) (obs_claim source);
        obc \<leftarrow> readOBCConfigMap r (obs_Namespace source) (obs_claim source);
        (case obc of
           Inl err \<Rightarrow> ret ()
         | Inr bucket \<Rightarrow> (case cfg of Inl cfgErr \<Rightarrow> ret () | Inr adapterCfg \<Rightarrow> release_bucket r source adapterCfg bucket));
        let released = RemoveFinalizer source FinalizerName;
        err \<leftarrow> scall (SUpdate released) (sc_UpdateSource (osr_Client r) released);
        ret (None, err)
      })"

section \<open>The reconciler\<close>

definition configure_bucket ::
  "('w, 're) ObjectBucketSourceReconciler \<Rightarrow> ObjectBucketSource \<Rightarrow> 're BackendAdapter \<Rightarrow> string \<times> string \<times> string
    \<Rightarrow> string \<times> string \<Rightarrow> ('w, reconcile_result) source_run" where
  "configure_bucket r source adapterCfg obc cred = (case obc of (bucketHost, bucketName, bucketPort) \<Rightarrow>
     case cred of (accessKey, secretKey) \<Rightarrow> do {
       source \<leftarrow> setCondition r source ConditionOBCCredentialsAvailable ConditionTrue ''CredentialsAvailable''
         ''OBC ConfigMap and Secret are available'';
       res \<leftarrow> computeMergedEvents r (obs_Namespace source) (obs_claim source);
       case res of
         Inl err \<Rightarrow> ret (None, Some (Errorf ''computing merged events: '' err))
       | Inr mergedEvents \<Rightarrow> do {
           let s3c = NewS3Client (s3_endpoint bucketHost bucketPort) accessKey secretKey;
           err \<leftarrow> PutBucketNotification (s3_put r s3c) bucketName (ba_ID adapterCfg) (ba_Topic adapterCfg) mergedEvents;
           case err of
             Some e \<Rightarrow> do {
               _ \<leftarrow> setCondition r source ConditionBucketNotificationSet ConditionFalse ''PutNotificationFailed'' (err_Error e);
               ret (None, Some e)
             }
           | None \<Rightarrow> do {
               _ \<leftarrow> setCondition r source ConditionBucketNotificationSet ConditionTrue ''NotificationConfigured''
                 ''Bucket notification configured successfully'';
               ret (None, None)
             }
         }
     })"

definition reconcile_live ::
  "('w, 're) ObjectBucketSourceReconciler \<Rightarrow> ObjectBucketSource \<Rightarrow> ('w, reconcile_result) source_run" where
  "reconcile_live r source = do {
     let obcName = obs_claim source;
     let ns = obs_Namespace source;
     cfg \<leftarrow> resolveAdapterConfig r ns obcName;
     case cfg of
       Inl err \<Rightarrow> not_ready r source ''OBCNotReady'' err
     | Inr adapterCfg \<Rightarrow> do {
         obc \<leftarrow> readOBCConfigMap r ns obcName;
         case obc of
           Inl err \<Rightarrow> not_ready r source ''ConfigMapNotReady'' err
         | Inr bucket \<Rightarrow> do {
             cred \<leftarrow> readOBCSecret r ns obcName;
             case cred of
               Inl err \<Rightarrow> not_ready r source ''SecretNotReady'' err
             | Inr cred \<Rightarrow> configure_bucket r source adapterCfg bucket cred
           }
       }
   }"

definition ReconcileSource ::
  "('w, 're) ObjectBucketSourceReconciler \<Rightarrow> nsname \<Rightarrow> ('w, reconcile_result) source_run" where
  "ReconcileSource r req = do {
     res \<leftarrow> scall SGetSource (sc_GetSource (osr_Client r) req);
     case res of
       Inl err \<Rightarrow> if IsNotFound err then ret (None, None) else ret (None, Some err)
     | Inr source \<Rightarrow>
         if obs_deleted source then reconcileDelete r source
         else if \<not> ContainsFinalizer source FinalizerName then do {
           let marked = AddFinalizer source FinalizerName;
           err \<leftarrow> scall (SUpdate marked) (sc_UpdateSource (osr_Client r) marked);
           ret (None, err)
         }
         else reconcile_live r source
   }"

end
