(* ===== verification/SourceProperties.thy ===== *)
theory SourceProperties
  imports SourceController
begin

text \<open>
  What the reconciler of bucket sources guarantees: which notifications a bucket gets for the sources of its
  claim, that the finalizer is there before anything is configured, and that a deletion always lets go of
  it.
\<close>

section \<open>Facts\<close>

lemma holds_scall [wp_simps]:
  "holds (scall c m) s Q =
     holds m (ss_World s) (\<lambda>a w. Q a (s\<lparr>ss_World := w, ss_Calls := ss_Calls s @ [c a]\<rparr>))"
  by (simp add: scall_def wp_simps)

lemma scall_any: "(\<And>a w. Q a (s\<lparr>ss_World := w, ss_Calls := ss_Calls s @ [c a]\<rparr>)) \<Longrightarrow> holds (scall c m) s Q"
  by (simp add: holds_scall holds_any)

lemma scall_answers:
  "answers m a \<Longrightarrow> (\<And>w. Q a (s\<lparr>ss_World := w, ss_Calls := ss_Calls s @ [c a]\<rparr>)) \<Longrightarrow> holds (scall c m) s Q"
  by (simp add: holds_scall holds_answers)

text \<open>The calls of a run only grow.\<close>

lemma preserves_scall [frame_intros]: "preserves (\<lambda>s. x \<in> set (ss_Calls s)) (scall c m)"
  by (rule preservesI, rule scall_any) simp

definition wants :: "ObjectBucketSource list \<Rightarrow> string \<Rightarrow> string \<Rightarrow> string set" where
  "wants items obcName excluded =
     {e. \<exists>t \<in> set items. obs_claim t = obcName \<and> \<not> obs_deleted t \<and> obs_Name t \<noteq> excluded \<and> e \<in> set (obs_Events (obs_Spec t))}"

lemma set_merged_events:
  assumes "\<And>es. mset (order es) = mset es" and "\<And>t. t \<in> set items \<Longrightarrow> obs_Name t \<noteq> []"
  shows "set (merged_events order obcName excluded items) = wants items obcName excluded
     \<and> distinct (merged_events order obcName excluded items)"
proof -
  have o: "set (order es) = set es" "distinct (order es) = distinct es" for es
    using assms(1) [of es] by (metis set_mset_mset, metis mset_eq_imp_distinct_iff)
  show ?thesis
    using assms(2) by (auto simp: merged_events_def o wants_def counts_for_def split: if_splits)
qed

lemma preserves_any: "preserves (\<lambda>s. x \<in> set (ss_Calls s)) (ReconcileSource r req)"
  unfolding ReconcileSource_def reconcileDelete_def release_bucket_def reconcile_live_def configure_bucket_def not_ready_def
    setCondition_def computeMergedEvents_def computeMergedEventsExcluding_def resolveAdapterConfig_def
    readOBCStorageClassName_def readOBCSecret_def readOBCConfigMap_def RemoveBucketNotification_def
    PutBucketNotification_def s3_put_def Let_def
  by (intro frame_intros)

section \<open>Configuring a bucket\<close>

text \<open>What the claim provides, and the adapter that its storage class selects.\<close>

record 're ClaimView =
  cv_obc :: "json gomap"
  cv_adapter :: "'re BackendAdapter"
  cv_cm :: ConfigMap
  cv_secret :: Secret

definition claim_answers ::
  "('w, 're) ObjectBucketSourceReconciler \<Rightarrow> string \<Rightarrow> string \<Rightarrow> 're ClaimView \<Rightarrow> bool" where
  "claim_answers r ns name v \<longleftrightarrow>
     answers (sc_GetOBC (osr_Client r) (nsn ns name)) (Inr (cv_obc v))
     \<and> find (\<lambda>cfg. case ba_StorageClassPattern cfg of None \<Rightarrow> False | Some re \<Rightarrow> osr_MatchString r re (storage_class (cv_obc v)))
         (adapters (osr_Config r)) = Some (cv_adapter v)
     \<and> answers (sc_GetConfigMap (osr_Client r) (nsn ns name)) (Inr (cv_cm v))
     \<and> lookup (cm_Data (cv_cm v)) ''BUCKET_HOST'' \<noteq> [] \<and> lookup (cm_Data (cv_cm v)) ''BUCKET_NAME'' \<noteq> []
     \<and> lookup (cm_Data (cv_cm v)) ''BUCKET_PORT'' \<noteq> []
     \<and> answers (sc_GetSecret (osr_Client r) (nsn ns name)) (Inr (cv_secret v))
     \<and> lookup (sec_Data (cv_secret v)) ''AWS_ACCESS_KEY_ID'' \<noteq> [] \<and> lookup (sec_Data (cv_secret v)) ''AWS_SECRET_ACCESS_KEY'' \<noteq> []"

definition claim_s3 :: "'re ClaimView \<Rightarrow> S3Options" where
  "claim_s3 v = NewS3Client
     (s3_endpoint (lookup (cm_Data (cv_cm v)) ''BUCKET_HOST'') (lookup (cm_Data (cv_cm v)) ''BUCKET_PORT''))
     (lookup (sec_Data (cv_secret v)) ''AWS_ACCESS_KEY_ID'') (lookup (sec_Data (cv_secret v)) ''AWS_SECRET_ACCESS_KEY'')"

abbreviation claim_bucket :: "'re ClaimView \<Rightarrow> string" where
  "claim_bucket v \<equiv> lookup (cm_Data (cv_cm v)) ''BUCKET_NAME''"

definition claim_topic :: "'re ClaimView \<Rightarrow> string list \<Rightarrow> TopicConfiguration" where
  "claim_topic v events = \<lparr>topic_Id = ba_ID (cv_adapter v), topic_Events = events, topic_TopicArn = ba_Topic (cv_adapter v)\<rparr>"

lemma resolve_claim:
  assumes "claim_answers r ns name v"
    and "\<And>w. Q (Inr (cv_adapter v)) (s\<lparr>ss_World := w, ss_Calls := ss_Calls s @ [SRead ''ObjectBucketClaim'']\<rparr>)"
  shows "holds (resolveAdapterConfig r ns name) s Q"
proof -
  have n: "length (adapters (osr_Config r)) \<noteq> 1" by (simp add: adapters_def)
  show ?thesis
    unfolding resolveAdapterConfig_def readOBCStorageClassName_def
    using assms n by (simp add: holds_bind Let_def, intro scall_answers [where a = "Inr (cv_obc v)"])
      (simp_all add: claim_answers_def holds_bind holds_return)
qed

lemma read_claim_config:
  assumes "claim_answers r ns name v"
    and "\<And>w. Q (Inr (lookup (cm_Data (cv_cm v)) ''BUCKET_HOST'', claim_bucket v, lookup (cm_Data (cv_cm v)) ''BUCKET_PORT''))
      (s\<lparr>ss_World := w, ss_Calls := ss_Calls s @ [SRead ''ConfigMap'']\<rparr>)"
  shows "holds (readOBCConfigMap r ns name) s Q"
  unfolding readOBCConfigMap_def holds_bind
  using assms by (intro scall_answers [where a = "Inr (cv_cm v)"]) (simp_all add: claim_answers_def holds_return Let_def)

lemma read_claim_secret:
  assumes "claim_answers r ns name v"
    and "\<And>w. Q (Inr (lookup (sec_Data (cv_secret v)) ''AWS_ACCESS_KEY_ID'', lookup (sec_Data (cv_secret v)) ''AWS_SECRET_ACCESS_KEY''))
      (s\<lparr>ss_World := w, ss_Calls := ss_Calls s @ [SRead ''Secret'']\<rparr>)"
  shows "holds (readOBCSecret r ns name) s Q"
  unfolding readOBCSecret_def holds_bind
  using assms by (intro scall_answers [where a = "Inr (cv_secret v)"]) (simp_all add: claim_answers_def holds_return Let_def)

lemma merged_claim:
  assumes "answers (sc_ListSources (osr_Client r) ns) (Inr items)"
    and "\<And>w. Q (Inr (merged_events (osr_MapOrder r) name excluded items))
      (s\<lparr>ss_World := w, ss_Calls := ss_Calls s @ [SListSources (Inr items)]\<rparr>)"
  shows "holds (computeMergedEventsExcluding r ns name excluded) s Q"
  unfolding computeMergedEventsExcluding_def holds_bind
  using assms by (intro scall_answers [where a = "Inr items"]) (simp_all add: holds_return)

lemma setCondition_any:
  assumes "\<And>source' err w. obs_Meta source' = obs_Meta source \<Longrightarrow> obs_Spec source' = obs_Spec source \<Longrightarrow>
    Q source' (s\<lparr>ss_World := w, ss_Calls := ss_Calls s @ [SStatus source' err]\<rparr>)"
  shows "holds (setCondition r source t st re msg) s Q"
  unfolding setCondition_def Let_def holds_bind
  using assms by (intro scall_any) (simp add: holds_return)

lemma configure_live:
  assumes c: "claim_answers r (obs_Namespace source) (obs_claim source) v"
    and l: "answers (sc_ListSources (osr_Client r) (obs_Namespace source)) (Inr items)"
    and p: "\<And>topics. answers (sc_PutBucketNotificationConfiguration (osr_Client r) (claim_s3 v) (claim_bucket v) topics) None"
  shows "holds (reconcile_live r source) s (\<lambda>res s'. res = (None, None)
     \<and> SPutNotification (claim_s3 v) (claim_bucket v)
         [claim_topic v (merged_events (osr_MapOrder r) (obs_claim source) [] items)] None \<in> set (ss_Calls s'))"
  unfolding reconcile_live_def Let_def holds_bind
  apply (rule resolve_claim [OF c], simp add: holds_bind)
  apply (rule read_claim_config [OF c], simp add: holds_bind)
  apply (rule read_claim_secret [OF c], simp add: holds_bind configure_bucket_def)
  apply (rule setCondition_any, simp add: holds_bind computeMergedEvents_def)
  apply (rule merged_claim [OF l], simp add: holds_bind Let_def PutBucketNotification_def flip: claim_s3_def claim_topic_def)
  apply (unfold s3_put_def)
  apply (rule scall_answers [OF p], simp add: holds_bind holds_return)
  apply (rule setCondition_any, simp add: holds_return)
  done

section \<open>Deleting a source\<close>

lemma delete_lets_go: "holds (reconcileDelete r source) s (\<lambda>res s'. \<exists>err.
     ss_Calls s' \<noteq> [] \<and> last (ss_Calls s') = SUpdate (RemoveFinalizer source FinalizerName) err \<and> res = (None, err))"
  if "ContainsFinalizer source FinalizerName"
  using that unfolding reconcileDelete_def Let_def holds_bind
  apply (simp add: holds_bind)
  apply (rule holds_any, rule holds_any, rule holds_any, rule scall_any)
  apply (simp add: holds_return)
  done

lemma release_claim:
  assumes c: "claim_answers r (obs_Namespace source) (obs_claim source) v" and f: "ContainsFinalizer source FinalizerName"
    and l: "answers (sc_ListSources (osr_Client r) (obs_Namespace source)) (Inr items)"
    and p: "\<And>topics. answers (sc_PutBucketNotificationConfiguration (osr_Client r) (claim_s3 v) (claim_bucket v) topics) None"
    and t: "topics = (let events = merged_events (osr_MapOrder r) (obs_claim source) (obs_Name source) items in
        if events = [] then [] else [claim_topic v events])"
  shows "holds (reconcileDelete r source) s (\<lambda>res s'.
     SPutNotification (claim_s3 v) (claim_bucket v) topics None \<in> set (ss_Calls s'))"
  using f unfolding reconcileDelete_def Let_def holds_bind
  apply (simp add: holds_bind)
  apply (rule resolve_claim [OF c], rule read_claim_config [OF c])
  apply (simp add: holds_bind release_bucket_def)
  apply (rule read_claim_secret [OF c], simp add: holds_bind)
  apply (rule merged_claim [OF l])
  apply (cases "merged_events (osr_MapOrder r) (obs_claim source) (obs_Name source) items = []")
   apply (simp_all add: t Let_def holds_bind PutBucketNotification_def RemoveBucketNotification_def s3_put_def
     flip: claim_s3_def claim_topic_def)
   apply (rule scall_answers [OF p], simp add: holds_bind holds_return, rule scall_any, simp add: holds_return)+
  done

section \<open>Nothing without the finalizer\<close>

definition no_put :: "SourceCall list \<Rightarrow> bool" where
  "no_put calls \<longleftrightarrow> (\<forall>s3c bucket topics err. SPutNotification s3c bucket topics err \<notin> set calls)"

lemma put_needs_finalizer:
  assumes "no_put (ss_Calls s)"
  shows "holds (ReconcileSource r req) s (\<lambda>res s'. no_put (ss_Calls s') \<or>
     (\<exists>source. SGetSource (Inr source) \<in> set (ss_Calls s') \<and> ContainsFinalizer source FinalizerName))"
proof -
  have in_live: "holds (reconcile_live r source) t (\<lambda>res s'. x \<in> set (ss_Calls s'))"
    and in_delete: "holds (reconcileDelete r source) t (\<lambda>res s'. x \<in> set (ss_Calls s'))"
    if "x \<in> set (ss_Calls t)" for x source t
  proof -
    have "preserves (\<lambda>s. x \<in> set (ss_Calls s)) (reconcile_live r source)"
      unfolding reconcile_live_def configure_bucket_def not_ready_def setCondition_def computeMergedEvents_def
        computeMergedEventsExcluding_def resolveAdapterConfig_def readOBCStorageClassName_def readOBCSecret_def
        readOBCConfigMap_def PutBucketNotification_def s3_put_def Let_def
      by (intro frame_intros)
    then show "holds (reconcile_live r source) t (\<lambda>res s'. x \<in> set (ss_Calls s'))"
      using that by (rule preserves_holds)
    have "preserves (\<lambda>s. x \<in> set (ss_Calls s)) (reconcileDelete r source)"
      unfolding reconcileDelete_def release_bucket_def computeMergedEventsExcluding_def resolveAdapterConfig_def
        readOBCStorageClassName_def readOBCSecret_def readOBCConfigMap_def RemoveBucketNotification_def
        PutBucketNotification_def s3_put_def Let_def
      by (intro frame_intros)
    then show "holds (reconcileDelete r source) t (\<lambda>res s'. x \<in> set (ss_Calls s'))"
      using that by (rule preserves_holds)
  qed
  show ?thesis
    unfolding ReconcileSource_def holds_bind
  proof (rule scall_any)
    fix a w
    let ?s = "s\<lparr>ss_World := w, ss_Calls := ss_Calls s @ [SGetSource a]\<rparr>"
    have n: "no_put (ss_Calls ?s)" using assms by (auto simp: no_put_def)
    show "holds (case a of Inl err \<Rightarrow> if IsNotFound err then ret (None, None) else ret (None, Some err)
        | Inr source \<Rightarrow> if obs_deleted source then reconcileDelete r source
          else if \<not> ContainsFinalizer source FinalizerName then do {
            let marked = AddFinalizer source FinalizerName;
            err \<leftarrow> scall (SUpdate marked) (sc_UpdateSource (osr_Client r) marked);
            ret (None, err)
          } else reconcile_live r source) ?s (\<lambda>res s'. no_put (ss_Calls s') \<or>
      (\<exists>source. SGetSource (Inr source) \<in> set (ss_Calls s') \<and> ContainsFinalizer source FinalizerName))"
    proof (cases a)
      case (Inl err)
      then show ?thesis using n by (simp add: holds_return)
    next
      case (Inr source)
      show ?thesis
      proof (cases "ContainsFinalizer source FinalizerName")
        case True
        with Inr show ?thesis
          by (auto intro: holds_mono [OF in_live [of "SGetSource a"]] holds_mono [OF in_delete [of "SGetSource a"]])
      next
        case False
        with Inr n show ?thesis
          by (auto simp: reconcileDelete_def holds_return holds_bind no_put_def Let_def intro!: scall_any)
      qed
    qed
  qed
qed

lemma source_configures_bucket:
  assumes "answers (sc_GetSource (osr_Client r) req) (Inr source)"
    and "\<not> obs_deleted source" and "ContainsFinalizer source FinalizerName"
    and "claim_answers r (obs_Namespace source) (obs_claim source) v"
    and "answers (sc_ListSources (osr_Client r) (obs_Namespace source)) (Inr items)"
    and "\<And>t. t \<in> set items \<Longrightarrow> obs_Name t \<noteq> []"
    and "\<And>topics. answers (sc_PutBucketNotificationConfiguration (osr_Client r) (claim_s3 v) (claim_bucket v) topics) None"
    and "\<And>es. mset (osr_MapOrder r es) = mset es"
  shows "holds (ReconcileSource r req) s (\<lambda>res s'. res = (None, None) \<and> (\<exists>events.
     SPutNotification (claim_s3 v) (claim_bucket v) [claim_topic v events] None \<in> set (ss_Calls s')
     \<and> distinct events \<and> set events = wants items (obs_claim source) []))"
  unfolding ReconcileSource_def holds_bind
  by (rule scall_answers [OF assms(1)])
    (use assms set_merged_events [of "osr_MapOrder r" items "obs_claim source" "[]"] in
      \<open>auto intro!: holds_mono [OF configure_live [OF assms(4,5,7)]]\<close>)

section \<open>Properties\<close>

text \<open>A claim that is bound, in a namespace with three sources, two of them of this claim; the last is being deleted.\<close>

definition sample_source :: "string \<Rightarrow> string \<Rightarrow> string list \<Rightarrow> time option \<Rightarrow> ObjectBucketSource" where
  "sample_source name claim events deleted =
     \<lparr>obs_Meta = (new_meta name ''ns'')\<lparr>om_Finalizers := [''other'', FinalizerName], om_DeletionTimestamp := deleted\<rparr>,
      obs_Spec = \<lparr>obs_ObjectBucketClaim = \<lparr>obc_Name = claim\<rparr>, obs_Events = events, obs_Sink = \<lparr>sink_URI = ''http://sink''\<rparr>\<rparr>,
      obs_Status = \<lparr>obs_Conditions = []\<rparr>\<rparr>"

definition sample_sources :: "ObjectBucketSource list" where
  "sample_sources = [sample_source ''a'' ''claim'' [''e1'', ''e2''] None, sample_source ''b'' ''claim'' [''e2'', ''e3''] None,
     sample_source ''c'' ''other'' [''e4''] None, sample_source ''d'' ''claim'' [''e5''] (Some 1)]"

definition sample_claim :: "string ClaimView" where
  "sample_claim =
     \<lparr>cv_obc = [(''spec'', JObject [(''storageClassName'', JString ''noobaa'')])],
      cv_adapter = \<lparr>ba_ID = ''noobaa'', ba_Topic = ''topic-n'', ba_StorageClassPattern = Some ''noobaa''\<rparr>,
      cv_cm = \<lparr>cm_Meta = new_meta ''claim'' ''ns'',
        cm_Data = [(''BUCKET_HOST'', ''s3''), (''BUCKET_NAME'', ''bucket-1''), (''BUCKET_PORT'', ''443'')]\<rparr>,
      cv_secret = \<lparr>sec_Meta = new_meta ''claim'' ''ns'', sec_Type = [],
        sec_Data = [(''AWS_ACCESS_KEY_ID'', ''key''), (''AWS_SECRET_ACCESS_KEY'', ''secret'')]\<rparr>\<rparr>"

definition sample_source_reconciler :: "ObjectBucketSource \<Rightarrow> (unit, string) ObjectBucketSourceReconciler" where
  "sample_source_reconciler source =
     \<lparr>osr_Client = \<lparr>sc_GetSource = (\<lambda>k. ret (Inr source)), sc_UpdateSource = (\<lambda>s. ret None), sc_UpdateStatus = (\<lambda>s. ret None),
        sc_ListSources = (\<lambda>ns. ret (Inr sample_sources)), sc_GetConfigMap = (\<lambda>k. ret (Inr (cv_cm sample_claim))),
        sc_GetSecret = (\<lambda>k. ret (Inr (cv_secret sample_claim))), sc_GetOBC = (\<lambda>k. ret (Inr (cv_obc sample_claim))),
        sc_PutBucketNotificationConfiguration = (\<lambda>s3c bucket topics. ret None)\<rparr>,
      osr_Config = \<lparr>cfg_NoobaaAdapter = \<lparr>ab_ID = ''noobaa'', ab_TopicARN = ''topic-n'', ab_StorageClassPattern = ''noobaa''\<rparr>,
        cfg_RadosgwAdapter = \<lparr>ab_ID = ''ceph'', ab_TopicARN = ''topic-c'', ab_StorageClassPattern = ''ceph''\<rparr>,
        cfg_Notifications = \<lparr>ns_Mode = ''http'', ns_KafkaBrokers = [], ns_KafkaNotificationsTopics = [],
          ns_KafkaNotificationsGroupID = []\<rparr>\<rparr>,
      osr_MatchString = (=), osr_SetStatusCondition = (\<lambda>now cs c. cs @ [c]), osr_Clock = 0, osr_MapOrder = id\<rparr>"

definition source_start :: "unit source_state" where
  "source_start = \<lparr>ss_World = (), ss_Calls = []\<rparr>"

lemmas sample_source_defs = sample_source_reconciler_def sample_claim_def sample_sources_def sample_source_def source_start_def

lemma sample_claim_answers: "claim_answers (sample_source_reconciler source) ns name sample_claim"
  by (simp add: claim_answers_def sample_source_defs adapters_def lookup_def storage_class_def)

lemma sample_claim_bucket [simp]: "claim_bucket sample_claim = ''bucket-1''"
  by (simp add: sample_claim_def lookup_def)

lemma sample_sources_simps [simp]:
  "obs_Name (sample_source n c es d) = n" "obs_claim (sample_source n c es d) = c" "obs_Namespace (sample_source n c es d) = ''ns''"
  "om_DeletionTimestamp (obs_Meta (sample_source n c es d)) = d" "obs_Events (obs_Spec (sample_source n c es d)) = es"
  "ContainsFinalizer (sample_source n c es d) f \<longleftrightarrow> f = ''other'' \<or> f = FinalizerName"
  by (auto simp: sample_source_def new_meta_def ContainsFinalizer_def)

lemma sample_answers [simp]:
  "answers (sc_GetSource (osr_Client (sample_source_reconciler t)) k) (Inr t') = (t = t')"
  "answers (sc_ListSources (osr_Client (sample_source_reconciler t)) ns) (Inr sample_sources)"
  "answers (sc_PutBucketNotificationConfiguration (osr_Client (sample_source_reconciler t)) s3c b topics) None"
  "osr_MapOrder (sample_source_reconciler t) es = es"
  by (simp_all add: sample_source_reconciler_def)

text \<open>
  C18: for a live source that has the finalizer and a bound claim, a reconcile succeeds and configures
  the bucket of the claim with one topic, that of the adapter its storage class selects, and with each
  event once that some live source of this claim wants, and no other.
\<close>

theorem bucket_configured:
  assumes "answers (sc_GetSource (osr_Client r) req) (Inr source)"
    and "\<not> obs_deleted source" and "ContainsFinalizer source FinalizerName"
    and "claim_answers r (obs_Namespace source) (obs_claim source) v"
    and "answers (sc_ListSources (osr_Client r) (obs_Namespace source)) (Inr items)"
    and "\<And>t. t \<in> set items \<Longrightarrow> obs_Name t \<noteq> []"
    and "\<And>topics. answers (sc_PutBucketNotificationConfiguration (osr_Client r) (claim_s3 v) (claim_bucket v) topics) None"
    and "\<And>es. mset (osr_MapOrder r es) = mset es"
  shows "holds (ReconcileSource r req) s (\<lambda>res s'. res = (None, None) \<and> (\<exists>events.
     SPutNotification (claim_s3 v) (claim_bucket v) [claim_topic v events] None \<in> set (ss_Calls s')
     \<and> distinct events \<and> set events = wants items (obs_claim source) []))"
  using assms by (rule source_configures_bucket)

theorem bucket_configured_witness:
  "holds (ReconcileSource (sample_source_reconciler (hd sample_sources)) (nsn ''ns'' ''a'')) source_start
     (\<lambda>res s'. res = (None, None) \<and> (\<exists>events.
     SPutNotification (claim_s3 sample_claim) ''bucket-1'' [claim_topic sample_claim events] None \<in> set (ss_Calls s')
     \<and> distinct events \<and> set events = {''e1'', ''e2'', ''e3''}))"
proof -
  have w: "wants sample_sources ''claim'' [] = {''e1'', ''e2'', ''e3''}"
    by (auto simp: wants_def sample_sources_def)
  have "holds (ReconcileSource (sample_source_reconciler (hd sample_sources)) (nsn ''ns'' ''a'')) source_start
     (\<lambda>res s'. res = (None, None) \<and> (\<exists>events.
     SPutNotification (claim_s3 sample_claim) (claim_bucket sample_claim) [claim_topic sample_claim events] None \<in> set (ss_Calls s')
     \<and> distinct events \<and> set events = wants sample_sources (obs_claim (hd sample_sources)) []))"
    by (rule bucket_configured) (simp_all add: sample_claim_answers, auto simp: sample_sources_def)
  moreover have "obs_claim (hd sample_sources) = ''claim''" by (simp add: sample_sources_def)
  ultimately show ?thesis by (simp only: w sample_claim_bucket)
qed

text \<open>
  C20: whatever Kubernetes and S3 answer, reconciling a deleted source that has the finalizer ends with an
  update that takes off this finalizer, and only this one, and its outcome is the result: nothing that
  goes wrong with the bucket can keep the object from being deleted.
\<close>

theorem deletion_never_blocked:
  assumes "answers (sc_GetSource (osr_Client r) req) (Inr source)"
    and "obs_deleted source" and "ContainsFinalizer source FinalizerName"
  shows "holds (ReconcileSource r req) s (\<lambda>res s'. \<exists>calls released err.
     ss_Calls s' = calls @ [SUpdate released err] \<and> res = (None, err)
     \<and> \<not> ContainsFinalizer released FinalizerName
     \<and> (\<forall>f. f \<noteq> FinalizerName \<longrightarrow> ContainsFinalizer released f = ContainsFinalizer source f))"
proof -
  have f: "\<not> ContainsFinalizer (RemoveFinalizer source FinalizerName) FinalizerName
    \<and> (\<forall>f. f \<noteq> FinalizerName \<longrightarrow> ContainsFinalizer (RemoveFinalizer source FinalizerName) f = ContainsFinalizer source f)"
    by (auto simp: ContainsFinalizer_def RemoveFinalizer_def)
  show ?thesis
    unfolding ReconcileSource_def holds_bind
  proof (rule scall_answers [OF assms(1)], simp add: assms(2) del: not_None_eq, rule holds_mono [OF delete_lets_go [OF assms(3)]])
    fix res s'
    assume "\<exists>err. ss_Calls s' \<noteq> [] \<and> last (ss_Calls s') = SUpdate (RemoveFinalizer source FinalizerName) err \<and> res = (None, err)"
    then obtain err where "ss_Calls s' = butlast (ss_Calls s') @ [SUpdate (RemoveFinalizer source FinalizerName) err]" "res = (None, err)"
      by (metis append_butlast_last_id)
    with f show "\<exists>calls released err. ss_Calls s' = calls @ [SUpdate released err] \<and> res = (None, err)
     \<and> \<not> ContainsFinalizer released FinalizerName
     \<and> (\<forall>f. f \<noteq> FinalizerName \<longrightarrow> ContainsFinalizer released f = ContainsFinalizer source f)" by blast
  qed
qed

theorem deletion_never_blocked_witness:
  "holds (ReconcileSource (sample_source_reconciler (sample_sources ! 3)) (nsn ''ns'' ''d'')) source_start
     (\<lambda>res s'. \<exists>calls released err. ss_Calls s' = calls @ [SUpdate released err] \<and> res = (None, err)
       \<and> \<not> ContainsFinalizer released FinalizerName \<and> ContainsFinalizer released ''other'')"
proof -
  have "''other'' \<noteq> FinalizerName" by (simp add: FinalizerName_def)
  moreover have "ContainsFinalizer (sample_sources ! 3) ''other''" by (simp add: sample_sources_def)
  moreover have "holds (ReconcileSource (sample_source_reconciler (sample_sources ! 3)) (nsn ''ns'' ''d'')) source_start
     (\<lambda>res s'. \<exists>calls released err. ss_Calls s' = calls @ [SUpdate released err] \<and> res = (None, err)
       \<and> \<not> ContainsFinalizer released FinalizerName
       \<and> (\<forall>f. f \<noteq> FinalizerName \<longrightarrow> ContainsFinalizer released f = ContainsFinalizer (sample_sources ! 3) f))"
    by (rule deletion_never_blocked) (simp_all, simp_all add: sample_sources_def)
  ultimately show ?thesis by (elim holds_mono) blast
qed



text \<open>
  Whatever Kubernetes and S3 answer, the notifications of a bucket are only touched by a reconcile that
  found the source with the finalizer on it: there is always a deletion to undo them.
\<close>

theorem configured_only_with_finalizer:
  "holds (ReconcileSource r req) \<lparr>ss_World = w, ss_Calls = []\<rparr> (\<lambda>res s'. no_put (ss_Calls s') \<or>
     (\<exists>source. SGetSource (Inr source) \<in> set (ss_Calls s') \<and> ContainsFinalizer source FinalizerName))"
  by (rule put_needs_finalizer) (simp add: no_put_def)

end
