(* ===== verification/EventDispatch.thy ===== *)
theory EventDispatch
  imports BucketSource PluginObjects NotificationServer
begin

text \<open>
  From a bucket notification to the sinks: the handler and the Kafka consumer of
  \<open>internal/objectbucketsource/notificationserver\<close> (\<open>handler.go\<close>, \<open>consumer.go\<close>) and the CloudEvents of
  \<open>internal/objectbucketsource/cloudevents/dispatch.go\<close>.

  JSON is read by \<open>GoJson\<close>. A raw record is kept as its value, with the members of an object in their order,
  duplicates included. The CloudEvents SDK, the Kafka producer and the Kubernetes client are parameters.
\<close>

section \<open>Decoding a notification\<close>

record s3Bucket =
  b_Name :: string

record s3Field =
  s3_Bucket :: s3Bucket

record recordHeader =
  hdr_Event :: string
  hdr_EventName :: string
  hdr_Bucket :: string
  hdr_S3 :: "s3Field option"

record parsedRecord =
  rec_raw :: json
  rec_header :: recordHeader

definition decode_s3Bucket :: "json \<Rightarrow> s3Bucket \<Rightarrow> s3Bucket option" where
  "decode_s3Bucket = decode_struct (\<lambda>name v b.
     if name = ''name'' then map_option (\<lambda>s. b\<lparr>b_Name := s\<rparr>) (decode_string v (b_Name b)) else Some b)"

definition decode_s3Field :: "json \<Rightarrow> s3Field \<Rightarrow> s3Field option" where
  "decode_s3Field = decode_struct (\<lambda>name v f.
     if name = ''bucket'' then map_option (\<lambda>b. f\<lparr>s3_Bucket := b\<rparr>) (decode_s3Bucket v (s3_Bucket f)) else Some f)"

definition zero_s3Field :: s3Field where
  "zero_s3Field = \<lparr>s3_Bucket = \<lparr>b_Name = []\<rparr>\<rparr>"

text \<open>A pointer: \<open>null\<close> sets it to nil, any other value allocates what is not there yet.\<close>

definition decode_s3_pointer :: "json \<Rightarrow> s3Field option \<Rightarrow> s3Field option option" where
  "decode_s3_pointer v p =
     (if v = JNull then Some None
      else map_option Some (decode_s3Field v (case p of None \<Rightarrow> zero_s3Field | Some f \<Rightarrow> f)))"

definition header_field :: "string \<Rightarrow> json \<Rightarrow> recordHeader \<Rightarrow> recordHeader option" where
  "header_field name v h =
     (if name = ''event'' then map_option (\<lambda>s. h\<lparr>hdr_Event := s\<rparr>) (decode_string v (hdr_Event h))
      else if name = ''eventname'' then map_option (\<lambda>s. h\<lparr>hdr_EventName := s\<rparr>) (decode_string v (hdr_EventName h))
      else if name = ''bucket'' then map_option (\<lambda>s. h\<lparr>hdr_Bucket := s\<rparr>) (decode_string v (hdr_Bucket h))
      else if name = ''s3'' then map_option (\<lambda>p. h\<lparr>hdr_S3 := p\<rparr>) (decode_s3_pointer v (hdr_S3 h))
      else Some h)"

definition decode_header :: "json \<Rightarrow> recordHeader option" where
  "decode_header v = decode_struct header_field v \<lparr>hdr_Event = [], hdr_EventName = [], hdr_Bucket = [], hdr_S3 = None\<rparr>"

text \<open>The records of a payload, kept raw.\<close>

definition decode_payload :: "json \<Rightarrow> json list option" where
  "decode_payload v = decode_struct (\<lambda>name v recs.
     if name = ''records'' then (case v of JArray vs \<Rightarrow> Some vs | JNull \<Rightarrow> Some [] | _ \<Rightarrow> None) else Some recs) v []"

section \<open>CloudEvents\<close>

record CloudEvent =
  ce_Type :: string
  ce_Source :: string
  ce_ID :: string
  ce_Time :: time
  ce_DataContentType :: string
  ce_Data :: json

record ProducerMessage =
  pm_Topic :: string
  pm_Key :: string
  pm_Value :: string

record 'w EventEnv =
  ev_NewUUID :: "('w, string) state"
  ev_Now :: "('w, time) state"
  ev_SetData :: "json \<Rightarrow> goerr option"
  ev_Marshal :: "CloudEvent \<Rightarrow> goerr + string"
  ev_NewClientHTTP :: "string \<Rightarrow> goerr option"
  ev_Send :: "string \<Rightarrow> CloudEvent \<Rightarrow> ('w, goerr option) state"
  ev_SendMessage :: "ProducerMessage \<Rightarrow> ('w, goerr option) state"

text \<open>\<open>ev_Send\<close> gives the result of an undelivered event. What is sent is recorded.\<close>

datatype DispatchCall =
    DHttp string CloudEvent "goerr option"
  | DKafka ProducerMessage "goerr option"
  | DStatus ObjectBucketSource "goerr option"
  | DMark nat

record 'w dispatch_state =
  ds_World :: 'w
  ds_Calls :: "DispatchCall list"

type_synonym ('w, 'a) dispatch_run = "('w dispatch_state, 'a) state"

definition dworld :: "('w, 'a) state \<Rightarrow> ('w, 'a) dispatch_run" where
  "dworld m = zoom ds_World (\<lambda>w s. s\<lparr>ds_World := w\<rparr>) m"

definition dcall :: "('a \<Rightarrow> DispatchCall) \<Rightarrow> ('w, 'a) state \<Rightarrow> ('w, 'a) dispatch_run" where
  "dcall c m = do {
     a \<leftarrow> dworld m;
     modify (\<lambda>s. s\<lparr>ds_Calls := ds_Calls s @ [c a]\<rparr>);
     ret a
   }"

definition newCloudEvent :: "'w EventEnv \<Rightarrow> string \<Rightarrow> json list \<Rightarrow> ('w, goerr + CloudEvent) dispatch_run" where
  "newCloudEvent env bucketName records = do {
     let payload = JObject [(''Records'', JArray records)];
     uuid \<leftarrow> dworld (ev_NewUUID env);
     now \<leftarrow> dworld (ev_Now env);
     case ev_SetData env payload of
       Some err \<Rightarrow> ret (Inl (Errorf ''setting event data: '' err))
     | None \<Rightarrow> ret (Inr \<lparr>ce_Type = ''com.noobaa.s3.notification'', ce_Source = ''noobaa/'' @ bucketName, ce_ID = uuid,
         ce_Time = now, ce_DataContentType = ''application/json'', ce_Data = payload\<rparr>)
   }"

definition DispatchEvent :: "'w EventEnv \<Rightarrow> string \<Rightarrow> string \<Rightarrow> json list \<Rightarrow> ('w, goerr option) dispatch_run" where
  "DispatchEvent env targetURI bucketName records = do {
     res \<leftarrow> newCloudEvent env bucketName records;
     case res of
       Inl err \<Rightarrow> ret (Some err)
     | Inr e \<Rightarrow>
         (case ev_NewClientHTTP env targetURI of
            Some err \<Rightarrow> ret (Some (Errorf (''creating cloudevent client for '' @ targetURI @ '': '') err))
          | None \<Rightarrow> do {
              result \<leftarrow> dcall (DHttp targetURI e) (ev_Send env targetURI e);
              case result of
                Some err \<Rightarrow> ret (Some (ErrorString (''failed to send CloudEvent to '' @ targetURI @ '': '' @ err_Error err)))
              | None \<Rightarrow> ret None
            })
   }"

definition DispatchEventToKafka :: "'w EventEnv \<Rightarrow> string \<Rightarrow> string \<Rightarrow> json list \<Rightarrow> ('w, goerr option) dispatch_run" where
  "DispatchEventToKafka env topic bucketName records = do {
     res \<leftarrow> newCloudEvent env bucketName records;
     case res of
       Inl err \<Rightarrow> ret (Some err)
     | Inr e \<Rightarrow>
         (case ev_Marshal env e of
            Inl err \<Rightarrow> ret (Some (Errorf ''marshaling cloud event: '' err))
          | Inr eventJSON \<Rightarrow> do {
              let msg = \<lparr>pm_Topic = topic, pm_Key = bucketName, pm_Value = eventJSON\<rparr>;
              err \<leftarrow> dcall (DKafka msg) (ev_SendMessage env msg);
              case err of
                Some e \<Rightarrow> ret (Some (Errorf (''sending message to kafka topic '' @ topic @ '': '') e))
              | None \<Rightarrow> ret None
            })
   }"

section \<open>The handler\<close>

text \<open>\<open>nh_kafkaProducer\<close>: whether there is a producer, the one of the environment.\<close>

record 'w notificationHandler =
  nh_List :: "('w, goerr + ObjectBucketSource list) state"
  nh_Get :: "nsname \<Rightarrow> ('w, goerr + ObjectBucketSource) state"
  nh_UpdateStatus :: "ObjectBucketSource \<Rightarrow> ('w, goerr option) state"
  nh_kafkaProducer :: bool
  nh_Env :: "'w EventEnv"
  nh_SetStatusCondition :: "time \<Rightarrow> Condition list \<Rightarrow> Condition \<Rightarrow> Condition list"
  nh_RetryOnConflict :: "('w, goerr option) dispatch_run \<Rightarrow> ('w, goerr option) dispatch_run"

definition findSourcesForBucket :: "'w notificationHandler \<Rightarrow> string \<Rightarrow> ('w, goerr + ObjectBucketSource list) dispatch_run" where
  "findSourcesForBucket h bucketName = do {
     res \<leftarrow> dworld (nh_List h);
     case res of
       Inl err \<Rightarrow> ret (Inl err)
     | Inr items \<Rightarrow> ret (Inr (filter (\<lambda>s. obs_claim s = bucketName) items))
   }"

text \<open>
  One try at recording the test event on a source, which is read again first. What is read has the key
  that was asked for, so that all tries look up the same key.
\<close>

definition test_event_attempt :: "'w notificationHandler \<Rightarrow> ObjectBucketSource \<Rightarrow> ('w, goerr option) dispatch_run" where
  "test_event_attempt h source = do {
     res \<leftarrow> dworld (nh_Get h (meta_key (obs_Meta source)));
     case res of
       Inl err \<Rightarrow> ret (Some err)
     | Inr source \<Rightarrow> do {
         now \<leftarrow> dworld (ev_Now (nh_Env h));
         let source = source\<lparr>obs_Status := (obs_Status source)\<lparr>obs_Conditions :=
           nh_SetStatusCondition h now (obs_Conditions (obs_Status source))
             \<lparr>cond_Type = ConditionTestEventReceived, cond_Status = ConditionTrue, cond_Reason = ''TestEventReceived'',
              cond_Message = ''Received test event from NooBaa'',
              cond_ObservedGeneration = om_Generation (obs_Meta source), cond_LastTransitionTime = zero_time\<rparr>\<rparr>\<rparr>;
         dcall (DStatus source) (nh_UpdateStatus h source)
       }
   }"

fun each_source :: "(ObjectBucketSource \<Rightarrow> ('w, unit) dispatch_run) \<Rightarrow> ObjectBucketSource list \<Rightarrow> ('w, unit) dispatch_run" where
  "each_source f [] = ret ()"
| "each_source f (s # ss) = do { f s; each_source f ss }"

definition handleTestEvent :: "'w notificationHandler \<Rightarrow> string \<Rightarrow> ('w, unit) dispatch_run" where
  "handleTestEvent h bucketName = do {
     res \<leftarrow> findSourcesForBucket h bucketName;
     case res of
       Inl err \<Rightarrow> ret ()
     | Inr sources \<Rightarrow> each_source (\<lambda>source. do { err \<leftarrow> nh_RetryOnConflict h (test_event_attempt h source); ret () }) sources
   }"

text \<open>The records of a source: those of its bucket whose event some pattern matches. A record here has \<open>s3\<close>.\<close>

definition matched_records :: "ObjectBucketSource \<Rightarrow> parsedRecord list \<Rightarrow> json list" where
  "matched_records source records = map rec_raw (filter (\<lambda>r.
     (case hdr_S3 (rec_header r) of None \<Rightarrow> False | Some f \<Rightarrow> b_Name (s3_Bucket f) = obs_claim source)
     \<and> list_ex (\<lambda>pattern. MatchEvent pattern (hdr_EventName (rec_header r))) (obs_Events (obs_Spec source))) records)"

definition dispatch_source :: "'w notificationHandler \<Rightarrow> parsedRecord list \<Rightarrow> ObjectBucketSource \<Rightarrow> ('w, unit) dispatch_run" where
  "dispatch_source h records source =
     (let obcName = obs_claim source; matchedRecords = matched_records source records in
      if length matchedRecords = 0 then ret ()
      else
        let sinkURI = sink_URI (obs_Sink (obs_Spec source)) in
        if HasPrefix sinkURI ''kafka:'' then
          let topic = TrimPrefix sinkURI ''kafka:'' in
          if \<not> nh_kafkaProducer h then ret ()
          else do { err \<leftarrow> DispatchEventToKafka (nh_Env h) topic obcName matchedRecords; ret () }
        else do { err \<leftarrow> DispatchEvent (nh_Env h) sinkURI obcName matchedRecords; ret () })"

definition dispatchDataEvents :: "'w notificationHandler \<Rightarrow> parsedRecord list \<Rightarrow> ('w, unit) dispatch_run" where
  "dispatchDataEvents h records = do {
     res \<leftarrow> dworld (nh_List h);
     case res of
       Inl err \<Rightarrow> ret ()
     | Inr items \<Rightarrow> each_source (dispatch_source h records) items
   }"

text \<open>The loop over the records; \<open>acc\<close> are the data records so far.\<close>

fun process_records :: "'w notificationHandler \<Rightarrow> json list \<Rightarrow> parsedRecord list \<Rightarrow> ('w, parsedRecord list) dispatch_run" where
  "process_records h [] acc = ret acc"
| "process_records h (raw # raws) acc =
     (case decode_header raw of
        None \<Rightarrow> process_records h raws acc
      | Some header \<Rightarrow>
          if hdr_Event header = ''s3:TestEvent'' then do {
            handleTestEvent h (hdr_Bucket header);
            process_records h raws acc
          }
          else if hdr_EventName header \<noteq> [] \<and> hdr_S3 header \<noteq> None then
            process_records h raws (acc @ [\<lparr>rec_raw = raw, rec_header = header\<rparr>])
          else process_records h raws acc)"

definition processNotification :: "'w notificationHandler \<Rightarrow> string \<Rightarrow> ('w, goerr option) dispatch_run" where
  "processNotification h body =
     (case parse_json body of
        Inl err \<Rightarrow> ret (Some (Errorf ''parsing notification payload: '' err))
      | Inr v \<Rightarrow>
          (case decode_payload v of
             None \<Rightarrow> ret (Some (Errorf ''parsing notification payload: '' TypeError))
           | Some raws \<Rightarrow> do {
               dataRecords \<leftarrow> process_records h raws [];
               (if length dataRecords > 0 then dispatchDataEvents h dataRecords else ret ());
               ret None
             }))"

section \<open>The two transports\<close>

text \<open>The status code of the answer. \<open>body\<close> is what reading the body gives.\<close>

definition handleNotification :: "'w notificationHandler \<Rightarrow> string \<Rightarrow> goerr + string \<Rightarrow> ('w, nat) dispatch_run" where
  "handleNotification h meth body =
     (if meth \<noteq> ''POST'' then ret 405
      else (case body of
              Inl err \<Rightarrow> ret 400
            | Inr body \<Rightarrow> do {
                err \<leftarrow> processNotification h body;
                case err of Some e \<Rightarrow> ret 400 | None \<Rightarrow> ret 200
              }))"

record ConsumerMessage =
  msg_Offset :: nat
  msg_Value :: string

fun ConsumeClaim :: "'w notificationHandler \<Rightarrow> ConsumerMessage list \<Rightarrow> ('w, goerr option) dispatch_run" where
  "ConsumeClaim h [] = ret None"
| "ConsumeClaim h (msg # msgs) = do {
     err \<leftarrow> processNotification h (msg_Value msg);
     modify (\<lambda>s. s\<lparr>ds_Calls := ds_Calls s @ [DMark (msg_Offset msg)]\<rparr>);
     ConsumeClaim h msgs
   }"

end
