(* ===== verification/JsonTexts.thy ===== *)
theory JsonTexts
  imports GoJson
begin

text \<open>
  Every value that is read from a text has a text itself, from which it is read again: its strings are UTF-8,
  whatever escapes or bytes they were read from, its numbers are those of the syntax, and its depth is within
  the limit. The last is an invariant of the machine that reads a text.
\<close>

section \<open>Strings that are read are UTF-8\<close>

lemma utf8_ok_ascii: "char_code c < 0x80 \<Longrightarrow> utf8_ok (c # s) = utf8_ok s"
  by (subst utf8_ok.simps) simp

lemma utf8_ok_rune:
  assumes "utf8_len s = Some n" "\<not> char_code (hd s) < 0x80"
  shows "utf8_ok s = utf8_ok (drop n s)"
proof -
  have "s \<noteq> []" using utf8_len_pos [OF assms(1)] by auto
  then show ?thesis using assms by (subst utf8_ok.simps) (cases s; simp)
qed

lemma utf8_ok_two:
  assumes "in_range 0xC2 0xDF c" "in_range 0x80 0xBF c1"
  shows "utf8_ok (c # c1 # s) = utf8_ok s"
proof -
  have "utf8_len (c # c1 # s) = Some 2" using assms by (simp add: utf8_len_def)
  moreover have "\<not> char_code c < 0x80" using assms by (simp add: in_range_def)
  ultimately show ?thesis using utf8_ok_rune [of "c # c1 # s" 2] by simp
qed

lemma utf8_ok_three:
  assumes "in_range 0xE0 0xEF c"
    and "in_range (if char_code c = 0xE0 then 0xA0 else 0x80) (if char_code c = 0xED then 0x9F else 0xBF) c1"
    and "in_range 0x80 0xBF c2"
  shows "utf8_ok (c # c1 # c2 # s) = utf8_ok s"
proof -
  have r: "\<not> in_range 0xC2 0xDF c" "\<not> char_code c < 0x80" using assms(1) by (auto simp: in_range_def)
  then have "utf8_len (c # c1 # c2 # s) = Some 3" using assms by (simp add: utf8_len_def)
  then show ?thesis using r utf8_ok_rune [of "c # c1 # c2 # s" 3] by (simp add: numeral_3_eq_3)
qed

lemma utf8_ok_four:
  assumes "in_range 0xF0 0xF4 c"
    and "in_range (if char_code c = 0xF0 then 0x90 else 0x80) (if char_code c = 0xF4 then 0x8F else 0xBF) c1"
    and "in_range 0x80 0xBF c2" "in_range 0x80 0xBF c3"
  shows "utf8_ok (c # c1 # c2 # c3 # s) = utf8_ok s"
proof -
  have r: "\<not> in_range 0xC2 0xDF c" "\<not> in_range 0xE0 0xEF c" "\<not> char_code c < 0x80"
    using assms(1) by (auto simp: in_range_def)
  then have "utf8_len (c # c1 # c2 # c3 # s) = Some 4" using assms by (simp add: utf8_len_def)
  then show ?thesis using r utf8_ok_rune [of "c # c1 # c2 # c3 # s" 4] by (simp add: eval_nat_numeral)
qed

lemma continuation: "in_range 0x80 0xBF (char_of (0x80 + n mod 64 :: nat))"
proof -
  have "n mod 64 < 64" by simp
  then show ?thesis unfolding in_range_def by (subst (1 2) char_code_of) linarith+
qed

lemma utf8_ok_encode2:
  assumes "0x80 \<le> n" "n < 0x800"
  shows "utf8_ok (utf8_encode n @ s) = utf8_ok s"
proof -
  have "n div 64 < 32" "2 \<le> n div 64" using assms by linarith+
  then have "in_range 0xC2 0xDF (char_of (0xC0 + n div 64))" by (simp add: in_range_def char_code_of)
  then show ?thesis using assms utf8_ok_two [OF _ continuation] by (simp add: utf8_encode_def)
qed

lemma utf8_ok_encode3:
  assumes "0x800 \<le> n" "n < 0x10000" "\<not> (0xD800 \<le> n \<and> n < 0xE000)"
  shows "utf8_ok (utf8_encode n @ s) = utf8_ok s"
proof -
  define a b where "a = n div 4096" and "b = n div 64 mod 64"
  have n: "n div 64 = a * 64 + b" unfolding a_def b_def by (simp add: div_mult2_eq [of n 64 64, simplified] mult.commute)
  have q: "32 \<le> n div 64" "n div 64 < 1024" "\<not> (0x360 \<le> n div 64 \<and> n div 64 < 0x380)" using assms by linarith+
  have "b < 64" by (simp add: b_def)
  then have ab: "a < 16" "a = 0 \<Longrightarrow> 32 \<le> b" "a = 13 \<Longrightarrow> b < 32" using q unfolding n by linarith+
  have c: "char_code (char_of (0xE0 + a)) = 0xE0 + a" "char_code (char_of (0x80 + b)) = 0x80 + b"
    using ab(1) \<open>b < 64\<close> by (simp_all add: char_code_of)
  have "in_range 0xE0 0xEF (char_of (0xE0 + a))" using ab(1) by (simp add: in_range_def c)
  moreover have "in_range (if char_code (char_of (0xE0 + a)) = 0xE0 then 0xA0 else 0x80)
      (if char_code (char_of (0xE0 + a)) = 0xED then 0x9F else 0xBF) (char_of (0x80 + b))"
    unfolding in_range_def c using ab \<open>b < 64\<close> by auto
  ultimately have "utf8_ok (char_of (0xE0 + a) # char_of (0x80 + b) # char_of (0x80 + n mod 64) # s) = utf8_ok s"
    by (intro utf8_ok_three continuation)
  then show ?thesis using assms by (simp add: utf8_encode_def flip: a_def b_def)
qed

lemma utf8_ok_encode4:
  assumes "0x10000 \<le> n" "n < 0x110000"
  shows "utf8_ok (utf8_encode n @ s) = utf8_ok s"
proof -
  define a b where "a = n div 262144" and "b = n div 4096 mod 64"
  have n: "n div 4096 = a * 64 + b" unfolding a_def b_def by (simp add: div_mult2_eq [of n 4096 64, simplified] mult.commute)
  have q: "16 \<le> n div 4096" "n div 4096 < 272" using assms by linarith+
  have "b < 64" by (simp add: b_def)
  then have ab: "a \<le> 4" "a = 0 \<Longrightarrow> 16 \<le> b" "a = 4 \<Longrightarrow> b < 16" using q unfolding n by linarith+
  have c: "char_code (char_of (0xF0 + a)) = 0xF0 + a" "char_code (char_of (0x80 + b)) = 0x80 + b"
    using ab(1) \<open>b < 64\<close> by (simp_all add: char_code_of)
  have "in_range 0xF0 0xF4 (char_of (0xF0 + a))" using ab(1) by (simp add: in_range_def c)
  moreover have "in_range (if char_code (char_of (0xF0 + a)) = 0xF0 then 0x90 else 0x80)
      (if char_code (char_of (0xF0 + a)) = 0xF4 then 0x8F else 0xBF) (char_of (0x80 + b))"
    unfolding in_range_def c using ab \<open>b < 64\<close> by auto
  ultimately have "utf8_ok (char_of (0xF0 + a) # char_of (0x80 + b) # char_of (0x80 + n div 64 mod 64)
      # char_of (0x80 + n mod 64) # s) = utf8_ok s"
    by (intro utf8_ok_four continuation)
  then show ?thesis using assms by (simp add: utf8_encode_def flip: a_def b_def)
qed

lemma utf8_ok_encode:
  assumes "n < 0x110000" "\<not> (0xD800 \<le> n \<and> n < 0xE000)"
  shows "utf8_ok (utf8_encode n @ s) = utf8_ok s"
proof -
  consider "n < 0x80" | "0x80 \<le> n \<and> n < 0x800" | "0x800 \<le> n \<and> n < 0x10000" | "0x10000 \<le> n" by linarith
  then show ?thesis
  proof cases
    case 1
    then show ?thesis by (simp add: utf8_encode_def utf8_ok_ascii char_code_of)
  qed (use assms utf8_ok_encode2 utf8_ok_encode3 utf8_ok_encode4 in blast)+
qed


lemma RuneError_ok: "utf8_ok (RuneError @ s) = utf8_ok s"
  unfolding RuneError_def by (rule utf8_ok_encode) simp_all

lemma utf8_ok_take:
  assumes "utf8_len s = Some n"
  shows "utf8_ok (take n s @ t) = utf8_ok t"
proof -
  have n: "2 \<le> n" "n \<le> length s" using utf8_len_pos [OF assms] by auto
  then have "take n s \<noteq> []" by (cases s) auto
  then have "0x80 \<le> char_code (hd (take n s @ t))"
    using utf8_len_high [OF assms] by (cases "take n s") auto
  then show ?thesis using n utf8_ok_rune [OF utf8_len_append [OF assms, of t]] by simp
qed

lemma hex_value_less: "hex_value c = Some d \<Longrightarrow> d < 16"
  by (auto simp: hex_value_def split: option.splits if_splits)

lemma getu4_less:
  assumes "getu4 s = Some n"
  shows "n < 0x10000"
proof -
  obtain c1 c2 c3 c4 a b c d where v: "hex_value c1 = Some a" "hex_value c2 = Some b" "hex_value c3 = Some c" "hex_value c4 = Some d"
    "n = ((a * 16 + b) * 16 + c) * 16 + d"
    using assms unfolding getu4_def by (simp split: list.splits if_splits option.splits)
  have digit: "x * 16 + y < m * 16" if "x < m" "y < 16" for x y m :: nat using that by linarith
  show ?thesis using digit [OF digit [OF digit [OF hex_value_less hex_value_less] hex_value_less] hex_value_less, OF v(1-4)]
    by (simp add: v(5))
qed

lemma unescape_ascii: "e \<in> simple_escapes \<Longrightarrow> char_code (unescape e) < 0x80"
proof -
  have "\<forall>e \<in> simple_escapes. char_code (unescape e) < 0x80" by code_simp
  then show "e \<in> simple_escapes \<Longrightarrow> char_code (unescape e) < 0x80" by blast
qed

text \<open>Whatever stands between the quotes, the string is UTF-8.\<close>

lemma utf8_ok_unquote_u:
  assumes "getu4 s = Some n" "utf8_ok (unquote t)" "utf8_ok (unquote t')"
  shows "utf8_ok (if 0xD800 \<le> n \<and> n < 0xE000
    then (case getu4 (drop 6 s) of
            Some n1 \<Rightarrow> if n < 0xDC00 \<and> 0xDC00 \<le> n1 \<and> n1 < 0xE000
              then utf8_encode ((n - 0xD800) * 1024 + (n1 - 0xDC00) + 0x10000) @ unquote t
              else RuneError @ unquote t'
          | None \<Rightarrow> RuneError @ unquote t')
    else utf8_encode n @ unquote t')"
proof -
  have pair: "utf8_ok (utf8_encode ((n - 0xD800) * 1024 + (n1 - 0xDC00) + 0x10000) @ u) = utf8_ok u"
    if "n < 0xDC00" "n1 < 0xE000" for n1 u
    using that by (intro utf8_ok_encode4) linarith+
  have "n < 0x110000" using getu4_less [OF assms(1)] by simp
  then show ?thesis
    by (auto simp: RuneError_ok utf8_ok_encode pair assms(2,3) split: option.split)
qed


lemma utf8_ok_Nil: "utf8_ok []"
  by (simp add: utf8_ok.simps)

text \<open>Whatever stands between the quotes, the string is UTF-8.\<close>

lemma utf8_ok_unquote: "utf8_ok (unquote s)"
proof (induction s rule: length_induct)
  case (1 s)
  then have IH: "length t < length s \<Longrightarrow> utf8_ok (unquote t)" for t by blast
  show ?case
  proof (cases s)
    case Nil
    then show ?thesis by (simp add: unquote.simps utf8_ok_Nil)
  next
    case (Cons c r)
    then have dropped: "utf8_ok (unquote (drop (Suc k) s))" for k using IH [of "drop k r"] by simp
    show ?thesis
    proof (cases "c = CHR 0x5C")
      case True
      show ?thesis
      proof (cases r)
        case (Cons e r')
        have split: "getu4 s = None \<or> (\<exists>n. getu4 s = Some n)" by (cases "getu4 s") auto
        show ?thesis
          using utf8_ok_unquote_u [of s _ "drop 12 s" "drop 6 s"] dropped [of 11] dropped [of 5] split IH [of r']
          by (subst unquote.simps)
            (auto simp: True Cons \<open>s = c # r\<close> utf8_ok_Nil utf8_ok_ascii unescape_ascii simp del: drop_Suc_Cons drop_Suc)
      qed (subst unquote.simps, simp add: True \<open>s = c # r\<close> utf8_ok_Nil)
    next
      case False
      then show ?thesis
        by (subst unquote.simps) (auto simp: Cons utf8_ok_ascii IH utf8_ok_take RuneError_ok dest: utf8_len_pos split: option.split)
    qed
  qed
qed


section \<open>Tokens and values that have a text\<close>

text \<open>A value that has a text, within a depth.\<close>

definition has_text :: "nat \<Rightarrow> json \<Rightarrow> bool" where
  "has_text d v \<longleftrightarrow> json_ok v \<and> json_depth v \<le> d"

lemma scan_number_again: "scan_number st s = Some (t, r) \<Longrightarrow> scan_number st t = Some (t, [])"
  by (induction st s arbitrary: t rule: scan_number.induct) (auto split: if_splits option.splits)

lemma number_value_text:
  assumes "scan_number (first_number_state c) s = Some (t, r)" "c = CHR ''-'' \<or> is_digit c"
  shows "has_text d (number_value (c # t))"
proof -
  have "number_text (c # t)" using assms(2) scan_number_again [OF assms(1)] by (simp add: number_text_def)
  then show ?thesis by (simp add: number_value_def has_text_def)
qed

lemma scalar_branches:
  assumes "next_token s = Some (TScalar v, r)" "dropWhile json_space s = c # r0"
  shows "v = JNull \<or> (\<exists>b. v = JBool b) \<or> (\<exists>t. v = JString (unquote t))
      \<or> (\<exists>t. v = number_value (c # t) \<and> scan_number (first_number_state c) r0 = Some (t, r) \<and> (c = CHR ''-'' \<or> is_digit c))"
proof (cases "c \<in> {CHR 0x22, CHR ''t'', CHR ''f'', CHR ''n''}")
  case True
  then show ?thesis using assms
    by (elim insertE emptyE) (auto simp: next_token_def)
next
  case False
  define P where "P = (c = CHR ''-'' \<or> is_digit c)"
  have "c \<noteq> CHR 0x22" "c \<noteq> CHR ''t''" "c \<noteq> CHR ''f''" "c \<noteq> CHR ''n''" using False by auto
  then have "P \<and> map_option (apfst (\<lambda>t. TScalar (number_value (c # t)))) (scan_number (first_number_state c) r0) = Some (TScalar v, r)"
    using assms(1) unfolding next_token_def assms(2) list.case P_def [symmetric]
    by (simp only: if_False split: if_split_asm) (simp_all only: option.inject prod.inject json_token.distinct option.distinct simp_thms)
  then show ?thesis unfolding P_def by (cases "scan_number (first_number_state c) r0") auto
qed

lemma scalar_text:
  assumes "next_token s = Some (TScalar v, r)"
  shows "has_text d v"
proof -
  obtain c r0 where s: "dropWhile json_space s = c # r0"
    using assms by (cases "dropWhile json_space s") (auto simp: next_token_def)
  show ?thesis using scalar_branches [OF assms s] number_value_text [of c r0 _ r]
    by (elim disjE exE) (simp_all add: has_text_def utf8_ok_unquote)
qed

text \<open>The containers that are open hold what fits into their depth.\<close>

primrec frame_text :: "nat \<Rightarrow> json_frame \<Rightarrow> bool" where
  "frame_text d (InArray vs) = (\<forall>v \<in> set vs. has_text d v)"
| "frame_text d (InObject ms) = (\<forall>(k, v) \<in> set ms. utf8_ok k \<and> has_text d v)"
| "frame_text d (AtMember ms k) = (utf8_ok k \<and> (\<forall>(k, v) \<in> set ms. utf8_ok k \<and> has_text d v))"

primrec stack_text :: "json_frame list \<Rightarrow> bool" where
  "stack_text [] = True"
| "stack_text (f # fs) = (length fs < maxNestingDepth \<and> frame_text (maxNestingDepth - Suc (length fs)) f \<and> stack_text fs)"

definition outcome_text :: "json_outcome \<Rightarrow> bool" where
  "outcome_text oc =
     (case oc of JBad \<Rightarrow> True | JComplete v \<Rightarrow> has_text maxNestingDepth v | JGo stack ex \<Rightarrow> stack_text stack)"

lemma end_value_text:
  assumes "stack_text stack" "has_text (maxNestingDepth - length stack) v"
  shows "outcome_text (end_value stack v)"
  using assms by (auto simp: end_value_def outcome_text_def split: list.split json_frame.split)

lemma has_text_array: "(\<And>v. v \<in> set vs \<Longrightarrow> has_text d v) \<Longrightarrow> has_text (Suc d) (JArray vs)"
  using json_depth_array_le [of vs d] by (simp add: has_text_def list_all_iff del: json_depth.simps)

lemma has_text_object: "(\<And>k v. (k, v) \<in> set ms \<Longrightarrow> utf8_ok k \<and> has_text d v) \<Longrightarrow> has_text (Suc d) (JObject ms)"
  using json_depth_object_le [of ms d] by (auto simp: has_text_def list_all_iff simp del: json_depth.simps)

lemma has_text_arrayD: "has_text (Suc d) (JArray vs) \<Longrightarrow> \<forall>v \<in> set vs. has_text d v"
  using foldr_max_le [of _ "map json_depth vs"] by (fastforce simp: has_text_def list_all_iff)

lemma has_text_objectD: "has_text (Suc d) (JObject ms) \<Longrightarrow> \<forall>(k, v) \<in> set ms. has_text d v"
  using foldr_max_le [of _ "map snd (map (map_prod id json_depth) ms)"] by (fastforce simp: has_text_def list_all_iff)

lemma end_container_text:
  assumes "stack_text stack"
  shows "outcome_text (end_container stack t)"
proof (cases stack)
  case (Cons f fs)
  then have d: "Suc (maxNestingDepth - Suc (length fs)) = maxNestingDepth - length fs" "stack_text fs" using assms by auto
  have "has_text (maxNestingDepth - length fs) (JArray vs)" if "f = InArray vs" for vs
    using assms has_text_array [of vs "maxNestingDepth - Suc (length fs)"] by (simp add: Cons that d(1))
  moreover have "has_text (maxNestingDepth - length fs) (JObject ms)" if "f = InObject ms" for ms
    using assms has_text_object [of ms "maxNestingDepth - Suc (length fs)"] unfolding d(1) by (auto simp: Cons that)
  ultimately show ?thesis
    using d(2) by (cases f; cases t) (simp_all add: Cons end_container_def end_value_text, simp_all add: outcome_text_def)
qed (simp add: end_container_def outcome_text_def)

lemma begin_value_text:
  assumes "stack_text stack" "\<And>v d. t = TScalar v \<Longrightarrow> has_text d v"
  shows "outcome_text (begin_value stack t)"
  using assms by (cases t) (auto simp: begin_value_def open_container_def end_value_text, auto simp: outcome_text_def)

lemma read_key_text:
  assumes "stack_text stack" "\<And>v d. t = TScalar v \<Longrightarrow> has_text d v"
  shows "outcome_text (read_key stack t)"
proof (cases "\<exists>k. t = TScalar (JString k)")
  case True
  then obtain k where k: "t = TScalar (JString k)" by blast
  then have "utf8_ok k" using assms(2) [of "JString k"] by (simp add: has_text_def)
  then show ?thesis using assms(1) by (auto simp: read_key_def k outcome_text_def split: list.split json_frame.split)
qed (auto simp: read_key_def outcome_text_def split: list.split json_frame.split json_token.split json.split)

lemma json_step_text:
  assumes "stack_text stack" "\<And>v d. t = TScalar v \<Longrightarrow> has_text d v"
  shows "outcome_text (json_step stack ex t)"
  using begin_value_text [OF assms] read_key_text [OF assms] end_container_text [OF assms(1), of t] assms(1)
  by (auto simp: json_step_def split: expectation.split list.split json_frame.split) (simp_all add: outcome_text_def)

lemma read_value_text: "read_value stack ex s = Some (v, r) \<Longrightarrow> stack_text stack \<Longrightarrow> has_text maxNestingDepth v"
proof (induction stack ex s rule: read_value.induct)
  case (1 stack ex s)
  from "1.prems"(1) obtain t s' where t: "next_token s = Some (t, s')"
    by (subst (asm) read_value.simps) (auto split: option.splits)
  have "outcome_text (json_step stack ex t)" using "1.prems"(2) scalar_text t by (intro json_step_text) auto
  then show ?case
    using "1.prems"(1) "1.IH" [OF t refl] by (auto simp: read_value_token [OF t] outcome_text_def split: json_outcome.splits)
qed

text \<open>What is read has a text, from which it is read again.\<close>

lemma parse_json_text: "parse_json s = Inr v \<Longrightarrow> has_text maxNestingDepth v"
  by (auto simp: parse_json_def split: option.splits if_splits dest: read_value_text)

lemma parse_json_again: "parse_json s = Inr v \<Longrightarrow> parse_json (json_text v) = Inr v"
  using parse_json_text [of s v] by (simp add: has_text_def json_read_back)

end
