(* ===== verification/EventProperties.thy ===== *)
theory EventProperties
  imports EventDispatch SourceProperties JsonTexts
begin

text \<open>
  What the notification server guarantees once a notification has arrived: which sinks get which
  records, that a failing sink keeps nothing from the others, the answers of the HTTP server, and that
  every message of Kafka is marked.
\<close>

section \<open>What is to be delivered\<close>

text \<open>The data records among the raw ones.\<close>

definition data_records :: "json list \<Rightarrow> parsedRecord list" where
  "data_records raws = concat (map (\<lambda>raw. case decode_header raw of None \<Rightarrow> []
     | Some header \<Rightarrow> if hdr_Event header \<noteq> ''s3:TestEvent'' \<and> hdr_EventName header \<noteq> [] \<and> hdr_S3 header \<noteq> None
         then [\<lparr>rec_raw = raw, rec_header = header\<rparr>] else []) raws)"

text \<open>The sources in their order, each with its records, when there are any and its sink can be reached.\<close>

definition reachable_sink :: "bool \<Rightarrow> ObjectBucketSource \<Rightarrow> bool" where
  "reachable_sink producer source \<longleftrightarrow> producer \<or> \<not> HasPrefix (sink_URI (obs_Sink (obs_Spec source))) ''kafka:''"

definition planned :: "bool \<Rightarrow> parsedRecord list \<Rightarrow> ObjectBucketSource list \<Rightarrow> (ObjectBucketSource \<times> json list) list" where
  "planned producer records items =
     filter (\<lambda>(source, recs). recs \<noteq> [] \<and> reachable_sink producer source) (map (\<lambda>s. (s, matched_records s records)) items)"

text \<open>The event for a source, up to its identity and time.\<close>

definition event_of :: "ObjectBucketSource \<Rightarrow> json list \<Rightarrow> CloudEvent \<Rightarrow> bool" where
  "event_of source recs e \<longleftrightarrow> ce_Type e = ''com.noobaa.s3.notification'' \<and> ce_Source e = ''noobaa/'' @ obs_claim source
     \<and> ce_DataContentType e = ''application/json'' \<and> ce_Data e = JObject [(''Records'', JArray recs)]"

fun delivers :: "'w EventEnv \<Rightarrow> ObjectBucketSource \<times> json list \<Rightarrow> DispatchCall \<Rightarrow> bool" where
  "delivers env (source, recs) (DHttp uri e err) =
     (\<not> HasPrefix uri ''kafka:'' \<and> uri = sink_URI (obs_Sink (obs_Spec source)) \<and> event_of source recs e)"
| "delivers env (source, recs) (DKafka msg err) =
     (''kafka:'' @ pm_Topic msg = sink_URI (obs_Sink (obs_Spec source)) \<and> pm_Key msg = obs_claim source
      \<and> (\<exists>e. event_of source recs e \<and> ev_Marshal env e = Inr (pm_Value msg)))"
| "delivers env d c = False"

fun is_delivery :: "DispatchCall \<Rightarrow> bool" where
  "is_delivery (DHttp uri e err) = True"
| "is_delivery (DKafka msg err) = True"
| "is_delivery c = False"

fun is_mark :: "DispatchCall \<Rightarrow> bool" where
  "is_mark (DMark n) = True"
| "is_mark c = False"

abbreviation deliveries :: "DispatchCall list \<Rightarrow> DispatchCall list" where
  "deliveries calls \<equiv> filter is_delivery calls"

section \<open>Facts\<close>

lemma holds_dworld [wp_simps]: "holds (dworld m) s Q = holds m (ds_World s) (\<lambda>a w. Q a (s\<lparr>ds_World := w\<rparr>))"
  by (simp add: dworld_def wp_simps)

lemma dworld_any: "(\<And>a w. Q a (s\<lparr>ds_World := w\<rparr>)) \<Longrightarrow> holds (dworld m) s Q"
  by (simp add: holds_dworld holds_any)

lemma dworld_answers: "answers m a \<Longrightarrow> (\<And>w. Q a (s\<lparr>ds_World := w\<rparr>)) \<Longrightarrow> holds (dworld m) s Q"
  by (simp add: holds_dworld holds_answers)

lemma dcall_any: "(\<And>a w. Q a (s\<lparr>ds_World := w, ds_Calls := ds_Calls s @ [c a]\<rparr>)) \<Longrightarrow> holds (dcall c m) s Q"
  by (simp add: dcall_def holds_bind holds_modify holds_return dworld_any)

lemma preserves_dworld: "(\<And>s w. I s \<Longrightarrow> I (s\<lparr>ds_World := w\<rparr>)) \<Longrightarrow> preserves I (dworld m)"
  by (rule preservesI, rule dworld_any) auto

lemma preserves_dcall: "(\<And>s a w. I s \<Longrightarrow> I (s\<lparr>ds_World := w, ds_Calls := ds_Calls s @ [c a]\<rparr>)) \<Longrightarrow> preserves I (dcall c m)"
  by (rule preservesI, rule dcall_any) auto

lemma preserves_each_source [frame_intros]: "(\<And>s. preserves I (f s)) \<Longrightarrow> preserves I (each_source f ss)"
  by (induction ss) (auto intro!: frame_intros)

lemma newCloudEvent_sent:
  assumes "\<And>v. ev_SetData env v = None"
    and "\<And>e w. event_of source recs e \<Longrightarrow> Q (Inr e) (s\<lparr>ds_World := w\<rparr>)"
  shows "holds (newCloudEvent env (obs_claim source) recs) s Q"
  unfolding newCloudEvent_def Let_def holds_bind
  by (rule dworld_any, rule dworld_any) (simp add: assms event_of_def holds_return)

lemma dispatch_source_delivers:
  assumes "\<And>v. ev_SetData (nh_Env h) v = None" and "\<And>e. \<exists>t. ev_Marshal (nh_Env h) e = Inr t"
    and "\<And>uri. ev_NewClientHTTP (nh_Env h) uri = None"
  shows "holds (dispatch_source h records source) s (\<lambda>_ s'. \<exists>calls. ds_Calls s' = ds_Calls s @ calls
     \<and> list_all2 (delivers (nh_Env h)) (planned (nh_kafkaProducer h) records [source]) calls)"
proof (cases "matched_records source records = []")
  case True
  then show ?thesis by (simp add: dispatch_source_def planned_def holds_return)
next
  case recs: False
  show ?thesis
  proof (cases "HasPrefix (sink_URI (obs_Sink (obs_Spec source))) ''kafka:''")
    case True
    then obtain topic where t: "sink_URI (obs_Sink (obs_Spec source)) = ''kafka:'' @ topic"
      by (auto simp: HasPrefix_iff)
    then have tt: "TrimPrefix (sink_URI (obs_Sink (obs_Spec source))) ''kafka:'' = topic"
      by (metis TrimPrefix_append)
    show ?thesis
    proof (cases "nh_kafkaProducer h")
      case False
      with True recs show ?thesis by (simp add: dispatch_source_def planned_def reachable_sink_def holds_return)
    next
      case p: True
      have "holds (DispatchEventToKafka (nh_Env h) topic (obs_claim source) (matched_records source records)) s
        (\<lambda>_ s'. \<exists>calls. ds_Calls s' = ds_Calls s @ calls
          \<and> list_all2 (delivers (nh_Env h)) [(source, matched_records source records)] calls)"
        unfolding DispatchEventToKafka_def holds_bind
      proof (rule newCloudEvent_sent [OF assms(1)])
        fix e w assume e: "event_of source (matched_records source records) e"
        obtain v where v: "ev_Marshal (nh_Env h) e = Inr v" using assms(2) by blast
        show "holds (case Inr e of Inl err \<Rightarrow> ret (Some err) | Inr e \<Rightarrow> (case ev_Marshal (nh_Env h) e of
            Inl err \<Rightarrow> ret (Some (Errorf ''marshaling cloud event: '' err))
          | Inr eventJSON \<Rightarrow> do {
              let msg = \<lparr>pm_Topic = topic, pm_Key = obs_claim source, pm_Value = eventJSON\<rparr>;
              err \<leftarrow> dcall (DKafka msg) (ev_SendMessage (nh_Env h) msg);
              case err of
                Some e \<Rightarrow> ret (Some (Errorf (''sending message to kafka topic '' @ topic @ '': '') e))
              | None \<Rightarrow> ret None
            })) (s\<lparr>ds_World := w\<rparr>) (\<lambda>_ s'. \<exists>calls. ds_Calls s' = ds_Calls s @ calls
          \<and> list_all2 (delivers (nh_Env h)) [(source, matched_records source records)] calls)"
          using e v t by (auto simp: holds_bind holds_return Let_def split: option.split intro!: dcall_any)
      qed
      with True recs p tt show ?thesis
        by (simp add: dispatch_source_def planned_def reachable_sink_def holds_bind holds_return Let_def)
    qed
  next
    case False
    have "holds (DispatchEvent (nh_Env h) (sink_URI (obs_Sink (obs_Spec source))) (obs_claim source) (matched_records source records)) s
        (\<lambda>_ s'. \<exists>calls. ds_Calls s' = ds_Calls s @ calls
          \<and> list_all2 (delivers (nh_Env h)) [(source, matched_records source records)] calls)"
      unfolding DispatchEvent_def holds_bind
      by (rule newCloudEvent_sent [OF assms(1)])
        (use False in \<open>auto simp: assms(3) holds_bind holds_return split: option.split intro!: dcall_any\<close>)
    with False recs show ?thesis
      by (simp add: dispatch_source_def planned_def reachable_sink_def holds_bind holds_return Let_def)
  qed
qed

lemma planned_Cons: "planned p records (s # ss) = planned p records [s] @ planned p records ss"
  by (simp add: planned_def)

lemma delivers_is_delivery: "list_all2 (delivers env) ds calls \<Longrightarrow> deliveries calls = calls"
proof (induction ds calls rule: list_all2_induct)
  case (Cons d ds c calls)
  then show ?case by (cases c; cases d) auto
qed simp

lemma dispatch_all_deliver:
  fixes h :: "'w notificationHandler"
  assumes "\<And>v. ev_SetData (nh_Env h) v = None" and "\<And>e. \<exists>t. ev_Marshal (nh_Env h) e = Inr t"
    and "\<And>uri. ev_NewClientHTTP (nh_Env h) uri = None"
  shows "holds (each_source (dispatch_source h records) items) s (\<lambda>_ s'. \<exists>calls. ds_Calls s' = ds_Calls s @ calls
     \<and> list_all2 (delivers (nh_Env h)) (planned (nh_kafkaProducer h) records items) calls)"
proof (induction items arbitrary: s)
  case Nil
  then show ?case by (simp add: holds_return planned_def)
next
  case (Cons source items)
  show ?case
    unfolding each_source.simps holds_bind
  proof (rule holds_mono [OF dispatch_source_delivers [OF assms]])
    fix u and s1 :: "'w dispatch_state"
    assume "\<exists>calls. ds_Calls s1 = ds_Calls s @ calls
      \<and> list_all2 (delivers (nh_Env h)) (planned (nh_kafkaProducer h) records [source]) calls"
    then obtain calls where c: "ds_Calls s1 = ds_Calls s @ calls"
      "list_all2 (delivers (nh_Env h)) (planned (nh_kafkaProducer h) records [source]) calls" by blast
    show "holds (each_source (dispatch_source h records) items) s1 (\<lambda>_ s'. \<exists>calls. ds_Calls s' = ds_Calls s @ calls
       \<and> list_all2 (delivers (nh_Env h)) (planned (nh_kafkaProducer h) records (source # items)) calls)"
      by (rule holds_mono [OF Cons.IH])
        (use c in \<open>auto simp: planned_Cons [of _ _ source items] intro!: list_all2_appendI\<close>)
  qed
qed

text \<open>Nothing but the dispatch sends, and nothing but the consumer marks.\<close>

lemma handleTestEvent_deliveries:
  assumes "conflict_retry (nh_RetryOnConflict h)"
  shows "preserves (\<lambda>s. deliveries (ds_Calls s) = ds) (handleTestEvent h bucket)"
  unfolding handleTestEvent_def findSourcesForBucket_def test_event_attempt_def Let_def
  by (intro frame_intros conflict_retry.retry_preserves [OF assms] preserves_dworld preserves_dcall) auto

lemma process_records_result:
  assumes "conflict_retry (nh_RetryOnConflict h)"
  shows "holds (process_records h raws acc) s (\<lambda>recs s'. recs = acc @ data_records raws
     \<and> deliveries (ds_Calls s') = deliveries (ds_Calls s))"
proof (induction raws arbitrary: acc s)
  case Nil
  then show ?case by (simp add: holds_return data_records_def)
next
  case (Cons raw raws)
  show ?case
  proof (cases "decode_header raw")
    case None
    then show ?thesis using Cons.IH by (simp add: data_records_def)
  next
    case (Some hdr)
    show ?thesis
    proof (cases "hdr_Event hdr = ''s3:TestEvent''")
      case True
      have "holds (handleTestEvent h (hdr_Bucket hdr)) s (\<lambda>_ s'. deliveries (ds_Calls s') = deliveries (ds_Calls s))"
        by (rule preserves_holds [OF handleTestEvent_deliveries [OF assms]]) simp
      then have "holds (handleTestEvent h (hdr_Bucket hdr)) s (\<lambda>_ s1. holds (process_records h raws acc) s1
        (\<lambda>recs s'. recs = acc @ data_records raws \<and> deliveries (ds_Calls s') = deliveries (ds_Calls s)))"
        by (rule holds_mono) (use Cons.IH in metis)
      with Some True show ?thesis by (simp add: data_records_def holds_bind)
    next
      case False
      with Some Cons.IH [of acc s] Cons.IH [of "acc @ [\<lparr>rec_raw = raw, rec_header = hdr\<rparr>]" s] show ?thesis
        by (auto simp: data_records_def)
    qed
  qed
qed

lemma processNotification_marks:
  assumes "conflict_retry (nh_RetryOnConflict h)"
  shows "preserves (\<lambda>s. filter is_mark (ds_Calls s) = ms) (processNotification h body)"
proof -
  have "preserves (\<lambda>s. filter is_mark (ds_Calls s) = ms) (process_records h raws acc)" for raws acc
  proof (induction raws arbitrary: acc)
    case (Cons raw raws)
    then show ?case
      unfolding process_records.simps handleTestEvent_def findSourcesForBucket_def test_event_attempt_def Let_def
      by (intro frame_intros conflict_retry.retry_preserves [OF assms] preserves_dworld preserves_dcall) auto
  qed (simp add: frame_intros)
  then show ?thesis
    unfolding processNotification_def dispatchDataEvents_def dispatch_source_def DispatchEvent_def DispatchEventToKafka_def
      newCloudEvent_def Let_def
    by (intro frame_intros preserves_dworld preserves_dcall) auto
qed

lemma notification_delivers:
  fixes h :: "'w notificationHandler"
  assumes "conflict_retry (nh_RetryOnConflict h)"
    and "parse_json body = Inr v" and "decode_payload v = Some raws"
    and "answers (nh_List h) (Inr items)"
    and "\<And>d. ev_SetData (nh_Env h) d = None" and "\<And>e. \<exists>t. ev_Marshal (nh_Env h) e = Inr t"
    and "\<And>uri. ev_NewClientHTTP (nh_Env h) uri = None"
  shows "holds (processNotification h body) s (\<lambda>err s'. err = None \<and> (\<exists>calls.
     deliveries (ds_Calls s') = deliveries (ds_Calls s) @ calls
     \<and> list_all2 (delivers (nh_Env h)) (planned (nh_kafkaProducer h) (data_records raws) items) calls))"
proof -
  have "holds (process_records h raws []) s (\<lambda>recs s1. holds
      (do { (if length recs > 0 then dispatchDataEvents h recs else ret ()); ret None }) s1 (\<lambda>err s'. err = None \<and> (\<exists>calls.
     deliveries (ds_Calls s') = deliveries (ds_Calls s) @ calls
     \<and> list_all2 (delivers (nh_Env h)) (planned (nh_kafkaProducer h) (data_records raws) items) calls)))"
  proof (rule holds_mono [OF process_records_result [OF assms(1)]])
    fix recs and s1 :: "'w dispatch_state"
    assume "recs = [] @ data_records raws \<and> deliveries (ds_Calls s1) = deliveries (ds_Calls s)"
    then have r: "recs = data_records raws" and d: "deliveries (ds_Calls s1) = deliveries (ds_Calls s)" by simp_all
    have none: "planned p [] items = []" for p by (auto simp: planned_def matched_records_def filter_empty_conv)
    have "holds (dispatchDataEvents h recs) s1 (\<lambda>_ s'. \<exists>calls. deliveries (ds_Calls s') = deliveries (ds_Calls s) @ calls
     \<and> list_all2 (delivers (nh_Env h)) (planned (nh_kafkaProducer h) recs items) calls)"
      unfolding dispatchDataEvents_def holds_bind
      by (rule dworld_answers [OF assms(4)], simp, rule holds_mono [OF dispatch_all_deliver [OF assms(5-7)]])
        (use d in \<open>auto simp: delivers_is_delivery\<close>)
    then show "holds (do { (if length recs > 0 then dispatchDataEvents h recs else ret ()); ret None }) s1
      (\<lambda>err s'. err = None \<and> (\<exists>calls. deliveries (ds_Calls s') = deliveries (ds_Calls s) @ calls
     \<and> list_all2 (delivers (nh_Env h)) (planned (nh_kafkaProducer h) (data_records raws) items) calls))"
      using d none [of "nh_kafkaProducer h"] by (simp add: r holds_bind holds_return)
  qed
  then show ?thesis by (simp add: processNotification_def assms(2,3) holds_bind)
qed

section \<open>Properties\<close>


text \<open>A notification of two records, one of a bucket that no source has, and a sink that cannot be reached.\<close>

definition sample_record :: "string \<Rightarrow> string \<Rightarrow> json" where
  "sample_record bucket event = JObject [(''eventName'', JString event),
     (''s3'', JObject [(''bucket'', JObject [(''name'', JString bucket)])])]"

definition sample_notification :: json where
  "sample_notification = JObject [(''Records'', JArray [sample_record ''claim'' ''e2'', sample_record ''none'' ''e2'',
     sample_record ''claim'' ''e3''])]"

definition sample_handler :: "unit notificationHandler" where
  "sample_handler =
     \<lparr>nh_List = ret (Inr sample_sources), nh_Get = (\<lambda>k. ret (Inr (sample_source (nn_Name k) ''claim'' [] None))),
      nh_UpdateStatus = (\<lambda>s. ret None), nh_kafkaProducer = False,
      nh_Env = \<lparr>ev_NewUUID = ret ''uuid'', ev_Now = ret 1, ev_SetData = (\<lambda>d. None), ev_Marshal = (\<lambda>e. Inr []),
        ev_NewClientHTTP = (\<lambda>uri. None), ev_Send = (\<lambda>uri e. ret (Some (ErrorString ''refused''))), ev_SendMessage = (\<lambda>m. ret None)\<rparr>,
      nh_SetStatusCondition = apply_condition, nh_RetryOnConflict = attempts 4\<rparr>"

definition dispatch_start :: "unit dispatch_state" where
  "dispatch_start = \<lparr>ds_World = (), ds_Calls = []\<rparr>"

definition sample_body :: string where
  "sample_body = json_text sample_notification"

lemma fold_names [simp]: "foldName ''Records'' = ''records''" "foldName ''eventName'' = ''eventname''" "foldName ''s3'' = ''s3''"
  "foldName ''bucket'' = ''bucket''" "foldName ''name'' = ''name''"
  by code_simp+

lemma sample_parse: "parse_json sample_body = Inr sample_notification"
  unfolding sample_body_def
proof (rule json_read_back)
  show "json_ok sample_notification" by code_simp
  show "json_depth sample_notification \<le> maxNestingDepth" by code_simp
qed

lemma sample_decode: "decode_payload sample_notification =
  Some [sample_record ''claim'' ''e2'', sample_record ''none'' ''e2'', sample_record ''claim'' ''e3'']"
  by (simp add: sample_notification_def decode_payload_def decode_struct_def)

lemma sample_header: "decode_header (sample_record bucket event) =
  Some \<lparr>hdr_Event = [], hdr_EventName = event, hdr_Bucket = [], hdr_S3 = Some \<lparr>s3_Bucket = \<lparr>b_Name = bucket\<rparr>\<rparr>\<rparr>"
  by (simp add: sample_record_def decode_header_def decode_struct_def header_field_def
      decode_string_def decode_s3_pointer_def decode_s3Field_def decode_s3Bucket_def zero_s3Field_def)


lemma members_text:
  assumes "decode_members (\<lambda>name v recs.
      if name = ''records'' then (case v of JArray vs \<Rightarrow> Some vs | JNull \<Rightarrow> Some [] | _ \<Rightarrow> None) else Some recs) ms xs = Some raws"
    and "\<forall>(k, v) \<in> set ms. has_text (Suc d) v" "\<forall>x \<in> set xs. has_text d x"
  shows "\<forall>x \<in> set raws. has_text d x"
  using assms
proof (induction ms arbitrary: xs)
  case (Cons m ms)
  have "\<forall>x \<in> set vs. has_text d x" if "snd m = JArray vs" for vs
    using Cons.prems(2) that has_text_arrayD [of d vs] by (cases m) simp
  then obtain ys where "decode_members (\<lambda>name v recs.
      if name = ''records'' then (case v of JArray vs \<Rightarrow> Some vs | JNull \<Rightarrow> Some [] | _ \<Rightarrow> None) else Some recs) ms ys = Some raws"
    "\<forall>x \<in> set ys. has_text d x"
    using Cons.prems(1,3) by (cases m) (auto split: if_splits json.splits)
  then show ?case using Cons.IH Cons.prems(2) by simp
qed simp

text \<open>The records of a notification that was read have texts, within a depth that leaves room for two containers.\<close>

lemma payload_text:
  assumes "has_text maxNestingDepth j" "decode_payload j = Some raws"
  shows "\<forall>x \<in> set raws. has_text (maxNestingDepth - 2) x"
proof (cases j)
  case (JObject ms)
  have d: "maxNestingDepth = Suc (Suc (maxNestingDepth - 2))" by (simp add: maxNestingDepth_def)
  have "\<forall>(k, v) \<in> set ms. has_text (Suc (maxNestingDepth - 2)) v"
    using assms(1) unfolding JObject by (subst (asm) d) (rule has_text_objectD)
  then show ?thesis using assms(2) by (auto simp: decode_payload_def decode_struct_def JObject dest: members_text)
qed (use assms(2) in \<open>auto simp: decode_payload_def decode_struct_def\<close>)

text \<open>
  C37: the data of an event has the form of a notification: of the records of a notification that was read, whatever
  its text, any may be passed on, and the JSON text of the data, read as a notification, gives just these, in
  their order.
\<close>

theorem event_data_read_back:
  assumes "parse_json body = Inr j" "decode_payload j = Some raws" "set records \<subseteq> set raws"
  shows "holds (newCloudEvent env bucketName records) s (\<lambda>res s'. case res of
     Inl err \<Rightarrow> \<exists>e. ev_SetData env (JObject [(''Records'', JArray records)]) = Some e
   | Inr event \<Rightarrow> Unmarshal decode_payload (json_text (ce_Data event)) = Inr records)"
proof -
  let ?data = "JObject [(''Records'', JArray records)]"
  have "has_text (maxNestingDepth - 2) r" if "r \<in> set records" for r
    using payload_text [OF parse_json_text [OF assms(1)] assms(2)] assms(3) that by blast
  then have "has_text (Suc (maxNestingDepth - 2)) (JArray records)" by (rule has_text_array)
  moreover have "utf8_ok ''Records''" by code_simp
  ultimately have "has_text (Suc (Suc (maxNestingDepth - 2))) ?data" by (intro has_text_object) auto
  then have "json_ok ?data" "json_depth ?data \<le> maxNestingDepth" unfolding has_text_def by (simp_all add: maxNestingDepth_def)
  moreover have "decode_payload ?data = Some records" by (simp add: decode_payload_def decode_struct_def)
  ultimately have "Unmarshal decode_payload (json_text ?data) = Inr records" by (intro Unmarshal_text)
  then show ?thesis
    by (auto simp: newCloudEvent_def Let_def holds_bind holds_return dworld_def holds_zoom holds_def split: option.split prod.split)
qed

theorem event_data_read_back_witness:
  "holds (newCloudEvent (nh_Env sample_handler) ''claim'' [sample_record ''claim'' ''e2'']) dispatch_start
     (\<lambda>res s'. case res of Inl err \<Rightarrow> False
      | Inr event \<Rightarrow> Unmarshal decode_payload (json_text (ce_Data event)) = Inr [sample_record ''claim'' ''e2''])"
  by (rule holds_mono [OF event_data_read_back [OF sample_parse sample_decode]])
    (auto simp: sample_handler_def split: sum.splits)

text \<open>
  C23: whatever the sinks and Kubernetes answer, consuming the messages of a claim marks each of them
  once, in their order, those that cannot be parsed included, and ends without an error.
\<close>

theorem messages_marked:
  assumes "conflict_retry (nh_RetryOnConflict h)"
  shows "holds (ConsumeClaim h msgs) s (\<lambda>err s'. err = None
     \<and> filter is_mark (ds_Calls s') = filter is_mark (ds_Calls s) @ map (\<lambda>m. DMark (msg_Offset m)) msgs)"
proof (induction msgs arbitrary: s)
  case Nil
  then show ?case by (simp add: holds_return)
next
  case (Cons m msgs)
  show ?case
    unfolding ConsumeClaim.simps holds_bind
    by (rule holds_mono [OF preserves_holds [OF processNotification_marks [OF assms] refl]], unfold holds_modify,
        rule holds_mono [OF Cons.IH]) auto
qed

theorem messages_marked_witness:
  "holds (ConsumeClaim sample_handler [\<lparr>msg_Offset = 5, msg_Value = ''{''\<rparr>, \<lparr>msg_Offset = 6, msg_Value = []\<rparr>]) dispatch_start
     (\<lambda>err s'. err = None \<and> filter is_mark (ds_Calls s') = [DMark 5, DMark 6])"
proof -
  have "conflict_retry (nh_RetryOnConflict sample_handler)"
    by (simp add: sample_handler_def ref_retry.conflict_retry_axioms)
  from messages_marked [OF this, of "[\<lparr>msg_Offset = 5, msg_Value = ''{''\<rparr>, \<lparr>msg_Offset = 6, msg_Value = []\<rparr>]" dispatch_start]
  show ?thesis by (simp add: dispatch_start_def)
qed

text \<open>
  The answer to a request is 405 for another method than POST, 400 for a body that cannot be read or
  is no notification, and 200 otherwise, whatever happens to the records of it.
\<close>

theorem notification_answers:
  "holds (handleNotification h meth body) s (\<lambda>code s'.
     code = (if meth \<noteq> ''POST'' then 405
             else case body of Inl err \<Rightarrow> 400
               | Inr text \<Rightarrow> (case parse_json text of Inl err \<Rightarrow> 400
                   | Inr v \<Rightarrow> if decode_payload v = None then 400 else 200))
     \<and> (code \<noteq> 200 \<longrightarrow> ds_Calls s' = ds_Calls s))"
proof -
  have "holds (processNotification h t) s (\<lambda>err s'. err = None)"
    if "parse_json t = Inr v" and "decode_payload v = Some raws" for t v raws
    unfolding processNotification_def
    using that by (simp add: holds_bind holds_return)
  then show ?thesis
    unfolding handleNotification_def
    by (auto simp: holds_bind holds_return processNotification_def split: sum.split option.split)
qed

theorem notification_answers_witness:
  "holds (handleNotification sample_handler ''POST'' (Inr ''{'')) dispatch_start (\<lambda>code s'. code = 400 \<and> ds_Calls s' = [])"
proof -
  have "parse_json ''{'' = Inl SyntaxError" by code_simp
  then show ?thesis
    by (intro holds_mono [OF notification_answers]) (simp add: dispatch_start_def)
qed

text \<open>
  The handler takes the name of the bucket in a notification for the name of a claim: the sample source
  has its notifications configured on the bucket \<open>bucket-1\<close> of its claim \<open>claim\<close>, and a notification of
  that bucket is not for it, whereas a source of the same claim name in another namespace would get those
  of this one.
\<close>

lemma bucket_taken_for_claim:
  "b_Name b \<noteq> obs_claim source \<Longrightarrow> hdr_S3 (rec_header r) = Some \<lparr>s3_Bucket = b\<rparr> \<Longrightarrow> matched_records source [r] = []"
  "obs_Spec other = obs_Spec source \<Longrightarrow> matched_records other rs = matched_records source rs"
  by (simp_all add: matched_records_def cong: option.case_cong)

lemma configured_bucket_unmatched:
  "matched_records (hd sample_sources) (data_records [sample_record (claim_bucket sample_claim) ''e1'']) = []"
  by (simp add: data_records_def sample_header matched_records_def sample_sources_def)

section \<open>Test events\<close>

lemma attempts_first: "holds fn s (\<lambda>err s'. err = None \<and> Q None s') \<Longrightarrow> holds (attempts n fn) s Q"
  by (cases n) (auto simp: holds_bind holds_return elim!: holds_mono)

definition received :: "ObjectBucketSource \<Rightarrow> DispatchCall list \<Rightarrow> bool" where
  "received source calls \<longleftrightarrow> (\<exists>source'. DStatus source' None \<in> set calls \<and> obs_Meta source' = obs_Meta source
     \<and> (\<exists>c. find_cond (obs_Conditions (obs_Status source')) ConditionTestEventReceived = Some c \<and> cond_Status c = ConditionTrue))"

lemma received_more: "received source calls \<Longrightarrow> set calls \<subseteq> set calls' \<Longrightarrow> received source calls'"
  by (auto simp: received_def)

lemma attempt_received:
  assumes "status_conditions (nh_SetStatusCondition h)" and "answers (nh_Get h (meta_key (obs_Meta source))) (Inr source)"
    and "\<And>source'. obs_Meta source' = obs_Meta source \<Longrightarrow> answers (nh_UpdateStatus h source') None"
  shows "holds (test_event_attempt h source) s (\<lambda>err s'. err = None \<and> received source (ds_Calls s') \<and> set (ds_Calls s) \<subseteq> set (ds_Calls s'))"
proof -
  have c: "find_cond (nh_SetStatusCondition h now cs c) (cond_Type c) = Some (c\<lparr>cond_LastTransitionTime :=
      (case find_cond cs (cond_Type c) of None \<Rightarrow> now
        | Some d \<Rightarrow> if cond_Status d = cond_Status c then cond_LastTransitionTime d else now)\<rparr>)"
    if "cond_LastTransitionTime c = zero_time" for now cs c
    using that by (simp add: status_conditions.ssc_eq [OF assms(1)] find_apply_same)
  show ?thesis
    unfolding test_event_attempt_def holds_bind
    apply (rule dworld_answers [OF assms(2)], simp add: holds_bind Let_def)
    apply (rule dworld_any, simp add: dcall_def holds_bind holds_modify holds_return)
    apply (rule dworld_answers [OF assms(3)], simp)
    apply (simp add: received_def)
    apply (rule conjI, rule exI, rule conjI, rule disjI1, rule refl)
    apply (simp add: c [of "mk_cond ConditionTestEventReceived ConditionTrue ''TestEventReceived''
         ''Received test event from NooBaa'' (om_Generation (obs_Meta source))", simplified])
    apply auto
    done
qed

text \<open>
  A test event for a bucket sets the condition \<open>TestEventReceived\<close> of every source that names it,
  when the sources can be listed, read and updated.
\<close>

theorem test_event_recorded:
  fixes h :: "'w notificationHandler"
  assumes "conflict_retry (nh_RetryOnConflict h)" and "status_conditions (nh_SetStatusCondition h)"
    and "answers (nh_List h) (Inr items)"
    and "\<And>source. source \<in> set items \<Longrightarrow> answers (nh_Get h (meta_key (obs_Meta source))) (Inr source)"
    and "\<And>source. answers (nh_UpdateStatus h source) None"
  shows "holds (handleTestEvent h bucket) s (\<lambda>_ s'. \<forall>source. source \<in> set items \<and> obs_claim source = bucket
     \<longrightarrow> received source (ds_Calls s'))"
proof -
  let ?one = "\<lambda>source. do { err \<leftarrow> nh_RetryOnConflict h (test_event_attempt h source); ret () }"
  have one: "holds (?one source) t (\<lambda>_ s'. received source (ds_Calls s') \<and> set (ds_Calls t) \<subseteq> set (ds_Calls s'))"
    if "source \<in> set items" for source t
  proof -
    obtain n where n: "nh_RetryOnConflict h (test_event_attempt h source) = attempts n (test_event_attempt h source)"
      using conflict_retry.retry_attempts [OF assms(1)] by blast
    show ?thesis
      unfolding n holds_bind
      by (rule attempts_first, rule holds_mono [OF attempt_received [OF assms(2) assms(4) [OF that] assms(5)]])
        (simp add: holds_return)
  qed
  have all: "holds (each_source ?one sources) t (\<lambda>_ s'. (\<forall>source \<in> set sources. received source (ds_Calls s'))
      \<and> set (ds_Calls t) \<subseteq> set (ds_Calls s'))" if "set sources \<subseteq> set items" for sources t
    using that
  proof (induction sources arbitrary: t)
    case Nil
    then show ?case by (simp add: holds_return)
  next
    case (Cons source sources)
    have src: "source \<in> set items" and rest: "set sources \<subseteq> set items" using Cons.prems by simp_all
    show ?case
      unfolding each_source.simps holds_bind [of "?one source"]
    proof (rule holds_mono [OF one [OF src]])
      fix u and t1 :: "'w dispatch_state"
      assume t1: "received source (ds_Calls t1) \<and> set (ds_Calls t) \<subseteq> set (ds_Calls t1)"
      show "holds (each_source ?one sources) t1 (\<lambda>_ s'. (\<forall>source \<in> set (source # sources). received source (ds_Calls s'))
        \<and> set (ds_Calls t) \<subseteq> set (ds_Calls s'))"
        by (rule holds_mono [OF Cons.IH [OF rest]]) (use t1 in \<open>auto intro: received_more\<close>)
    qed
  qed
  show ?thesis
    unfolding handleTestEvent_def findSourcesForBucket_def holds_bind
    by (rule dworld_answers [OF assms(3)], simp add: holds_return, rule holds_mono [OF all]) auto
qed

theorem test_event_recorded_witness:
  "holds (handleTestEvent (sample_handler\<lparr>nh_List := ret (Inr [sample_source ''a'' ''claim'' [] None])\<rparr>) ''claim'') dispatch_start
     (\<lambda>_ s'. received (sample_source ''a'' ''claim'' [] None) (ds_Calls s'))"
proof -
  let ?h = "sample_handler\<lparr>nh_List := ret (Inr [sample_source ''a'' ''claim'' [] None])\<rparr>"
  have "holds (handleTestEvent ?h ''claim'') dispatch_start (\<lambda>_ s'. \<forall>source.
      source \<in> set [sample_source ''a'' ''claim'' [] None] \<and> obs_claim source = ''claim'' \<longrightarrow> received source (ds_Calls s'))"
    by (rule test_event_recorded)
      (simp_all add: sample_handler_def ref_retry.conflict_retry_axioms ref_conditions.status_conditions_axioms meta_key_def)
  then show ?thesis by (elim holds_mono) simp
qed

end
