(* ===== verification/Watches.thy ===== *)
theory Watches
  imports ControllerProperties SourceController
begin

text \<open>
  Which events make the controllers work: \<open>SetupWithManager\<close> of the function controller and of the controller of
  the bucket sources. The predicates of controller-runtime are parameters, the record \<open>Predicates\<close>.
\<close>

section \<open>Events\<close>

datatype Event =
    ECreate ObjectMeta
  | EUpdate "ObjectMeta option" "ObjectMeta option"
  | EDelete ObjectMeta
  | EGeneric ObjectMeta

text \<open>\<open>pr_Funcs\<close> is the empty \<open>predicate.Funcs\<close> that the predicate of the code embeds for the other events.\<close>

record Predicates =
  pr_GenerationChanged :: "Event \<Rightarrow> bool"
  pr_Funcs :: "Event \<Rightarrow> bool"
  pr_Or :: "(Event \<Rightarrow> bool) \<Rightarrow> (Event \<Rightarrow> bool) \<Rightarrow> Event \<Rightarrow> bool"
  pr_NewPredicateFuncs :: "(ObjectMeta \<Rightarrow> bool) \<Rightarrow> Event \<Rightarrow> bool"

text \<open>What their documentation says.\<close>

definition predicates_documented :: "Predicates \<Rightarrow> bool" where
  "predicates_documented pr \<longleftrightarrow>
     (\<forall>old new. pr_GenerationChanged pr (EUpdate old new)
        \<longleftrightarrow> (\<exists>m n. old = Some m \<and> new = Some n \<and> om_Generation m \<noteq> om_Generation n))
     \<and> (\<forall>m. pr_GenerationChanged pr (ECreate m) \<and> pr_GenerationChanged pr (EDelete m) \<and> pr_GenerationChanged pr (EGeneric m))
     \<and> (\<forall>e. pr_Funcs pr e)
     \<and> (\<forall>p q e. pr_Or pr p q e \<longleftrightarrow> p e \<or> q e)
     \<and> (\<forall>f m old n. (pr_NewPredicateFuncs pr f (ECreate m) \<longleftrightarrow> f m) \<and> (pr_NewPredicateFuncs pr f (EDelete m) \<longleftrightarrow> f m)
          \<and> (pr_NewPredicateFuncs pr f (EGeneric m) \<longleftrightarrow> f m) \<and> (pr_NewPredicateFuncs pr f (EUpdate old (Some n)) \<longleftrightarrow> f n))"

text \<open>The predicate of the code: its own \<open>Update\<close>, the embedded one for the rest.\<close>

definition FuncAnnotationChangedPredicate :: "Predicates \<Rightarrow> Event \<Rightarrow> bool" where
  "FuncAnnotationChangedPredicate pr e =
     (case e of EUpdate old new \<Rightarrow> FuncAnnotationChanged_Update old new | _ \<Rightarrow> pr_Funcs pr e)"

section \<open>The function controller\<close>

datatype WatchedEvent = FunctionEvent Event | ConfigMapEvent Event

text \<open>The object that an event is about; the new one for an update.\<close>

fun event_object :: "Event \<Rightarrow> ObjectMeta option" where
  "event_object (ECreate m) = Some m"
| "event_object (EUpdate old new) = (case new of Some m \<Rightarrow> Some m | None \<Rightarrow> old)"
| "event_object (EDelete m) = Some m"
| "event_object (EGeneric m) = Some m"

definition object_request :: "Event \<Rightarrow> nsname list" where
  "object_request e = (case event_object e of Some m \<Rightarrow> [meta_key m] | None \<Rightarrow> [])"

text \<open>The requests of an event: \<open>For\<close> enqueues the object, \<open>Watches\<close> what the function of the code finds.\<close>

definition function_requests :: "Predicates \<Rightarrow> 'w FunctionReconciler \<Rightarrow> WatchedEvent \<Rightarrow> ('w, nsname list) run" where
  "function_requests pr r event =
     (case event of
        FunctionEvent e \<Rightarrow>
          if pr_Or pr (pr_GenerationChanged pr) (FuncAnnotationChangedPredicate pr) e then ret (object_request e) else ret []
      | ConfigMapEvent e \<Rightarrow>
          if pr_NewPredicateFuncs pr (watches_configmap r) e then findFunctionsForConfigMap r else ret [])"

definition MaxConcurrentReconciles :: nat where
  "MaxConcurrentReconciles = 10"

section \<open>The controller of the bucket sources\<close>

definition source_requests :: "Event \<Rightarrow> nsname list" where
  "source_requests e = object_request e"

section \<open>Facts\<close>

text \<open>What passes for a function: anything but an update that changes neither the generation nor leaves an annotation.\<close>

definition relevant :: "Event \<Rightarrow> bool" where
  "relevant e = (case e of
     EUpdate old new \<Rightarrow> (\<exists>n. new = Some n \<and> (hasFuncAnnotations n \<or> (\<exists>m. old = Some m \<and> om_Generation m \<noteq> om_Generation n)))
   | _ \<Rightarrow> True)"

lemma function_predicate:
  assumes "predicates_documented pr"
  shows "pr_Or pr (pr_GenerationChanged pr) (FuncAnnotationChangedPredicate pr) e \<longleftrightarrow> relevant e"
  using assms
  by (cases e) (auto simp: predicates_documented_def relevant_def FuncAnnotationChangedPredicate_def FuncAnnotationChanged_Update_def
      split: option.splits)

definition documented :: Predicates where
  "documented = \<lparr>
     pr_GenerationChanged = (\<lambda>e. case e of
        EUpdate (Some m) (Some n) \<Rightarrow> om_Generation m \<noteq> om_Generation n | EUpdate old new \<Rightarrow> False | _ \<Rightarrow> True),
     pr_Funcs = (\<lambda>e. True), pr_Or = (\<lambda>p q e. p e \<or> q e),
     pr_NewPredicateFuncs = (\<lambda>f e. case event_object e of Some m \<Rightarrow> f m | None \<Rightarrow> False)\<rparr>"

lemma documented: "predicates_documented documented"
  by (auto simp: predicates_documented_def documented_def split: option.splits)

section \<open>Properties\<close>



text \<open>
  The controller does not keep itself busy: the event of a status that it writes leads to a reconcile only when
  the object that was fetched right before the write still has an annotation of \<open>func\<close>.
\<close>

theorem status_writes_enqueue_nothing:
  assumes "predicates_documented pr" and "reconcile_library r" and "rs_calls s = []"
  shows "holds (Flush r t) s (\<lambda>_ s'. \<forall>pre g a post. rs_calls s' = pre @ CUpdateStatus g a # post \<longrightarrow>
    (\<exists>pre' key h. pre = pre' @ [CGetFunction key (Inr h)]
       \<and> (\<forall>s1. holds (function_requests pr r (FunctionEvent (EUpdate (Some (fn_Meta h)) (Some (fn_Meta g))))) s1
            (\<lambda>reqs s2. s2 = s1 \<and> (reqs \<noteq> [] \<longleftrightarrow> hasFuncAnnotations (fn_Meta h))))))"
  by (rule holds_mono [OF reconcile_library.Flush_fresh [OF assms(2,3)]])
    (fastforce simp: fresh_writes_def function_requests_def function_predicate [OF assms(1)] relevant_def object_request_def holds_return)

theorem status_writes_enqueue_nothing_witness:
  "holds (Flush sample (NewStatusTracker (sample_function None))) (sample_start None None)
     (\<lambda>_ s'. \<forall>pre g a post. rs_calls s' = pre @ CUpdateStatus g a # post \<longrightarrow>
        (\<exists>pre' key h. pre = pre' @ [CGetFunction key (Inr h)]))"
  by (rule holds_mono [OF status_writes_enqueue_nothing [OF documented sample_library]]) fastforce+

end
