(* ===== verification/DeepHeap.thy ===== *)
theory DeepHeap
  imports GoMonad Lifecycle BucketSource
begin

text \<open>
  The deep copies of \<open>api/v1alpha1/zz_generated.deepcopy.go\<close> and \<open>api/sources/v1alpha1/zz_generated.deepcopy.go\<close>, on a
  heap. The other theories treat an object as a value; in the code it is a struct with pointers, slices and
  maps, and that a snapshot of it does not change with it is what \<open>DeepCopy\<close> is for.

  A struct is held by value here, with an address for every pointer, slice and map in it. The copies of the
  types of \<open>k8s.io/apimachinery\<close> are parameters, the record \<open>Apimachinery\<close>.
\<close>

section \<open>The heap\<close>

type_synonym addr = nat

record pMeta =
  pm_Name :: string
  pm_Namespace :: string
  pm_UID :: string
  pm_Generation :: int
  pm_Labels :: "addr option"
  pm_Annotations :: "addr option"
  pm_OwnerReferences :: "addr option"
  pm_Finalizers :: "addr option"
  pm_DeletionTimestamp :: "addr option"

record pListMeta =
  pl_ResourceVersion :: string
  pl_Continue :: string
  pl_RemainingItemCount :: "addr option"

record TypeMeta =
  tm_Kind :: string
  tm_APIVersion :: string

record pFunctionSpecRepository =
  prepo_URL :: string
  prepo_Revision :: string
  prepo_AuthSecretRef :: "addr option"
  prepo_Dir :: string

record pFunctionSpecRegistry =
  pregistry_AuthSecretRef :: "addr option"

record pFunctionSpec =
  pspec_Repository :: pFunctionSpecRepository
  pspec_Registry :: pFunctionSpecRegistry
  pspec_AutoUpdateMiddleware :: "addr option"

record pFunctionStatusMiddleware =
  pmw_Current :: string
  pmw_Available :: "addr option"
  pmw_AutoUpdate :: FunctionStatusMiddlewareAutoUpdate
  pmw_PendingRebuild :: bool
  pmw_LastRebuild :: time

record pFunctionStatus =
  pst_Name :: string
  pst_Git :: FunctionStatusGit
  pst_Deployment :: FunctionStatusDeployment
  pst_Middleware :: pFunctionStatusMiddleware
  pst_Service :: FunctionServiceStatus
  pst_History :: "addr option"
  pst_Conditions :: "addr option"

record pFunction =
  pf_TypeMeta :: TypeMeta
  pf_Meta :: pMeta
  pf_Spec :: pFunctionSpec
  pf_Status :: pFunctionStatus

record pFunctionList =
  pfl_TypeMeta :: TypeMeta
  pfl_Meta :: pListMeta
  pfl_Items :: "addr option"

record pObjectBucketSourceSpec =
  pobs_ObjectBucketClaim :: OBCReference
  pobs_Events :: "addr option"
  pobs_Sink :: SinkSpec

record pObjectBucketSourceStatus =
  pobs_Conditions :: "addr option"

record pObjectBucketSource =
  pobs_TypeMeta :: TypeMeta
  pobs_Meta :: pMeta
  pobs_Spec :: pObjectBucketSourceSpec
  pobs_Status :: pObjectBucketSourceStatus

record pObjectBucketSourceList =
  pobl_TypeMeta :: TypeMeta
  pobl_Meta :: pListMeta
  pobl_Items :: "addr option"

text \<open>What can be at an address: the target of a pointer, the array of a slice, the contents of a map.\<close>

datatype cell =
    CBool bool
  | CInt int
  | CTime time
  | CString string
  | CRef string
  | CMap "string gomap"
  | CStrings "string list"
  | COwners "OwnerReference list"
  | CHistory "FunctionStatusHistoryEntry list"
  | CConditions "Condition list"
  | CFunctions "pFunction list"
  | CSources "pObjectBucketSource list"

record Heap =
  hp_next :: addr
  hp_cells :: "addr \<Rightarrow> cell"

definition new_cell :: "cell \<Rightarrow> (Heap, addr) state" where
  "new_cell c = State (\<lambda>h. (hp_next h, h\<lparr>hp_next := Suc (hp_next h), hp_cells := (hp_cells h)(hp_next h := c)\<rparr>))"

definition read_cell :: "addr \<Rightarrow> (Heap, cell) state" where
  "read_cell a = gets (\<lambda>h. hp_cells h a)"

definition write_cell :: "addr \<Rightarrow> cell \<Rightarrow> (Heap, unit) state" where
  "write_cell a c = modify (\<lambda>h. h\<lparr>hp_cells := (hp_cells h)(a := c)\<rparr>)"

text \<open>\<open>extends h h'\<close>: only fresh addresses have been used.\<close>

definition extends :: "Heap \<Rightarrow> Heap \<Rightarrow> bool" where
  "extends h h' \<longleftrightarrow> hp_next h \<le> hp_next h' \<and> (\<forall>a < hp_next h. hp_cells h' a = hp_cells h a)"

lemma extends_refl [simp]: "extends h h"
  by (simp add: extends_def)

lemma extends_trans: "extends h1 h2 \<Longrightarrow> extends h2 h3 \<Longrightarrow> extends h1 h3"
  by (auto simp: extends_def)

section \<open>The contract of a copy\<close>

text \<open>
  \<open>val h a\<close> is the value that a struct has on a heap, if nothing in it dangles; \<open>refs h a\<close> are the addresses
  that it reaches. A deep copy has the same value, and reaches only addresses that are fresh.
\<close>

definition copied :: "Heap \<Rightarrow> (Heap \<Rightarrow> 'a \<Rightarrow> 'v option) \<Rightarrow> (Heap \<Rightarrow> 'a \<Rightarrow> addr set) \<Rightarrow> 'v \<Rightarrow> 'a \<Rightarrow> Heap \<Rightarrow> bool" where
  "copied h val refs v a h' \<longleftrightarrow> extends h h' \<and> val h' a = Some v \<and> refs h' a \<subseteq> {hp_next h..<hp_next h'}"

locale copier =
  fixes dc :: "'a \<Rightarrow> (Heap, 'a) state"
    and val :: "Heap \<Rightarrow> 'a \<Rightarrow> 'v option"
    and refs :: "Heap \<Rightarrow> 'a \<Rightarrow> addr set"
  assumes copies: "val h a = Some v \<Longrightarrow> holds (dc a) h (copied h val refs v)"
    and refs_bound: "val h a = Some v \<Longrightarrow> refs h a \<subseteq> {..<hp_next h}"
    and kept: "val h a = Some v \<Longrightarrow> \<forall>x \<in> refs h a. hp_cells h' x = hp_cells h x \<Longrightarrow> hp_next h \<le> hp_next h' \<Longrightarrow>
      val h' a = Some v \<and> refs h' a = refs h a"
begin

lemma extended: "val h a = Some v \<Longrightarrow> extends h h' \<Longrightarrow> val h' a = Some v \<and> refs h' a = refs h a"
  by (rule kept) (use refs_bound [of h a v] in \<open>auto simp: extends_def\<close>)

lemma copied_later:
  assumes "copied h val refs v a h1" and "extends h1 h2"
  shows "val h2 a = Some v" and "refs h2 a \<subseteq> {hp_next h..<hp_next h1}"
  using assms extended [of h1 a v h2] by (auto simp: copied_def)

text \<open>Neither of the two changes when the memory of the other one is written, in any way.\<close>

lemma independent:
  assumes "val h a = Some v"
  shows "holds (dc a) h (\<lambda>a' h'. val h' a' = Some v \<and> refs h' a' \<inter> refs h' a = {}
     \<and> (\<forall>h2. hp_next h' \<le> hp_next h2 \<and> (\<forall>x. x \<notin> refs h' a' \<and> x < hp_next h' \<longrightarrow> hp_cells h2 x = hp_cells h' x) \<longrightarrow> val h2 a = Some v)
     \<and> (\<forall>h2. hp_next h' \<le> hp_next h2 \<and> (\<forall>x. x \<notin> refs h' a \<and> x < hp_next h' \<longrightarrow> hp_cells h2 x = hp_cells h' x) \<longrightarrow> val h2 a' = Some v))"
proof (rule holds_mono [OF copies [OF assms]])
  fix a' h'
  assume c: "copied h val refs v a' h'"
  then have a: "val h' a = Some v" "refs h' a = refs h a" using extended [OF assms, of h'] by (auto simp: copied_def)
  have b: "refs h a \<subseteq> {..<hp_next h}" "refs h' a' \<subseteq> {hp_next h..<hp_next h'}" "hp_next h \<le> hp_next h'"
    using refs_bound [OF assms] c by (auto simp: copied_def extends_def)
  then have d: "refs h' a' \<inter> refs h' a = {}" using a by fastforce
  have v1: "val h2 a = Some v"
    if "hp_next h' \<le> hp_next h2" "\<forall>x. x \<notin> refs h' a' \<and> x < hp_next h' \<longrightarrow> hp_cells h2 x = hp_cells h' x" for h2
    by (rule conjunct1 [OF kept [OF a(1)]]) (use that a b d in fastforce)+
  have v2: "val h2 a' = Some v"
    if "hp_next h' \<le> hp_next h2" "\<forall>x. x \<notin> refs h' a \<and> x < hp_next h' \<longrightarrow> hp_cells h2 x = hp_cells h' x" for h2
    by (rule conjunct1 [OF kept [of h' a']]) (use that a b d c in \<open>fastforce simp: copied_def\<close>)+
  show "val h' a' = Some v \<and> refs h' a' \<inter> refs h' a = {}
     \<and> (\<forall>h2. hp_next h' \<le> hp_next h2 \<and> (\<forall>x. x \<notin> refs h' a' \<and> x < hp_next h' \<longrightarrow> hp_cells h2 x = hp_cells h' x) \<longrightarrow> val h2 a = Some v)
     \<and> (\<forall>h2. hp_next h' \<le> hp_next h2 \<and> (\<forall>x. x \<notin> refs h' a \<and> x < hp_next h' \<longrightarrow> hp_cells h2 x = hp_cells h' x) \<longrightarrow> val h2 a' = Some v)"
    using c d v1 v2 by (auto simp: copied_def)
qed

end

text \<open>Two parts, one after the other.\<close>

definition val_pair :: "(Heap \<Rightarrow> 'a \<Rightarrow> 'v option) \<Rightarrow> (Heap \<Rightarrow> 'b \<Rightarrow> 'u option) \<Rightarrow> Heap \<Rightarrow> 'a \<times> 'b \<Rightarrow> ('v \<times> 'u) option" where
  "val_pair val1 val2 h p = (case (val1 h (fst p), val2 h (snd p)) of (Some v, Some u) \<Rightarrow> Some (v, u) | _ \<Rightarrow> None)"

definition refs_pair :: "(Heap \<Rightarrow> 'a \<Rightarrow> addr set) \<Rightarrow> (Heap \<Rightarrow> 'b \<Rightarrow> addr set) \<Rightarrow> Heap \<Rightarrow> 'a \<times> 'b \<Rightarrow> addr set" where
  "refs_pair refs1 refs2 h p = refs1 h (fst p) \<union> refs2 h (snd p)"

lemma val_pair_Some [simp]: "val_pair val1 val2 h (a, b) = Some (v, u) \<longleftrightarrow> val1 h a = Some v \<and> val2 h b = Some u"
  by (auto simp: val_pair_def split: option.split)

lemma copier_pair:
  assumes "copier d1 val1 refs1" and "copier d2 val2 refs2"
  shows "copier (\<lambda>p. do { a \<leftarrow> d1 (fst p); b \<leftarrow> d2 (snd p); ret (a, b) }) (val_pair val1 val2) (refs_pair refs1 refs2)"
proof (unfold_locales, goal_cases)
  case (1 h p w)
  obtain a b v u where p: "p = (a, b)" "w = (v, u)" by (metis surj_pair)
  with 1 have a: "val1 h a = Some v" "val2 h b = Some u" by auto
  show ?case
    unfolding holds_bind p fst_conv snd_conv
  proof (rule holds_mono [OF copier.copies [OF assms(1) a(1)]])
    fix a' h1 assume c1: "copied h val1 refs1 v a' h1"
    then have b: "val2 h1 b = Some u" using copier.extended [OF assms(2) a(2), of h1] by (auto simp: copied_def)
    show "holds (d2 b) h1 (\<lambda>b' h2. holds (ret (a', b')) h2 (copied h (val_pair val1 val2) (refs_pair refs1 refs2) (v, u)))"
    proof (rule holds_mono [OF copier.copies [OF assms(2) b]], unfold holds_return)
      fix b' h2 assume c2: "copied h1 val2 refs2 u b' h2"
      then have e: "extends h1 h2" "extends h h2" using c1 by (auto simp: copied_def intro: extends_trans)
      from copier.copied_later [OF assms(1) c1 e(1)] c1 c2 e
      show "copied h (val_pair val1 val2) (refs_pair refs1 refs2) (v, u) (a', b') h2"
        by (force simp: copied_def refs_pair_def extends_def)
    qed
  qed
next
  case (2 h p w)
  then show ?case
    using copier.refs_bound [OF assms(1), of h "fst p" "fst w"] copier.refs_bound [OF assms(2), of h "snd p" "snd w"]
    by (auto simp: val_pair_def refs_pair_def split: option.splits)
next
  case (3 h p w h')
  then show ?case
    using copier.kept [OF assms(1), of h "fst p" "fst w" h'] copier.kept [OF assms(2), of h "snd p" "snd w" h']
    by (auto simp: val_pair_def refs_pair_def split: option.splits)
qed

text \<open>A struct, of which a part is copied.\<close>

lemma copier_via:
  assumes "copier d val refs" and "\<And>a b. get (put b a) = b"
    and "\<And>a. dc a = do { b \<leftarrow> d (get a); ret (put b a) }"
    and "\<And>h a. val' h a = map_option (whole a) (val h (get a))"
    and "\<And>a b. whole (put b a) = whole a"
    and "\<And>h a. refs' h a = refs h (get a)"
  shows "copier dc val' refs'"
proof (unfold_locales, goal_cases)
  case (1 h a v)
  then obtain u where u: "val h (get a) = Some u" "v = whole a u" by (auto simp: assms(4))
  show ?case
    unfolding assms(3) holds_bind
    by (rule holds_mono [OF copier.copies [OF assms(1) u(1)]])
      (auto simp: holds_return copied_def assms(2,4-6) u(2))
next
  case (2 h a v)
  then show ?case using copier.refs_bound [OF assms(1), of h "get a"] by (auto simp: assms(4,6))
next
  case (3 h a v h')
  then obtain u where u: "val h (get a) = Some u" "v = whole a u" by (auto simp: assms(4))
  then show ?case using copier.kept [OF assms(1) u(1), of h'] 3 by (simp add: assms(4,6))
qed

section \<open>Pointers and slices\<close>

text \<open>
  A pointer to something without pointers: \<open>*out = new(T); **out = **in\<close>, and likewise a slice of such
  things with \<open>make\<close> and \<open>copy\<close>. \<open>nil\<close> stays \<open>nil\<close>.
\<close>

definition copy_ptr :: "addr option \<Rightarrow> (Heap, addr option) state" where
  "copy_ptr p = (case p of
     None \<Rightarrow> ret None
   | Some a \<Rightarrow> do { c \<leftarrow> read_cell a; b \<leftarrow> new_cell c; ret (Some b) })"

definition val_ptr :: "(cell \<Rightarrow> 'v option) \<Rightarrow> Heap \<Rightarrow> addr option \<Rightarrow> 'v option option" where
  "val_ptr un h p = (case p of
     None \<Rightarrow> Some None
   | Some a \<Rightarrow> if a < hp_next h then map_option Some (un (hp_cells h a)) else None)"

definition refs_ptr :: "Heap \<Rightarrow> addr option \<Rightarrow> addr set" where
  "refs_ptr h p = set_option p"

lemmas heap_simps = holds_bind holds_return holds_gets holds_modify holds_State new_cell_def read_cell_def write_cell_def

lemma copier_ptr: "copier copy_ptr (val_ptr un) refs_ptr"
  by unfold_locales
    (auto simp: copy_ptr_def val_ptr_def refs_ptr_def copied_def extends_def heap_simps split: option.splits if_splits)

text \<open>
  A slice of structs: \<open>make\<close>, then a loop that copies one element after the other into the new array. \<open>mk\<close>
  is the constructor of the array, \<open>un\<close> its inverse.
\<close>

definition elements :: "(cell \<Rightarrow> 'a list option) \<Rightarrow> cell \<Rightarrow> 'a list" where
  "elements un c = (case un c of Some xs \<Rightarrow> xs | None \<Rightarrow> [])"

fun fill :: "('a list \<Rightarrow> cell) \<Rightarrow> (cell \<Rightarrow> 'a list option) \<Rightarrow> ('a \<Rightarrow> (Heap, 'a) state) \<Rightarrow> addr \<Rightarrow> nat \<Rightarrow> 'a list \<Rightarrow> (Heap, unit) state" where
  "fill mk un dc b i [] = ret ()"
| "fill mk un dc b i (x # xs) = do {
     y \<leftarrow> dc x;
     c \<leftarrow> read_cell b;
     write_cell b (mk ((elements un c)[i := y]));
     fill mk un dc b (Suc i) xs
   }"

definition copy_items ::
  "('a list \<Rightarrow> cell) \<Rightarrow> (cell \<Rightarrow> 'a list option) \<Rightarrow> 'a \<Rightarrow> ('a \<Rightarrow> (Heap, 'a) state) \<Rightarrow> addr option \<Rightarrow> (Heap, addr option) state" where
  "copy_items mk un zero dc p = (case p of
     None \<Rightarrow> ret None
   | Some a \<Rightarrow> do {
       c \<leftarrow> read_cell a;
       b \<leftarrow> new_cell (mk (replicate (length (elements un c)) zero));
       fill mk un dc b 0 (elements un c);
       ret (Some b)
     })"

definition val_items :: "(cell \<Rightarrow> 'a list option) \<Rightarrow> (Heap \<Rightarrow> 'a \<Rightarrow> 'v option) \<Rightarrow> Heap \<Rightarrow> addr option \<Rightarrow> 'v list option" where
  "val_items un val h p = (case p of
     None \<Rightarrow> Some []
   | Some a \<Rightarrow> if a < hp_next h then Option.bind (un (hp_cells h a)) (\<lambda>xs. those (map (val h) xs)) else None)"

definition refs_items :: "(cell \<Rightarrow> 'a list option) \<Rightarrow> (Heap \<Rightarrow> 'a \<Rightarrow> addr set) \<Rightarrow> Heap \<Rightarrow> addr option \<Rightarrow> addr set" where
  "refs_items un refs h p = (case p of
     None \<Rightarrow> {}
   | Some a \<Rightarrow> insert a (\<Union>x \<in> set (elements un (hp_cells h a)). refs h x))"

lemma those_map: "those (map f xs) = Some vs \<longleftrightarrow> list_all2 (\<lambda>x v. f x = Some v) xs vs"
proof (induction xs arbitrary: vs)
  case Nil
  then show ?case by auto
next
  case (Cons x xs)
  then show ?case by (cases vs) (auto split: option.split)
qed

context copier begin

definition made :: "Heap \<Rightarrow> addr \<Rightarrow> 'a \<Rightarrow> 'v \<Rightarrow> bool" where
  "made h b y v \<longleftrightarrow> val h y = Some v \<and> refs h y \<subseteq> {Suc b..<hp_next h}"

lemma made_kept:
  assumes "made h b y v" and "hp_next h \<le> hp_next h'" and "\<forall>x < hp_next h. x \<noteq> b \<longrightarrow> hp_cells h' x = hp_cells h x"
  shows "made h' b y v"
  using assms kept [of h y v h'] by (fastforce simp: made_def)

lemma fill_copies:
  assumes un: "\<And>xs. un (mk xs) = Some xs"
    and "list_all2 (\<lambda>x v. val h x = Some v) xs vs" and "\<forall>x \<in> set xs. b \<notin> refs h x" and "b < hp_next h"
    and "hp_cells h b = mk ys" and "length ys = i + length xs" and "list_all2 (made h b) (take i ys) us"
  shows "holds (fill mk un dc b i xs) h (\<lambda>_ h'. hp_next h \<le> hp_next h'
     \<and> (\<forall>x < hp_next h. x \<noteq> b \<longrightarrow> hp_cells h' x = hp_cells h x)
     \<and> (\<exists>zs. hp_cells h' b = mk zs \<and> list_all2 (made h' b) zs (us @ vs)))"
  using assms(2-)
proof (induction xs arbitrary: h vs i ys us)
  case Nil
  then show ?case by (auto simp: holds_return)
next
  case (Cons x xs)
  from Cons.prems(1) obtain v vs' where v: "vs = v # vs'" "val h x = Some v" "list_all2 (\<lambda>x v. val h x = Some v) xs vs'"
    by (auto simp: list_all2_Cons1)
  show ?case
    unfolding fill.simps holds_bind
  proof (rule holds_mono [OF copies [OF v(2)]], simp only: read_cell_def write_cell_def holds_gets holds_modify)
    fix y h1 assume c: "copied h val refs v y h1"
    let ?h = "h1\<lparr>hp_cells := (hp_cells h1)(b := mk ((elements un (hp_cells h1 b))[i := y]))\<rparr>"
    have b: "hp_cells h1 b = mk ys" "hp_next h \<le> hp_next h1" using c Cons.prems(3,4) by (auto simp: copied_def extends_def)
    then have e: "elements un (hp_cells h1 b) = ys" by (simp add: elements_def un)
    have old: "\<forall>x < hp_next h. x \<noteq> b \<longrightarrow> hp_cells ?h x = hp_cells h x" using c by (simp add: copied_def extends_def)
    have vs: "list_all2 (\<lambda>x v. val ?h x = Some v) xs vs'" "\<forall>x \<in> set xs. b \<notin> refs ?h x"
    proof -
      have "val ?h z = Some u \<and> refs ?h z = refs h z" if "val h z = Some u" "b \<notin> refs h z" for z u
        by (rule kept [OF that(1)]) (use that(2) old refs_bound [OF that(1)] b(2) in auto)
      note z = this
      have b: "b \<notin> refs h z" if "z \<in> set xs" for z using that Cons.prems(2) by simp
      show "list_all2 (\<lambda>x v. val ?h x = Some v) xs vs'"
        by (rule list.rel_mono_strong [OF v(3)]) (use z b in blast)
      show "\<forall>x \<in> set xs. b \<notin> refs ?h x"
      proof
        fix a assume a: "a \<in> set xs"
        then obtain u where "val h a = Some u" using v(3) by (auto simp: in_set_conv_nth list_all2_conv_all_nth)
        with z [of a u] b [OF a] show "b \<notin> refs ?h a" by simp
      qed
    qed
    have m1: "made h1 b y v" using c Cons.prems(3) by (force simp: copied_def made_def)
    then have m: "made ?h b y v" by (rule made_kept) auto
    have "list_all2 (made ?h b) (take i ys) us"
      by (rule list_all2_mono [OF Cons.prems(6)]) (rule made_kept, assumption, use b(2) old in auto)
    moreover have "take (Suc i) (ys[i := y]) = take i ys @ [y]"
      using Cons.prems(5) by (simp add: take_Suc_conv_app_nth)
    ultimately have us: "list_all2 (made ?h b) (take (Suc i) (ys[i := y])) (us @ [v])"
      using m by (simp add: list_all2_appendI)
    have "holds (fill mk un dc b (Suc i) xs) ?h (\<lambda>_ h'. hp_next ?h \<le> hp_next h'
       \<and> (\<forall>x < hp_next ?h. x \<noteq> b \<longrightarrow> hp_cells h' x = hp_cells ?h x)
       \<and> (\<exists>zs. hp_cells h' b = mk zs \<and> list_all2 (made h' b) zs ((us @ [v]) @ vs')))"
      by (rule Cons.IH [OF vs _ _ _ us]) (use Cons.prems(3,5) b e in auto)
    then show "holds (fill mk un dc b (Suc i) xs) ?h (\<lambda>_ h'. hp_next h \<le> hp_next h'
       \<and> (\<forall>x < hp_next h. x \<noteq> b \<longrightarrow> hp_cells h' x = hp_cells h x)
       \<and> (\<exists>zs. hp_cells h' b = mk zs \<and> list_all2 (made h' b) zs (us @ vs)))"
      by (rule holds_mono) (use old b(2) v(1) in auto)
  qed
qed

end

lemma copier_items:
  assumes d: "copier dc val refs" and un: "\<And>xs. un (mk xs) = Some xs"
  shows "copier (copy_items mk un zero dc) (val_items un val) (refs_items un refs)"
proof (unfold_locales, goal_cases)
  case (1 h p vs)
  show ?case
  proof (cases p)
    case None
    with 1 show ?thesis by (simp add: copy_items_def val_items_def refs_items_def holds_return copied_def)
  next
    case (Some a)
    with 1 obtain xs where a: "a < hp_next h" "un (hp_cells h a) = Some xs"
      and xs: "list_all2 (\<lambda>x v. val h x = Some v) xs vs"
      by (auto simp: val_items_def those_map split: if_splits Option.bind_splits)
    let ?b = "hp_next h"
    let ?h = "h\<lparr>hp_next := Suc ?b, hp_cells := (hp_cells h)(?b := mk (replicate (length xs) zero))\<rparr>"
    have e: "extends h ?h" by (simp add: extends_def)
    have later: "val ?h z = Some u \<and> refs ?h z \<subseteq> {..<?b}" if "val h z = Some u" for z u
      using copier.extended [OF d that e] copier.refs_bound [OF d that] by simp
    have xs': "list_all2 (\<lambda>x v. val ?h x = Some v) xs vs"
      by (rule list.rel_mono_strong [OF xs]) (use later in blast)
    have nb: "\<forall>x \<in> set xs. ?b \<notin> refs ?h x"
    proof
      fix x assume "x \<in> set xs"
      then obtain u where "val h x = Some u" using xs by (auto simp: in_set_conv_nth list_all2_conv_all_nth)
      from later [OF this] show "?b \<notin> refs ?h x" by auto
    qed
    have "holds (fill mk un dc ?b 0 xs) ?h (\<lambda>_ h'. hp_next ?h \<le> hp_next h'
       \<and> (\<forall>x < hp_next ?h. x \<noteq> ?b \<longrightarrow> hp_cells h' x = hp_cells ?h x)
       \<and> (\<exists>zs. hp_cells h' ?b = mk zs \<and> list_all2 (copier.made val refs h' ?b) zs ([] @ vs)))"
      by (rule copier.fill_copies [OF d un xs' nb, where ys = "replicate (length xs) zero"]) auto
    then have f: "holds (fill mk un dc ?b 0 xs) ?h (\<lambda>_ h'. copied h (val_items un val) (refs_items un refs) vs (Some ?b) h')"
    proof (rule holds_mono)
      fix u h'
      assume f: "hp_next ?h \<le> hp_next h'
         \<and> (\<forall>x < hp_next ?h. x \<noteq> ?b \<longrightarrow> hp_cells h' x = hp_cells ?h x)
         \<and> (\<exists>zs. hp_cells h' ?b = mk zs \<and> list_all2 (copier.made val refs h' ?b) zs ([] @ vs))"
      then obtain zs where zs: "hp_cells h' ?b = mk zs" "list_all2 (copier.made val refs h' ?b) zs vs" by auto
      have "list_all2 (\<lambda>x v. val h' x = Some v) zs vs"
        by (rule list.rel_mono_strong [OF zs(2)]) (simp add: copier.made_def [OF d])
      moreover have "refs h' z \<subseteq> {?b..<hp_next h'}" if "z \<in> set zs" for z
      proof -
        have "\<exists>v. copier.made val refs h' ?b z v"
          using that zs(2) by (auto simp: in_set_conv_nth list_all2_conv_all_nth)
        then show ?thesis by (fastforce simp: copier.made_def [OF d])
      qed
      ultimately show "copied h (val_items un val) (refs_items un refs) vs (Some ?b) h'"
        using f zs(1) by (auto simp: copied_def extends_def val_items_def refs_items_def elements_def un those_map)
    qed
    have e: "elements un (hp_cells h a) = xs" by (simp add: elements_def a(2))
    show ?thesis
      using f by (simp add: Some copy_items_def heap_simps e)
  qed
next
  case (2 h p vs)
  show ?case
  proof (cases p)
    case (Some a)
    with 2 obtain xs where a: "a < hp_next h" "un (hp_cells h a) = Some xs" "list_all2 (\<lambda>x v. val h x = Some v) xs vs"
      by (auto simp: val_items_def those_map split: if_splits Option.bind_splits)
    have "refs h x \<subseteq> {..<hp_next h}" if "x \<in> set xs" for x
    proof -
      obtain u where "val h x = Some u" using a(3) \<open>x \<in> set xs\<close> by (auto simp: in_set_conv_nth list_all2_conv_all_nth)
      then show ?thesis by (rule copier.refs_bound [OF d])
    qed
    with a Some show ?thesis by (auto simp: refs_items_def elements_def)
  qed (simp add: refs_items_def)
next
  case (3 h p vs h')
  show ?case
  proof (cases p)
    case None
    with 3 show ?thesis by (simp add: val_items_def refs_items_def)
  next
    case (Some a)
    with 3(1) obtain xs where a: "a < hp_next h" "un (hp_cells h a) = Some xs" "list_all2 (\<lambda>x v. val h x = Some v) xs vs"
      by (auto simp: val_items_def those_map split: if_splits Option.bind_splits)
    have k: "val h' x = Some u \<and> refs h' x = refs h x" if "x \<in> set xs" "val h x = Some u" for x u
      by (rule copier.kept [OF d that(2)]) (use 3 Some a that(1) in \<open>auto simp: refs_items_def elements_def\<close>)
    have "list_all2 (\<lambda>x v. val h' x = Some v) xs vs"
      by (rule list.rel_mono_strong [OF a(3)]) (use k in blast)
    moreover have "refs h' x = refs h x" if "x \<in> set xs" for x
      using k [OF that] that a(3) by (auto simp: in_set_conv_nth list_all2_conv_all_nth)
    moreover have "hp_cells h' a = hp_cells h a" using 3(2) Some by (simp add: refs_items_def)
    ultimately show ?thesis
      using a Some 3(3) by (auto simp: val_items_def refs_items_def elements_def those_map)
  qed
qed

text \<open>Elements that have no pointers themselves.\<close>

definition val_flat :: "Heap \<Rightarrow> 'a \<Rightarrow> 'a option" where
  "val_flat h a = Some a"

definition refs_flat :: "Heap \<Rightarrow> 'a \<Rightarrow> addr set" where
  "refs_flat h a = {}"

lemma copier_flat: "(\<And>a. dc a = ret a) \<Longrightarrow> copier dc val_flat refs_flat"
  by unfold_locales (simp_all add: holds_return copied_def val_flat_def refs_flat_def)

end
