(* ===== verification/DeepCopy.thy ===== *)
theory DeepCopy
  imports DeepHeap
begin

text \<open>
  The functions of the two files \<open>zz_generated.deepcopy.go\<close>, one definition each, and that they are deep copies:
  \<open>copier\<close> is interpreted for every type that has pointers.
\<close>

section \<open>What is taken from apimachinery\<close>

text \<open>
  \<open>DeepCopyInto\<close> of \<open>ObjectMeta\<close>, \<open>ListMeta\<close>, \<open>Time\<close> and \<open>Condition\<close>; the last two have no pointers that are
  written through.
\<close>

record Apimachinery =
  am_copyMeta :: "pMeta \<Rightarrow> (Heap, pMeta) state"
  am_copyListMeta :: "pListMeta \<Rightarrow> (Heap, pListMeta) state"
  am_copyTime :: "time \<Rightarrow> time"
  am_copyCondition :: "Condition \<Rightarrow> Condition"

text \<open>\<open>DeepCopy\<close> of a type: \<open>nil\<close> for \<open>nil\<close>, otherwise a new struct that \<open>DeepCopyInto\<close> fills.\<close>

definition deep_copy :: "('a \<Rightarrow> (Heap, 'a) state) \<Rightarrow> 'a option \<Rightarrow> (Heap, 'a option) state" where
  "deep_copy into p = (case p of None \<Rightarrow> ret None | Some inn \<Rightarrow> do { out \<leftarrow> into inn; ret (Some out) })"

text \<open>The arrays of the slices.\<close>

fun un_ref :: "cell \<Rightarrow> string option" where "un_ref (CRef s) = Some s" | "un_ref c = None"
fun un_bool :: "cell \<Rightarrow> bool option" where "un_bool (CBool b) = Some b" | "un_bool c = None"
fun un_int :: "cell \<Rightarrow> int option" where "un_int (CInt n) = Some n" | "un_int c = None"
fun un_time :: "cell \<Rightarrow> time option" where "un_time (CTime t) = Some t" | "un_time c = None"
fun un_string :: "cell \<Rightarrow> string option" where "un_string (CString s) = Some s" | "un_string c = None"
fun un_map :: "cell \<Rightarrow> string gomap option" where "un_map (CMap m) = Some m" | "un_map c = None"
fun un_strings :: "cell \<Rightarrow> string list option" where "un_strings (CStrings xs) = Some xs" | "un_strings c = None"
fun un_owners :: "cell \<Rightarrow> OwnerReference list option" where "un_owners (COwners xs) = Some xs" | "un_owners c = None"
fun un_history :: "cell \<Rightarrow> FunctionStatusHistoryEntry list option" where "un_history (CHistory xs) = Some xs" | "un_history c = None"
fun un_conditions :: "cell \<Rightarrow> Condition list option" where "un_conditions (CConditions xs) = Some xs" | "un_conditions c = None"
fun un_functions :: "cell \<Rightarrow> pFunction list option" where "un_functions (CFunctions xs) = Some xs" | "un_functions c = None"
fun un_sources :: "cell \<Rightarrow> pObjectBucketSource list option" where "un_sources (CSources xs) = Some xs" | "un_sources c = None"

text \<open>The zero values that \<open>make\<close> fills an array with.\<close>

definition zero_pMeta :: pMeta where
  "zero_pMeta = \<lparr>pm_Name = [], pm_Namespace = [], pm_UID = [], pm_Generation = 0, pm_Labels = None, pm_Annotations = None,
     pm_OwnerReferences = None, pm_Finalizers = None, pm_DeletionTimestamp = None\<rparr>"

definition zero_HistoryEntry :: FunctionStatusHistoryEntry where
  "zero_HistoryEntry = \<lparr>hist_Time = zero_time, hist_Message = []\<rparr>"

definition zero_Condition :: Condition where
  "zero_Condition = \<lparr>cond_Type = [], cond_Status = ConditionUnknown, cond_Reason = [], cond_Message = [],
     cond_ObservedGeneration = 0, cond_LastTransitionTime = zero_time\<rparr>"

definition zero_pFunction :: pFunction where
  "zero_pFunction = \<lparr>pf_TypeMeta = \<lparr>tm_Kind = [], tm_APIVersion = []\<rparr>, pf_Meta = zero_pMeta,
     pf_Spec = \<lparr>pspec_Repository = \<lparr>prepo_URL = [], prepo_Revision = [], prepo_AuthSecretRef = None, prepo_Dir = []\<rparr>,
       pspec_Registry = \<lparr>pregistry_AuthSecretRef = None\<rparr>, pspec_AutoUpdateMiddleware = None\<rparr>,
     pf_Status = \<lparr>pst_Name = [], pst_Git = \<lparr>git_ResolvedRevision = [], git_ObservedCommit = [], git_LastChecked = zero_time\<rparr>,
       pst_Deployment = \<lparr>dep_Image = [], dep_ImageBuilt = zero_time, dep_Revision = [], dep_Deployer = [], dep_Runtime = []\<rparr>,
       pst_Middleware = \<lparr>pmw_Current = [], pmw_Available = None, pmw_AutoUpdate = \<lparr>au_Enabled = False, au_Source = []\<rparr>,
         pmw_PendingRebuild = False, pmw_LastRebuild = zero_time\<rparr>,
       pst_Service = \<lparr>svc_URL = [], svc_Ready = []\<rparr>, pst_History = None, pst_Conditions = None\<rparr>\<rparr>"

definition zero_pObjectBucketSource :: pObjectBucketSource where
  "zero_pObjectBucketSource = \<lparr>pobs_TypeMeta = \<lparr>tm_Kind = [], tm_APIVersion = []\<rparr>, pobs_Meta = zero_pMeta,
     pobs_Spec = \<lparr>pobs_ObjectBucketClaim = \<lparr>obc_Name = []\<rparr>, pobs_Events = None, pobs_Sink = \<lparr>sink_URI = []\<rparr>\<rparr>,
     pobs_Status = \<lparr>pobs_Conditions = None\<rparr>\<rparr>"

section \<open>The function and its parts\<close>

definition FunctionSpecRepository_DeepCopyInto :: "pFunctionSpecRepository \<Rightarrow> (Heap, pFunctionSpecRepository) state" where
  "FunctionSpecRepository_DeepCopyInto inn = do {
     ref \<leftarrow> copy_ptr (prepo_AuthSecretRef inn);
     ret (inn\<lparr>prepo_AuthSecretRef := ref\<rparr>)
   }"

definition FunctionSpecRepository_DeepCopy :: "pFunctionSpecRepository option \<Rightarrow> (Heap, pFunctionSpecRepository option) state" where
  "FunctionSpecRepository_DeepCopy inn = deep_copy FunctionSpecRepository_DeepCopyInto inn"

definition FunctionSpecRegistry_DeepCopyInto :: "pFunctionSpecRegistry \<Rightarrow> (Heap, pFunctionSpecRegistry) state" where
  "FunctionSpecRegistry_DeepCopyInto inn = do {
     ref \<leftarrow> copy_ptr (pregistry_AuthSecretRef inn);
     ret (inn\<lparr>pregistry_AuthSecretRef := ref\<rparr>)
   }"

definition FunctionSpecRegistry_DeepCopy :: "pFunctionSpecRegistry option \<Rightarrow> (Heap, pFunctionSpecRegistry option) state" where
  "FunctionSpecRegistry_DeepCopy inn = deep_copy FunctionSpecRegistry_DeepCopyInto inn"

definition FunctionSpec_DeepCopyInto :: "pFunctionSpec \<Rightarrow> (Heap, pFunctionSpec) state" where
  "FunctionSpec_DeepCopyInto inn = do {
     repository \<leftarrow> FunctionSpecRepository_DeepCopyInto (pspec_Repository inn);
     registry \<leftarrow> FunctionSpecRegistry_DeepCopyInto (pspec_Registry inn);
     auto \<leftarrow> copy_ptr (pspec_AutoUpdateMiddleware inn);
     ret (inn\<lparr>pspec_Repository := repository, pspec_Registry := registry, pspec_AutoUpdateMiddleware := auto\<rparr>)
   }"

definition FunctionSpec_DeepCopy :: "pFunctionSpec option \<Rightarrow> (Heap, pFunctionSpec option) state" where
  "FunctionSpec_DeepCopy inn = deep_copy FunctionSpec_DeepCopyInto inn"

definition FunctionStatusGit_DeepCopyInto :: "Apimachinery \<Rightarrow> FunctionStatusGit \<Rightarrow> (Heap, FunctionStatusGit) state" where
  "FunctionStatusGit_DeepCopyInto am inn = ret (inn\<lparr>git_LastChecked := am_copyTime am (git_LastChecked inn)\<rparr>)"

definition FunctionStatusGit_DeepCopy :: "Apimachinery \<Rightarrow> FunctionStatusGit option \<Rightarrow> (Heap, FunctionStatusGit option) state" where
  "FunctionStatusGit_DeepCopy am inn = deep_copy (FunctionStatusGit_DeepCopyInto am) inn"

definition FunctionStatusDeployment_DeepCopyInto :: "Apimachinery \<Rightarrow> FunctionStatusDeployment \<Rightarrow> (Heap, FunctionStatusDeployment) state" where
  "FunctionStatusDeployment_DeepCopyInto am inn = ret (inn\<lparr>dep_ImageBuilt := am_copyTime am (dep_ImageBuilt inn)\<rparr>)"

definition FunctionStatusDeployment_DeepCopy :: "Apimachinery \<Rightarrow> FunctionStatusDeployment option \<Rightarrow> (Heap, FunctionStatusDeployment option) state" where
  "FunctionStatusDeployment_DeepCopy am inn = deep_copy (FunctionStatusDeployment_DeepCopyInto am) inn"

definition FunctionStatusMiddlewareAutoUpdate_DeepCopyInto :: "FunctionStatusMiddlewareAutoUpdate \<Rightarrow> (Heap, FunctionStatusMiddlewareAutoUpdate) state" where
  "FunctionStatusMiddlewareAutoUpdate_DeepCopyInto inn = ret inn"

definition FunctionStatusMiddlewareAutoUpdate_DeepCopy :: "FunctionStatusMiddlewareAutoUpdate option \<Rightarrow> (Heap, FunctionStatusMiddlewareAutoUpdate option) state" where
  "FunctionStatusMiddlewareAutoUpdate_DeepCopy inn = deep_copy FunctionStatusMiddlewareAutoUpdate_DeepCopyInto inn"

definition FunctionStatusMiddleware_DeepCopyInto :: "Apimachinery \<Rightarrow> pFunctionStatusMiddleware \<Rightarrow> (Heap, pFunctionStatusMiddleware) state" where
  "FunctionStatusMiddleware_DeepCopyInto am inn = do {
     available \<leftarrow> copy_ptr (pmw_Available inn);
     ret (inn\<lparr>pmw_Available := available, pmw_LastRebuild := am_copyTime am (pmw_LastRebuild inn)\<rparr>)
   }"

definition FunctionStatusMiddleware_DeepCopy :: "Apimachinery \<Rightarrow> pFunctionStatusMiddleware option \<Rightarrow> (Heap, pFunctionStatusMiddleware option) state" where
  "FunctionStatusMiddleware_DeepCopy am inn = deep_copy (FunctionStatusMiddleware_DeepCopyInto am) inn"

definition FunctionServiceStatus_DeepCopyInto :: "FunctionServiceStatus \<Rightarrow> (Heap, FunctionServiceStatus) state" where
  "FunctionServiceStatus_DeepCopyInto inn = ret inn"

definition FunctionServiceStatus_DeepCopy :: "FunctionServiceStatus option \<Rightarrow> (Heap, FunctionServiceStatus option) state" where
  "FunctionServiceStatus_DeepCopy inn = deep_copy FunctionServiceStatus_DeepCopyInto inn"

definition FunctionStatusHistoryEntry_DeepCopyInto :: "Apimachinery \<Rightarrow> FunctionStatusHistoryEntry \<Rightarrow> (Heap, FunctionStatusHistoryEntry) state" where
  "FunctionStatusHistoryEntry_DeepCopyInto am inn = ret (inn\<lparr>hist_Time := am_copyTime am (hist_Time inn)\<rparr>)"

definition FunctionStatusHistoryEntry_DeepCopy :: "Apimachinery \<Rightarrow> FunctionStatusHistoryEntry option \<Rightarrow> (Heap, FunctionStatusHistoryEntry option) state" where
  "FunctionStatusHistoryEntry_DeepCopy am inn = deep_copy (FunctionStatusHistoryEntry_DeepCopyInto am) inn"

definition FunctionStatus_DeepCopyInto :: "Apimachinery \<Rightarrow> pFunctionStatus \<Rightarrow> (Heap, pFunctionStatus) state" where
  "FunctionStatus_DeepCopyInto am inn = do {
     git \<leftarrow> FunctionStatusGit_DeepCopyInto am (pst_Git inn);
     deployment \<leftarrow> FunctionStatusDeployment_DeepCopyInto am (pst_Deployment inn);
     middleware \<leftarrow> FunctionStatusMiddleware_DeepCopyInto am (pst_Middleware inn);
     history \<leftarrow> copy_items CHistory un_history zero_HistoryEntry (FunctionStatusHistoryEntry_DeepCopyInto am) (pst_History inn);
     conditions \<leftarrow> copy_items CConditions un_conditions zero_Condition (\<lambda>c. ret (am_copyCondition am c)) (pst_Conditions inn);
     ret (inn\<lparr>pst_Git := git, pst_Deployment := deployment, pst_Middleware := middleware,
       pst_History := history, pst_Conditions := conditions\<rparr>)
   }"

definition FunctionStatus_DeepCopy :: "Apimachinery \<Rightarrow> pFunctionStatus option \<Rightarrow> (Heap, pFunctionStatus option) state" where
  "FunctionStatus_DeepCopy am inn = deep_copy (FunctionStatus_DeepCopyInto am) inn"

definition Function_DeepCopyInto :: "Apimachinery \<Rightarrow> pFunction \<Rightarrow> (Heap, pFunction) state" where
  "Function_DeepCopyInto am inn = do {
     m \<leftarrow> am_copyMeta am (pf_Meta inn);
     spec \<leftarrow> FunctionSpec_DeepCopyInto (pf_Spec inn);
     status \<leftarrow> FunctionStatus_DeepCopyInto am (pf_Status inn);
     ret (inn\<lparr>pf_Meta := m, pf_Spec := spec, pf_Status := status\<rparr>)
   }"

definition Function_DeepCopy :: "Apimachinery \<Rightarrow> pFunction option \<Rightarrow> (Heap, pFunction option) state" where
  "Function_DeepCopy am inn = deep_copy (Function_DeepCopyInto am) inn"

definition FunctionList_DeepCopyInto :: "Apimachinery \<Rightarrow> pFunctionList \<Rightarrow> (Heap, pFunctionList) state" where
  "FunctionList_DeepCopyInto am inn = do {
     m \<leftarrow> am_copyListMeta am (pfl_Meta inn);
     items \<leftarrow> copy_items CFunctions un_functions zero_pFunction (Function_DeepCopyInto am) (pfl_Items inn);
     ret (inn\<lparr>pfl_Meta := m, pfl_Items := items\<rparr>)
   }"

definition FunctionList_DeepCopy :: "Apimachinery \<Rightarrow> pFunctionList option \<Rightarrow> (Heap, pFunctionList option) state" where
  "FunctionList_DeepCopy am inn = deep_copy (FunctionList_DeepCopyInto am) inn"

section \<open>The bucket source and its parts\<close>

definition OBCReference_DeepCopyInto :: "OBCReference \<Rightarrow> (Heap, OBCReference) state" where
  "OBCReference_DeepCopyInto inn = ret inn"

definition OBCReference_DeepCopy :: "OBCReference option \<Rightarrow> (Heap, OBCReference option) state" where
  "OBCReference_DeepCopy inn = deep_copy OBCReference_DeepCopyInto inn"

definition SinkSpec_DeepCopyInto :: "SinkSpec \<Rightarrow> (Heap, SinkSpec) state" where
  "SinkSpec_DeepCopyInto inn = ret inn"

definition SinkSpec_DeepCopy :: "SinkSpec option \<Rightarrow> (Heap, SinkSpec option) state" where
  "SinkSpec_DeepCopy inn = deep_copy SinkSpec_DeepCopyInto inn"

definition ObjectBucketSourceSpec_DeepCopyInto :: "pObjectBucketSourceSpec \<Rightarrow> (Heap, pObjectBucketSourceSpec) state" where
  "ObjectBucketSourceSpec_DeepCopyInto inn = do {
     evs \<leftarrow> copy_ptr (pobs_Events inn);
     ret (inn\<lparr>pobs_Events := evs\<rparr>)
   }"

definition ObjectBucketSourceSpec_DeepCopy :: "pObjectBucketSourceSpec option \<Rightarrow> (Heap, pObjectBucketSourceSpec option) state" where
  "ObjectBucketSourceSpec_DeepCopy inn = deep_copy ObjectBucketSourceSpec_DeepCopyInto inn"

definition ObjectBucketSourceStatus_DeepCopyInto :: "Apimachinery \<Rightarrow> pObjectBucketSourceStatus \<Rightarrow> (Heap, pObjectBucketSourceStatus) state" where
  "ObjectBucketSourceStatus_DeepCopyInto am inn = do {
     conditions \<leftarrow> copy_items CConditions un_conditions zero_Condition (\<lambda>c. ret (am_copyCondition am c)) (pobs_Conditions inn);
     ret (inn\<lparr>pobs_Conditions := conditions\<rparr>)
   }"

definition ObjectBucketSourceStatus_DeepCopy :: "Apimachinery \<Rightarrow> pObjectBucketSourceStatus option \<Rightarrow> (Heap, pObjectBucketSourceStatus option) state" where
  "ObjectBucketSourceStatus_DeepCopy am inn = deep_copy (ObjectBucketSourceStatus_DeepCopyInto am) inn"

definition ObjectBucketSource_DeepCopyInto :: "Apimachinery \<Rightarrow> pObjectBucketSource \<Rightarrow> (Heap, pObjectBucketSource) state" where
  "ObjectBucketSource_DeepCopyInto am inn = do {
     m \<leftarrow> am_copyMeta am (pobs_Meta inn);
     spec \<leftarrow> ObjectBucketSourceSpec_DeepCopyInto (pobs_Spec inn);
     status \<leftarrow> ObjectBucketSourceStatus_DeepCopyInto am (pobs_Status inn);
     ret (inn\<lparr>pobs_Meta := m, pobs_Spec := spec, pobs_Status := status\<rparr>)
   }"

definition ObjectBucketSource_DeepCopy :: "Apimachinery \<Rightarrow> pObjectBucketSource option \<Rightarrow> (Heap, pObjectBucketSource option) state" where
  "ObjectBucketSource_DeepCopy am inn = deep_copy (ObjectBucketSource_DeepCopyInto am) inn"

definition ObjectBucketSourceList_DeepCopyInto :: "Apimachinery \<Rightarrow> pObjectBucketSourceList \<Rightarrow> (Heap, pObjectBucketSourceList) state" where
  "ObjectBucketSourceList_DeepCopyInto am inn = do {
     m \<leftarrow> am_copyListMeta am (pobl_Meta inn);
     items \<leftarrow> copy_items CSources un_sources zero_pObjectBucketSource (ObjectBucketSource_DeepCopyInto am) (pobl_Items inn);
     ret (inn\<lparr>pobl_Meta := m, pobl_Items := items\<rparr>)
   }"

definition ObjectBucketSourceList_DeepCopy :: "Apimachinery \<Rightarrow> pObjectBucketSourceList option \<Rightarrow> (Heap, pObjectBucketSourceList option) state" where
  "ObjectBucketSourceList_DeepCopy am inn = deep_copy (ObjectBucketSourceList_DeepCopyInto am) inn"

text \<open>
  \<open>DeepCopyObject\<close> gives an interface: \<open>None\<close> is the interface that is \<open>nil\<close>, which is not the one that
  holds a \<open>nil\<close> pointer.
\<close>

datatype runtime_object =
    ObjFunction "pFunction option"
  | ObjFunctionList "pFunctionList option"
  | ObjObjectBucketSource "pObjectBucketSource option"
  | ObjObjectBucketSourceList "pObjectBucketSourceList option"

definition Function_DeepCopyObject :: "Apimachinery \<Rightarrow> pFunction option \<Rightarrow> (Heap, runtime_object option) state" where
  "Function_DeepCopyObject am inn = do {
     c \<leftarrow> Function_DeepCopy am inn;
     ret (if c \<noteq> None then Some (ObjFunction c) else None)
   }"

definition FunctionList_DeepCopyObject :: "Apimachinery \<Rightarrow> pFunctionList option \<Rightarrow> (Heap, runtime_object option) state" where
  "FunctionList_DeepCopyObject am inn = do {
     c \<leftarrow> FunctionList_DeepCopy am inn;
     ret (if c \<noteq> None then Some (ObjFunctionList c) else None)
   }"

definition ObjectBucketSource_DeepCopyObject :: "Apimachinery \<Rightarrow> pObjectBucketSource option \<Rightarrow> (Heap, runtime_object option) state" where
  "ObjectBucketSource_DeepCopyObject am inn = do {
     c \<leftarrow> ObjectBucketSource_DeepCopy am inn;
     ret (if c \<noteq> None then Some (ObjObjectBucketSource c) else None)
   }"

definition ObjectBucketSourceList_DeepCopyObject :: "Apimachinery \<Rightarrow> pObjectBucketSourceList option \<Rightarrow> (Heap, runtime_object option) state" where
  "ObjectBucketSourceList_DeepCopyObject am inn = do {
     c \<leftarrow> ObjectBucketSourceList_DeepCopy am inn;
     ret (if c \<noteq> None then Some (ObjObjectBucketSourceList c) else None)
   }"

section \<open>The values of the structs\<close>

text \<open>
  The value that the other theories work with: what is behind the pointers, with \<open>nil\<close> as the empty list
  for slices and maps.
\<close>

definition slice :: "'a list option \<Rightarrow> 'a list" where
  "slice p = (case p of Some xs \<Rightarrow> xs | None \<Rightarrow> [])"

definition val_meta :: "Heap \<Rightarrow> pMeta \<Rightarrow> ObjectMeta option" where
  "val_meta h m = map_option (\<lambda>(labels, annotations, owners, finalizers, deleted).
       \<lparr>om_Name = pm_Name m, om_Namespace = pm_Namespace m, om_UID = pm_UID m, om_Generation = pm_Generation m,
        om_Labels = slice labels, om_Annotations = slice annotations, om_OwnerReferences = slice owners,
        om_Finalizers = slice finalizers, om_DeletionTimestamp = deleted\<rparr>)
     (val_pair (val_ptr un_map) (val_pair (val_ptr un_map) (val_pair (val_ptr un_owners) (val_pair (val_ptr un_strings) (val_ptr un_time)))) h
       (pm_Labels m, pm_Annotations m, pm_OwnerReferences m, pm_Finalizers m, pm_DeletionTimestamp m))"

definition refs_meta :: "Heap \<Rightarrow> pMeta \<Rightarrow> addr set" where
  "refs_meta h m = set_option (pm_Labels m) \<union> set_option (pm_Annotations m) \<union> set_option (pm_OwnerReferences m)
     \<union> set_option (pm_Finalizers m) \<union> set_option (pm_DeletionTimestamp m)"

definition val_list_meta :: "Heap \<Rightarrow> pListMeta \<Rightarrow> (string \<times> string \<times> int option) option" where
  "val_list_meta h m = map_option (\<lambda>n. (pl_ResourceVersion m, pl_Continue m, n)) (val_ptr un_int h (pl_RemainingItemCount m))"

definition refs_list_meta :: "Heap \<Rightarrow> pListMeta \<Rightarrow> addr set" where
  "refs_list_meta h m = set_option (pl_RemainingItemCount m)"

definition val_repository :: "Heap \<Rightarrow> pFunctionSpecRepository \<Rightarrow> FunctionSpecRepository option" where
  "val_repository h r = map_option (\<lambda>ref. \<lparr>repo_URL = prepo_URL r, repo_Revision = prepo_Revision r,
       repo_AuthSecretRef = ref, repo_Dir = prepo_Dir r\<rparr>) (val_ptr un_ref h (prepo_AuthSecretRef r))"

definition val_registry :: "Heap \<Rightarrow> pFunctionSpecRegistry \<Rightarrow> FunctionSpecRegistry option" where
  "val_registry h r = map_option (\<lambda>ref. \<lparr>registry_AuthSecretRef = ref\<rparr>) (val_ptr un_ref h (pregistry_AuthSecretRef r))"

definition val_spec :: "Heap \<Rightarrow> pFunctionSpec \<Rightarrow> FunctionSpec option" where
  "val_spec h s = map_option (\<lambda>(repository, registry, auto).
       \<lparr>spec_Repository = repository, spec_Registry = registry, spec_AutoUpdateMiddleware = auto\<rparr>)
     (val_pair val_repository (val_pair val_registry (val_ptr un_bool)) h
       (pspec_Repository s, pspec_Registry s, pspec_AutoUpdateMiddleware s))"

definition refs_spec :: "Heap \<Rightarrow> pFunctionSpec \<Rightarrow> addr set" where
  "refs_spec h s = set_option (prepo_AuthSecretRef (pspec_Repository s)) \<union> set_option (pregistry_AuthSecretRef (pspec_Registry s))
     \<union> set_option (pspec_AutoUpdateMiddleware s)"

definition val_middleware :: "Heap \<Rightarrow> pFunctionStatusMiddleware \<Rightarrow> FunctionStatusMiddleware option" where
  "val_middleware h m = map_option (\<lambda>available. \<lparr>mw_Current = pmw_Current m, mw_Available = available, mw_AutoUpdate = pmw_AutoUpdate m,
       mw_PendingRebuild = pmw_PendingRebuild m, mw_LastRebuild = pmw_LastRebuild m\<rparr>) (val_ptr un_string h (pmw_Available m))"

definition val_status :: "Heap \<Rightarrow> pFunctionStatus \<Rightarrow> FunctionStatus option" where
  "val_status h s = map_option (\<lambda>(middleware, history, conditions).
       \<lparr>st_Name = pst_Name s, st_Git = pst_Git s, st_Deployment = pst_Deployment s, st_Middleware = middleware,
        st_Service = pst_Service s, st_History = history, st_Conditions = conditions\<rparr>)
     (val_pair val_middleware (val_pair (val_items un_history val_flat) (val_items un_conditions val_flat)) h
       (pst_Middleware s, pst_History s, pst_Conditions s))"

definition refs_status :: "Heap \<Rightarrow> pFunctionStatus \<Rightarrow> addr set" where
  "refs_status h s = set_option (pmw_Available (pst_Middleware s)) \<union> set_option (pst_History s) \<union> set_option (pst_Conditions s)"

definition val_function :: "Heap \<Rightarrow> pFunction \<Rightarrow> (TypeMeta \<times> Function) option" where
  "val_function h f = map_option (\<lambda>(m, spec, status). (pf_TypeMeta f, \<lparr>fn_Meta = m, fn_Spec = spec, fn_Status = status\<rparr>))
     (val_pair val_meta (val_pair val_spec val_status) h (pf_Meta f, pf_Spec f, pf_Status f))"

definition refs_function :: "Heap \<Rightarrow> pFunction \<Rightarrow> addr set" where
  "refs_function h f = refs_meta h (pf_Meta f) \<union> refs_spec h (pf_Spec f) \<union> refs_status h (pf_Status f)"

definition val_function_list :: "Heap \<Rightarrow> pFunctionList \<Rightarrow> (TypeMeta \<times> (string \<times> string \<times> int option) \<times> (TypeMeta \<times> Function) list) option" where
  "val_function_list h l = map_option (Pair (pfl_TypeMeta l))
     (val_pair val_list_meta (val_items un_functions val_function) h (pfl_Meta l, pfl_Items l))"

definition refs_function_list :: "Heap \<Rightarrow> pFunctionList \<Rightarrow> addr set" where
  "refs_function_list h l = refs_list_meta h (pfl_Meta l) \<union> refs_items un_functions refs_function h (pfl_Items l)"

definition val_source_spec :: "Heap \<Rightarrow> pObjectBucketSourceSpec \<Rightarrow> ObjectBucketSourceSpec option" where
  "val_source_spec h s = map_option (\<lambda>evs. \<lparr>obs_ObjectBucketClaim = pobs_ObjectBucketClaim s, obs_Events = slice evs,
       obs_Sink = pobs_Sink s\<rparr>) (val_ptr un_strings h (pobs_Events s))"

definition val_source_status :: "Heap \<Rightarrow> pObjectBucketSourceStatus \<Rightarrow> ObjectBucketSourceStatus option" where
  "val_source_status h s = map_option (\<lambda>cs. \<lparr>obs_Conditions = cs\<rparr>) (val_items un_conditions val_flat h (pobs_Conditions s))"

definition val_source :: "Heap \<Rightarrow> pObjectBucketSource \<Rightarrow> (TypeMeta \<times> ObjectBucketSource) option" where
  "val_source h s = map_option (\<lambda>(m, spec, status). (pobs_TypeMeta s, \<lparr>obs_Meta = m, obs_Spec = spec, obs_Status = status\<rparr>))
     (val_pair val_meta (val_pair val_source_spec val_source_status) h (pobs_Meta s, pobs_Spec s, pobs_Status s))"

definition refs_source :: "Heap \<Rightarrow> pObjectBucketSource \<Rightarrow> addr set" where
  "refs_source h s = refs_meta h (pobs_Meta s) \<union> set_option (pobs_Events (pobs_Spec s)) \<union> set_option (pobs_Conditions (pobs_Status s))"

definition val_source_list :: "Heap \<Rightarrow> pObjectBucketSourceList
    \<Rightarrow> (TypeMeta \<times> (string \<times> string \<times> int option) \<times> (TypeMeta \<times> ObjectBucketSource) list) option" where
  "val_source_list h l = map_option (Pair (pobl_TypeMeta l))
     (val_pair val_list_meta (val_items un_sources val_source) h (pobl_Meta l, pobl_Items l))"

definition refs_source_list :: "Heap \<Rightarrow> pObjectBucketSourceList \<Rightarrow> addr set" where
  "refs_source_list h l = refs_list_meta h (pobl_Meta l) \<union> refs_items un_sources refs_source h (pobl_Items l)"

text \<open>What the copies of apimachinery are documented to be.\<close>

definition copies_deeply :: "Apimachinery \<Rightarrow> bool" where
  "copies_deeply am \<longleftrightarrow> copier (am_copyMeta am) val_meta refs_meta \<and> copier (am_copyListMeta am) val_list_meta refs_list_meta
     \<and> (\<forall>t. am_copyTime am t = t) \<and> (\<forall>c. am_copyCondition am c = c)"

section \<open>The functions are deep copies\<close>

lemma refs_items_flat [simp]: "refs_items un refs_flat h p = set_option p"
  by (cases p) (auto simp: refs_items_def refs_flat_def)

lemma copier_repository: "copier FunctionSpecRepository_DeepCopyInto val_repository (\<lambda>h r. set_option (prepo_AuthSecretRef r))"
  by (rule copier_via [OF copier_ptr _ _ val_repository_def, where put = "\<lambda>p r. r\<lparr>prepo_AuthSecretRef := p\<rparr>"])
    (simp_all add: FunctionSpecRepository_DeepCopyInto_def val_repository_def refs_ptr_def)

lemma copier_registry: "copier FunctionSpecRegistry_DeepCopyInto val_registry (\<lambda>h r. set_option (pregistry_AuthSecretRef r))"
  by (rule copier_via [OF copier_ptr _ _ val_registry_def, where put = "\<lambda>p r. r\<lparr>pregistry_AuthSecretRef := p\<rparr>"])
    (simp_all add: FunctionSpecRegistry_DeepCopyInto_def val_registry_def refs_ptr_def)

interpretation spec: copier FunctionSpec_DeepCopyInto val_spec refs_spec
  by (rule copier_via [OF copier_pair [OF copier_repository copier_pair [OF copier_registry copier_ptr]] _ _ val_spec_def,
        where put = "\<lambda>(r, g, p) s. s\<lparr>pspec_Repository := r, pspec_Registry := g, pspec_AutoUpdateMiddleware := p\<rparr>"])
    (auto simp: FunctionSpec_DeepCopyInto_def val_spec_def refs_spec_def refs_pair_def refs_ptr_def State_Monad.bind_assoc)


lemma copier_middleware:
  assumes "copies_deeply am"
  shows "copier (FunctionStatusMiddleware_DeepCopyInto am) val_middleware (\<lambda>h m. set_option (pmw_Available m))"
  by (rule copier_via [OF copier_ptr _ _ val_middleware_def, where put = "\<lambda>p m. m\<lparr>pmw_Available := p\<rparr>"])
    (use assms in \<open>simp_all add: FunctionStatusMiddleware_DeepCopyInto_def val_middleware_def refs_ptr_def copies_deeply_def\<close>)

lemma copier_conditions:
  assumes "copies_deeply am"
  shows "copier (copy_items CConditions un_conditions zero (\<lambda>c. ret (am_copyCondition am c))) (val_items un_conditions val_flat)
    (refs_items un_conditions refs_flat)"
  by (rule copier_items [OF copier_flat]) (use assms in \<open>simp_all add: copies_deeply_def\<close>)

lemma copier_history:
  assumes "copies_deeply am"
  shows "copier (copy_items CHistory un_history zero (FunctionStatusHistoryEntry_DeepCopyInto am)) (val_items un_history val_flat)
    (refs_items un_history refs_flat)"
  by (rule copier_items [OF copier_flat]) (use assms in \<open>simp_all add: copies_deeply_def FunctionStatusHistoryEntry_DeepCopyInto_def\<close>)

lemma copier_status:
  assumes "copies_deeply am"
  shows "copier (FunctionStatus_DeepCopyInto am) val_status refs_status"
  by (rule copier_via [OF copier_pair [OF copier_middleware [OF assms] copier_pair [OF copier_history [OF assms] copier_conditions [OF assms]]] _ _ val_status_def,
        where put = "\<lambda>(m, p, q) s. s\<lparr>pst_Middleware := m, pst_History := p, pst_Conditions := q\<rparr>"])
    (use assms in \<open>auto simp: FunctionStatus_DeepCopyInto_def FunctionStatusGit_DeepCopyInto_def FunctionStatusDeployment_DeepCopyInto_def
       val_status_def refs_status_def refs_pair_def State_Monad.bind_assoc copies_deeply_def\<close>)

lemma copier_function:
  assumes "copies_deeply am"
  shows "copier (Function_DeepCopyInto am) val_function refs_function"
proof -
  have m: "copier (am_copyMeta am) val_meta refs_meta" using assms by (simp add: copies_deeply_def)
  show ?thesis
    by (rule copier_via [OF copier_pair [OF m copier_pair [OF spec.copier_axioms copier_status [OF assms]]] _ _ val_function_def,
          where put = "\<lambda>(m, s, t) f. f\<lparr>pf_Meta := m, pf_Spec := s, pf_Status := t\<rparr>"])
      (auto simp: Function_DeepCopyInto_def val_function_def refs_function_def refs_pair_def State_Monad.bind_assoc)
qed

lemma copier_function_list:
  assumes "copies_deeply am"
  shows "copier (FunctionList_DeepCopyInto am) val_function_list refs_function_list"
proof -
  have m: "copier (am_copyListMeta am) val_list_meta refs_list_meta" using assms by (simp add: copies_deeply_def)
  show ?thesis
    by (rule copier_via [OF copier_pair [OF m copier_items [OF copier_function [OF assms]]] _ _ val_function_list_def,
          where put = "\<lambda>(m, p) l. l\<lparr>pfl_Meta := m, pfl_Items := p\<rparr>"])
      (auto simp: FunctionList_DeepCopyInto_def val_function_list_def refs_function_list_def refs_pair_def State_Monad.bind_assoc)
qed

interpretation source_spec: copier ObjectBucketSourceSpec_DeepCopyInto val_source_spec "\<lambda>h s. set_option (pobs_Events s)"
  by (rule copier_via [OF copier_ptr _ _ val_source_spec_def, where put = "\<lambda>p s. s\<lparr>pobs_Events := p\<rparr>"])
    (simp_all add: ObjectBucketSourceSpec_DeepCopyInto_def val_source_spec_def refs_ptr_def)

lemma copier_source_status:
  assumes "copies_deeply am"
  shows "copier (ObjectBucketSourceStatus_DeepCopyInto am) val_source_status (\<lambda>h s. set_option (pobs_Conditions s))"
  by (rule copier_via [OF copier_conditions [OF assms] _ _ val_source_status_def, where put = "\<lambda>p s. s\<lparr>pobs_Conditions := p\<rparr>"])
    (simp_all add: ObjectBucketSourceStatus_DeepCopyInto_def val_source_status_def)

lemma copier_source:
  assumes "copies_deeply am"
  shows "copier (ObjectBucketSource_DeepCopyInto am) val_source refs_source"
proof -
  have m: "copier (am_copyMeta am) val_meta refs_meta" using assms by (simp add: copies_deeply_def)
  show ?thesis
    by (rule copier_via [OF copier_pair [OF m copier_pair [OF source_spec.copier_axioms copier_source_status [OF assms]]] _ _ val_source_def,
          where put = "\<lambda>(m, s, t) f. f\<lparr>pobs_Meta := m, pobs_Spec := s, pobs_Status := t\<rparr>"])
      (auto simp: ObjectBucketSource_DeepCopyInto_def val_source_def refs_source_def refs_pair_def State_Monad.bind_assoc)
qed

lemma copier_source_list:
  assumes "copies_deeply am"
  shows "copier (ObjectBucketSourceList_DeepCopyInto am) val_source_list refs_source_list"
proof -
  have m: "copier (am_copyListMeta am) val_list_meta refs_list_meta" using assms by (simp add: copies_deeply_def)
  show ?thesis
    by (rule copier_via [OF copier_pair [OF m copier_items [OF copier_source [OF assms]]] _ _ val_source_list_def,
          where put = "\<lambda>(m, p) l. l\<lparr>pobl_Meta := m, pobl_Items := p\<rparr>"])
      (auto simp: ObjectBucketSourceList_DeepCopyInto_def val_source_list_def refs_source_list_def refs_pair_def State_Monad.bind_assoc)
qed

section \<open>A library that copies\<close>

definition sample_apimachinery :: Apimachinery where
  "sample_apimachinery =
     \<lparr>am_copyMeta = (\<lambda>m. do {
        labels \<leftarrow> copy_ptr (pm_Labels m);
        annotations \<leftarrow> copy_ptr (pm_Annotations m);
        owners \<leftarrow> copy_ptr (pm_OwnerReferences m);
        finalizers \<leftarrow> copy_ptr (pm_Finalizers m);
        deleted \<leftarrow> copy_ptr (pm_DeletionTimestamp m);
        ret (m\<lparr>pm_Labels := labels, pm_Annotations := annotations, pm_OwnerReferences := owners,
          pm_Finalizers := finalizers, pm_DeletionTimestamp := deleted\<rparr>)
      }),
      am_copyListMeta = (\<lambda>m. do { n \<leftarrow> copy_ptr (pl_RemainingItemCount m); ret (m\<lparr>pl_RemainingItemCount := n\<rparr>) }),
      am_copyTime = (\<lambda>t. t), am_copyCondition = (\<lambda>c. c)\<rparr>"

lemma sample_apimachinery_copies: "copies_deeply sample_apimachinery"
proof -
  have "copier (am_copyMeta sample_apimachinery) val_meta refs_meta"
    by (rule copier_via [OF copier_pair [OF copier_ptr copier_pair [OF copier_ptr copier_pair [OF copier_ptr
            copier_pair [OF copier_ptr copier_ptr]]]] _ _ val_meta_def,
          where put = "\<lambda>(a, b, c, d, e) m. m\<lparr>pm_Labels := a, pm_Annotations := b, pm_OwnerReferences := c,
            pm_Finalizers := d, pm_DeletionTimestamp := e\<rparr>"])
      (auto simp: sample_apimachinery_def refs_meta_def refs_pair_def refs_ptr_def State_Monad.bind_assoc)
  moreover have "copier (am_copyListMeta sample_apimachinery) val_list_meta refs_list_meta"
    by (rule copier_via [OF copier_ptr _ _ val_list_meta_def, where put = "\<lambda>p m. m\<lparr>pl_RemainingItemCount := p\<rparr>"])
      (simp_all add: sample_apimachinery_def refs_list_meta_def refs_ptr_def)
  ultimately show ?thesis by (simp add: copies_deeply_def sample_apimachinery_def)
qed

interpretation sample_fn: copier "Function_DeepCopyInto sample_apimachinery" val_function refs_function
  by (rule copier_function [OF sample_apimachinery_copies])

section \<open>Properties\<close>

text \<open>\<open>wrote_only A h h'\<close>: what was on the heap has only been written at these addresses; more may have been allocated.\<close>

definition wrote_only :: "addr set \<Rightarrow> Heap \<Rightarrow> Heap \<Rightarrow> bool" where
  "wrote_only A h h' \<longleftrightarrow> hp_next h \<le> hp_next h' \<and> (\<forall>x. x \<notin> A \<and> x < hp_next h \<longrightarrow> hp_cells h' x = hp_cells h x)"

definition independent_copy ::
  "('a option \<Rightarrow> (Heap, 'a option) state) \<Rightarrow> (Heap \<Rightarrow> 'a \<Rightarrow> 'v option) \<Rightarrow> (Heap \<Rightarrow> 'a \<Rightarrow> addr set) \<Rightarrow> Heap \<Rightarrow> 'a \<Rightarrow> 'v \<Rightarrow> bool" where
  "independent_copy copy val refs h a v \<longleftrightarrow> holds (copy (Some a)) h (\<lambda>res h'. \<exists>b. res = Some b
     \<and> val h' b = Some v \<and> refs h' b \<inter> refs h' a = {}
     \<and> (\<forall>h2. wrote_only (refs h' b) h' h2 \<longrightarrow> val h2 a = Some v)
     \<and> (\<forall>h2. wrote_only (refs h' a) h' h2 \<longrightarrow> val h2 b = Some v))"

lemma deep_copy_independent:
  assumes "copier dc val refs" and "val h a = Some v"
  shows "independent_copy (deep_copy dc) val refs h a v"
  unfolding independent_copy_def deep_copy_def option.case holds_bind holds_return wrote_only_def
  by (rule holds_mono [OF copier.independent [OF assms]]) blast

text \<open>
  C7: a deep copy of an object is equal to it and shares nothing with it. For the function, the bucket source
  and the lists of them: the copy has the value of the original, they reach no address in common, and
  whatever is written later through one of them leaves the value of the other as it was. The snapshot that
  the status tracker takes of a function therefore does not follow the changes that the reconcile makes.
\<close>

theorem deep_copies_share_nothing:
  assumes "copies_deeply am"
  shows "(\<forall>f v. val_function h f = Some v \<longrightarrow> independent_copy (Function_DeepCopy am) val_function refs_function h f v)
    \<and> (\<forall>l v. val_function_list h l = Some v \<longrightarrow> independent_copy (FunctionList_DeepCopy am) val_function_list refs_function_list h l v)
    \<and> (\<forall>s v. val_source h s = Some v \<longrightarrow> independent_copy (ObjectBucketSource_DeepCopy am) val_source refs_source h s v)
    \<and> (\<forall>l v. val_source_list h l = Some v
         \<longrightarrow> independent_copy (ObjectBucketSourceList_DeepCopy am) val_source_list refs_source_list h l v)"
  unfolding Function_DeepCopy_def [abs_def] FunctionList_DeepCopy_def [abs_def] ObjectBucketSource_DeepCopy_def [abs_def]
    ObjectBucketSourceList_DeepCopy_def [abs_def]
  by (intro conjI allI impI deep_copy_independent copier_function copier_function_list copier_source copier_source_list assms)

text \<open>Two functions in a list, one of them with a secret, a label and a condition.\<close>

definition sample_pFunction :: pFunction where
  "sample_pFunction = zero_pFunction\<lparr>pf_Meta := zero_pMeta\<lparr>pm_Name := ''fn'', pm_Labels := Some 1\<rparr>,
     pf_Spec := (pf_Spec zero_pFunction)\<lparr>pspec_Repository := (pspec_Repository (pf_Spec zero_pFunction))\<lparr>prepo_AuthSecretRef := Some 0\<rparr>\<rparr>,
     pf_Status := (pf_Status zero_pFunction)\<lparr>pst_Conditions := Some 2\<rparr>\<rparr>"

definition sample_heap :: Heap where
  "sample_heap = \<lparr>hp_next = 4, hp_cells = (\<lambda>a. CBool False)(0 := CRef ''git-secret'', 1 := CMap [(''team'', ''a'')],
     2 := CConditions [zero_Condition],
     3 := CFunctions [zero_pFunction, sample_pFunction])\<rparr>"

definition sample_list :: pFunctionList where
  "sample_list = \<lparr>pfl_TypeMeta = \<lparr>tm_Kind = ''FunctionList'', tm_APIVersion = ''functions.dev/v1alpha1''\<rparr>,
     pfl_Meta = \<lparr>pl_ResourceVersion = ''7'', pl_Continue = [], pl_RemainingItemCount = None\<rparr>, pfl_Items = Some 3\<rparr>"

lemma sample_values:
  "\<exists>v. val_function sample_heap zero_pFunction = Some v \<and> om_Labels (fn_Meta (snd v)) = []"
  "\<exists>v. val_function sample_heap sample_pFunction = Some v \<and> om_Labels (fn_Meta (snd v)) = [(''team'', ''a'')]"
proof -
  have m: "\<exists>m. val_meta sample_heap (pf_Meta zero_pFunction) = Some m \<and> om_Labels m = []"
    "\<exists>m. val_meta sample_heap (pf_Meta sample_pFunction) = Some m \<and> om_Labels m = [(''team'', ''a'')]"
    by (simp_all add: val_meta_def sample_pFunction_def zero_pFunction_def zero_pMeta_def val_ptr_def val_pair_def slice_def sample_heap_def)
  have s: "\<exists>sp. val_spec sample_heap (pf_Spec zero_pFunction) = Some sp" "\<exists>sp. val_spec sample_heap (pf_Spec sample_pFunction) = Some sp"
    by (simp_all add: val_spec_def sample_pFunction_def zero_pFunction_def val_repository_def val_registry_def val_ptr_def val_pair_def
        sample_heap_def)
  have t: "\<exists>st. val_status sample_heap (pf_Status zero_pFunction) = Some st" "\<exists>st. val_status sample_heap (pf_Status sample_pFunction) = Some st"
    by (simp_all add: val_status_def sample_pFunction_def zero_pFunction_def val_middleware_def val_ptr_def val_pair_def val_items_def
        sample_heap_def val_flat_def)
  show "\<exists>v. val_function sample_heap zero_pFunction = Some v \<and> om_Labels (fn_Meta (snd v)) = []"
    using m(1) s(1) t(1) by (auto simp: val_function_def val_pair_def)
  show "\<exists>v. val_function sample_heap sample_pFunction = Some v \<and> om_Labels (fn_Meta (snd v)) = [(''team'', ''a'')]"
    using m(2) s(2) t(2) by (auto simp: val_function_def val_pair_def)
qed

theorem deep_copies_share_nothing_witness:
  "\<exists>v. val_function_list sample_heap sample_list = Some v
     \<and> independent_copy (FunctionList_DeepCopy sample_apimachinery) val_function_list refs_function_list sample_heap sample_list v
     \<and> map (om_Labels \<circ> fn_Meta \<circ> snd) (snd (snd v)) = [[], [(''team'', ''a'')]]"
proof -
  obtain v1 v2 where v: "val_function sample_heap zero_pFunction = Some v1" "om_Labels (fn_Meta (snd v1)) = []"
    "val_function sample_heap sample_pFunction = Some v2" "om_Labels (fn_Meta (snd v2)) = [(''team'', ''a'')]"
    using sample_values by blast
  have items: "val_items un_functions val_function sample_heap (Some 3) = Some [v1, v2]"
  proof -
    have "hp_cells sample_heap 3 = CFunctions [zero_pFunction, sample_pFunction]" "hp_next sample_heap = 4"
      by (simp_all add: sample_heap_def)
    then show ?thesis by (simp add: val_items_def v)
  qed
  then obtain l where l: "val_function_list sample_heap sample_list = Some l" "snd (snd l) = [v1, v2]"
    by (simp add: val_function_list_def sample_list_def val_pair_def val_list_meta_def val_ptr_def)
  from deep_copies_share_nothing [OF sample_apimachinery_copies, of sample_heap, THEN conjunct2, THEN conjunct1, rule_format, OF l(1)]
  have "independent_copy (FunctionList_DeepCopy sample_apimachinery) val_function_list refs_function_list sample_heap sample_list l" .
  then show ?thesis using l v by (intro exI [of _ l]) simp
qed

text \<open>No typed \<open>nil\<close> gets into an interface.\<close>

lemma DeepCopyObject_nil:
  "Function_DeepCopyObject am None = ret None" "FunctionList_DeepCopyObject am None = ret None"
  "ObjectBucketSource_DeepCopyObject am None = ret None" "ObjectBucketSourceList_DeepCopyObject am None = ret None"
  by (simp_all add: Function_DeepCopyObject_def Function_DeepCopy_def FunctionList_DeepCopyObject_def FunctionList_DeepCopy_def
      ObjectBucketSource_DeepCopyObject_def ObjectBucketSource_DeepCopy_def ObjectBucketSourceList_DeepCopyObject_def
      ObjectBucketSourceList_DeepCopy_def deep_copy_def)

end
