(* ===== verification/Startup.thy ===== *)
theory Startup
  imports AdapterConfig
begin

text \<open>
  The two programs, \<open>cmd/func-operator/main.go\<close> and \<open>cmd/objectbucket-notifications-adapter/main.go\<close>: what
  they make of their flags and their environment, and the order in which they bring up their parts.
  A start-up is a list of steps, each with the arguments that the code passes; the first one that fails
  ends the process with status 1. What a step does is a parameter; the parts are modelled in their own
  theories.
\<close>

section \<open>Flags\<close>

text \<open>The values when no flag is given; \<open>FlagParse\<close> has the parsing.\<close>

record serverFlags =
  metricsAddr :: string
  metricsCertPath :: string
  metricsCertName :: string
  metricsCertKey :: string
  webhookCertPath :: string
  webhookCertName :: string
  webhookCertKey :: string
  enableLeaderElection :: bool
  probeAddr :: string
  secureMetrics :: bool
  enableHTTP2 :: bool
  createConfig :: bool

record cliFlags = serverFlags +
  funcCLIPath :: string
  funcCLICheckInterval :: time
  disableFuncCLIUpdate :: bool

definition parseFlags_default :: "string \<Rightarrow> cliFlags" where
  "parseFlags_default tempDir =
     \<lparr>metricsAddr = ''0'', metricsCertPath = [], metricsCertName = ''tls.crt'', metricsCertKey = ''tls.key'',
      webhookCertPath = [], webhookCertName = ''tls.crt'', webhookCertKey = ''tls.key'',
      enableLeaderElection = False, probeAddr = '':8081'', secureMetrics = True, enableHTTP2 = False,
      createConfig = False,
      funcCLIPath = path_Join [tempDir, ''func-operator'', ''bin''],
      funcCLICheckInterval = 300000000000, disableFuncCLIUpdate = False\<rparr>"

record adapterFlags = serverFlags +
  configMapName :: string
  adapterPort :: int
  notificationsMode :: string
  kafkaBrokers :: string
  kafkaNotificationsTopics :: string
  kafkaNotificationsGroupID :: string

definition adapter_flags_default :: adapterFlags where
  "adapter_flags_default =
     \<lparr>metricsAddr = ''0'', metricsCertPath = [], metricsCertName = ''tls.crt'', metricsCertKey = ''tls.key'',
      webhookCertPath = [], webhookCertName = ''tls.crt'', webhookCertKey = ''tls.key'',
      enableLeaderElection = False, probeAddr = '':8081'', secureMetrics = True, enableHTTP2 = False,
      createConfig = False,
      configMapName = ''objectbucket-notifications-adapter-config'', adapterPort = 8888,
      notificationsMode = ''http'', kafkaBrokers = [], kafkaNotificationsTopics = [], kafkaNotificationsGroupID = []\<rparr>"

section \<open>TLS\<close>

record CertWatcher =
  cw_Cert :: string
  cw_Key :: string

text \<open>What the functions in \<open>TLSOpts\<close> do to the configuration of a server.\<close>

datatype TlsOpt = DisableHTTP2 | GetCertificate CertWatcher

definition setupTLSOptions :: "bool \<Rightarrow> TlsOpt list" where
  "setupTLSOptions http2 = (if \<not> http2 then [DisableHTTP2] else [])"

text \<open>The watcher for a path, when one is given; the code has this twice, for the metrics and for the webhooks.\<close>

definition setupCertWatcher :: "string \<Rightarrow> string \<Rightarrow> string \<Rightarrow> CertWatcher option" where
  "setupCertWatcher certPath certName certKey =
     (if length certPath = 0 then None
      else Some \<lparr>cw_Cert = path_Join [certPath, certName], cw_Key = path_Join [certPath, certKey]\<rparr>)"

definition setupWebhookServer :: "CertWatcher option \<Rightarrow> TlsOpt list \<Rightarrow> TlsOpt list" where
  "setupWebhookServer watcher tlsOpts = (case watcher of None \<Rightarrow> tlsOpts | Some w \<Rightarrow> tlsOpts @ [GetCertificate w])"

record MetricsServerOptions =
  ms_BindAddress :: string
  ms_SecureServing :: bool
  ms_Authentication :: bool
  ms_TLSOpts :: "TlsOpt list"

definition setupMetricsServerOptions :: "string \<Rightarrow> bool \<Rightarrow> CertWatcher option \<Rightarrow> TlsOpt list \<Rightarrow> MetricsServerOptions" where
  "setupMetricsServerOptions addr secure watcher tlsOpts =
     (let opts = \<lparr>ms_BindAddress = addr, ms_SecureServing = secure, ms_Authentication = False, ms_TLSOpts = tlsOpts\<rparr>;
          opts = (if secure then opts\<lparr>ms_Authentication := True\<rparr> else opts)
      in case watcher of None \<Rightarrow> opts | Some w \<Rightarrow> opts\<lparr>ms_TLSOpts := ms_TLSOpts opts @ [GetCertificate w]\<rparr>)"

section \<open>Namespaces\<close>

text \<open>The environment: \<open>None\<close> is a variable that is not set.\<close>

type_synonym os_environ = "string \<Rightarrow> string option"

definition Getenv :: "os_environ \<Rightarrow> string \<Rightarrow> string" where
  "Getenv env v = (case env v of Some s \<Rightarrow> s | None \<Rightarrow> [])"

definition getOperatorNamespace :: "os_environ \<Rightarrow> string" where
  "getOperatorNamespace env =
     (let ns = Getenv env ''SYSTEM_NAMESPACE'' in if ns = [] then ''func-operator-system'' else ns)"

definition getWatchNamespaces :: "os_environ \<Rightarrow> string list" where
  "getWatchNamespaces env =
     (case env ''WATCH_NAMESPACE'' of
        None \<Rightarrow> []
      | Some ns \<Rightarrow> if ns = [] then [] else Split ns (CHR '',''))"

text \<open>
  The caches: the namespaces they keep by default, \<open>None\<close> for all of them, and those for single kinds. In
  a set of namespaces the empty name stands for every namespace.
\<close>

record CacheOptions =
  co_DefaultNamespaces :: "string set option"
  co_ByObject :: "(string \<times> string set) list"

definition setupCacheOptions :: "os_environ \<Rightarrow> string \<Rightarrow> CacheOptions" where
  "setupCacheOptions env operatorNamespace =
     (let watchNamespaces = getWatchNamespaces env in
      \<lparr>co_DefaultNamespaces =
         (if length watchNamespaces > 0 then Some (TrimSpace ` set watchNamespaces) else None),
       co_ByObject = map (\<lambda>kind. (kind, {operatorNamespace})) [''ConfigMap'', ''Deployment'', ''Service'', ''ServiceAccount'']\<rparr>)"

section \<open>Steps\<close>

record ManagerOptions =
  mo_Metrics :: MetricsServerOptions
  mo_WebhookTLSOpts :: "TlsOpt list"
  mo_HealthProbeBindAddress :: string
  mo_LeaderElection :: bool
  mo_LeaderElectionID :: string
  mo_Cache :: "CacheOptions option"

datatype StartupStep =
    NewCertWatcher CertWatcher
  | EnsureOperatorConfig string
  | GetRestConfig
  | NewControllerManager ManagerOptions
  | NewFuncCLIManager string time bool
  | EnsureCLIReady
  | NewGit
  | SetupFunctionReconciler string
  | SetupConsolePluginReconciler string string string
  | AddCertWatcher CertWatcher
  | AddFuncCLIManager
  | AddHealthzCheck string
  | ReadPodNamespace
  | EnsureAdapterConfig string string NotificationSettings
  | NewConfigProvider string string NotificationSettings
  | AddConfigProvider
  | SetupSourceReconciler
  | AddNotificationServer int
  | StartManager

record 'w startup_state =
  su_World :: 'w
  su_Calls :: "(StartupStep \<times> goerr option) list"

fun run_steps ::
  "(StartupStep \<Rightarrow> ('w, goerr option) state) \<Rightarrow> StartupStep list \<Rightarrow> ('w startup_state, nat) state" where
  "run_steps do_step [] = ret 0"
| "run_steps do_step (st # sts) = do {
     err \<leftarrow> zoom su_World (\<lambda>w s. s\<lparr>su_World := w\<rparr>) (do_step st);
     modify (\<lambda>s. s\<lparr>su_Calls := su_Calls s @ [(st, err)]\<rparr>);
     case err of Some e \<Rightarrow> ret 1 | None \<Rightarrow> run_steps do_step sts
   }"

definition watcher_steps :: "(CertWatcher \<Rightarrow> StartupStep) \<Rightarrow> CertWatcher option \<Rightarrow> StartupStep list" where
  "watcher_steps f watcher = (case watcher of None \<Rightarrow> [] | Some w \<Rightarrow> [f w])"

text \<open>\<open>addCertWatchers\<close>: the metrics first.\<close>

definition addCertWatchers :: "CertWatcher option \<Rightarrow> CertWatcher option \<Rightarrow> StartupStep list" where
  "addCertWatchers metricsCertWatcher webhookCertWatcher =
     watcher_steps AddCertWatcher metricsCertWatcher @ watcher_steps AddCertWatcher webhookCertWatcher"

definition webhook_watcher :: "'a serverFlags_scheme \<Rightarrow> CertWatcher option" where
  "webhook_watcher f = setupCertWatcher (webhookCertPath f) (webhookCertName f) (webhookCertKey f)"

definition metrics_watcher :: "'a serverFlags_scheme \<Rightarrow> CertWatcher option" where
  "metrics_watcher f = setupCertWatcher (metricsCertPath f) (metricsCertName f) (metricsCertKey f)"

definition manager_options :: "'a serverFlags_scheme \<Rightarrow> string \<Rightarrow> CacheOptions option \<Rightarrow> ManagerOptions" where
  "manager_options f leaderID caches =
     (let tlsOpts = setupTLSOptions (enableHTTP2 f) in
      \<lparr>mo_Metrics = setupMetricsServerOptions (metricsAddr f) (secureMetrics f) (metrics_watcher f) tlsOpts,
       mo_WebhookTLSOpts = setupWebhookServer (webhook_watcher f) tlsOpts,
       mo_HealthProbeBindAddress = probeAddr f, mo_LeaderElection = enableLeaderElection f,
       mo_LeaderElectionID = leaderID, mo_Cache = caches\<rparr>)"

section \<open>The operator\<close>

definition operator_steps :: "os_environ \<Rightarrow> cliFlags \<Rightarrow> StartupStep list" where
  "operator_steps env flags =
     (let operatorNamespace = getOperatorNamespace env in
      watcher_steps NewCertWatcher (webhook_watcher flags)
      @ watcher_steps NewCertWatcher (metrics_watcher flags)
      @ (if createConfig flags then [EnsureOperatorConfig operatorNamespace] else [])
      @ [GetRestConfig,
         NewControllerManager (manager_options flags ''668e89e1.functions.dev'' (Some (setupCacheOptions env operatorNamespace))),
         NewFuncCLIManager (funcCLIPath flags) (funcCLICheckInterval flags) (disableFuncCLIUpdate flags),
         EnsureCLIReady,
         NewGit,
         SetupFunctionReconciler operatorNamespace,
         SetupConsolePluginReconciler operatorNamespace (Getenv env ''CONSOLE_PLUGIN_IMAGE'') (Getenv env ''POD_NAME'')]
      @ addCertWatchers (metrics_watcher flags) (webhook_watcher flags)
      @ [AddFuncCLIManager, AddHealthzCheck ''healthz'', AddHealthzCheck ''readyz'', StartManager])"

definition operator_main ::
  "(StartupStep \<Rightarrow> ('w, goerr option) state) \<Rightarrow> os_environ \<Rightarrow> cliFlags \<Rightarrow> ('w startup_state, nat) state" where
  "operator_main do_step env flags = run_steps do_step (operator_steps env flags)"

section \<open>The adapter\<close>

text \<open>The copy of \<open>splitAndTrim\<close> in the main package of the adapter.\<close>

definition splitAndTrim :: "string \<Rightarrow> string list" where
  "splitAndTrim s = filter (\<lambda>trimmed. trimmed \<noteq> []) (map TrimSpace (Split s (CHR '','')))"

definition adapter_defaults :: "adapterFlags \<Rightarrow> NotificationSettings" where
  "adapter_defaults flags =
     \<lparr>ns_Mode = notificationsMode flags,
      ns_KafkaBrokers = splitAndTrim (kafkaBrokers flags),
      ns_KafkaNotificationsTopics = splitAndTrim (kafkaNotificationsTopics flags),
      ns_KafkaNotificationsGroupID = kafkaNotificationsGroupID flags\<rparr>"

text \<open>\<open>namespaceFile\<close> is what the file of the service account holds; reading it is a step that can fail.\<close>

definition pod_namespace :: "os_environ \<Rightarrow> string \<Rightarrow> string" where
  "pod_namespace env namespaceFile =
     (let ns = Getenv env ''POD_NAMESPACE'' in if ns = [] then TrimSpace namespaceFile else ns)"

text \<open>From the registration of the notification server on.\<close>

definition adapter_end_steps :: "adapterFlags \<Rightarrow> StartupStep list" where
  "adapter_end_steps flags =
     [AddNotificationServer (adapterPort flags)]
     @ addCertWatchers (metrics_watcher flags) (webhook_watcher flags)
     @ [AddHealthzCheck ''healthz'', AddHealthzCheck ''readyz'', StartManager]"

definition adapter_steps :: "os_environ \<Rightarrow> string \<Rightarrow> adapterFlags \<Rightarrow> StartupStep list" where
  "adapter_steps env namespaceFile flags =
     (let ns = pod_namespace env namespaceFile; defaults = adapter_defaults flags in
      watcher_steps NewCertWatcher (webhook_watcher flags)
      @ watcher_steps NewCertWatcher (metrics_watcher flags)
      @ [GetRestConfig, NewControllerManager (manager_options flags ''dd939d79.functions.dev'' None)]
      @ (if Getenv env ''POD_NAMESPACE'' = [] then [ReadPodNamespace] else [])
      @ (if createConfig flags then [EnsureAdapterConfig ns (configMapName flags) defaults] else [])
      @ [NewConfigProvider ns (configMapName flags) defaults,
         AddConfigProvider,
         SetupSourceReconciler]
      @ adapter_end_steps flags)"

definition adapter_main ::
  "(StartupStep \<Rightarrow> ('w, goerr option) state) \<Rightarrow> os_environ \<Rightarrow> string \<Rightarrow> adapterFlags \<Rightarrow> ('w startup_state, nat) state" where
  "adapter_main do_step env namespaceFile flags = run_steps do_step (adapter_steps env namespaceFile flags)"

section \<open>Facts\<close>

text \<open>The calls of a start-up are a beginning of its steps; all but the last of them have succeeded.\<close>

definition ran :: "StartupStep list \<Rightarrow> (StartupStep \<times> goerr option) list \<Rightarrow> nat \<Rightarrow> bool" where
  "ran sts calls code \<longleftrightarrow> (\<exists>rest. sts = map fst calls @ rest
     \<and> (if code = 0 then rest = [] \<and> (\<forall>c \<in> set calls. snd c = None)
        else code = 1 \<and> calls \<noteq> [] \<and> snd (last calls) \<noteq> None \<and> (\<forall>c \<in> set (butlast calls). snd c = None)))"

lemma ran_Cons: "ran sts calls code \<Longrightarrow> ran (st # sts) ((st, None) # calls) code"
  by (auto simp: ran_def split: if_splits)

lemma run_steps_ran:
  "holds (run_steps do_step sts) s (\<lambda>code s'. \<exists>calls. su_Calls s' = su_Calls s @ calls \<and> ran sts calls code)"
proof (induction sts arbitrary: s)
  case Nil
  then show ?case by (simp add: holds_return ran_def)
next
  case (Cons st sts)
  show ?case
    unfolding run_steps.simps holds_bind holds_zoom
  proof (rule holds_any, unfold holds_modify)
    fix err w
    let ?s = "s\<lparr>su_World := w, su_Calls := su_Calls (s\<lparr>su_World := w\<rparr>) @ [(st, err)]\<rparr>"
    show "holds (case err of Some e \<Rightarrow> ret 1 | None \<Rightarrow> run_steps do_step sts) ?s
        (\<lambda>code s'. \<exists>calls. su_Calls s' = su_Calls s @ calls \<and> ran (st # sts) calls code)"
    proof (cases err)
      case None
      then show ?thesis by simp (rule holds_mono [OF Cons.IH], auto intro: ran_Cons)
    next
      case (Some e)
      then show ?thesis by (auto simp: holds_return ran_def)
    qed
  qed
qed

text \<open>\<open>succeeded\<close>: the step was taken, and without an error.\<close>

definition succeeded :: "'w startup_state \<Rightarrow> StartupStep set" where
  "succeeded s = {st. (st, None) \<in> set (su_Calls s)}"

definition attempted :: "'w startup_state \<Rightarrow> StartupStep set" where
  "attempted s = fst ` set (su_Calls s)"

lemma ran_started:
  assumes "ran (sts @ [final]) calls code" and "final \<notin> set sts"
  shows "(if final \<in> fst ` set calls then set sts \<subseteq> {st. (st, None) \<in> set calls} else code = 1)"
proof (cases "final \<in> fst ` set calls")
  case True
  obtain rest where r: "sts @ [final] = map fst calls @ rest" using assms(1) by (auto simp: ran_def)
  have "rest = []"
  proof (rule ccontr)
    assume "rest \<noteq> []"
    with r have "sts = map fst calls @ butlast rest" by (metis butlast_append butlast_snoc)
    with True assms(2) show False by simp
  qed
  with r have c: "map fst calls = sts @ [final]" by simp
  then obtain cs err where cs: "calls = cs @ [(final, err)]" "map fst cs = sts"
    by (auto simp: map_eq_append_conv)
  have "\<forall>c \<in> set cs. snd c = None" using assms(1) cs by (auto simp: ran_def split: if_splits)
  then have "\<forall>st \<in> set sts. (st, None) \<in> set calls" using cs by force
  with True show ?thesis by auto
next
  case False
  then show ?thesis using assms(1) by (auto simp: ran_def split: if_splits) (metis in_set_conv_decomp list.set_map)
qed

lemma main_started:
  fixes w :: 'w
  assumes "sts = pre @ [final]" and "final \<notin> set pre"
  shows "holds (run_steps do_step sts) \<lparr>su_World = w, su_Calls = []\<rparr>
     (\<lambda>code s'. if final \<in> attempted s' then set pre \<subseteq> succeeded s' else code = 1)"
proof (rule holds_mono [OF run_steps_ran])
  fix code and s' :: "'w startup_state"
  assume "\<exists>calls. su_Calls s' = su_Calls \<lparr>su_World = w, su_Calls = []\<rparr> @ calls \<and> ran sts calls code"
  then have "ran (pre @ [final]) (su_Calls s') code" using assms(1) by simp
  from ran_started [OF this assms(2)]
  show "if final \<in> attempted s' then set pre \<subseteq> succeeded s' else code = 1"
    by (simp add: attempted_def succeeded_def)
qed

lemma operator_steps_end: "\<exists>pre. operator_steps env flags = pre @ [StartManager] \<and> StartManager \<notin> set pre"
  by (rule exI [of _ "butlast (operator_steps env flags)"])
    (auto simp: operator_steps_def Let_def addCertWatchers_def watcher_steps_def butlast_append split: option.split)

lemma adapter_steps_end: "\<exists>pre. adapter_steps env content flags = pre @ [StartManager] \<and> StartManager \<notin> set pre"
  by (rule exI [of _ "butlast (adapter_steps env content flags)"])
    (auto simp: adapter_steps_def adapter_end_steps_def Let_def addCertWatchers_def watcher_steps_def butlast_append split: option.split)

text \<open>What has to be in place before the operator, or the adapter, is started.\<close>

definition operator_prerequisites :: "os_environ \<Rightarrow> cliFlags \<Rightarrow> StartupStep set" where
  "operator_prerequisites env flags =
     {NewFuncCLIManager (funcCLIPath flags) (funcCLICheckInterval flags) (disableFuncCLIUpdate flags), EnsureCLIReady, NewGit,
      SetupFunctionReconciler (getOperatorNamespace env), AddFuncCLIManager,
      SetupConsolePluginReconciler (getOperatorNamespace env) (Getenv env ''CONSOLE_PLUGIN_IMAGE'') (Getenv env ''POD_NAME'')}
     \<union> (if createConfig flags then {EnsureOperatorConfig (getOperatorNamespace env)} else {})"

definition adapter_prerequisites :: "os_environ \<Rightarrow> string \<Rightarrow> adapterFlags \<Rightarrow> StartupStep set" where
  "adapter_prerequisites env content flags =
     {NewConfigProvider (pod_namespace env content) (configMapName flags) (adapter_defaults flags), AddConfigProvider,
      SetupSourceReconciler, AddNotificationServer (adapterPort flags)}
     \<union> (if createConfig flags
        then {EnsureAdapterConfig (pod_namespace env content) (configMapName flags) (adapter_defaults flags)} else {})
     \<union> (if Getenv env ''POD_NAMESPACE'' = [] then {ReadPodNamespace} else {})"

lemma prerequisites_are_steps:
  "operator_prerequisites env flags \<subseteq> set (operator_steps env flags) - {StartManager}"
  "adapter_prerequisites env content aflags \<subseteq> set (adapter_steps env content aflags) - {StartManager}"
  by (auto simp: operator_prerequisites_def operator_steps_def adapter_prerequisites_def adapter_steps_def adapter_end_steps_def Let_def)

lemma manager_options_protected:
  "o' = manager_options f lid caches \<Longrightarrow>
   (enableHTTP2 f \<or> DisableHTTP2 \<in> set (ms_TLSOpts (mo_Metrics o')) \<inter> set (mo_WebhookTLSOpts o'))
    \<and> ms_SecureServing (mo_Metrics o') = secureMetrics f \<and> ms_Authentication (mo_Metrics o') = secureMetrics f"
  by (auto simp: manager_options_def Let_def setupMetricsServerOptions_def setupWebhookServer_def setupTLSOptions_def
        split: option.split)

section \<open>Properties\<close>


text \<open>
  The manager of the adapter is only started once a provider has loaded the configuration of the
  adapter's own namespace with the defaults that the flags give, and the reconciler and the notification
  server are registered; the default ConfigMap, when asked for, is there by then. Without that the process
  ends with status 1.
\<close>

theorem adapter_starts_configured:
  "holds (adapter_main do_step env content flags) \<lparr>su_World = w, su_Calls = []\<rparr> (\<lambda>code s'.
     if StartManager \<in> attempted s' then adapter_prerequisites env content flags \<subseteq> succeeded s' else code = 1)"
proof -
  obtain pre where p: "adapter_steps env content flags = pre @ [StartManager]" "StartManager \<notin> set pre"
    using adapter_steps_end by blast
  have "adapter_prerequisites env content flags \<subseteq> set pre"
    using prerequisites_are_steps(2) [of env content flags] unfolding p(1) by auto
  then show ?thesis
    unfolding adapter_main_def by (intro holds_mono [OF main_started [OF p]]) (auto split: if_splits)
qed

text \<open>
  Unless HTTP/2 is asked for, both programs disable it for the metrics server and for the webhook
  server, and a metrics server that is secure asks for authentication.
\<close>

theorem servers_protected:
  assumes "NewControllerManager opts \<in> set (operator_steps env cflags) \<and> flags = serverFlags.truncate cflags
    \<or> NewControllerManager opts \<in> set (adapter_steps env content aflags) \<and> flags = serverFlags.truncate aflags"
  shows "(enableHTTP2 flags \<or> DisableHTTP2 \<in> set (ms_TLSOpts (mo_Metrics opts)) \<inter> set (mo_WebhookTLSOpts opts))
    \<and> ms_SecureServing (mo_Metrics opts) = secureMetrics flags \<and> ms_Authentication (mo_Metrics opts) = secureMetrics flags"
proof -
  have "(\<exists>lid caches. opts = manager_options cflags lid caches) \<and> flags = serverFlags.truncate cflags
     \<or> (\<exists>lid caches. opts = manager_options aflags lid caches) \<and> flags = serverFlags.truncate aflags"
    using assms by (auto simp: operator_steps_def adapter_steps_def adapter_end_steps_def Let_def addCertWatchers_def watcher_steps_def
        split: option.splits if_splits)
  then show ?thesis
    using manager_options_protected [of opts cflags] manager_options_protected [of opts aflags]
    by (auto simp: serverFlags.truncate_def)
qed

theorem servers_protected_witness:
  "\<exists>opts. NewControllerManager opts \<in> set (operator_steps (\<lambda>v. None) (parseFlags_default ''/tmp''))
     \<and> DisableHTTP2 \<in> set (ms_TLSOpts (mo_Metrics opts)) \<and> DisableHTTP2 \<in> set (mo_WebhookTLSOpts opts)
     \<and> ms_Authentication (mo_Metrics opts)"
proof -
  let ?flags = "parseFlags_default ''/tmp''"
  obtain opts where o: "NewControllerManager opts \<in> set (operator_steps (\<lambda>v. None) ?flags)"
    by (auto simp: operator_steps_def Let_def)
  have "\<not> enableHTTP2 (serverFlags.truncate ?flags)" "secureMetrics (serverFlags.truncate ?flags)"
    by (simp_all add: parseFlags_default_def serverFlags.truncate_def)
  with servers_protected [OF disjI1 [OF conjI [OF o refl]]] o show ?thesis by auto
qed

text \<open>
  A list of namespaces in \<open>WATCH_NAMESPACE\<close> restricts the caches to just these, an unset or empty one
  leaves them open to all namespaces, and the kinds of the operator itself are kept in its own namespace only.
\<close>

theorem watch_namespaces_read:
  assumes "nss \<noteq> []" and "\<And>ns. ns \<in> set nss \<Longrightarrow> ns \<noteq> [] \<and> CHR '','' \<notin> set ns \<and> TrimSpace ns = ns"
  shows "co_DefaultNamespaces (setupCacheOptions (env(''WATCH_NAMESPACE'' \<mapsto> Join nss '','')) opns) = Some (set nss)
    \<and> co_DefaultNamespaces (setupCacheOptions (env(''WATCH_NAMESPACE'' := None)) opns) = None
    \<and> co_DefaultNamespaces (setupCacheOptions (env(''WATCH_NAMESPACE'' \<mapsto> [])) opns) = None
    \<and> snd ` set (co_ByObject (setupCacheOptions env opns)) = {{opns}}"
proof -
  have "Join nss '','' \<noteq> []"
    using assms by (cases "(nss, '','')" rule: Join.cases) auto
  moreover have "Split (Join nss '','') (CHR '','') = nss"
    using assms by (intro Split_Join) auto
  moreover have "TrimSpace ` set nss = set nss"
    using assms(2) by (metis (no_types, lifting) image_cong image_ident)
  ultimately show ?thesis
    using assms(1) by (simp add: setupCacheOptions_def getWatchNamespaces_def Let_def)
qed

theorem watch_namespaces_read_witness:
  "co_DefaultNamespaces (setupCacheOptions [''WATCH_NAMESPACE'' \<mapsto> ''a,b''] ''op'') = Some {''a'', ''b''}"
proof -
  have t: "TrimSpace ''a'' = ''a''" "TrimSpace ''b'' = ''b''" by code_simp+
  have "co_DefaultNamespaces (setupCacheOptions (Map.empty(''WATCH_NAMESPACE'' \<mapsto> Join [''a'', ''b''] '','')) ''op'')
      = Some (set [''a'', ''b''])"
    by (rule watch_namespaces_read [THEN conjunct1]) (use t in auto)
  then show ?thesis by simp
qed

text \<open>An empty entry is kept, and it stands for every namespace.\<close>

lemma watch_namespaces_trailing_comma:
  "[] \<in> the (co_DefaultNamespaces (setupCacheOptions [''WATCH_NAMESPACE'' \<mapsto> ''a,''] opns))"
proof -
  have "TrimSpace [] = []" by code_simp
  then show ?thesis by (simp add: setupCacheOptions_def getWatchNamespaces_def)
qed

end
