(* ===== verification/Registration.thy ===== *)
theory Registration
  imports Startup
begin

text \<open>
  What the packages do when they are initialised: the kinds that each program registers with its scheme, from
  \<open>groupversion_info.go\<close> of the two API packages and the \<open>init\<close> functions of the main packages, and the metrics
  of \<open>internal/monitoring/metrics.go\<close>. A panic is \<open>None\<close>.
\<close>

section \<open>Schemes\<close>

record GroupVersion =
  gv_Group :: string
  gv_Version :: string

type_synonym Scheme = "(GroupVersion \<times> string) list"

text \<open>
  \<open>runtime.Scheme.AddKnownTypes\<close> registers each type under its name; \<open>metav1.AddToGroupVersion\<close> and the scheme
  of client-go are parameters, by the kinds they add.
\<close>

record SchemeLib =
  sch_AddToGroupVersion :: "GroupVersion \<Rightarrow> Scheme"
  sch_ClientGo :: "goerr + Scheme"

definition AddKnownTypes :: "Scheme \<Rightarrow> GroupVersion \<Rightarrow> string list \<Rightarrow> Scheme" where
  "AddKnownTypes scheme gv kinds = scheme @ map (Pair gv) kinds"

definition functions_GroupVersion :: GroupVersion where
  "functions_GroupVersion = \<lparr>gv_Group = ''functions.dev'', gv_Version = ''v1alpha1''\<rparr>"

definition functions_addKnownTypes :: "SchemeLib \<Rightarrow> Scheme \<Rightarrow> goerr + Scheme" where
  "functions_addKnownTypes lib scheme =
     (let scheme = AddKnownTypes scheme functions_GroupVersion [''Function'', ''FunctionList'']
      in Inr (scheme @ sch_AddToGroupVersion lib functions_GroupVersion))"

definition sources_GroupVersion :: GroupVersion where
  "sources_GroupVersion = \<lparr>gv_Group = ''sources.functions.dev'', gv_Version = ''v1alpha1''\<rparr>"

definition sources_addKnownTypes :: "SchemeLib \<Rightarrow> Scheme \<Rightarrow> goerr + Scheme" where
  "sources_addKnownTypes lib scheme =
     (let scheme = AddKnownTypes scheme sources_GroupVersion [''ObjectBucketSource'', ''ObjectBucketSourceList'']
      in Inr (scheme @ sch_AddToGroupVersion lib sources_GroupVersion))"

section \<open>Metrics\<close>

definition DeployDurationMetricName :: string where
  "DeployDurationMetricName = ''deploy_duration_seconds''"

definition GitCloneDurationMetricName :: string where
  "GitCloneDurationMetricName = ''git_clone_duration_seconds''"

text \<open>\<open>MustRegister\<close> panics on a name that is registered already.\<close>

fun MustRegister :: "string list \<Rightarrow> string list \<Rightarrow> string list option" where
  "MustRegister registry [] = Some registry"
| "MustRegister registry (m # ms) = (if m \<in> set registry then None else MustRegister (registry @ [m]) ms)"

definition RegisterMetrics :: "string list \<Rightarrow> string list option" where
  "RegisterMetrics registry = MustRegister registry [DeployDurationMetricName, GitCloneDurationMetricName]"

section \<open>The programs\<close>

definition operator_init :: "SchemeLib \<Rightarrow> string list \<Rightarrow> (Scheme \<times> string list) option" where
  "operator_init lib registry =
     (case sch_ClientGo lib of
        Inl err \<Rightarrow> None
      | Inr scheme \<Rightarrow>
          (case functions_addKnownTypes lib scheme of
             Inl err \<Rightarrow> None
           | Inr scheme \<Rightarrow> map_option (Pair scheme) (RegisterMetrics registry)))"

definition adapter_init :: "SchemeLib \<Rightarrow> Scheme option" where
  "adapter_init lib =
     (case sch_ClientGo lib of
        Inl err \<Rightarrow> None
      | Inr scheme \<Rightarrow> (case sources_addKnownTypes lib scheme of Inl err \<Rightarrow> None | Inr scheme \<Rightarrow> Some scheme))"

section \<open>Facts\<close>

lemma RegisterMetrics_once:
  "RegisterMetrics [] = Some [DeployDurationMetricName, GitCloneDurationMetricName]"
  "RegisterMetrics registry = Some registry' \<Longrightarrow> RegisterMetrics registry' = None"
  by (auto simp: RegisterMetrics_def DeployDurationMetricName_def GitCloneDurationMetricName_def split: if_splits)

text \<open>Each program knows the kind it reconciles, its list, and whatever client-go knows; neither knows that of the other.\<close>

lemma schemes_known:
  assumes "sch_ClientGo lib = Inr builtin" and "operator_init lib [] = Some (scheme, registry)" and "adapter_init lib = Some scheme'"
    and "\<And>gv gvk. gvk \<in> set (sch_AddToGroupVersion lib gv) \<Longrightarrow> fst gvk = gv"
    and "functions_GroupVersion \<notin> fst ` set builtin" and "sources_GroupVersion \<notin> fst ` set builtin"
  shows "{functions_GroupVersion} \<times> {''Function'', ''FunctionList''} \<union> set builtin \<subseteq> set scheme
    \<and> {sources_GroupVersion} \<times> {''ObjectBucketSource'', ''ObjectBucketSourceList''} \<union> set builtin \<subseteq> set scheme'
    \<and> sources_GroupVersion \<notin> fst ` set scheme \<and> functions_GroupVersion \<notin> fst ` set scheme'"
proof -
  have "sources_GroupVersion \<noteq> functions_GroupVersion" by (simp add: sources_GroupVersion_def functions_GroupVersion_def)
  then show ?thesis
    using assms by (auto simp: operator_init_def adapter_init_def functions_addKnownTypes_def sources_addKnownTypes_def
        AddKnownTypes_def Let_def dest!: assms(4); force)
qed

end
