(* ===== verification/FlagParse.thy ===== *)
theory FlagParse
  imports GoNumbers Startup FuncCli
begin

text \<open>
  The command lines of the two programs: the package \<open>flag\<close> of Go's library, as far as they use it, with
  \<open>strconv.ParseInt\<close> and \<open>time.ParseDuration\<close>, and the flags that \<open>parseFlags\<close> and the main function of the
  adapter define.
\<close>

section \<open>Numbers\<close>

datatype NumError = ErrSyntax | ErrRange

text \<open>The loop of \<open>strconv.ParseUint\<close>: underscores are passed over, and what exceeds 64 bits is out of range.\<close>

fun uint_loop :: "nat \<Rightarrow> string \<Rightarrow> nat \<Rightarrow> NumError + nat" where
  "uint_loop base [] acc = Inr acc"
| "uint_loop base (c # s) acc =
     (if c = CHR ''_'' then uint_loop base s acc
      else (case digit_value c of
              None \<Rightarrow> Inl ErrSyntax
            | Some d \<Rightarrow>
                if d \<ge> base then Inl ErrSyntax
                else if acc * base + d \<ge> 2 ^ 64 then Inl ErrRange
                else uint_loop base s (acc * base + d)))"

text \<open>The base that a prefix gives, and what is left of the text.\<close>

definition int_base :: "string \<Rightarrow> nat \<times> string" where
  "int_base s =
     (case s of
        c # c' # s' \<Rightarrow>
          if c = CHR ''0'' then
            (if s' \<noteq> [] \<and> to_lower c' = CHR ''b'' then (2, s')
             else if s' \<noteq> [] \<and> to_lower c' = CHR ''o'' then (8, s')
             else if s' \<noteq> [] \<and> to_lower c' = CHR ''x'' then (16, s')
             else (8, c' # s'))
          else (10, s)
      | [c] \<Rightarrow> if c = CHR ''0'' then (8, []) else (10, s)
      | [] \<Rightarrow> (10, s))"

text \<open>\<open>underscoreOK\<close>: an underscore stands between digits, the base prefix counting as one.\<close>

datatype LastSeen = SeenBegin | SeenDigit | SeenUnderscore | SeenOther

fun underscores_from :: "bool \<Rightarrow> LastSeen \<Rightarrow> string \<Rightarrow> bool" where
  "underscores_from hex i [] = (i \<noteq> SeenUnderscore)"
| "underscores_from hex i (c # s) =
     (let n = char_code (to_lower c) in
      if 48 \<le> n \<and> n \<le> 57 \<or> hex \<and> 97 \<le> n \<and> n \<le> 102 then underscores_from hex SeenDigit s
      else if c = CHR ''_'' then (if i \<noteq> SeenDigit then False else underscores_from hex SeenUnderscore s)
      else if i = SeenUnderscore then False
      else underscores_from hex SeenOther s)"

definition drop_sign :: "string \<Rightarrow> string" where
  "drop_sign s = (case s of c # s' \<Rightarrow> if c = CHR ''-'' \<or> c = CHR ''+'' then s' else s | [] \<Rightarrow> [])"

definition underscoreOK :: "string \<Rightarrow> bool" where
  "underscoreOK s =
     (let s = drop_sign s in
      case s of
        c # c' # s' \<Rightarrow>
          if c = CHR ''0'' \<and> to_lower c' \<in> {CHR ''b'', CHR ''o'', CHR ''x''}
          then underscores_from (to_lower c' = CHR ''x'') SeenDigit s'
          else underscores_from False SeenBegin s
      | _ \<Rightarrow> underscores_from False SeenBegin s)"

definition ParseUint0 :: "string \<Rightarrow> NumError + nat" where
  "ParseUint0 s =
     (if s = [] then Inl ErrSyntax
      else (case int_base s of
        (base, s') \<Rightarrow>
          (case uint_loop base s' 0 of
             Inl err \<Rightarrow> Inl err
           | Inr n \<Rightarrow> if CHR ''_'' \<in> set s' \<and> \<not> underscoreOK s then Inl ErrSyntax else Inr n)))"

text \<open>\<open>strconv.ParseInt(s, 0, 64)\<close>.\<close>

definition ParseInt0 :: "string \<Rightarrow> NumError + int" where
  "ParseInt0 s =
     (if s = [] then Inl ErrSyntax
      else
        let neg = (hd s = CHR ''-'') in
        (case ParseUint0 (drop_sign s) of
           Inl err \<Rightarrow> Inl err
         | Inr un \<Rightarrow>
             if \<not> neg \<and> un \<ge> 2 ^ 63 then Inl ErrRange
             else if neg \<and> un > 2 ^ 63 then Inl ErrRange
             else Inr (if neg then - int un else int un)))"

section \<open>Durations\<close>

text \<open>
  \<open>time.ParseDuration\<close>, in nanoseconds; \<open>None\<close> is its error. What a fraction of a unit amounts to is computed in
  floating point and is a parameter: \<open>frac digits unit\<close>.
\<close>

definition unit_of :: "string \<Rightarrow> nat option" where
  "unit_of u = map_of
     [(''ns'', 1), (''us'', 1000), ([CHR 0xC2, CHR 0xB5, CHR ''s''], 1000), ([CHR 0xCE, CHR 0xBC, CHR ''s''], 1000),
      (''ms'', 1000000), (''s'', 1000000000), (''m'', 60000000000), (''h'', 3600000000000)] u"

lemma length_dropWhile_lt: "takeWhile P s \<noteq> [] \<Longrightarrow> length (dropWhile P s) < length s"
  by (cases s) (auto simp: le_imp_less_Suc length_dropWhile_le split: if_splits)

lemma dropWhile_again_lt:
  assumes "length s2 \<le> length s" "takeWhile P s2 \<noteq> []"
  shows "length (dropWhile P s2) < length s"
  using length_dropWhile_lt [OF assms(2)] assms(1) by simp

lemma tl_dropWhile_le: "length (dropWhile Q (tl (dropWhile Q s))) \<le> length s"
  using length_dropWhile_le [of Q "tl (dropWhile Q s)"] length_dropWhile_le [of Q s] by simp

function duration_loop :: "(string \<Rightarrow> nat \<Rightarrow> nat) \<Rightarrow> string \<Rightarrow> nat \<Rightarrow> nat option" where
  "duration_loop frac s d =
     (if s = [] then Some d
      else if \<not> (hd s = CHR ''.'' \<or> is_digit (hd s)) then None
      else
        let digits = takeWhile is_digit s;
            s1 = dropWhile is_digit s;
            v = decimal digits 0;
            dot = (s1 \<noteq> [] \<and> hd s1 = CHR ''.'');
            fraction = (if dot then takeWhile is_digit (tl s1) else []);
            s2 = (if dot then dropWhile is_digit (tl s1) else s1);
            u = takeWhile (\<lambda>c. \<not> (c = CHR ''.'' \<or> is_digit c)) s2;
            s3 = dropWhile (\<lambda>c. \<not> (c = CHR ''.'' \<or> is_digit c)) s2
        in if v > 2 ^ 63 \<or> digits = [] \<and> fraction = [] \<or> u = [] then None
           else (case unit_of u of
                   None \<Rightarrow> None
                 | Some unit \<Rightarrow>
                     if v > 2 ^ 63 div unit then None
                     else
                       let w = v * unit + (if decimal fraction 0 > 0 then frac fraction unit else 0)
                       in if w > 2 ^ 63 \<or> d + w > 2 ^ 63 then None else duration_loop frac s3 (d + w)))"
  by pat_completeness auto

termination
  by (relation "measure (\<lambda>(frac, s, d). length s)")
     (auto intro!: dropWhile_again_lt tl_dropWhile_le length_dropWhile_le split: if_splits)

declare duration_loop.simps [simp del]


definition ParseDuration :: "(string \<Rightarrow> nat \<Rightarrow> nat) \<Rightarrow> string \<Rightarrow> int option" where
  "ParseDuration frac s =
     (let neg = (s \<noteq> [] \<and> hd s = CHR ''-''); s' = drop_sign s in
      if s' = ''0'' then Some 0
      else if s' = [] then None
      else (case duration_loop frac s' 0 of
              None \<Rightarrow> None
            | Some d \<Rightarrow> if neg then Some (- int d) else if d > 2 ^ 63 - 1 then None else Some (int d)))"

section \<open>The package \<open>flag\<close>\<close>

text \<open>
  A defined flag: whether it may stand without a value, and what \<open>Set\<close> makes of one. A program's flags are
  fields of \<open>'f\<close>.
\<close>

record 'f FlagDef =
  fl_IsBoolFlag :: bool
  fl_Set :: "string \<Rightarrow> 'f \<Rightarrow> goerr + 'f"

definition errParse :: goerr where
  "errParse = ErrorString ''parse error''"

definition errRange :: goerr where
  "errRange = ErrorString ''value out of range''"

definition StringVar :: "(string \<Rightarrow> 'f \<Rightarrow> 'f) \<Rightarrow> 'f FlagDef" where
  "StringVar set_field = \<lparr>fl_IsBoolFlag = False, fl_Set = (\<lambda>v f. Inr (set_field v f))\<rparr>"

definition BoolVar :: "(bool \<Rightarrow> 'f \<Rightarrow> 'f) \<Rightarrow> 'f FlagDef" where
  "BoolVar set_field = \<lparr>fl_IsBoolFlag = True,
     fl_Set = (\<lambda>v f. case ParseBool v of None \<Rightarrow> Inl errParse | Some b \<Rightarrow> Inr (set_field b f))\<rparr>"

definition IntVar :: "(int \<Rightarrow> 'f \<Rightarrow> 'f) \<Rightarrow> 'f FlagDef" where
  "IntVar set_field = \<lparr>fl_IsBoolFlag = False,
     fl_Set = (\<lambda>v f. case ParseInt0 v of
                 Inl ErrSyntax \<Rightarrow> Inl errParse | Inl ErrRange \<Rightarrow> Inl errRange | Inr n \<Rightarrow> Inr (set_field n f))\<rparr>"

definition DurationVar :: "(string \<Rightarrow> nat \<Rightarrow> nat) \<Rightarrow> (int \<Rightarrow> 'f \<Rightarrow> 'f) \<Rightarrow> 'f FlagDef" where
  "DurationVar frac set_field = \<lparr>fl_IsBoolFlag = False,
     fl_Set = (\<lambda>v f. case ParseDuration frac v of None \<Rightarrow> Inl errParse | Some d \<Rightarrow> Inr (set_field d f))\<rparr>"

datatype FlagError =
    BadFlagSyntax string
  | FlagNotDefined string
  | ErrHelp
  | InvalidBoolValue string string goerr
  | InvalidBoolFlag string goerr
  | FlagNeedsArgument string
  | InvalidValue string string goerr

type_synonym 'f flagset = "string \<Rightarrow> 'f FlagDef option"

text \<open>The name of an argument and the value that follows its first equals sign.\<close>

definition cut_value :: "string \<Rightarrow> string \<times> string option" where
  "cut_value s =
     (takeWhile (\<lambda>c. c \<noteq> CHR ''='') s,
      if CHR ''='' \<in> set s then Some (tl (dropWhile (\<lambda>c. c \<noteq> CHR ''='') s)) else None)"

definition set_flag ::
  "'f FlagDef \<Rightarrow> string \<Rightarrow> string option \<Rightarrow> 'f \<Rightarrow> string list \<Rightarrow> FlagError + 'f \<times> string list" where
  "set_flag fd name value f rest =
     (if fl_IsBoolFlag fd then
        (case value of
           Some v \<Rightarrow> (case fl_Set fd v f of Inl e \<Rightarrow> Inl (InvalidBoolValue v name e) | Inr f' \<Rightarrow> Inr (f', rest))
         | None \<Rightarrow> (case fl_Set fd ''true'' f of Inl e \<Rightarrow> Inl (InvalidBoolFlag name e) | Inr f' \<Rightarrow> Inr (f', rest)))
      else
        (case (value, rest) of
           (Some v, _) \<Rightarrow> (case fl_Set fd v f of Inl e \<Rightarrow> Inl (InvalidValue v name e) | Inr f' \<Rightarrow> Inr (f', rest))
         | (None, v # rest') \<Rightarrow>
             (case fl_Set fd v f of Inl e \<Rightarrow> Inl (InvalidValue v name e) | Inr f' \<Rightarrow> Inr (f', rest'))
         | (None, []) \<Rightarrow> Inl (FlagNeedsArgument name)))"

text \<open>\<open>parseOne\<close>: an error, or whether it has seen a flag, with the fields and the arguments that are left.\<close>

definition parseOne :: "'f flagset \<Rightarrow> 'f \<Rightarrow> string list \<Rightarrow> FlagError + bool \<times> 'f \<times> string list" where
  "parseOne formal f args =
     (case args of
        [] \<Rightarrow> Inr (False, f, [])
      | s # rest \<Rightarrow>
          if length s < 2 \<or> hd s \<noteq> CHR ''-'' then Inr (False, f, args)
          else if s = ''--'' then Inr (False, f, rest)
          else
            let name = (if s ! 1 = CHR ''-'' then drop 2 s else drop 1 s) in
            if name = [] \<or> hd name = CHR ''-'' \<or> hd name = CHR ''='' then Inl (BadFlagSyntax s)
            else (case cut_value name of
              (name, value) \<Rightarrow>
                (case formal name of
                   None \<Rightarrow> if name = ''help'' \<or> name = ''h'' then Inl ErrHelp else Inl (FlagNotDefined name)
                 | Some fd \<Rightarrow>
                     (case set_flag fd name value f rest of
                        Inl e \<Rightarrow> Inl e
                      | Inr (f', rest') \<Rightarrow> Inr (True, f', rest')))))"

lemma set_flag_shorter: "set_flag fd name value f rest = Inr (f', rest') \<Longrightarrow> length rest' \<le> length rest"
  by (auto simp: set_flag_def split: if_splits option.splits sum.splits list.splits)

lemma parseOne_shorter: "parseOne formal f args = Inr (True, f', rest) \<Longrightarrow> length rest < length args"
  by (auto simp: parseOne_def Let_def le_imp_less_Suc dest!: set_flag_shorter
      split: list.splits if_splits prod.splits option.splits sum.splits)

text \<open>\<open>Parse\<close>, up to the first argument that is no flag.\<close>

function parse_args :: "'f flagset \<Rightarrow> 'f \<Rightarrow> string list \<Rightarrow> FlagError + 'f" where
  "parse_args formal f args =
     (case parseOne formal f args of
        Inl e \<Rightarrow> Inl e
      | Inr (seen, f', rest) \<Rightarrow> if seen then parse_args formal f' rest else Inr f')"
  by pat_completeness auto

termination
  by (relation "measure (\<lambda>(formal, f, args). length args)") (auto intro: parseOne_shorter)

declare parse_args.simps [simp del]


section \<open>The flags of the programs\<close>

text \<open>The flags that \<open>parseFlags\<close> of the operator defines, and those of the main function of the adapter.\<close>

definition operator_flags :: "(string \<Rightarrow> nat \<Rightarrow> nat) \<Rightarrow> (string \<times> cliFlags FlagDef) list" where
  "operator_flags frac =
    [(''metrics-bind-address'', StringVar (\<lambda>v f. f\<lparr>metricsAddr := v\<rparr>)),
     (''health-probe-bind-address'', StringVar (\<lambda>v f. f\<lparr>probeAddr := v\<rparr>)),
     (''leader-elect'', BoolVar (\<lambda>v f. f\<lparr>enableLeaderElection := v\<rparr>)),
     (''metrics-secure'', BoolVar (\<lambda>v f. f\<lparr>secureMetrics := v\<rparr>)),
     (''webhook-cert-path'', StringVar (\<lambda>v f. f\<lparr>webhookCertPath := v\<rparr>)),
     (''webhook-cert-name'', StringVar (\<lambda>v f. f\<lparr>webhookCertName := v\<rparr>)),
     (''webhook-cert-key'', StringVar (\<lambda>v f. f\<lparr>webhookCertKey := v\<rparr>)),
     (''metrics-cert-path'', StringVar (\<lambda>v f. f\<lparr>metricsCertPath := v\<rparr>)),
     (''metrics-cert-name'', StringVar (\<lambda>v f. f\<lparr>metricsCertName := v\<rparr>)),
     (''metrics-cert-key'', StringVar (\<lambda>v f. f\<lparr>metricsCertKey := v\<rparr>)),
     (''enable-http2'', BoolVar (\<lambda>v f. f\<lparr>enableHTTP2 := v\<rparr>)),
     (''func-cli-path'', StringVar (\<lambda>v f. f\<lparr>funcCLIPath := v\<rparr>)),
     (''func-cli-check-interval'', DurationVar frac (\<lambda>v f. f\<lparr>funcCLICheckInterval := v\<rparr>)),
     (''disable-func-cli-update'', BoolVar (\<lambda>v f. f\<lparr>disableFuncCLIUpdate := v\<rparr>)),
     (''create-config'', BoolVar (\<lambda>v f. f\<lparr>createConfig := v\<rparr>))]"

definition adapter_flags :: "(string \<times> adapterFlags FlagDef) list" where
  "adapter_flags =
    [(''metrics-bind-address'', StringVar (\<lambda>v f. f\<lparr>metricsAddr := v\<rparr>)),
     (''health-probe-bind-address'', StringVar (\<lambda>v f. f\<lparr>probeAddr := v\<rparr>)),
     (''leader-elect'', BoolVar (\<lambda>v f. f\<lparr>enableLeaderElection := v\<rparr>)),
     (''metrics-secure'', BoolVar (\<lambda>v f. f\<lparr>secureMetrics := v\<rparr>)),
     (''webhook-cert-path'', StringVar (\<lambda>v f. f\<lparr>webhookCertPath := v\<rparr>)),
     (''webhook-cert-name'', StringVar (\<lambda>v f. f\<lparr>webhookCertName := v\<rparr>)),
     (''webhook-cert-key'', StringVar (\<lambda>v f. f\<lparr>webhookCertKey := v\<rparr>)),
     (''metrics-cert-path'', StringVar (\<lambda>v f. f\<lparr>metricsCertPath := v\<rparr>)),
     (''metrics-cert-name'', StringVar (\<lambda>v f. f\<lparr>metricsCertName := v\<rparr>)),
     (''metrics-cert-key'', StringVar (\<lambda>v f. f\<lparr>metricsCertKey := v\<rparr>)),
     (''enable-http2'', BoolVar (\<lambda>v f. f\<lparr>enableHTTP2 := v\<rparr>)),
     (''config'', StringVar (\<lambda>v f. f\<lparr>configMapName := v\<rparr>)),
     (''create-config'', BoolVar (\<lambda>v f. f\<lparr>createConfig := v\<rparr>)),
     (''adapter-port'', IntVar (\<lambda>v f. f\<lparr>adapterPort := v\<rparr>)),
     (''notifications-mode'', StringVar (\<lambda>v f. f\<lparr>notificationsMode := v\<rparr>)),
     (''kafka-brokers'', StringVar (\<lambda>v f. f\<lparr>kafkaBrokers := v\<rparr>)),
     (''kafka-notifications-topics'', StringVar (\<lambda>v f. f\<lparr>kafkaNotificationsTopics := v\<rparr>)),
     (''kafka-notifications-group-id'', StringVar (\<lambda>v f. f\<lparr>kafkaNotificationsGroupID := v\<rparr>))]"

text \<open>
  The libraries define flags of their own in the same set (\<open>kubeconfig\<close>, and those of the logger); they and the
  fields \<open>'l\<close> that they set are parameters.
\<close>

definition with_library :: "(string \<times> 'f FlagDef) list \<Rightarrow> 'l flagset \<Rightarrow> ('f \<times> 'l) flagset" where
  "with_library own lib name =
     (case map_of own name of
        Some fd \<Rightarrow> Some \<lparr>fl_IsBoolFlag = fl_IsBoolFlag fd,
          fl_Set = (\<lambda>v (f, l). case fl_Set fd v f of Inl e \<Rightarrow> Inl e | Inr f' \<Rightarrow> Inr (f', l))\<rparr>
      | None \<Rightarrow> map_option (\<lambda>fd. \<lparr>fl_IsBoolFlag = fl_IsBoolFlag fd,
          fl_Set = (\<lambda>v (f, l). case fl_Set fd v l of Inl e \<Rightarrow> Inl e | Inr l' \<Rightarrow> Inr (f, l'))\<rparr>) (lib name))"

definition parseFlags ::
  "(string \<Rightarrow> nat \<Rightarrow> nat) \<Rightarrow> string \<Rightarrow> 'l flagset \<Rightarrow> 'l \<Rightarrow> string list \<Rightarrow> FlagError + cliFlags \<times> 'l" where
  "parseFlags frac tempDir lib l args =
     parse_args (with_library (operator_flags frac) lib) (parseFlags_default tempDir, l) args"

definition adapter_parse :: "'l flagset \<Rightarrow> 'l \<Rightarrow> string list \<Rightarrow> FlagError + adapterFlags \<times> 'l" where
  "adapter_parse lib l args = parse_args (with_library adapter_flags lib) (adapter_flags_default, l) args"

text \<open>
  The programs from their command lines on. The flags are parsed with \<open>ExitOnError\<close>: a request for help ends
  the process with status 0, any other error with status 2.
\<close>

definition exit_status :: "FlagError \<Rightarrow> nat" where
  "exit_status e = (if e = ErrHelp then 0 else 2)"

definition operator_program ::
  "(StartupStep \<Rightarrow> ('w, goerr option) state) \<Rightarrow> os_environ \<Rightarrow> (string \<Rightarrow> nat \<Rightarrow> nat) \<Rightarrow> string \<Rightarrow> 'l flagset \<Rightarrow> 'l
    \<Rightarrow> string list \<Rightarrow> ('w startup_state, nat) state" where
  "operator_program do_step env frac tempDir lib l args =
     (case parseFlags frac tempDir lib l args of
        Inl e \<Rightarrow> ret (exit_status e)
      | Inr (flags, l') \<Rightarrow> operator_main do_step env flags)"

definition adapter_program ::
  "(StartupStep \<Rightarrow> ('w, goerr option) state) \<Rightarrow> os_environ \<Rightarrow> string \<Rightarrow> 'l flagset \<Rightarrow> 'l
    \<Rightarrow> string list \<Rightarrow> ('w startup_state, nat) state" where
  "adapter_program do_step env namespaceFile lib l args =
     (case adapter_parse lib l args of
        Inl e \<Rightarrow> ret (exit_status e)
      | Inr (flags, l') \<Rightarrow> adapter_main do_step env namespaceFile flags)"

section \<open>Command lines that say it all\<close>

text \<open>The command line that sets every flag of a program, each as \<open>--name=value\<close>.\<close>

definition setting :: "string \<times> string \<Rightarrow> string" where
  "setting nv = ''--'' @ fst nv @ ''='' @ snd nv"

definition FormatBool :: "bool \<Rightarrow> string" where
  "FormatBool b = (if b then ''true'' else ''false'')"

definition operator_settings :: "cliFlags \<Rightarrow> (string \<times> string) list" where
  "operator_settings f =
    [(''metrics-bind-address'', metricsAddr f),
     (''health-probe-bind-address'', probeAddr f),
     (''leader-elect'', FormatBool (enableLeaderElection f)),
     (''metrics-secure'', FormatBool (secureMetrics f)),
     (''webhook-cert-path'', webhookCertPath f),
     (''webhook-cert-name'', webhookCertName f),
     (''webhook-cert-key'', webhookCertKey f),
     (''metrics-cert-path'', metricsCertPath f),
     (''metrics-cert-name'', metricsCertName f),
     (''metrics-cert-key'', metricsCertKey f),
     (''enable-http2'', (FormatBool (enableHTTP2 f))),
     (''func-cli-path'', funcCLIPath f),
     (''func-cli-check-interval'', Itoa (funcCLICheckInterval f) @ ''ns''),
     (''disable-func-cli-update'', FormatBool (disableFuncCLIUpdate f)),
     (''create-config'', FormatBool (createConfig f))]"

definition adapter_settings :: "adapterFlags \<Rightarrow> (string \<times> string) list" where
  "adapter_settings f =
    [(''metrics-bind-address'', metricsAddr f),
     (''health-probe-bind-address'', probeAddr f),
     (''leader-elect'', FormatBool (enableLeaderElection f)),
     (''metrics-secure'', FormatBool (secureMetrics f)),
     (''webhook-cert-path'', webhookCertPath f),
     (''webhook-cert-name'', webhookCertName f),
     (''webhook-cert-key'', webhookCertKey f),
     (''metrics-cert-path'', metricsCertPath f),
     (''metrics-cert-name'', metricsCertName f),
     (''metrics-cert-key'', metricsCertKey f),
     (''enable-http2'', (FormatBool (enableHTTP2 f))),
     (''config'', configMapName f),
     (''create-config'', FormatBool (createConfig f)),
     (''adapter-port'', Itoa (adapterPort f)),
     (''notifications-mode'', notificationsMode f),
     (''kafka-brokers'', kafkaBrokers f),
     (''kafka-notifications-topics'', kafkaNotificationsTopics f),
     (''kafka-notifications-group-id'', kafkaNotificationsGroupID f)]"

section \<open>Numbers read back\<close>

lemma drop_sign_digits [simp]: "drop_sign (digits_of n @ s) = digits_of n @ s"
  using hd_digits [of n] digit_no_sign by (cases "digits_of n") (auto simp: drop_sign_def)

lemma uint_loop_append:
  "uint_loop base (s @ t) acc = (case uint_loop base s acc of Inl e \<Rightarrow> Inl e | Inr a \<Rightarrow> uint_loop base t a)"
  by (induction s arbitrary: acc) (auto split: option.split)

lemma uint_loop_digit:
  assumes "d < 10" "a * 10 + d < 2 ^ 64"
  shows "uint_loop 10 [char_of (48 + d)] a = Inr (a * 10 + d)"
  using assms digit_no_sign [OF is_digit_of [OF assms(1)]] by (simp add: digit_value_of)

lemma uint_loop_digits: "n < 2 ^ 64 \<Longrightarrow> uint_loop 10 (digits_of n) 0 = Inr n"
proof (induction n rule: digits_induct)
  case (digit n)
  then show ?case using uint_loop_digit [of n 0] by (simp add: digits_small del: uint_loop.simps)
next
  case (more n)
  have "n div 10 < 2 ^ 64" using more.prems by (simp add: less_mult_imp_div_less)
  moreover have "n div 10 * 10 + n mod 10 = n" by simp
  ultimately show ?case using more uint_loop_digit [of "n mod 10" "n div 10"]
    by (simp add: digits_more uint_loop_append del: uint_loop.simps)
qed

lemma int_base_decimal: "s \<noteq> [] \<Longrightarrow> hd s \<noteq> CHR ''0'' \<Longrightarrow> int_base s = (10, s)"
  by (auto simp: int_base_def split: list.split)

lemma ParseUint0_digits:
  assumes "n < 2 ^ 64"
  shows "ParseUint0 (digits_of n) = Inr n"
proof (cases "n = 0")
  case True
  have "digits_of 0 = ''0''" by (simp add: digits_small char_of_eq_iff take_bit_eq_mod)
  then show ?thesis using True by (simp add: ParseUint0_def int_base_def)
next
  case False
  then have "int_base (digits_of n) = (10, digits_of n)" by (intro int_base_decimal digits_no_zero) auto
  moreover have "CHR ''_'' \<notin> set (digits_of n)" using digits_are_digits digit_no_sign by blast
  ultimately show ?thesis using uint_loop_digits [OF assms] by (simp add: ParseUint0_def)
qed

text \<open>Every 64-bit integer is read back from its decimal text.\<close>

lemma ParseInt0_Itoa:
  assumes "- (2 ^ 63) \<le> n" "n < 2 ^ 63"
  shows "ParseInt0 (Itoa n) = Inr n"
proof (cases "n < 0")
  case True
  have "nat (- n) < 2 ^ 64" "\<not> nat (- n) > 2 ^ 63"
    using assms True by (simp_all add: nat_less_iff not_less nat_le_iff)
  then show ?thesis using True by (simp add: ParseInt0_def Itoa_def drop_sign_def ParseUint0_digits)
next
  case False
  have "nat n < 2 ^ 64" "\<not> nat n \<ge> 2 ^ 63"
    using assms False by (simp_all add: nat_less_iff not_le)
  moreover have "hd (digits_of (nat n)) \<noteq> CHR ''-''" using hd_digits digit_no_sign by blast
  ultimately show ?thesis using False drop_sign_digits [of "nat n" "[]"]
    by (simp add: ParseInt0_def Itoa_def ParseUint0_digits)
qed

lemma takeWhile_digits: "takeWhile is_digit (digits_of n @ ''ns'') = digits_of n"
  by (subst takeWhile_append2) (use digits_are_digits in \<open>auto simp: is_digit_def char_code_def\<close>)

lemma dropWhile_digits: "dropWhile is_digit (digits_of n @ ''ns'') = ''ns''"
  by (subst dropWhile_append2) (use digits_are_digits in \<open>auto simp: is_digit_def char_code_def\<close>)

lemma duration_loop_ns:
  assumes "n \<le> 2 ^ 63"
  shows "duration_loop frac (digits_of n @ ''ns'') 0 = Some n"
proof -
  have "hd (digits_of n @ ''ns'') = hd (digits_of n)" by (simp add: hd_append)
  moreover have "\<not> is_digit CHR ''n''" "\<not> is_digit CHR ''s''" by (simp_all add: is_digit_def char_code_def)
  moreover have "unit_of ''ns'' = Some 1" by (simp add: unit_of_def)
  moreover have "duration_loop frac [] n = Some n" by (simp add: duration_loop.simps)
  ultimately show ?thesis using assms hd_digits [of n]
    by (subst duration_loop.simps) (simp add: takeWhile_digits dropWhile_digits decimal_digits)
qed

text \<open>Every duration is read back from its number of nanoseconds.\<close>

lemma ParseDuration_ns:
  assumes "- (2 ^ 63) \<le> n" "n < 2 ^ 63"
  shows "ParseDuration frac (Itoa n @ ''ns'') = Some n"
proof -
  have d: "digits_of k @ ''ns'' \<noteq> ''0''" for k by (cases "digits_of k") auto
  show ?thesis
  proof (cases "n < 0")
    case True
    then have "nat (- n) \<le> 2 ^ 63" using assms by (simp add: nat_le_iff)
    then show ?thesis using True d by (simp add: ParseDuration_def Itoa_def drop_sign_def duration_loop_ns)
  next
    case False
    then have "nat n \<le> 2 ^ 63" "\<not> nat n > 2 ^ 63 - 1"
      using assms by (simp_all add: not_less nat_le_iff)
    moreover have "hd (digits_of (nat n) @ ''ns'') \<noteq> CHR ''-''" using hd_digits digit_no_sign by (auto simp: hd_append)
    ultimately show ?thesis using False d by (simp add: ParseDuration_def Itoa_def duration_loop_ns)
  qed
qed


section \<open>Command lines read back\<close>

text \<open>A name that can stand before an equals sign.\<close>

definition flag_name :: "string \<Rightarrow> bool" where
  "flag_name name \<longleftrightarrow> name \<noteq> [] \<and> hd name \<noteq> CHR ''-'' \<and> CHR ''='' \<notin> set name"

lemma cut_setting: "CHR ''='' \<notin> set name \<Longrightarrow> cut_value (name @ CHR ''='' # v) = (name, Some v)"
proof -
  assume n: "CHR ''='' \<notin> set name"
  then have "dropWhile (\<lambda>c. c \<noteq> CHR ''='') name = []" by (auto simp: dropWhile_eq_Nil_conv)
  moreover have "takeWhile (\<lambda>c. c \<noteq> CHR ''='') (name @ CHR ''='' # v) = name"
    using n by (subst takeWhile_append2) auto
  ultimately show ?thesis by (simp add: cut_value_def dropWhile_append)
qed

lemma parseOne_setting:
  assumes "flag_name name" "formal name = Some fd" "fl_Set fd v f = Inr f'"
  shows "parseOne formal f (setting (name, v) # args) = Inr (True, f', args)"
proof -
  obtain c cs where name: "name = c # cs" "c \<noteq> CHR ''-''" "c \<noteq> CHR ''=''"
    using assms(1) by (cases name) (auto simp: flag_name_def)
  have "cut_value (name @ CHR ''='' # v) = (name, Some v)"
    using assms(1) by (intro cut_setting) (simp add: flag_name_def)
  then show ?thesis
    using assms(2,3) name(2,3) unfolding name(1)
    by (cases "fl_IsBoolFlag fd") (simp_all add: parseOne_def setting_def Let_def set_flag_def)
qed

lemma parse_args_setting:
  assumes "flag_name name" "formal name = Some fd" "fl_Set fd v f = Inr f'"
  shows "parse_args formal f (setting (name, v) # args) = parse_args formal f' args"
  by (subst parse_args.simps) (simp add: parseOne_setting [where formal = formal, OF assms])

lemma parse_args_Nil: "parse_args formal f [] = Inr f"
  by (subst parse_args.simps) (simp add: parseOne_def)

text \<open>What a list of settings makes of the fields, when every one of them is accepted.\<close>

fun set_all :: "(string \<times> 'f FlagDef) list \<Rightarrow> (string \<times> string) list \<Rightarrow> 'f \<Rightarrow> 'f option" where
  "set_all own [] f = Some f"
| "set_all own ((name, v) # settings) f =
     (case map_of own name of
        None \<Rightarrow> None
      | Some fd \<Rightarrow> (case fl_Set fd v f of Inl e \<Rightarrow> None | Inr f' \<Rightarrow> set_all own settings f'))"

lemma with_library_own:
  "map_of own name = Some fd \<Longrightarrow> with_library own lib name = Some \<lparr>fl_IsBoolFlag = fl_IsBoolFlag fd,
     fl_Set = (\<lambda>v (f, l). case fl_Set fd v f of Inl e \<Rightarrow> Inl e | Inr f' \<Rightarrow> Inr (f', l))\<rparr>"
  by (simp add: with_library_def)

text \<open>The settings of a program's own flags leave those of the libraries alone.\<close>

lemma parse_own_settings:
  assumes "list_all (\<lambda>nv. flag_name (fst nv)) own" "set_all own settings f = Some f'"
  shows "parse_args (with_library own lib) (f, l) (map setting settings @ rest) = parse_args (with_library own lib) (f', l) rest"
  using assms(2)
proof (induction settings arbitrary: f)
  case (Cons nv settings)
  obtain name v where nv: "nv = (name, v)" by fastforce
  obtain fd f1 where fd: "map_of own name = Some fd" "fl_Set fd v f = Inr f1" "set_all own settings f1 = Some f'"
    using Cons.prems unfolding nv by (auto split: option.splits sum.splits)
  have "flag_name name" using assms(1) map_of_SomeD [OF fd(1)] by (fastforce simp: list_all_iff)
  then show ?case
    using Cons.IH [OF fd(3)] parse_args_setting [where formal = "with_library own lib" and f = "(f, l)" and f' = "(f1, l)"
      and name = name and v = v] with_library_own [OF fd(1), of lib] fd(2)
    unfolding nv by simp
qed simp


lemma fl_Set_kinds:
  "fl_Set (StringVar set_field) v f = Inr (set_field v f)"
  "fl_Set (BoolVar set_b) (FormatBool b) f = Inr (set_b b f)"
  "- (2 ^ 63) \<le> n \<Longrightarrow> n < 2 ^ 63 \<Longrightarrow> fl_Set (IntVar set_n) (Itoa n) f = Inr (set_n n f)"
  "- (2 ^ 63) \<le> n \<Longrightarrow> n < 2 ^ 63 \<Longrightarrow> fl_Set (DurationVar frac set_n) (Itoa n @ ''ns'') f = Inr (set_n n f)"
  by (simp_all add: StringVar_def BoolVar_def IntVar_def DurationVar_def ParseInt0_Itoa ParseDuration_ns
      FormatBool_def ParseBool_def)

lemma flag_names: "list_all (\<lambda>nv. flag_name (fst nv)) (operator_flags frac)"
  "list_all (\<lambda>nv. flag_name (fst nv)) adapter_flags"
  by (simp_all add: operator_flags_def adapter_flags_def flag_name_def)

lemma set_operator_settings:
  assumes "- (2 ^ 63) \<le> funcCLICheckInterval flags" "funcCLICheckInterval flags < 2 ^ 63"
  shows "set_all (operator_flags frac) (operator_settings flags) f = Some flags"
  using assms by (simp add: operator_settings_def operator_flags_def fl_Set_kinds)

lemma set_adapter_settings:
  assumes "- (2 ^ 63) \<le> adapterPort flags" "adapterPort flags < 2 ^ 63"
  shows "set_all adapter_flags (adapter_settings flags) f = Some flags"
  using assms by (simp add: adapter_settings_def adapter_flags_def fl_Set_kinds)


section \<open>Properties\<close>

text \<open>
  C31: the command line that sets every flag of the operator starts it with exactly these settings, whatever the
  defaults and the flags of the libraries are: each field is set by its own flag and read back as it was
  written, the check interval through the duration syntax over the whole range of 64 bits.
\<close>

theorem operator_reads_its_flags:
  assumes "- (2 ^ 63) \<le> funcCLICheckInterval flags" "funcCLICheckInterval flags < 2 ^ 63"
  shows "operator_program do_step env frac tempDir lib l (map setting (operator_settings flags))
    = operator_main do_step env flags"
  using parse_own_settings [OF flag_names(1) set_operator_settings [OF assms], of frac lib _ l "[]"]
  by (simp add: operator_program_def parseFlags_def parse_args_Nil)

definition quiet_step :: "StartupStep \<Rightarrow> (unit, goerr option) state" where
  "quiet_step st = ret None"

theorem operator_reads_its_flags_witness:
  "operator_program quiet_step Map.empty (\<lambda>digits unit. 0) ''/tmp'' (Map.empty :: unit flagset) ()
      (map setting (operator_settings ((parseFlags_default ''/var'')\<lparr>createConfig := True, funcCLICheckInterval := - 1\<rparr>)))
    = operator_main quiet_step Map.empty ((parseFlags_default ''/var'')\<lparr>createConfig := True, funcCLICheckInterval := - 1\<rparr>)"
  by (rule operator_reads_its_flags) (simp_all add: parseFlags_default_def)

text \<open>The same of the adapter, whose port is read back over the whole range of 64 bits.\<close>

theorem adapter_reads_its_flags:
  assumes "- (2 ^ 63) \<le> adapterPort flags" "adapterPort flags < 2 ^ 63"
  shows "adapter_program do_step env namespaceFile lib l (map setting (adapter_settings flags))
    = adapter_main do_step env namespaceFile flags"
  using parse_own_settings [OF flag_names(2) set_adapter_settings [OF assms], of lib _ l "[]"]
  by (simp add: adapter_program_def adapter_parse_def parse_args_Nil)

theorem adapter_reads_its_flags_witness:
  "adapter_program quiet_step Map.empty ''ns'' (Map.empty :: unit flagset) () (map setting (adapter_settings adapter_flags_default))
    = adapter_main quiet_step Map.empty ''ns'' adapter_flags_default"
  by (rule adapter_reads_its_flags) (simp_all add: adapter_flags_default_def)

lemma undefined_flag:
  assumes "flag_name name" "formal name = None" "name \<notin> {''help'', ''h''}"
  shows "parse_args formal f (setting (name, v) # rest) = Inl (FlagNotDefined name)"
proof -
  obtain c cs where name: "name = c # cs" "c \<noteq> CHR ''-''" "c \<noteq> CHR ''=''"
    using assms(1) by (cases name) (auto simp: flag_name_def)
  have "cut_value (name @ CHR ''='' # v) = (name, Some v)"
    using assms(1) by (intro cut_setting) (simp add: flag_name_def)
  then show ?thesis
    using assms(2,3) name(2,3) unfolding name(1)
    by (subst parse_args.simps) (simp add: parseOne_def setting_def Let_def)
qed

text \<open>
  A flag that neither the program nor a library defines ends the operator with status 2 before its first
  step, also behind a command line that is complete; so does a bad value of a flag of its own.
\<close>

theorem undefined_flags_refused:
  assumes "- (2 ^ 63) \<le> funcCLICheckInterval flags" "funcCLICheckInterval flags < 2 ^ 63"
    and "flag_name name" "name \<notin> fst ` set (operator_flags frac)" "lib name = None" "name \<notin> {''help'', ''h''}"
  shows "run_state (operator_program do_step env frac tempDir lib l
      (map setting (operator_settings flags) @ setting (name, v) # rest)) s = (2, s)"
proof -
  have "with_library (operator_flags frac) lib name = None"
    using assms(4,5) by (simp add: with_library_def map_of_eq_None_iff [symmetric])
  then have "parse_args (with_library (operator_flags frac) lib) (flags, l) (setting (name, v) # rest)
      = Inl (FlagNotDefined name)"
    using assms(3,6) by (intro undefined_flag) auto
  then show ?thesis
    using parse_own_settings [OF flag_names(1) set_operator_settings [OF assms(1,2)], of frac lib _ l "setting (name, v) # rest"]
    by (simp add: operator_program_def parseFlags_def exit_status_def)
qed

theorem undefined_flags_refused_witness:
  "run_state (operator_program quiet_step Map.empty (\<lambda>digits unit. 0) ''/tmp'' (Map.empty :: unit flagset) ()
      (map setting (operator_settings (parseFlags_default ''/tmp'')) @ [setting (''func-path'', ''/bin'')])) \<lparr>su_World = (), su_Calls = []\<rparr>
    = (2, \<lparr>su_World = (), su_Calls = []\<rparr>)"
  by (rule undefined_flags_refused) (simp_all add: parseFlags_default_def operator_flags_def flag_name_def)

text \<open>
  A negative check interval is accepted by the flag and by the manager, whose \<open>Start\<close> then panics after its
  first check.
\<close>

theorem negative_interval_panics:
  assumes "- (2 ^ 63) \<le> n" "n < 0"
    and "run_state (NewManager host installPath n False) w = (Inr m, w')"
  shows "(\<exists>flags. parseFlags frac tempDir lib l [setting (''func-cli-check-interval'', Itoa n @ ''ns'')] = Inr (flags, l)
      \<and> funcCLICheckInterval flags = n)
    \<and> fst (run_state (Start host osenv m events) w'') = Panics"
proof
  have "set_all (operator_flags frac) [(''func-cli-check-interval'', Itoa n @ ''ns'')] f
      = Some (f\<lparr>funcCLICheckInterval := n\<rparr>)" for f
    using assms(1,2) by (simp add: operator_flags_def fl_Set_kinds)
  from parse_own_settings [OF flag_names(1) this, of lib _ l "[]"]
  show "\<exists>flags. parseFlags frac tempDir lib l [setting (''func-cli-check-interval'', Itoa n @ ''ns'')] = Inr (flags, l)
      \<and> funcCLICheckInterval flags = n"
    by (simp add: parseFlags_def parse_args_Nil)
next
  have "m_checkInterval m < 0 \<and> \<not> m_disableCLIUpdate m"
    using assms(2,3) by (auto simp: NewManager_def Let_def split: option.splits)
  then show "fst (run_state (Start host osenv m events) w'') = Panics"
    by (simp add: Start_def run_state_bind split: prod.split)
qed

end
