(* ===== verification/Spec2Isabelle.thy ===== *)
theory Spec2Isabelle
  imports ControllerProperties LifecycleProperties FuncCli GitClone
    PluginProperties PluginWiring PluginOwnership AdapterProperties Settling RunnerMachine SourceProperties EventProperties
    Watches DeepCopy Registration FlagParse
begin

text \<open>
  A verification of the Functions Operator (\<open>github.com/functions-dev/func-operator\<close>), a Kubernetes
  operator in Go, and of its companion, the adapter for object bucket notifications.

  \<^bold>\<open>The programs.\<close> The operator (\<open>cmd/func-operator\<close>) installs the \<open>func\<close> binary, watches \<open>Function\<close> resources,
  clones their repositories and has \<open>func\<close> redeploy them when their middleware is outdated; a second
  controller installs a plugin for the OpenShift console. The adapter (\<open>cmd/objectbucket-notifications-adapter\<close>)
  configures object buckets to report their events and passes these on to sinks, over HTTP or Kafka; its
  configuration changes while it runs.

  \<^bold>\<open>How the code is modelled.\<close> A struct is a record, an enumeration a datatype, a Go map an association list in
  one iteration order, an \<open>error\<close> a value of \<open>goerr\<close> (\<open>GoPrelude\<close>). A handler is a term of the state monad that
  reads line by line like the Go function of the same name (\<open>GoMonad\<close>; \<open>holds\<close> is its weakest precondition and
  \<open>preserves\<close> its invariants). What is not in the repository (the Kubernetes client, go-git, \<open>func\<close>, sarama, the
  CloudEvents SDK, S3, regular expressions, the file system, the network) is a parameter: a record of
  operations on an arbitrary world. The contracts of those that the code relies on are locales (\<open>KubeMeta\<close>,
  \<open>ReconcileEnv\<close>, \<open>PluginProperties\<close>), each interpreted on a routine that does what is documented. The calls of a
  run are recorded with their answers, so that a theorem can speak of what was done, in which order.

  \<^bold>\<open>The Function controller.\<close>
  \<^item> \<open>Lifecycle\<close>: \<open>api/v1alpha1\<close>, the types, defaults, conditions and history; \<open>LifecycleProperties\<close>: the Ready
    condition sums up the others, the history is bounded.
  \<^item> \<open>ReconcileEnv\<close>, \<open>StatusTracker\<close>, \<open>PipelineRbac\<close>, \<open>FunctionDeploy\<close>, \<open>FunctionController\<close>: the reconciler of
    \<open>internal/controller\<close> (\<open>function_controller.go\<close>, \<open>function_deploy.go\<close>, \<open>function_rbac.go\<close>, \<open>status_tracker.go\<close>,
    \<open>controller_config.go\<close>, \<open>function_predicate.go\<close>) and \<open>internal/git/repository.go\<close>.
  \<^item> \<open>ReconcileProtocol\<close> is the abstract specification: a machine over the calls of a reconcile. \<open>ReconcileSafety\<close>
    says what its phases imply about the past, \<open>StatusInvariant\<close> what every status written looks like,
    \<open>ReconcileOutcome\<close> what a reconcile ends with. \<open>ControllerProperties\<close>: every reconcile refines the machine;
    deployments are justified, clones and credentials are removed; \<open>SampleCluster\<close> is a cluster to run it on.

  \<^bold>\<open>The func binary and git.\<close> \<open>Download\<close> (\<open>internal/funccli/download.go\<close>: only a verified binary is installed),
  \<open>FuncCli\<close> (\<open>internal/funccli/manager.go\<close>: versions, command lines, updates), \<open>GitClone\<close>
  (\<open>internal/git/manager.go\<close>: credentials, known hosts, what a clone leaves on disk).

  \<^bold>\<open>The console plugin.\<close> \<open>PluginObjects\<close> and \<open>ConsolePlugin\<close>: \<open>internal/controller/consoleplugin_controller.go\<close>.
  \<open>PluginProperties\<close>: with a store that keeps what it is given, a reconcile leaves the six objects as built or
  none of them, and the console hears of the plugin last and forgets it first. \<open>PluginWiring\<close>: the objects refer to
  each other correctly. \<open>PluginOwnership\<close>: the owners they get are those of the operator itself.

  \<^bold>\<open>The configuration of the adapter.\<close> \<open>KafkaConfig\<close>, \<open>AdapterConfig\<close> and \<open>NotificationServer\<close>:
  \<open>internal/objectbucketsource/kafka\<close>, \<open>config\<close> and \<open>notificationserver/server.go\<close>. The provider is an interface
  (locale \<open>config_provider\<close>) with two implementations. \<open>ReloadMachine\<close> is a step relation for the goroutines
  that share the provider, a step for each access to what they share; its invariant gives that no change is
  lost on the server. Two steps of different goroutines never happen at once; the locks and channels of the
  code make the accesses atomic. \<open>Settling\<close>: left alone, the machine comes to rest after a bounded number of
  turns, by a measure, and a change has then been taken up. \<open>RunnerMachine\<close>: one run of the server in HTTP
  mode and how it ends. \<open>AdapterProperties\<close>: the default settings read back, the fingerprint tells secrets apart.

  \<^bold>\<open>Bucket sources.\<close> \<open>BucketSource\<close> and \<open>SourceController\<close>: \<open>api/sources/v1alpha1\<close>, \<open>eventmatch\<close>, \<open>s3client\<close> and
  \<open>controller\<close>; \<open>SourceProperties\<close>: buckets are configured for just the live sources, deletions let go of
  them. \<open>EventDispatch\<close>: \<open>notificationserver/handler.go\<close>, \<open>consumer.go\<close> and \<open>cloudevents\<close>; \<open>EventProperties\<close>: each
  source gets just its records, messages are marked, requests answered. This theory connects the two: what
  a bucket was asked to report reaches a sink.

  \<^bold>\<open>The start-up and what is shared.\<close> \<open>FlagParse\<close>: the command lines and what
  they set; \<open>Startup\<close>: the two main packages, as lists of steps that end at the first failure;
  \<open>Registration\<close>: the kinds and metrics that are registered before; \<open>Watches\<close>: the
  events that lead to a reconcile. \<open>GoNumbers\<close> and \<open>GoJson\<close>: the reading of numbers and
  of JSON texts, with a text for each value from which it is read back; \<open>JsonTexts\<close>: whatever is
  read has such a text; \<open>Sha256\<close>: the hash
  of downloads and secrets, computed on 32-bit words. \<open>DeepHeap\<close> and
  \<open>DeepCopy\<close>: the generated deep copies on a heap with addresses, with the locale
  \<open>copier\<close> as their contract; that a copy shares nothing with its original is what lets the other
  theories treat an object as a value.

  \<^bold>\<open>Bounds.\<close> The loops of the code run over lists and end; the model needs no fuel for them. Loops that wait
  (\<open>superviseRun\<close>, the update check of \<open>func\<close>, the sessions of the Kafka consumer) run over the list of the
  events that arrive, and the watchers are steps of a machine. The number of retries on a conflict is
  arbitrary. The integers that the programs read keep their 64 bits (\<open>FlagParse\<close>); the others are small constants and
  counters that cannot overflow. JSON texts are read up to the depth of the library (\<open>maxNestingDepth\<close>).

  \<^bold>\<open>Not modelled.\<close> Logging and what is observed with the metrics; generated mocks; serving
  HTTP; the helpers of the end-to-end tests; how JSON is decoded into types of the libraries. Upper and lower
  case, spaces and quoting are those of ASCII.
\<close>

section \<open>From a bucket to the sinks\<close>

lemma matched_configured:
  assumes "e \<in> wants items claim []" and "MatchEvent e (hdr_EventName hdr)"
    and "hdr_S3 hdr = Some f" and "b_Name (s3_Bucket f) = claim"
    and "\<lparr>rec_raw = raw, rec_header = hdr\<rparr> \<in> set records"
  shows "\<exists>t \<in> set items. obs_claim t = claim \<and> raw \<in> set (matched_records t records)"
proof -
  obtain t where t: "t \<in> set items" "obs_claim t = claim" "e \<in> set (obs_Events (obs_Spec t))"
    using assms(1) by (auto simp: wants_def)
  have "raw \<in> set (matched_records t records)"
    unfolding matched_records_def using assms t by (force simp: list_ex_iff)
  with t show ?thesis by blast
qed

lemma list_all2_planned:
  assumes "list_all2 P (planned p records items) calls" and "t \<in> set items" and "raw \<in> set (matched_records t records)"
    and "reachable_sink p t"
  shows "\<exists>call \<in> set calls. P (t, matched_records t records) call"
proof -
  have "(t, matched_records t records) \<in> set (planned p records items)"
    using assms(2-4) by (auto simp: planned_def)
  then obtain i where "i < length (planned p records items)" "planned p records items ! i = (t, matched_records t records)"
    by (metis in_set_conv_nth)
  with assms(1) show ?thesis by (metis list_all2_conv_all_nth nth_mem)
qed


text \<open>The sample claim with a bucket of its own name, and the client that reads it.\<close>

definition named_claim :: "string ClaimView" where
  "named_claim = sample_claim\<lparr>cv_cm := \<lparr>cm_Meta = new_meta ''claim'' ''ns'',
     cm_Data = [(''BUCKET_HOST'', ''s3''), (''BUCKET_NAME'', ''claim''), (''BUCKET_PORT'', ''443'')]\<rparr>\<rparr>"

definition named_reconciler :: "(unit, string) ObjectBucketSourceReconciler" where
  "named_reconciler = osr_Client_update (\<lambda>c. c\<lparr>sc_GetConfigMap := (\<lambda>k. ret (Inr (cv_cm named_claim)))\<rparr>)
     (sample_source_reconciler (hd sample_sources))"


end
